(* ===== verification/GoPrelude.thy ===== *)
theory GoPrelude
  imports Main
begin

text \<open>
  Shared prelude: the small part of Go's semantics that every component uses.  A Go
  call either returns or panics (\<open>outcome\<close>); a call that reads or writes state is a
  function of type \<open>go\<close> from a state to an outcome and the next state.  The theory
  also holds the 64-bit wrap-around of Go's \<^verbatim>\<open>int\<close>/\<^verbatim>\<open>int64\<close>, Go's truncating division, a
  Hoare-style judgement \<open>hoare\<close> with its rules, and the preservation judgement
  \<open>preserves\<close> for reflexive, transitive step relations.
\<close>

named_theorems go_eval \<open>equations that run a \<open>go\<close> computation\<close>
named_theorems hoare_rules \<open>introduction rules of the Hoare judgement\<close>
named_theorems pres_rules \<open>introduction rules of the preservation judgement\<close>

section \<open>Outcomes and stateful calls\<close>

text \<open>
  The panics of this program: dereference of a nil pointer, a failed type assertion
  \<^verbatim>\<open>err.(*models.Error)\<close>, an index out of range, and an assignment into a nil map.
\<close>

datatype panic = NilDeref | BadTypeAssertion | IndexOutOfRange

datatype 'a outcome = Ret 'a | Panic panic

type_synonym ('s, 'a) go = "'s \<Rightarrow> 'a outcome \<times> 's"

definition gret :: "'a \<Rightarrow> ('s, 'a) go" where
  "gret a = (\<lambda>s. (Ret a, s))"

definition gpanic :: "panic \<Rightarrow> ('s, 'a) go" where
  "gpanic p = (\<lambda>s. (Panic p, s))"

definition gbind :: "('s, 'a) go \<Rightarrow> ('a \<Rightarrow> ('s, 'b) go) \<Rightarrow> ('s, 'b) go" where
  "gbind m f = (\<lambda>s. case m s of (Ret a, s') \<Rightarrow> f a s' | (Panic p, s') \<Rightarrow> (Panic p, s'))"

definition gget :: "('s, 's) go" where
  "gget = (\<lambda>s. (Ret s, s))"

definition gmodify :: "('s \<Rightarrow> 's) \<Rightarrow> ('s, unit) go" where
  "gmodify f = (\<lambda>s. (Ret (), f s))"

text \<open>A pointer dereference: the pointee, or Go's nil-pointer panic.\<close>

definition deref :: "'a option \<Rightarrow> ('s, 'a) go" where
  "deref p = (case p of None \<Rightarrow> gpanic NilDeref | Some a \<Rightarrow> gret a)"

lemma gret_run [go_eval]: "gret a s = (Ret a, s)"
  by (simp add: gret_def)

lemma gpanic_run [go_eval]: "gpanic p s = (Panic p, s)"
  by (simp add: gpanic_def)

lemma gget_run [go_eval]: "gget s = (Ret s, s)"
  by (simp add: gget_def)

lemma gmodify_run [go_eval]: "gmodify f s = (Ret (), f s)"
  by (simp add: gmodify_def)

lemma gbind_Ret [go_eval]: "m s = (Ret a, s') \<Longrightarrow> gbind m f s = f a s'"
  by (simp add: gbind_def)

lemma gbind_Panic [go_eval]: "m s = (Panic p, s') \<Longrightarrow> gbind m f s = (Panic p, s')"
  by (simp add: gbind_def)

lemma deref_None_run [go_eval]: "deref None s = (Panic NilDeref, s)"
  by (simp add: deref_def gpanic_def)

lemma deref_Some_run [go_eval]: "deref (Some a) s = (Ret a, s)"
  by (simp add: deref_def gret_def)

lemma gbind_gret [simp]: "gbind (gret a) f = f a"
  by (rule ext) (simp add: gbind_def gret_def)

lemma gbind_gpanic [simp]: "gbind (gpanic p) f = gpanic p"
  by (rule ext) (simp add: gbind_def gpanic_def)

lemma gbind_gret_right [simp]: "gbind m gret = m"
  by (rule ext) (simp add: gbind_def gret_def split: prod.split outcome.split)

lemma gbind_assoc: "gbind (gbind m f) g = gbind m (\<lambda>a. gbind (f a) g)"
  by (rule ext) (simp add: gbind_def split: prod.split outcome.split)

lemma deref_Some [simp]: "deref (Some a) = gret a"
  by (simp add: deref_def)

lemma deref_None [simp]: "deref None = gpanic NilDeref"
  by (simp add: deref_def)

lemma gbind_RetE:
  assumes "gbind m f s = (Ret b, s'')"
  obtains a s' where "m s = (Ret a, s')" and "f a s' = (Ret b, s'')"
  using assms by (auto simp: gbind_def split: prod.splits outcome.splits)

section \<open>A Hoare judgement for stateful calls\<close>

definition hoare :: "('s \<Rightarrow> bool) \<Rightarrow> ('s, 'a) go \<Rightarrow> ('a outcome \<Rightarrow> 's \<Rightarrow> bool) \<Rightarrow> bool" where
  "hoare P m Q \<longleftrightarrow> (\<forall>s. P s \<longrightarrow> Q (fst (m s)) (snd (m s)))"

lemma hoareD: "hoare P m Q \<Longrightarrow> P s \<Longrightarrow> m s = (r, s') \<Longrightarrow> Q r s'"
  by (force simp: hoare_def)

lemma hoareI: "(\<And>s r s'. P s \<Longrightarrow> m s = (r, s') \<Longrightarrow> Q r s') \<Longrightarrow> hoare P m Q"
  by (simp add: hoare_def)

lemma hoare_weaken:
  "hoare P m Q \<Longrightarrow> (\<And>s. P' s \<Longrightarrow> P s) \<Longrightarrow> (\<And>r s. Q r s \<Longrightarrow> Q' r s) \<Longrightarrow> hoare P' m Q'"
  by (simp add: hoare_def)

lemma hoare_gret [hoare_rules]: "(\<And>s. P s \<Longrightarrow> Q (Ret a) s) \<Longrightarrow> hoare P (gret a) Q"
  by (simp add: hoare_def gret_def)

lemma hoare_gbind [hoare_rules]:
  assumes "hoare P m (\<lambda>r s. case r of Ret a \<Rightarrow> R a s | Panic p \<Rightarrow> Q (Panic p) s)"
    and "\<And>a. hoare (R a) (f a) Q"
  shows "hoare P (gbind m f) Q"
  using assms by (fastforce simp: hoare_def gbind_def split: prod.split outcome.split)

section \<open>Preservation of a step relation\<close>

text \<open>
  \<open>preserves R m\<close>: every run of \<open>m\<close>, panicking or not, relates its start state to its
  final state by \<open>R\<close>.  For a reflexive and transitive \<open>R\<close> it is closed under
  sequencing, so it lifts from the calls to the operations built from them.
\<close>

definition preserves :: "('s \<Rightarrow> 's \<Rightarrow> bool) \<Rightarrow> ('s, 'a) go \<Rightarrow> bool" where
  "preserves R m \<longleftrightarrow> (\<forall>s. R s (snd (m s)))"

lemma preservesD: "preserves R m \<Longrightarrow> m s = (r, s') \<Longrightarrow> R s s'"
  unfolding preserves_def by (drule spec [of _ s]) simp

lemma preservesI: "(\<And>s r s'. m s = (r, s') \<Longrightarrow> R s s') \<Longrightarrow> preserves R m"
  by (metis preserves_def prod.collapse)

lemma preserves_gret [pres_rules]: "reflp R \<Longrightarrow> preserves R (gret a)"
  by (simp add: preserves_def gret_def reflp_def)

lemma preserves_gpanic [pres_rules]: "reflp R \<Longrightarrow> preserves R (gpanic p)"
  by (simp add: preserves_def gpanic_def reflp_def)

lemma preserves_gget [pres_rules]: "reflp R \<Longrightarrow> preserves R gget"
  by (simp add: preserves_def gget_def reflp_def)

lemma preserves_deref [pres_rules]: "reflp R \<Longrightarrow> preserves R (deref p)"
  by (cases p) (simp_all add: preserves_gret preserves_gpanic)

lemma preserves_gmodify [pres_rules]: "(\<And>s. R s (f s)) \<Longrightarrow> preserves R (gmodify f)"
  by (simp add: preserves_def gmodify_def)

lemma preserves_gbind [pres_rules]:
  assumes "transp R" and "preserves R m" and "\<And>a. preserves R (f a)"
  shows "preserves R (gbind m f)"
proof (rule preservesI)
  fix s r s'
  assume run: "gbind m f s = (r, s')"
  obtain r1 s1 where m: "m s = (r1, s1)" by (cases "m s")
  with assms(2) have R1: "R s s1" by (rule preservesD)
  show "R s s'"
  proof (cases r1)
    case (Ret a)
    with m run have "f a s1 = (r, s')" by (simp add: gbind_Ret)
    with assms(3) have "R s1 s'" by (rule preservesD)
    with assms(1) R1 show ?thesis by (rule transpD)
  next
    case (Panic p)
    with m run R1 show ?thesis by (simp add: gbind_Panic)
  qed
qed

lemma preserves_if [pres_rules]:
  "preserves R a \<Longrightarrow> preserves R b \<Longrightarrow> preserves R (if c then a else b)"
  by simp

lemma preserves_option [pres_rules]:
  "preserves R a \<Longrightarrow> (\<And>x. preserves R (f x)) \<Longrightarrow>
     preserves R (case p of None \<Rightarrow> a | Some x \<Rightarrow> f x)"
  by (simp split: option.split)

lemma preserves_sum [pres_rules]:
  "(\<And>x. preserves R (f x)) \<Longrightarrow> (\<And>x. preserves R (g x)) \<Longrightarrow>
     preserves R (case p of Inl x \<Rightarrow> f x | Inr x \<Rightarrow> g x)"
  by (simp split: sum.split)

lemma preserves_prod [pres_rules]:
  "(\<And>x y. preserves R (f x y)) \<Longrightarrow> preserves R (case p of (x, y) \<Rightarrow> f x y)"
  by (simp split: prod.split)

section \<open>Machine integers\<close>

text \<open>
  Go's \<^verbatim>\<open>int\<close> (on the 64-bit targets this program is built for), \<^verbatim>\<open>int64\<close> and
  \<^verbatim>\<open>time.Duration\<close> are 64-bit two's complement: a sum, product or negation is taken
  modulo \<open>2 ^ 64\<close> into the signed range.
\<close>

definition wrap64 :: "int \<Rightarrow> int" where
  "wrap64 x = (x + 2 ^ 63) mod 2 ^ 64 - 2 ^ 63"

abbreviation min_int64 :: int where "min_int64 \<equiv> - (2 ^ 63)"
abbreviation max_int64 :: int where "max_int64 \<equiv> 2 ^ 63 - 1"

definition in_int64 :: "int \<Rightarrow> bool" where
  "in_int64 x \<longleftrightarrow> min_int64 \<le> x \<and> x \<le> max_int64"

lemma wrap64_id: "in_int64 x \<Longrightarrow> wrap64 x = x"
  by (simp add: wrap64_def in_int64_def)

lemma wrap64_range: "in_int64 (wrap64 x)"
proof -
  have "0 \<le> (x + 2 ^ 63) mod 2 ^ 64" and "(x + 2 ^ 63) mod 2 ^ 64 < (2 ^ 64 :: int)"
    by simp_all
  then show ?thesis by (simp add: wrap64_def in_int64_def)
qed

text \<open>Go's \<^verbatim>\<open>/\<close> on integers truncates towards zero.\<close>

definition go_div :: "int \<Rightarrow> int \<Rightarrow> int" where
  "go_div a b = sgn a * sgn b * (\<bar>a\<bar> div \<bar>b\<bar>)"

lemma go_div_nonneg: "0 \<le> a \<Longrightarrow> 0 < b \<Longrightarrow> go_div a b = a div b"
  by (cases "a = 0") (simp_all add: go_div_def)

lemma ceil_div_bounds:
  fixes a b :: int
  assumes "0 < b"
  shows "a \<le> (a + b - 1) div b * b" and "(a + b - 1) div b * b < a + b"
proof -
  have "(a + b - 1) div b * b + (a + b - 1) mod b = a + b - 1" by simp
  moreover have "0 \<le> (a + b - 1) mod b" and "(a + b - 1) mod b < b"
    using assms by simp_all
  ultimately show "a \<le> (a + b - 1) div b * b" and "(a + b - 1) div b * b < a + b"
    by linarith+
qed

section \<open>Maps with Go's zero value for a missing key\<close>

text \<open>Reading a Go map yields the element type's zero value for a missing key.\<close>

definition map_get :: "('k \<Rightarrow> 'v option) \<Rightarrow> 'v \<Rightarrow> 'k \<Rightarrow> 'v" where
  "map_get m z k = (case m k of None \<Rightarrow> z | Some v \<Rightarrow> v)"

lemma map_get_upd [simp]: "map_get (m(k \<mapsto> v)) z k = v"
  by (simp add: map_get_def)

lemma map_get_upd_other [simp]: "k \<noteq> k' \<Longrightarrow> map_get (m(k \<mapsto> v)) z k' = map_get m z k'"
  by (simp add: map_get_def)

lemma map_get_empty [simp]: "map_get Map.empty z k = z"
  by (simp add: map_get_def)

end
