(* ===== verification/GoStrings.thy ===== *)
theory GoStrings
  imports GoPrelude "HOL-Library.Sublist"
begin

text \<open>
  The functions of Go's \<^verbatim>\<open>strings\<close>, \<^verbatim>\<open>strconv\<close> and \<^verbatim>\<open>fmt\<close> packages that the program calls.
  A Go string is a sequence of bytes, modelled as a list of characters.  \<open>ToLower\<close> and
  \<open>EqualFold\<close> fold the ASCII letters; bytes of other scripts are left alone.
\<close>

section \<open>Package strings\<close>

fun Contains :: "string \<Rightarrow> string \<Rightarrow> bool" where
  "Contains [] sub = (sub = [])"
| "Contains (c # cs) sub = (prefix sub (c # cs) \<or> Contains cs sub)"

definition HasPrefix :: "string \<Rightarrow> string \<Rightarrow> bool" where
  "HasPrefix s p = prefix p s"

definition HasSuffix :: "string \<Rightarrow> string \<Rightarrow> bool" where
  "HasSuffix s p = suffix p s"

function splitAcc :: "string \<Rightarrow> string \<Rightarrow> string \<Rightarrow> string list" where
  "splitAcc sep acc [] = [rev acc]"
| "splitAcc sep acc (c # cs) =
     (if sep \<noteq> [] \<and> prefix sep (c # cs)
      then rev acc # splitAcc sep [] (drop (length sep) (c # cs))
      else splitAcc sep (c # acc) cs)"
  by pat_completeness auto
termination
  by (relation "measure (\<lambda>(sep, acc, s). length s)") auto

text \<open>\<open>Split s sep\<close>: the pieces between the separators; one byte each for an empty one.\<close>

definition Split :: "string \<Rightarrow> string \<Rightarrow> string list" where
  "Split s sep = (if sep = [] then map (\<lambda>c. [c]) s else splitAcc sep [] s)"

fun Join :: "string list \<Rightarrow> string \<Rightarrow> string" where
  "Join [] sep = []"
| "Join [x] sep = x"
| "Join (x # y # ys) sep = x @ sep @ Join (y # ys) sep"

text \<open>\<^verbatim>\<open>strings.Replace(s, old, new, -1)\<close> for a non-empty \<open>old\<close>.\<close>

definition ReplaceAll :: "string \<Rightarrow> string \<Rightarrow> string \<Rightarrow> string" where
  "ReplaceAll s old new = Join (Split s old) new"

text \<open>\<^verbatim>\<open>strings.Cut\<close>: the text before and after the first occurrence of one byte.\<close>

definition Cut :: "string \<Rightarrow> char \<Rightarrow> string \<times> string \<times> bool" where
  "Cut s c = (takeWhile (\<lambda>x. x \<noteq> c) s, tl (dropWhile (\<lambda>x. x \<noteq> c) s), c \<in> set s)"

definition lower_char :: "char \<Rightarrow> char" where
  "lower_char c = (let n = (of_char c :: nat) in
     if 65 \<le> n \<and> n \<le> 90 then char_of (n + 32) else c)"

definition upper_char :: "char \<Rightarrow> char" where
  "upper_char c = (let n = (of_char c :: nat) in
     if 97 \<le> n \<and> n \<le> 122 then char_of (n - 32) else c)"

definition ToLower :: "string \<Rightarrow> string" where
  "ToLower s = map lower_char s"

definition EqualFold :: "string \<Rightarrow> string \<Rightarrow> bool" where
  "EqualFold s t = (ToLower s = ToLower t)"

definition is_space :: "char \<Rightarrow> bool" where
  "is_space c = (let n = (of_char c :: nat) in n = 32 \<or> (9 \<le> n \<and> n \<le> 13))"

definition TrimSpace :: "string \<Rightarrow> string" where
  "TrimSpace s = rev (dropWhile is_space (rev (dropWhile is_space s)))"

lemma Contains_iff_sublist: "Contains s sub \<longleftrightarrow> sublist sub s"
  by (induction s) (auto simp: sublist_Cons_right)

lemma Contains_append: "Contains (a @ sub @ b) sub"
  by (simp add: Contains_iff_sublist)

lemma Contains_Nil [simp]: "Contains s []"
  by (simp add: Contains_iff_sublist)

lemma splitAcc_nonempty [simp]: "splitAcc sep acc s \<noteq> []"
  by (induction sep acc s rule: splitAcc.induct) auto

lemma Split_nonempty: "sep \<noteq> [] \<Longrightarrow> Split s sep \<noteq> []"
  by (simp add: Split_def)

lemma Join_Cons: "xs \<noteq> [] \<Longrightarrow> Join (x # xs) sep = x @ sep @ Join xs sep"
  by (cases xs) simp_all

lemma Join_splitAcc: "Join (splitAcc sep acc s) sep = rev acc @ s"
proof (induction sep acc s rule: splitAcc.induct)
  case (1 sep acc)
  then show ?case by simp
next
  case (2 sep acc c cs)
  show ?case
  proof (cases "sep \<noteq> [] \<and> prefix sep (c # cs)")
    case True
    then have step: "splitAcc sep acc (c # cs) =
        rev acc # splitAcc sep [] (drop (length sep) (c # cs))" by simp
    from True have "sep @ drop (length sep) (c # cs) = c # cs"
      by (metis append_eq_conv_conj prefixE)
    with 2(1) True show ?thesis unfolding step by (simp add: Join_Cons)
  next
    case False
    with 2(2) show ?thesis by auto
  qed
qed

text \<open>Joining the pieces with the separator gives the string back.\<close>

lemma Join_Split: "sep \<noteq> [] \<Longrightarrow> Join (Split s sep) sep = s"
  by (simp add: Split_def Join_splitAcc)

lemma splitAcc_char_length: "length (splitAcc [c] acc s) = Suc (count_list s c)"
  by (induction s arbitrary: acc) auto

lemma Split_char_length: "length (Split s [c]) = Suc (count_list s c)"
  by (simp add: Split_def splitAcc_char_length)

lemma splitAcc_char_clean:
  "c \<notin> set acc \<Longrightarrow> \<forall>p \<in> set (splitAcc [c] acc s). c \<notin> set p"
proof (induction s arbitrary: acc)
  case (Cons a s)
  show ?case
  proof (cases "a = c")
    case True
    with Cons.IH [of "[]"] Cons.prems show ?thesis by simp
  next
    case False
    with Cons.IH [of "a # acc"] Cons.prems show ?thesis by simp
  qed
qed simp

lemma splitAcc_no_char: "c \<notin> set s \<Longrightarrow> splitAcc [c] acc s = [rev acc @ s]"
  by (induction s arbitrary: acc) auto

lemma splitAcc_append_char:
  "c \<notin> set s \<Longrightarrow> splitAcc [c] acc (s @ c # t) = (rev acc @ s) # splitAcc [c] [] t"
  by (induction s arbitrary: acc) auto

lemma Split_no_char: "c \<notin> set s \<Longrightarrow> Split s [c] = [s]"
  by (simp add: Split_def splitAcc_no_char)

lemma Split_append_char: "c \<notin> set s \<Longrightarrow> Split (s @ c # t) [c] = s # Split t [c]"
  by (simp add: Split_def splitAcc_append_char)

text \<open>Splitting a join of clean pieces gives the pieces back.\<close>

lemma Split_Join_char:
  "ps \<noteq> [] \<Longrightarrow> \<forall>p \<in> set ps. c \<notin> set p \<Longrightarrow> Split (Join ps [c]) [c] = ps"
proof (induction ps "[c]" rule: Join.induct)
  case (3 x y ys)
  then show ?case by (simp add: Split_append_char)
qed (simp_all add: Split_no_char)

lemma Split_absent: "\<not> Contains s sep \<Longrightarrow> sep \<noteq> [] \<Longrightarrow> splitAcc sep acc s = [rev acc @ s]"
  by (induction s arbitrary: acc) auto

lemma ReplaceAll_absent: "\<not> Contains s old \<Longrightarrow> old \<noteq> [] \<Longrightarrow> ReplaceAll s old new = s"
  by (simp add: ReplaceAll_def Split_def Split_absent)

lemma length_Split_gt1:
  assumes "Contains s sep" and "sep \<noteq> []"
  shows "1 < length (splitAcc sep acc s)"
  using assms by (induction s arbitrary: acc) (auto simp: neq_Nil_conv)

lemma EqualFold_refl [simp]: "EqualFold s s"
  by (simp add: EqualFold_def)

lemma EqualFold_sym: "EqualFold s t \<Longrightarrow> EqualFold t s"
  by (simp add: EqualFold_def)

section \<open>Package strconv\<close>

definition digit_char :: "nat \<Rightarrow> char" where
  "digit_char d = char_of (48 + d)"

fun showNat :: "nat \<Rightarrow> string" where
  "showNat n = (if n < 10 then [digit_char n] else showNat (n div 10) @ [digit_char (n mod 10)])"

declare showNat.simps [simp del]

definition Itoa :: "int \<Rightarrow> string" where
  "Itoa i = (if i < 0 then ''-'' @ showNat (nat (- i)) else showNat (nat i))"

definition is_digit :: "char \<Rightarrow> bool" where
  "is_digit c = (let n = (of_char c :: nat) in 48 \<le> n \<and> n \<le> 57)"

definition digit_val :: "char \<Rightarrow> nat" where
  "digit_val c = of_char c - 48"

datatype num_error = ErrSyntax | ErrRange

text \<open>
  The loop of \<^verbatim>\<open>strconv.ParseUint(s, 10, 64)\<close>: a non-digit is a syntax error at once, and
  so is the first digit that takes the value past \<^verbatim>\<open>MaxUint64\<close> a range error.
\<close>

fun parseUintLoop :: "nat \<Rightarrow> string \<Rightarrow> nat \<times> num_error option" where
  "parseUintLoop n [] = (n, None)"
| "parseUintLoop n (c # cs) =
     (if \<not> is_digit c then (0, Some ErrSyntax)
      else if 10 * n + digit_val c > 2 ^ 64 - 1 then (2 ^ 64 - 1, Some ErrRange)
      else parseUintLoop (10 * n + digit_val c) cs)"

definition ParseUint :: "string \<Rightarrow> nat \<times> num_error option" where
  "ParseUint s = (if s = [] then (0, Some ErrSyntax) else parseUintLoop 0 s)"

text \<open>
  \<^verbatim>\<open>strconv.ParseInt(s, 10, 64)\<close>: an optional sign, then \<^verbatim>\<open>ParseUint\<close>.  On a range error
  the value is the nearest \<^verbatim>\<open>int64\<close>, not 0.
\<close>

definition ParseInt :: "string \<Rightarrow> int \<times> num_error option" where
  "ParseInt s =
     (let neg = (s \<noteq> [] \<and> hd s = CHR ''-'');
          body = (if s \<noteq> [] \<and> (hd s = CHR ''-'' \<or> hd s = CHR ''+'') then tl s else s);
          (un, err) = ParseUint body
      in if err = Some ErrSyntax then (0, Some ErrSyntax)
         else if \<not> neg \<and> un \<ge> 2 ^ 63 then (max_int64, Some ErrRange)
         else if neg \<and> un > 2 ^ 63 then (min_int64, Some ErrRange)
         else (if neg then - int un else int un, None))"

text \<open>\<^verbatim>\<open>strconv.Atoi\<close> is \<^verbatim>\<open>ParseInt(s, 10, 0)\<close>, and \<^verbatim>\<open>int\<close> has 64 bits.\<close>

definition Atoi :: "string \<Rightarrow> int \<times> num_error option" where
  "Atoi s = ParseInt s"

lemma of_char_digit_char: "d < 10 \<Longrightarrow> (of_char (digit_char d) :: nat) = 48 + d"
  by (simp add: digit_char_def)

lemma is_digit_digit_char [simp]: "d < 10 \<Longrightarrow> is_digit (digit_char d)"
  by (simp add: is_digit_def of_char_digit_char)

lemma digit_val_digit_char [simp]: "d < 10 \<Longrightarrow> digit_val (digit_char d) = d"
  by (simp add: digit_val_def of_char_digit_char)

lemma showNat_nonempty [simp]: "showNat n \<noteq> []"
  by (subst showNat.simps) simp

lemma showNat_hd_digit: "is_digit (hd (showNat n))"
proof (induction n rule: showNat.induct)
  case (1 n)
  then show ?case by (subst showNat.simps) (simp add: hd_append)
qed

lemma parseUintLoop_append:
  assumes "parseUintLoop n s = (m, None)"
  shows "parseUintLoop n (s @ t) = parseUintLoop m t"
  using assms by (induction s arbitrary: n) (auto split: if_splits)

lemma parseUintLoop_showNat:
  "n \<le> 2 ^ 64 - 1 \<Longrightarrow> parseUintLoop 0 (showNat n) = (n, None)"
proof (induction n rule: showNat.induct)
  case (1 n)
  show ?case
  proof (cases "n < 10")
    case True
    then show ?thesis by (subst showNat.simps) simp
  next
    case False
    then have IH: "parseUintLoop 0 (showNat (n div 10)) = (n div 10, None)"
      using 1 by simp
    have "10 * (n div 10) + n mod 10 = n" by simp
    with IH False "1.prems" show ?thesis
      by (subst showNat.simps) (simp add: parseUintLoop_append)
  qed
qed

lemma parseUintLoop_range: "n \<le> 2 ^ 64 - 1 \<Longrightarrow> fst (parseUintLoop n s) \<le> 2 ^ 64 - 1"
  by (induction s arbitrary: n) auto

lemma not_digit_sign: "\<not> is_digit CHR ''-''" "\<not> is_digit CHR ''+''"
  by (simp_all add: is_digit_def)

lemma showNat_no_sign: "hd (showNat n) \<noteq> CHR ''-''" "hd (showNat n) \<noteq> CHR ''+''"
  using showNat_hd_digit [of n] not_digit_sign by metis+

text \<open>Printing a 64-bit integer and parsing it gives it back.\<close>

lemma ParseInt_Itoa:
  assumes "in_int64 i"
  shows "ParseInt (Itoa i) = (i, None)"
proof (cases "i < 0")
  case True
  with assms have "nat (- i) \<le> 2 ^ 63" by (simp add: in_int64_def)
  then have "parseUintLoop 0 (showNat (nat (- i))) = (nat (- i), None)"
    by (intro parseUintLoop_showNat) simp
  with True \<open>nat (- i) \<le> 2 ^ 63\<close> show ?thesis
    by (simp add: ParseInt_def Itoa_def ParseUint_def Let_def)
next
  case False
  with assms have "nat i < 2 ^ 63" by (simp add: in_int64_def)
  then have "parseUintLoop 0 (showNat (nat i)) = (nat i, None)"
    by (intro parseUintLoop_showNat) simp
  with False \<open>nat i < 2 ^ 63\<close> show ?thesis
    by (simp add: ParseInt_def Itoa_def ParseUint_def Let_def showNat_no_sign)
qed

lemma ParseInt_in_int64: "in_int64 (fst (ParseInt s))"
proof -
  define neg where "neg = (s \<noteq> [] \<and> hd s = CHR ''-'')"
  define body where "body = (if s \<noteq> [] \<and> (hd s = CHR ''-'' \<or> hd s = CHR ''+'') then tl s else s)"
  obtain un err where u: "ParseUint body = (un, err)" by (cases "ParseUint body")
  have "ParseInt s =
     (if err = Some ErrSyntax then (0, Some ErrSyntax)
      else if \<not> neg \<and> un \<ge> 2 ^ 63 then (max_int64, Some ErrRange)
      else if neg \<and> un > 2 ^ 63 then (min_int64, Some ErrRange)
      else (if neg then - int un else int un, None))"
    unfolding ParseInt_def Let_def neg_def [symmetric] body_def [symmetric] u by simp
  then show ?thesis by (simp add: in_int64_def)
qed

section \<open>Package fmt\<close>

text \<open>
  The arguments the program hands to \<^verbatim>\<open>Sprintf\<close>: strings, integers, string slices and
  an untyped nil.
\<close>

datatype fmt_arg = AStr string | AInt int | AStrs "string list" | ANil

definition bad_verb :: "char \<Rightarrow> string \<Rightarrow> string \<Rightarrow> string" where
  "bad_verb v ty txt = ''%!'' @ [v] @ ''('' @ ty @ ''='' @ txt @ '')''"

fun fmt_string :: "char \<Rightarrow> string \<Rightarrow> string" where
  "fmt_string v s = (if v = CHR ''s'' \<or> v = CHR ''v'' then s else bad_verb v ''string'' s)"

text \<open>One argument under one of the verbs \<^verbatim>\<open>%s\<close>, \<^verbatim>\<open>%d\<close> and \<^verbatim>\<open>%v\<close>.\<close>

fun fmt_one :: "char \<Rightarrow> fmt_arg \<Rightarrow> string" where
  "fmt_one v (AStr s) = fmt_string v s"
| "fmt_one v (AInt i) =
     (if v = CHR ''d'' \<or> v = CHR ''v'' then Itoa i else bad_verb v ''int'' (Itoa i))"
| "fmt_one v (AStrs xs) = ''['' @ Join (map (fmt_string v) xs) '' '' @ '']''"
| "fmt_one v ANil = (if v = CHR ''v'' then ''<nil>'' else ''%!'' @ [v] @ ''(<nil>)'')"

fun fmt_extra_one :: "fmt_arg \<Rightarrow> string" where
  "fmt_extra_one (AStr s) = ''string='' @ s"
| "fmt_extra_one (AInt i) = ''int='' @ Itoa i"
| "fmt_extra_one (AStrs xs) = ''[]string='' @ fmt_one CHR ''v'' (AStrs xs)"
| "fmt_extra_one ANil = ''<nil>''"

definition fmt_extra :: "fmt_arg list \<Rightarrow> string" where
  "fmt_extra as = (if as = [] then [] else
     ''%!(EXTRA '' @ Join (map fmt_extra_one as) '', '' @ '')'')"

fun Sprintf :: "string \<Rightarrow> fmt_arg list \<Rightarrow> string" where
  "Sprintf [] as = fmt_extra as"
| "Sprintf [c] as = (if c = CHR ''%'' then ''%!(NOVERB)'' else [c]) @ fmt_extra as"
| "Sprintf (c # v # cs) as =
     (if c \<noteq> CHR ''%'' then c # Sprintf (v # cs) as
      else if v = CHR ''%'' then CHR ''%'' # Sprintf cs as
      else (case as of
              [] \<Rightarrow> ''%!'' @ [v] @ ''(MISSING)'' @ Sprintf cs []
            | a # rest \<Rightarrow> fmt_one v a @ Sprintf cs rest))"

lemma Sprintf_literal: "CHR ''%'' \<notin> set s \<Longrightarrow> Sprintf s [] = s"
  by (induction s "[]::fmt_arg list" rule: Sprintf.induct) (auto simp: fmt_extra_def)

lemma Sprintf_prefix: "CHR ''%'' \<notin> set s \<Longrightarrow> Sprintf (s @ t) as = s @ Sprintf t as"
proof (induction s)
  case (Cons c s)
  then show ?case by (cases "s @ t") (auto simp: fmt_extra_def)
qed simp

end
