(* ===== verification/Models.thy ===== *)
theory Models
  imports GoStrings
begin

text \<open>
  The data of the program.  First the structs of \<^verbatim>\<open>common/vpcclient/models\<close>, each with the
  fields of the source and a zero value \<open>zero...\<close> (the value of Go's \<^verbatim>\<open>T{}\<close>); then the
  types of the packages \<^verbatim>\<open>lib/provider\<close> and \<^verbatim>\<open>lib/utils\<close> of \<^verbatim>\<open>ibmcloud-volume-interface\<close>,
  which are not part of this repository: their records hold exactly the fields this
  repository reads or writes.  A pointer is an \<open>option\<close>, a slice a list, and a slice of
  pointers a list of options.
\<close>

section \<open>Time\<close>

text \<open>An instant: the zero value of \<^verbatim>\<open>time.Time\<close>, or nanoseconds since the epoch.\<close>

datatype gotime = ZeroTime | UnixNano int

section \<open>Types of the interface library\<close>

record LibVPC =
  lvpc_ID :: string
  lvpc_Href :: string

record LibResourceGroup =
  lrg_ID :: string
  lrg_Name :: string

record LibSecurityGroup =
  lsg_ID :: string

record PrimaryIP =
  pip_ID :: string

record CapIops =
  ci_Default :: int
  ci_Max :: int
  ci_Min :: int
  ci_Step :: int
  ci_Type :: string
  ci_Value :: int

record LibProfile =
  lpr_Name :: string
  lpr_Href :: string
  lpr_Capacity :: CapIops
  lpr_Family :: string
  lpr_Iops :: CapIops
  lpr_ResourceType :: string

record LibZone =
  lzn_Name :: string
  lzn_Href :: string

section \<open>Structs of the VPC client\<close>

record EncryptionKey =
  ek_CRN :: string

record Zone =
  zn_Name :: string
  zn_Href :: string

record InitialOwner =
  io_GroupID :: int
  io_UserID :: int

record ResourceGroup =
  rg_Href :: string
  rg_ID :: string
  rg_Name :: string

record Profile =
  pr_CRN :: string
  pr_Href :: string
  pr_Name :: string

record ProfileDetails = Profile +
  pd_Capacity :: CapIops
  pd_Family :: string
  pd_Iops :: CapIops
  pd_ResourceType :: string

record HReference =
  href_Href :: string

record Deleted =
  del_MoreInfo :: string

record Remote =
  rem_ID :: string
  rem_Href :: string

record BackupPolicyPlan =
  bpp_ID :: string
  bpp_Href :: string
  bpp_Name :: string
  bpp_Deleted :: "Deleted option"
  bpp_Remote :: "Remote option"
  bpp_ResourceType :: string

record Snapshot =
  sn_Href :: string
  sn_ID :: string
  sn_Name :: string
  sn_CRN :: string
  sn_FingerPrint :: string
  sn_CreatedAt :: "gotime option"
  sn_CapturedAt :: "gotime option"
  sn_MinimumSize :: int
  sn_ResourceGroup :: "ResourceGroup option"
  sn_Status :: string
  sn_ResourceType :: string
  sn_LifecycleState :: string
  sn_UserTags :: "string list"
  sn_BackupPolicyPlan :: "BackupPolicyPlan option"
  sn_Zone :: "Zone option"

record SnapshotList =
  snl_First :: "HReference option"
  snl_Next :: "HReference option"
  snl_Snapshots :: "Snapshot option list"
  snl_Limit :: int
  snl_TotalCount :: int

record LisSnapshotFilters =
  snf_Name :: string

record SubnetRef =
  sr_CRN :: string
  sr_ID :: string
  sr_Href :: string

record VirtualNetworkInterface =
  vni_Name :: string
  vni_Subnet :: "SubnetRef option"
  vni_SecurityGroups :: "LibSecurityGroup list option"
  vni_PrimaryIP :: "PrimaryIP option"
  vni_ResourceGroup :: "LibResourceGroup option"

record ShareTarget =
  st_ID :: string
  st_Href :: string
  st_MountPath :: string
  st_Name :: string
  st_Status :: string
  st_VPC :: "LibVPC option"
  st_TransitEncryption :: string
  st_AccessProtocol :: string
  st_VirtualNetworkInterface :: "VirtualNetworkInterface option"
  st_ShareID :: string
  st_Zone :: "Zone option"
  st_CreatedAt :: "gotime option"

record ShareTargetList =
  stl_First :: "HReference option"
  stl_Next :: "HReference option"
  stl_ShareTargets :: "ShareTarget option list"
  stl_Limit :: int
  stl_TotalCount :: int

record Share =
  sh_CRN :: string
  sh_Href :: string
  sh_ID :: string
  sh_Name :: string
  sh_Size :: int
  sh_Iops :: int
  sh_EncryptionKey :: "EncryptionKey option"
  sh_Bandwidth :: int
  sh_ResourceGroup :: "ResourceGroup option"
  sh_InitialOwner :: "InitialOwner option"
  sh_Profile :: "Profile option"
  sh_SourceSnapshot :: "Snapshot option"
  sh_CreatedAt :: "gotime option"
  sh_UserTags :: "string list"
  sh_Status :: string
  sh_ShareTargets :: "ShareTarget list option"
  sh_Zone :: "Zone option"
  sh_AccessControlMode :: string

record ListShareTargetFilters =
  stf_ShareTargetName :: string

record ListShareFilters =
  shf_ResourceGroupID :: string
  shf_ShareName :: string

record ShareList =
  shl_First :: "HReference option"
  shl_Next :: "HReference option"
  shl_Shares :: "Share option list"
  shl_Limit :: int
  shl_TotalCount :: int

record Subnet =
  sub_CRN :: string
  sub_Href :: string
  sub_ID :: string
  sub_Name :: string
  sub_ResourceGroup :: "ResourceGroup option"
  sub_VPC :: "LibVPC option"
  sub_Zone :: "Zone option"

record SubnetList =
  subl_First :: "HReference option"
  subl_Next :: "HReference option"
  subl_Subnets :: "Subnet list"
  subl_Limit :: int
  subl_TotalCount :: int

record ListSubnetFilters =
  subf_ResourceGroupID :: string
  subf_VPCID :: string
  subf_ZoneName :: string

record SecurityGroup =
  sg_CRN :: string
  sg_Href :: string
  sg_ID :: string
  sg_Name :: string
  sg_ResourceGroup :: "ResourceGroup option"
  sg_VPC :: "LibVPC option"

record SecurityGroupList =
  sgl_First :: "HReference option"
  sgl_Next :: "HReference option"
  sgl_SecurityGroups :: "SecurityGroup list"
  sgl_Limit :: int
  sgl_TotalCount :: int

record ListSecurityGroupFilters =
  sgf_ResourceGroupID :: string
  sgf_VPCID :: string

section \<open>Zero values\<close>

definition zeroCapIops :: CapIops where
  "zeroCapIops = \<lparr>ci_Default = 0, ci_Max = 0, ci_Min = 0, ci_Step = 0, ci_Type = [], ci_Value = 0\<rparr>"

definition zeroLibProfile :: LibProfile where
  "zeroLibProfile = \<lparr>lpr_Name = [], lpr_Href = [], lpr_Capacity = zeroCapIops, lpr_Family = [],
     lpr_Iops = zeroCapIops, lpr_ResourceType = []\<rparr>"

definition zeroProfile :: Profile where
  "zeroProfile = \<lparr>pr_CRN = [], pr_Href = [], pr_Name = []\<rparr>"

definition zeroProfileDetails :: ProfileDetails where
  "zeroProfileDetails = \<lparr>pr_CRN = [], pr_Href = [], pr_Name = [], pd_Capacity = zeroCapIops,
     pd_Family = [], pd_Iops = zeroCapIops, pd_ResourceType = []\<rparr>"

definition zeroResourceGroup :: ResourceGroup where
  "zeroResourceGroup = \<lparr>rg_Href = [], rg_ID = [], rg_Name = []\<rparr>"

definition zeroSnapshot :: Snapshot where
  "zeroSnapshot = \<lparr>sn_Href = [], sn_ID = [], sn_Name = [], sn_CRN = [], sn_FingerPrint = [],
     sn_CreatedAt = None, sn_CapturedAt = None, sn_MinimumSize = 0, sn_ResourceGroup = None,
     sn_Status = [], sn_ResourceType = [], sn_LifecycleState = [], sn_UserTags = [],
     sn_BackupPolicyPlan = None, sn_Zone = None\<rparr>"

definition zeroSnapshotList :: SnapshotList where
  "zeroSnapshotList = \<lparr>snl_First = None, snl_Next = None, snl_Snapshots = [], snl_Limit = 0,
     snl_TotalCount = 0\<rparr>"

definition zeroVNI :: VirtualNetworkInterface where
  "zeroVNI = \<lparr>vni_Name = [], vni_Subnet = None, vni_SecurityGroups = None, vni_PrimaryIP = None,
     vni_ResourceGroup = None\<rparr>"

definition zeroShareTarget :: ShareTarget where
  "zeroShareTarget = \<lparr>st_ID = [], st_Href = [], st_MountPath = [], st_Name = [], st_Status = [],
     st_VPC = None, st_TransitEncryption = [], st_AccessProtocol = [],
     st_VirtualNetworkInterface = None, st_ShareID = [], st_Zone = None, st_CreatedAt = None\<rparr>"

definition zeroShareTargetList :: ShareTargetList where
  "zeroShareTargetList = \<lparr>stl_First = None, stl_Next = None, stl_ShareTargets = [],
     stl_Limit = 0, stl_TotalCount = 0\<rparr>"

definition zeroShare :: Share where
  "zeroShare = \<lparr>sh_CRN = [], sh_Href = [], sh_ID = [], sh_Name = [], sh_Size = 0, sh_Iops = 0,
     sh_EncryptionKey = None, sh_Bandwidth = 0, sh_ResourceGroup = None, sh_InitialOwner = None,
     sh_Profile = None, sh_SourceSnapshot = None, sh_CreatedAt = None, sh_UserTags = [],
     sh_Status = [], sh_ShareTargets = None, sh_Zone = None, sh_AccessControlMode = []\<rparr>"

definition zeroShareList :: ShareList where
  "zeroShareList = \<lparr>shl_First = None, shl_Next = None, shl_Shares = [], shl_Limit = 0,
     shl_TotalCount = 0\<rparr>"

definition zeroSubnetList :: SubnetList where
  "zeroSubnetList = \<lparr>subl_First = None, subl_Next = None, subl_Subnets = [], subl_Limit = 0,
     subl_TotalCount = 0\<rparr>"

definition zeroSecurityGroupList :: SecurityGroupList where
  "zeroSecurityGroupList = \<lparr>sgl_First = None, sgl_Next = None, sgl_SecurityGroups = [],
     sgl_Limit = 0, sgl_TotalCount = 0\<rparr>"

section \<open>Errors\<close>

datatype ErrorType = ErrorTypeField | ErrorTypeParameter | ErrorTypeHeader | OtherErrorType string

record ErrorTarget =
  et_Name :: string
  et_Type :: ErrorType

record ErrorItem =
  ei_Code :: string
  ei_Message :: string
  ei_MoreInfo :: string
  ei_Target :: "ErrorTarget option"
  ei_Status :: string

record Error =
  err_Errors :: "ErrorItem list"
  err_Trace :: string

record IksError =
  iks_ReqID :: string
  iks_Code :: string
  iks_Err :: string
  iks_Type :: ErrorType
  iks_RecoveryCLI :: string
  iks_RecoveryUI :: string
  iks_RC :: int

definition zeroError :: Error where
  "zeroError = \<lparr>err_Errors = [], err_Trace = []\<rparr>"

definition zeroIksError :: IksError where
  "zeroIksError = \<lparr>iks_ReqID = [], iks_Code = [], iks_Err = [], iks_Type = OtherErrorType [],
     iks_RecoveryCLI = [], iks_RecoveryUI = [], iks_RC = 0\<rparr>"

text \<open>The message types are constants of the interface library; only their identity matters.\<close>

datatype MessageType =
    NoType | InvalidRequest | ProvisioningFailed | DeletionFailed | ExpansionFailed
  | UpdateFailed | RetrivalFailed | VolumeAccessPointFindFailed
  | CreateVolumeAccessPointFailedType | DeleteVolumeAccessPointFailedType

record Message =
  msg_Code :: string
  msg_Description :: string
  msg_Type :: MessageType
  msg_RC :: int
  msg_Action :: string
  msg_BackendError :: string

definition zeroMessage :: Message where
  "zeroMessage = \<lparr>msg_Code = [], msg_Description = [], msg_Type = NoType, msg_RC = 0,
     msg_Action = [], msg_BackendError = []\<rparr>"

text \<open>
  A Go \<^verbatim>\<open>error\<close> value by its dynamic type: \<^verbatim>\<open>*models.Error\<close>, \<^verbatim>\<open>models.Error\<close> (the value,
  a different dynamic type), \<^verbatim>\<open>*models.IksError\<close>, \<^verbatim>\<open>util.Message\<close>, the error made by
  \<^verbatim>\<open>util.NewError(code, description, wrapped...)\<close>, and any other error, of which the
  program observes the text only.
\<close>

datatype goerror =
    ModelsError Error
  | ModelsErrorVal Error
  | IksErrorPtr IksError
  | UserMessage Message
  | UtilError string string "goerror list"
  | PlainError string

text \<open>
  What the program relies on outside the repository: the text of a \<^verbatim>\<open>util.Message\<close> and of
  a \<^verbatim>\<open>util.NewError\<close>, and the reason code of an error.
\<close>

record ext =
  MessageErrorString :: "Message \<Rightarrow> string"
  UtilErrorString :: "string \<Rightarrow> string \<Rightarrow> string list \<Rightarrow> string"
  ReasonErrorRequiredFieldMissing :: string

definition ErrorItem_Error :: "ErrorItem \<Rightarrow> string" where
  "ErrorItem_Error ei =
     ''Code:'' @ ei_Code ei @ '', Description:'' @ ei_Message ei @ '', RC:'' @ ei_Status ei"

definition Error_Error :: "Error \<Rightarrow> string" where
  "Error_Error e =
     (case err_Errors e of
        [] \<Rightarrow> ''Unknown error''
      | ei # _ \<Rightarrow> ''Trace Code:'' @ err_Trace e @ '', '' @ ErrorItem_Error ei)"

definition IksError_Error :: "IksError \<Rightarrow> string" where
  "IksError_Error e = Sprintf ''Trace Code:%s, Code:%s, Description:%s, RC:%d''
     [AStr (iks_ReqID e), AStr (iks_Code e), AStr (iks_Err e), AInt (iks_RC e)]"

text \<open>\<^verbatim>\<open>err.Error()\<close>, dispatched on the dynamic type.\<close>

primrec ErrorString :: "ext \<Rightarrow> goerror \<Rightarrow> string" where
  "ErrorString X (ModelsError e) = Error_Error e"
| "ErrorString X (ModelsErrorVal e) = Error_Error e"
| "ErrorString X (IksErrorPtr e) = IksError_Error e"
| "ErrorString X (UserMessage m) = MessageErrorString X m"
| "ErrorString X (UtilError c d ws) = UtilErrorString X c d (map (ErrorString X) ws)"
| "ErrorString X (PlainError t) = t"

section \<open>Requests and results of the interface library\<close>

record VolumeAccessPointRequest =
  vapq_AccessPointName :: string
  vapq_VolumeID :: string
  vapq_AccessPointID :: string
  vapq_VPCID :: string
  vapq_SubnetID :: string
  vapq_AccessControlMode :: string
  vapq_SecurityGroups :: "LibSecurityGroup list option"
  vapq_PrimaryIP :: "PrimaryIP option"
  vapq_ResourceGroup :: "LibResourceGroup option"

record VolumeAccessPointResponse =
  vapr_VolumeID :: string
  vapr_AccessPointID :: string
  vapr_Status :: string
  vapr_MountPath :: string
  vapr_CreatedAt :: "gotime option"

record VolumeAccessPoint =
  vap_ID :: string
  vap_Href :: string
  vap_Name :: string
  vap_Status :: string
  vap_MountPath :: "string option"
  vap_VPC :: "LibVPC option"
  vap_CreatedAt :: "gotime option"
  vap_Zone :: "LibZone option"

record Volume =
  vol_VolumeID :: string
  vol_Provider :: string
  vol_VolumeType :: string
  vol_Name :: "string option"
  vol_Capacity :: "int option"
  vol_Iops :: "string option"
  vol_Az :: string
  vol_Region :: string
  vol_CreationTime :: gotime
  vol_SnapshotID :: string
  vol_SnapshotCRN :: string
  vol_Attributes :: "string \<Rightarrow> string option"
  vol_VolumeAccessPoints :: "VolumeAccessPoint list option"
  vol_Href :: string
  vol_CRN :: string
  vol_Tags :: "string list"
  vol_Profile :: "LibProfile option"
  vol_ResourceGroup :: "LibResourceGroup option"
  vol_VolumeEncryptionKey :: "EncryptionKey option"
  vol_Bandwidth :: int
  vol_InitialOwner :: "InitialOwner option"
  vol_AccessControlMode :: string
  vol_TransitEncryption :: string
  vol_VPCID :: string
  vol_SubnetID :: string
  vol_PrimaryIP :: "PrimaryIP option"
  vol_SecurityGroups :: "LibSecurityGroup list option"

record LibSnapshot =
  lsn_VolumeID :: string
  lsn_SnapshotID :: string
  lsn_SnapshotCRN :: string
  lsn_SnapshotCreationTime :: gotime
  lsn_SnapshotSize :: int
  lsn_VPC :: LibVPC
  lsn_ReadyToUse :: bool

record VolumeList =
  vl_Next :: string
  vl_Volumes :: "Volume option list"

record LibSnapshotList =
  lsl_Next :: string
  lsl_Snapshots :: "LibSnapshot option list"

record UpdatePVC =
  upvc_ID :: string
  upvc_CRN :: string
  upvc_Tags :: "string list"
  upvc_Provider :: string
  upvc_VolumeType :: string
  upvc_Name :: string
  upvc_Capacity :: int
  upvc_Iops :: int
  upvc_Cluster :: string
  upvc_Status :: string

definition zeroVolume :: Volume where
  "zeroVolume = \<lparr>vol_VolumeID = [], vol_Provider = [], vol_VolumeType = [], vol_Name = None,
     vol_Capacity = None, vol_Iops = None, vol_Az = [], vol_Region = [], vol_CreationTime = ZeroTime,
     vol_SnapshotID = [], vol_SnapshotCRN = [], vol_Attributes = Map.empty,
     vol_VolumeAccessPoints = None, vol_Href = [], vol_CRN = [], vol_Tags = [], vol_Profile = None,
     vol_ResourceGroup = None, vol_VolumeEncryptionKey = None, vol_Bandwidth = 0,
     vol_InitialOwner = None, vol_AccessControlMode = [], vol_TransitEncryption = [], vol_VPCID = [],
     vol_SubnetID = [], vol_PrimaryIP = None, vol_SecurityGroups = None\<rparr>"

definition zeroVolumeAccessPoint :: VolumeAccessPoint where
  "zeroVolumeAccessPoint = \<lparr>vap_ID = [], vap_Href = [], vap_Name = [], vap_Status = [],
     vap_MountPath = None, vap_VPC = None, vap_CreatedAt = None, vap_Zone = None\<rparr>"

section \<open>Conversions of models/share_target.go\<close>

definition NewShareTarget :: "VolumeAccessPointRequest \<Rightarrow> ShareTarget" where
  "NewShareTarget q = zeroShareTarget
     \<lparr>st_Name := vapq_AccessPointName q,
      st_ShareID := vapq_VolumeID q,
      st_ID := vapq_AccessPointID q,
      st_VPC := Some \<lparr>lvpc_ID = vapq_VPCID q, lvpc_Href = []\<rparr>\<rparr>"

definition ToVolumeAccessPointResponse :: "ShareTarget \<Rightarrow> VolumeAccessPointResponse" where
  "ToVolumeAccessPointResponse va =
     \<lparr>vapr_VolumeID = st_ShareID va,
      vapr_AccessPointID = st_ID va,
      vapr_Status = st_Status va,
      vapr_MountPath = st_MountPath va,
      vapr_CreatedAt = st_CreatedAt va\<rparr>"

lemma NewShareTarget_fields [simp]:
  "st_ShareID (NewShareTarget q) = vapq_VolumeID q"
  "st_ID (NewShareTarget q) = vapq_AccessPointID q"
  "st_Name (NewShareTarget q) = vapq_AccessPointName q"
  "st_VPC (NewShareTarget q) = Some \<lparr>lvpc_ID = vapq_VPCID q, lvpc_Href = []\<rparr>"
  "st_VirtualNetworkInterface (NewShareTarget q) = None"
  by (simp_all add: NewShareTarget_def zeroShareTarget_def)

lemma ToVolumeAccessPointResponse_fields [simp]:
  "vapr_VolumeID (ToVolumeAccessPointResponse va) = st_ShareID va"
  "vapr_AccessPointID (ToVolumeAccessPointResponse va) = st_ID va"
  "vapr_Status (ToVolumeAccessPointResponse va) = st_Status va"
  by (simp_all add: ToVolumeAccessPointResponse_def)

end
