(* ===== verification/Messages.thy ===== *)
theory Messages
  imports Models
begin

text \<open>
  Package \<^verbatim>\<open>common/messages\<close>: the catalogue of user messages (\<^verbatim>\<open>messages_en.go\<close>) and the
  functions that turn a code, a backend error and arguments into a user error
  (\<^verbatim>\<open>messages.go\<close>).  The package variable \<^verbatim>\<open>MessagesEn\<close> is a nil map until a provider is
  created; it is an argument \<open>en\<close> of the functions that read it.
\<close>

section \<open>The catalogue\<close>

definition msg_of_ErrorRequiredFieldMissing :: Message where
  "msg_of_ErrorRequiredFieldMissing = \<lparr>msg_Code = ''ErrorRequiredFieldMissing'',
     msg_Description = ''[%s] is required to complete the operation'',
     msg_Type = InvalidRequest, msg_RC = 400,
     msg_Action = ''Review the error that is returned. Provide the missing information in your request and try again.'',
     msg_BackendError = []\<rparr>"

definition msg_of_FailedToPlaceOrder :: Message where
  "msg_of_FailedToPlaceOrder = \<lparr>msg_Code = ''FailedToPlaceOrder'',
     msg_Description = ''Failed to create file share with the storage provider'',
     msg_Type = ProvisioningFailed, msg_RC = 500,
     msg_Action = ''Review the error that is returned. If the file share creation service is currently unavailable, try to manually create the file share with the 'ibmcloud is share-create' command.'',
     msg_BackendError = []\<rparr>"

definition msg_of_FailedToDeleteVolume :: Message where
  "msg_of_FailedToDeleteVolume = \<lparr>msg_Code = ''FailedToDeleteVolume'',
     msg_Description = ''The file share ID '%d' could not be deleted from your VPC.'',
     msg_Type = DeletionFailed, msg_RC = 500,
     msg_Action = ''Verify that the file share ID exists. Run 'ibmcloud is shares' to list available file shares in your account. If the ID is correct, try to delete the file share with the 'ibmcloud is share-delete' command. '',
     msg_BackendError = []\<rparr>"

definition msg_of_FailedToExpandVolume :: Message where
  "msg_of_FailedToExpandVolume = \<lparr>msg_Code = ''FailedToExpandVolume'',
     msg_Description = ''The volume ID '%s' could not be expanded from your VPC.'',
     msg_Type = ExpansionFailed, msg_RC = 500,
     msg_Action = ''Verify that the volume ID exists. If the ID is correct, check that expected capacity is valid and supported'',
     msg_BackendError = []\<rparr>"

definition msg_of_FailedToUpdateVolume :: Message where
  "msg_of_FailedToUpdateVolume = \<lparr>msg_Code = ''FailedToUpdateVolume'',
     msg_Description = ''The file share ID '%d' could not be updated'',
     msg_Type = UpdateFailed, msg_RC = 500,
     msg_Action = ''Verify that the file share ID exists. Run 'ibmcloud is shares' to list available file share in your account.'',
     msg_BackendError = []\<rparr>"

definition msg_of_StorageFindFailedWithVolumeId :: Message where
  "msg_of_StorageFindFailedWithVolumeId = \<lparr>msg_Code = ''StorageFindFailedWithVolumeId'',
     msg_Description = ''A file share with the specified file share ID '%s' could not be found.'',
     msg_Type = RetrivalFailed, msg_RC = 404,
     msg_Action = ''Verify that the file share ID exists. Run 'ibmcloud is shares' to list available file shares in your account.'',
     msg_BackendError = []\<rparr>"

definition msg_of_StorageFindFailedWithVolumeName :: Message where
  "msg_of_StorageFindFailedWithVolumeName = \<lparr>msg_Code = ''StorageFindFailedWithVolumeName'',
     msg_Description = ''A file share with the specified file share name '%s' does not exist.'',
     msg_Type = RetrivalFailed, msg_RC = 404,
     msg_Action = ''Verify that the specified file share exists. Run 'ibmcloud is shares' to list available file shares in your account.'',
     msg_BackendError = []\<rparr>"

definition msg_of_AccessPointWithAPIDFindFailed :: Message where
  "msg_of_AccessPointWithAPIDFindFailed = \<lparr>msg_Code = ''AccessPointWithAPIDFindFailed'',
     msg_Description = (''No mount target could be found for the specified file share ID '%s' and mount target ID '%s'' @ [char_of (39 :: nat)]),
     msg_Type = VolumeAccessPointFindFailed, msg_RC = 400,
     msg_Action = ''Verify that a mount target for your file share exists. Run `ibmcloud is share-targets <SHARE_ID>` to list all mount targets for a file share. Check if file share ID and mount target ID is valid'',
     msg_BackendError = []\<rparr>"

definition msg_of_AccessPointWithVPCIDFindFailed :: Message where
  "msg_of_AccessPointWithVPCIDFindFailed = \<lparr>msg_Code = ''AccessPointWithVPCIDFindFailed'',
     msg_Description = ''No mount target could be found for the specified file share ID '%s' and VPC ID %s'',
     msg_Type = VolumeAccessPointFindFailed, msg_RC = 400,
     msg_Action = ''Verify that a mount target for your file share exists. Run `ibmcloud is share-targets <SHARE_ID>` to list all volume targets for a file share. Check if file share ID and VPC ID is valid'',
     msg_BackendError = []\<rparr>"

definition msg_of_CreateVolumeAccessPointFailed :: Message where
  "msg_of_CreateVolumeAccessPointFailed = \<lparr>msg_Code = ''CreateVolumeAccessPointFailed'',
     msg_Description = ''The file share ID '%s' could not create mount target for VPC ID %s.'',
     msg_Type = CreateVolumeAccessPointFailedType, msg_RC = 500,
     msg_Action = ''Verify that the file share ID and VPC ID exist.'',
     msg_BackendError = []\<rparr>"

definition msg_of_CreateVolumeAccessPointTimedOut :: Message where
  "msg_of_CreateVolumeAccessPointTimedOut = \<lparr>msg_Code = ''CreateVolumeAccessPointTimedOut'',
     msg_Description = ''The file share ID '%s' could not create mount target ID '%s'.'',
     msg_Type = CreateVolumeAccessPointFailedType, msg_RC = 500,
     msg_Action = ''Verify that the file share ID exists.'',
     msg_BackendError = []\<rparr>"

definition msg_of_DeleteVolumeAccessPointFailed :: Message where
  "msg_of_DeleteVolumeAccessPointFailed = \<lparr>msg_Code = ''DeleteVolumeAccessPointFailed'',
     msg_Description = ''The file share ID '%s' could not delete mount target ID '%s'.'',
     msg_Type = DeleteVolumeAccessPointFailedType, msg_RC = 500,
     msg_Action = ''Verify that the specified file share ID has active mount target.'',
     msg_BackendError = []\<rparr>"

definition msg_of_DeleteVolumeAccessPointTimedOut :: Message where
  "msg_of_DeleteVolumeAccessPointTimedOut = \<lparr>msg_Code = ''DeleteVolumeAccessPointTimedOut'',
     msg_Description = (''The file share ID '%s' could not delete mount target ID '%s'' @ [char_of (39 :: nat)]),
     msg_Type = DeleteVolumeAccessPointFailedType, msg_RC = 500,
     msg_Action = ''Verify that the specified file share ID has active mount targets.'',
     msg_BackendError = []\<rparr>"

definition msg_of_InvalidVolumeID :: Message where
  "msg_of_InvalidVolumeID = \<lparr>msg_Code = ''InvalidVolumeID'',
     msg_Description = ''The specified file share ID '%s' is not valid.'',
     msg_Type = InvalidRequest, msg_RC = 400,
     msg_Action = ''Verify that the file share ID exists. Run 'ibmcloud is shares' to list available file shares in your account.'',
     msg_BackendError = []\<rparr>"

definition msg_of_InvalidVolumeName :: Message where
  "msg_of_InvalidVolumeName = \<lparr>msg_Code = ''InvalidVolumeName'',
     msg_Description = ''The specified file share name '%s' is not valid. '',
     msg_Type = InvalidRequest, msg_RC = 400,
     msg_Action = ''Verify that the file share name exists. Run 'ibmcloud is shares' to list available file shares in your account.'',
     msg_BackendError = []\<rparr>"

definition msg_of_VolumeCapacityInvalid :: Message where
  "msg_of_VolumeCapacityInvalid = \<lparr>msg_Code = ''VolumeCapacityInvalid'',
     msg_Description = ''The specified file share capacity '%d' is not valid. '',
     msg_Type = InvalidRequest, msg_RC = 400,
     msg_Action = ''Verify the specified file share capacity. The file share capacity must be a positive number between 10 GB and maximum allowed value for the respective storage profile. Refer IBM Cloud File Storage for VPC documentation https://cloud.ibm.com/docs/vpc?topic=vpc-file-storage-profiles.'',
     msg_BackendError = []\<rparr>"

definition msg_of_EmptyResourceGroup :: Message where
  "msg_of_EmptyResourceGroup = \<lparr>msg_Code = ''EmptyResourceGroup'',
     msg_Description = ''Resource group information could not be found.'',
     msg_Type = InvalidRequest, msg_RC = 400,
     msg_Action = ''Provide the name or ID of the resource group that you want to use for your file share. Run 'ibmcloud resource groups' to list the resource groups that you have access to. '',
     msg_BackendError = []\<rparr>"

definition msg_of_EmptyResourceGroupIDandName :: Message where
  "msg_of_EmptyResourceGroupIDandName = \<lparr>msg_Code = ''EmptyResourceGroupIDandName'',
     msg_Description = ''Resource group ID or name could not be found.'',
     msg_Type = InvalidRequest, msg_RC = 400,
     msg_Action = ''Provide the name or ID of the resource group that you want to use for your file share. Run 'ibmcloud resource groups' to list the resource groups that you have access to.'',
     msg_BackendError = []\<rparr>"

definition msg_of_VolumeNotInValidState :: Message where
  "msg_of_VolumeNotInValidState = \<lparr>msg_Code = ''VolumeNotInValidState'',
     msg_Description = ''Share %s did not get valid (stable) status within timeout period.'',
     msg_Type = ProvisioningFailed, msg_RC = 500,
     msg_Action = ''Run 'ibmcloud is share <SHARE-ID>' and check the current status. If the status is not stable, contact support.'',
     msg_BackendError = []\<rparr>"

definition msg_of_SubnetsListFailed :: Message where
  "msg_of_SubnetsListFailed = \<lparr>msg_Code = ''SubnetsListFailed'',
     msg_Description = ''Unable to fetch list of subnet.'',
     msg_Type = RetrivalFailed, msg_RC = 500,
     msg_Action = ''Unable to list subnet. Target to appropriate region 'ibmcloud target -r <region>' and verify if 'ibmcloud is subnets' is returning the subnets. If it is not returning then raise ticket for VPC team else raise ticket for IKS team.'',
     msg_BackendError = []\<rparr>"

definition msg_of_SubnetFindFailed :: Message where
  "msg_of_SubnetFindFailed = \<lparr>msg_Code = ''SubnetFindFailed'',
     msg_Description = ''A subnet with the specified zone '%s' and available cluster subnet list '%s' could not be found.'',
     msg_Type = RetrivalFailed, msg_RC = 404,
     msg_Action = ''Check whether your VPC and cluster are in different resource groups. If your VPC and cluster are in different resource groups, then refer to https://cloud.ibm.com/docs/containers?topic=containers-storage-file-vpc-apps#storage-file-vpc-custom-sc for more details. If your VPC and cluster are in the same resource group, contact support.'',
     msg_BackendError = []\<rparr>"

definition msg_of_SecurityGroupsListFailed :: Message where
  "msg_of_SecurityGroupsListFailed = \<lparr>msg_Code = ''SecurityGroupsListFailed'',
     msg_Description = ''Unable to fetch list of securityGroup.'',
     msg_Type = RetrivalFailed, msg_RC = 500,
     msg_Action = ''Unable to list securityGroup. Target to appropriate region 'ibmcloud target -r <region>' and verify if 'ibmcloud is securityGroups' is returning the securityGroups. If it is not returning then raise ticket for VPC team else raise ticket for IKS team.'',
     msg_BackendError = []\<rparr>"

definition msg_of_SecurityGroupFindFailed :: Message where
  "msg_of_SecurityGroupFindFailed = \<lparr>msg_Code = ''SecurityGroupFindFailed'',
     msg_Description = ''A securityGroup with the specified securityGroup name '%s' could not be found.'',
     msg_Type = RetrivalFailed, msg_RC = 404,
     msg_Action = ''Verify that the cluster securityGroup exists. Target to appropriate region 'ibmcloud target -r <region>' and verify if 'ibmcloud is securityGroups' is returning the securityGroups. Please provide the output and raise ticket for IKS team.'',
     msg_BackendError = []\<rparr>"

definition msg_of_ListVolumesFailed :: Message where
  "msg_of_ListVolumesFailed = \<lparr>msg_Code = ''ListVolumesFailed'',
     msg_Description = ''Unable to fetch list of file shares.'',
     msg_Type = RetrivalFailed, msg_RC = 404,
     msg_Action = ''Unable to list file shares. Run 'ibmcloud is shares' to list available file shares in your account.'',
     msg_BackendError = []\<rparr>"

definition msg_of_InvalidListVolumesLimit :: Message where
  "msg_of_InvalidListVolumesLimit = \<lparr>msg_Code = ''InvalidListVolumesLimit'',
     msg_Description = ''The value '%v' specified in the limit parameter of the list file share call is not valid.'',
     msg_Type = InvalidRequest, msg_RC = 400,
     msg_Action = ''Verify the limit parameter's value. The limit must be a positive number between 0 and 100.'',
     msg_BackendError = []\<rparr>"

definition msg_of_StartVolumeIDNotFound :: Message where
  "msg_of_StartVolumeIDNotFound = \<lparr>msg_Code = ''StartVolumeIDNotFound'',
     msg_Description = ''The file share ID '%s' specified in the start parameter of the list volume call could not be found.'',
     msg_Type = InvalidRequest, msg_RC = 400,
     msg_Action = ''Please verify that the start file share ID is correct and whether you have access to the file share ID.'',
     msg_BackendError = []\<rparr>"

definition msg_of_VolumeAccessPointExist :: Message where
  "msg_of_VolumeAccessPointExist = \<lparr>msg_Code = ''VolumeAccessPointExist'',
     msg_Description = (''The file share ID '%s' could not be deleted from your VPC. File share has mount targets which needs to deleted. Please go through the list of VPCs = '%v'' @ [char_of (39 :: nat)]),
     msg_Type = DeletionFailed, msg_RC = 0,
     msg_Action = ''User need to review all mount targets and delete them first before deleting file share. Run `ibmcloud is share-targets <SHARE_ID>` to get the mount target for the file share. '',
     msg_BackendError = []\<rparr>"

definition msg_of_SnapshotCreationFailed :: Message where
  "msg_of_SnapshotCreationFailed = \<lparr>msg_Code = ''SnapshotCreationFailed'',
     msg_Description = ''Snapshot creation failed for the given share ID'',
     msg_Type = ProvisioningFailed, msg_RC = 500,
     msg_Action = ''Please check backend error for more details'',
     msg_BackendError = []\<rparr>"

definition msg_of_ListSnapshotsFailed :: Message where
  "msg_of_ListSnapshotsFailed = \<lparr>msg_Code = ''ListSnapshotsFailed'',
     msg_Description = (''Unable to fetch list of snapshots for share ID '%s'' @ [char_of (39 :: nat)]),
     msg_Type = RetrivalFailed, msg_RC = 404,
     msg_Action = ''Run 'ibmcloud is share-snapshots --share <share-id>' to list available snapshots in your account.Please check backend error for more details.'',
     msg_BackendError = []\<rparr>"

definition msg_of_InvalidListSnapshotLimit :: Message where
  "msg_of_InvalidListSnapshotLimit = \<lparr>msg_Code = ''InvalidListSnapshotLimit'',
     msg_Description = ''The value '%v' specified in the limit parameter of the list snapshot call is not valid.'',
     msg_Type = InvalidRequest, msg_RC = 400,
     msg_Action = ''Verify the limit parameter's value. The limit must be a positive number between 0 and 100.'',
     msg_BackendError = []\<rparr>"

definition msg_of_StartSnapshotIDNotFound :: Message where
  "msg_of_StartSnapshotIDNotFound = \<lparr>msg_Code = ''StartSnapshotIDNotFound'',
     msg_Description = ''The snapshot ID '%s' specified in the start parameter of the list volume call could not be found.'',
     msg_Type = InvalidRequest, msg_RC = 400,
     msg_Action = ''Please verify that the start snapshot ID is correct and whether you have access to the snapshot ID.ibmcloud is share-snapshot <share-id> <snapshot-id>'',
     msg_BackendError = []\<rparr>"

definition msg_of_FailedToDeleteSnapshot :: Message where
  "msg_of_FailedToDeleteSnapshot = \<lparr>msg_Code = ''FailedToDeleteSnapshot'',
     msg_Description = (''Failed to delete '%s' snapshot ID from share ID '%s'' @ [char_of (39 :: nat)]),
     msg_Type = DeletionFailed, msg_RC = 500,
     msg_Action = ''Check whether the snapshot ID exists. You may need to verify by using 'ibmcloud is share-snapshot <share-id> <snapshot-id>' cli'',
     msg_BackendError = []\<rparr>"

definition msg_of_FailedToFindSnapshot :: Message where
  "msg_of_FailedToFindSnapshot = \<lparr>msg_Code = ''FailedToFindSnapshot'',
     msg_Description = ''A snapshot with the specified snapshot ID '%s' and share ID '%s' could not be found.'',
     msg_Type = RetrivalFailed, msg_RC = 404,
     msg_Action = ''Please check the snapshot ID once, You many need to verify by using 'ibmcloud is share-snapshot <share-id> <snapshot-id>' cli. Please check backend error for more details'',
     msg_BackendError = []\<rparr>"

definition msg_of_StorageFindFailedWithSnapshotName :: Message where
  "msg_of_StorageFindFailedWithSnapshotName = \<lparr>msg_Code = ''StorageFindFailedWithSnapshotName'',
     msg_Description = ''A snapshot with the specified snapshot name '%s' and share ID '%s' could not be found.'',
     msg_Type = RetrivalFailed, msg_RC = 404,
     msg_Action = ''Please check the snapshot name once, You many need to verify by using 'ibmcloud is share-snapshots --share <share-id>' cli.'',
     msg_BackendError = []\<rparr>"

definition messagesEn_entries :: "(string \<times> Message) list" where
  "messagesEn_entries =
     [(''ErrorRequiredFieldMissing'', msg_of_ErrorRequiredFieldMissing),
      (''FailedToPlaceOrder'', msg_of_FailedToPlaceOrder),
      (''FailedToDeleteVolume'', msg_of_FailedToDeleteVolume),
      (''FailedToExpandVolume'', msg_of_FailedToExpandVolume),
      (''FailedToUpdateVolume'', msg_of_FailedToUpdateVolume),
      (''StorageFindFailedWithVolumeId'', msg_of_StorageFindFailedWithVolumeId),
      (''StorageFindFailedWithVolumeName'', msg_of_StorageFindFailedWithVolumeName),
      (''AccessPointWithAPIDFindFailed'', msg_of_AccessPointWithAPIDFindFailed),
      (''AccessPointWithVPCIDFindFailed'', msg_of_AccessPointWithVPCIDFindFailed),
      (''CreateVolumeAccessPointFailed'', msg_of_CreateVolumeAccessPointFailed),
      (''CreateVolumeAccessPointTimedOut'', msg_of_CreateVolumeAccessPointTimedOut),
      (''DeleteVolumeAccessPointFailed'', msg_of_DeleteVolumeAccessPointFailed),
      (''DeleteVolumeAccessPointTimedOut'', msg_of_DeleteVolumeAccessPointTimedOut),
      (''InvalidVolumeID'', msg_of_InvalidVolumeID),
      (''InvalidVolumeName'', msg_of_InvalidVolumeName),
      (''VolumeCapacityInvalid'', msg_of_VolumeCapacityInvalid),
      (''EmptyResourceGroup'', msg_of_EmptyResourceGroup),
      (''EmptyResourceGroupIDandName'', msg_of_EmptyResourceGroupIDandName),
      (''VolumeNotInValidState'', msg_of_VolumeNotInValidState),
      (''SubnetsListFailed'', msg_of_SubnetsListFailed),
      (''SubnetFindFailed'', msg_of_SubnetFindFailed),
      (''SecurityGroupsListFailed'', msg_of_SecurityGroupsListFailed),
      (''SecurityGroupFindFailed'', msg_of_SecurityGroupFindFailed),
      (''ListVolumesFailed'', msg_of_ListVolumesFailed),
      (''InvalidListVolumesLimit'', msg_of_InvalidListVolumesLimit),
      (''StartVolumeIDNotFound'', msg_of_StartVolumeIDNotFound),
      (''VolumeAccessPointExist'', msg_of_VolumeAccessPointExist),
      (''SnapshotCreationFailed'', msg_of_SnapshotCreationFailed),
      (''ListSnapshotsFailed'', msg_of_ListSnapshotsFailed),
      (''InvalidListSnapshotLimit'', msg_of_InvalidListSnapshotLimit),
      (''StartSnapshotIDNotFound'', msg_of_StartSnapshotIDNotFound),
      (''FailedToDeleteSnapshot'', msg_of_FailedToDeleteSnapshot),
      (''FailedToFindSnapshot'', msg_of_FailedToFindSnapshot),
      (''StorageFindFailedWithSnapshotName'', msg_of_StorageFindFailedWithSnapshotName)]"

type_synonym catalogue = "string \<Rightarrow> Message option"

definition messagesEn :: catalogue where
  "messagesEn = map_of messagesEn_entries"

definition InitMessages :: catalogue where
  "InitMessages = messagesEn"

section \<open>Building user errors\<close>

definition GetUserMsg :: "catalogue \<Rightarrow> string \<Rightarrow> fmt_arg list \<Rightarrow> Message" where
  "GetUserMsg en code args =
     (let userMsg = map_get en zeroMessage code
      in if args \<noteq> [] then userMsg\<lparr>msg_Description := Sprintf (msg_Description userMsg) args\<rparr>
         else userMsg)"

definition GetUserErr ::
  "ext \<Rightarrow> catalogue \<Rightarrow> string \<Rightarrow> goerror option \<Rightarrow> fmt_arg list \<Rightarrow> goerror option" where
  "GetUserErr X en code err args =
     (case err of
        None \<Rightarrow> None
      | Some e \<Rightarrow>
          Some (UserMessage ((GetUserMsg en code args)\<lparr>msg_BackendError := ErrorString X e\<rparr>)))"

definition GetUserError ::
  "ext \<Rightarrow> catalogue \<Rightarrow> string \<Rightarrow> goerror option \<Rightarrow> fmt_arg list \<Rightarrow> goerror" where
  "GetUserError X en code err args =
     UserMessage
       (case err of
          None \<Rightarrow> GetUserMsg en code args
        | Some e \<Rightarrow> (GetUserMsg en code args)\<lparr>msg_BackendError := ErrorString X e\<rparr>)"

text \<open>The code a user error carries; the empty string for an error of another type.\<close>

fun error_code :: "goerror \<Rightarrow> string" where
  "error_code (UserMessage m) = msg_Code m"
| "error_code _ = []"

section \<open>Lemmas\<close>

lemma GetUserMsg_Code [simp]: "msg_Code (GetUserMsg en code args) = msg_Code (map_get en zeroMessage code)"
  by (simp add: GetUserMsg_def Let_def)

lemma GetUserError_code [simp]:
  "error_code (GetUserError X en code err args) = msg_Code (map_get en zeroMessage code)"
  by (simp add: GetUserError_def split: option.split)

lemma GetUserError_neq [simp]:
  "GetUserError X en code err args \<noteq> ModelsError e"
  "GetUserError X en code err args \<noteq> ModelsErrorVal e"
  "GetUserError X en code err args \<noteq> IksErrorPtr ie"
  by (simp_all add: GetUserError_def)

lemma GetUserErr_None [simp]: "GetUserErr X en code None args = None"
  by (simp add: GetUserErr_def)

lemma GetUserErr_Some: "GetUserErr X en code (Some e) args = Some (GetUserError X en code (Some e) args)"
  by (simp add: GetUserErr_def GetUserError_def)

text \<open>The keys of the catalogue are distinct, and every entry is filed under its own code.\<close>

lemma entries_distinct: "distinct (map fst messagesEn_entries)"
  by (simp add: messagesEn_entries_def)

lemmas msg_defs =
  msg_of_ErrorRequiredFieldMissing_def
  msg_of_FailedToPlaceOrder_def
  msg_of_FailedToDeleteVolume_def
  msg_of_FailedToExpandVolume_def
  msg_of_FailedToUpdateVolume_def
  msg_of_StorageFindFailedWithVolumeId_def
  msg_of_StorageFindFailedWithVolumeName_def
  msg_of_AccessPointWithAPIDFindFailed_def
  msg_of_AccessPointWithVPCIDFindFailed_def
  msg_of_CreateVolumeAccessPointFailed_def
  msg_of_CreateVolumeAccessPointTimedOut_def
  msg_of_DeleteVolumeAccessPointFailed_def
  msg_of_DeleteVolumeAccessPointTimedOut_def
  msg_of_InvalidVolumeID_def
  msg_of_InvalidVolumeName_def
  msg_of_VolumeCapacityInvalid_def
  msg_of_EmptyResourceGroup_def
  msg_of_EmptyResourceGroupIDandName_def
  msg_of_VolumeNotInValidState_def
  msg_of_SubnetsListFailed_def
  msg_of_SubnetFindFailed_def
  msg_of_SecurityGroupsListFailed_def
  msg_of_SecurityGroupFindFailed_def
  msg_of_ListVolumesFailed_def
  msg_of_InvalidListVolumesLimit_def
  msg_of_StartVolumeIDNotFound_def
  msg_of_VolumeAccessPointExist_def
  msg_of_SnapshotCreationFailed_def
  msg_of_ListSnapshotsFailed_def
  msg_of_InvalidListSnapshotLimit_def
  msg_of_StartSnapshotIDNotFound_def
  msg_of_FailedToDeleteSnapshot_def
  msg_of_FailedToFindSnapshot_def
  msg_of_StorageFindFailedWithSnapshotName_def

lemma entries_codes: "list_all (\<lambda>(k, m). msg_Code m = k) messagesEn_entries"
  by (simp add: messagesEn_entries_def msg_defs)

lemma messagesEn_code: "messagesEn k = Some m \<Longrightarrow> msg_Code m = k"
  using entries_codes by (auto simp: messagesEn_def list_all_iff dest: map_of_SomeD)

text \<open>A listed code is carried by every user error built from it.\<close>

lemma known_code:
  "code \<in> fst ` set messagesEn_entries \<Longrightarrow> msg_Code (map_get messagesEn zeroMessage code) = code"
proof -
  assume "code \<in> fst ` set messagesEn_entries"
  then obtain m where "messagesEn code = Some m"
    using weak_map_of_SomeI unfolding messagesEn_def by fastforce
  then show ?thesis by (simp add: map_get_def messagesEn_code)
qed

lemma entries_codes_set:
  "fst ` set messagesEn_entries = set (map fst messagesEn_entries)"
  by simp

end
