(* ===== verification/Retry.thy ===== *)
theory Retry
  imports Messages
begin

text \<open>
  The retry logic of \<^verbatim>\<open>file/provider/util.go\<close>: the four loops \<open>retry\<close>,
  \<open>retryWithMinRetries\<close>, \<open>FlexyRetry\<close> and \<open>FlexyRetryWithConstGap\<close>, the table of error
  codes that end a retry, and the package variables they share.  The state \<open>gost\<close> holds
  those variables, the catalogue \<^verbatim>\<open>MessagesEn\<close>, the durations slept so far (in the order
  of the sleeps) and the world behind the API client.

  A closure passed to \<open>retry\<close> only calls the API client, so it is a function on the
  world; it returns the error and the captured variable it assigned (every closure of the
  program assigns it in each call).  A closure passed to \<open>FlexyRetry\<close> may itself run a
  retry loop, so it is a \<open>go\<close> computation on the whole state.
\<close>

section \<open>Package state\<close>

record 'w gost =
  maxRetryAttempt :: int
  maxRetryGap :: int
  retryGap :: int
  MessagesEn :: catalogue
  slept :: "int list"
  world :: 'w

definition minRetryAttempt :: int where "minRetryAttempt = 5"
definition ConstantRetryGap :: int where "ConstantRetryGap = 10"
definition SecurityGroupMode :: string where "SecurityGroupMode = ''security_group''"
definition pageSize :: int where "pageSize = 50"
definition SnapshotNotFound :: string where "SnapshotNotFound = ''shares_snapshot_not_found''"
definition SharesNotFound :: string where "SharesNotFound = ''shares_not_found''"
definition volumeIDPartsCount :: nat where "volumeIDPartsCount = 5"

text \<open>The package variables as the program starts.\<close>

definition init_gost :: "'w \<Rightarrow> 'w gost" where
  "init_gost w = \<lparr>maxRetryAttempt = 10, maxRetryGap = 60, retryGap = 10, MessagesEn = Map.empty,
     slept = [], world = w\<rparr>"

definition skipErrorCodes_entries :: "(string \<times> bool) list" where
  "skipErrorCodes_entries =
     [(''shares_profile_iops_not_allowed'', True),
      (''shares_profile_capacity_invalid'', True),
      (''shares_profile_capacity_iops_invalid'', True),
      (''shares_encryption_key_crn_invalid'', True),
      (''shares_zone_not_found'', True),
      (''shares_bad_request'', True),
      (''shares_resource_group_bad_request'', True),
      (''shares_vpc_not_found'', True),
      (SharesNotFound, True),
      (''shares_target_not_found'', True),
      (''shares_target_one_per_vpc'', True),
      (''bad_field'', True),
      (''shares_name_duplicate'', True),
      (''shares_subnet_zone_mismatch'', True),
      (''targets_primary_ip_id_required'', True),
      (''targets_subnet_and_primary_ip_missing'', True),
      (''targets_primary_ip_not_related_to_subnet'', True),
      (''shares_target_vpc_and_network_interface'', True),
      (''shares_security_group_id_invalid'', True),
      (''targets_primary_ip_address_already_in_use'', True),
      (''reserved_ip_not_found'', True),
      (''shares_subnet_not_found'', True),
      (''targets_subnet_all_addresses_taken'', True),
      (''InvalidArgument'', True),
      (SnapshotNotFound, True),
      (''share_snapshot_rate_too_high'', True),
      (''share_snapshot_name_duplicate'', True),
      (''share_snapshots_quota_limit_exceeded'', True),
      (''shares_status_pending'', False),
      (''internal_error'', False),
      (''invalid_route'', True),
      (''service_error'', False),
      (''shares_bad_field_for_rfs_profile'', True),
      (''shares_profile_bandwidth_not_allowed'', True),
      (''shares_bandwidth_invalid'', True),
      (''shares_not_implemented'', True)]"

definition skipErrorCodes :: "string \<Rightarrow> bool option" where
  "skipErrorCodes = map_of skipErrorCodes_entries"

section \<open>Which errors end a retry\<close>

fun skipRetry_items :: "ErrorItem list \<Rightarrow> bool" where
  "skipRetry_items [] = False"
| "skipRetry_items (it # its) =
     (case skipErrorCodes (ei_Code it) of Some st \<Rightarrow> st | None \<Rightarrow> skipRetry_items its)"

definition skipRetry :: "Error \<Rightarrow> bool" where
  "skipRetry e = skipRetry_items (err_Errors e)"

definition skipRetryForObviousErrors :: "goerror \<Rightarrow> bool" where
  "skipRetryForObviousErrors err = (case err of ModelsError e \<Rightarrow> skipRetry e | _ \<Rightarrow> False)"

definition SkipRetryForIKS :: "goerror \<Rightarrow> bool" where
  "SkipRetryForIKS err =
     (case err of
        IksErrorPtr e \<Rightarrow> (case skipErrorCodes (iks_Code e) of Some st \<Rightarrow> st | None \<Rightarrow> False)
      | _ \<Rightarrow> False)"

section \<open>The retry loops\<close>

definition sleep_seconds :: "int \<Rightarrow> 'w gost \<Rightarrow> 'w gost" where
  "sleep_seconds g s = s\<lparr>slept := slept s @ [wrap64 (g * 1000000000)]\<rparr>"

text \<open>Doubling the gap, up to the given maximum.\<close>

definition next_gap :: "int \<Rightarrow> int \<Rightarrow> int" where
  "next_gap cap g = (let g' = wrap64 (2 * g) in if g' > cap then cap else g')"

text \<open>
  \<open>retry\<close> with \<open>i\<close> attempts made and \<open>n\<close> left; \<open>cur\<close> is the error and captured value of
  the last attempt.
\<close>

fun retry_loop ::
  "('w \<Rightarrow> (goerror option \<times> 'c) \<times> 'w) \<Rightarrow> nat \<Rightarrow> nat \<Rightarrow> goerror option \<times> 'c \<Rightarrow> 'w gost
     \<Rightarrow> (goerror option \<times> 'c) \<times> 'w gost" where
  "retry_loop f i 0 cur s = (cur, s)"
| "retry_loop f i (Suc n) cur s =
     (let s1 = (if i > 0 then sleep_seconds (retryGap s) s else s);
          ((err, c), w) = f (world s1);
          s2 = s1\<lparr>world := w\<rparr>
      in case err of
           None \<Rightarrow> ((None, c), s2)
         | Some (ModelsError e) \<Rightarrow>
             if skipRetry e then ((err, c), s2)
             else retry_loop f (Suc i) n (err, c)
               (if i \<ge> 1 then s2\<lparr>retryGap := next_gap (maxRetryGap s2) (retryGap s2)\<rparr> else s2)
         | Some _ \<Rightarrow> retry_loop f (Suc i) n (err, c) s2)"

definition retry ::
  "('w \<Rightarrow> (goerror option \<times> 'c) \<times> 'w) \<Rightarrow> 'c \<Rightarrow> ('w gost, goerror option \<times> 'c) go" where
  "retry f c0 s = map_prod Ret id (retry_loop f 0 (nat (maxRetryAttempt s)) (None, c0) s)"

text \<open>\<open>retryWithMinRetries\<close> keeps its gap \<open>g\<close> in a local variable that starts at 10.\<close>

fun minRetries_loop ::
  "('w \<Rightarrow> (goerror option \<times> 'c) \<times> 'w) \<Rightarrow> nat \<Rightarrow> nat \<Rightarrow> int \<Rightarrow> goerror option \<times> 'c \<Rightarrow> 'w gost
     \<Rightarrow> (goerror option \<times> 'c) \<times> 'w gost" where
  "minRetries_loop f i 0 g cur s = (cur, s)"
| "minRetries_loop f i (Suc n) g cur s =
     (let s1 = (if i > 0 then sleep_seconds g s else s);
          ((err, c), w) = f (world s1);
          s2 = s1\<lparr>world := w\<rparr>
      in case err of
           None \<Rightarrow> ((None, c), s2)
         | Some (ModelsError e) \<Rightarrow>
             if skipRetry e then ((err, c), s2)
             else minRetries_loop f (Suc i) n (if i \<ge> 1 then next_gap (maxRetryGap s2) g else g)
               (err, c) s2
         | Some _ \<Rightarrow> minRetries_loop f (Suc i) n g (err, c) s2)"

definition retryWithMinRetries ::
  "('w \<Rightarrow> (goerror option \<times> 'c) \<times> 'w) \<Rightarrow> 'c \<Rightarrow> ('w gost, goerror option \<times> 'c) go" where
  "retryWithMinRetries f c0 s =
     map_prod Ret id (minRetries_loop f 0 (nat minRetryAttempt) 10 (None, c0) s)"

record FlexyRetry =
  fr_maxRetryAttempt :: int
  fr_maxRetryGap :: int

definition NewFlexyRetryDefault :: "'w gost \<Rightarrow> FlexyRetry" where
  "NewFlexyRetryDefault s =
     \<lparr>fr_maxRetryAttempt = maxRetryAttempt s, fr_maxRetryGap = maxRetryGap s\<rparr>"

definition NewFlexyRetry :: "int \<Rightarrow> int \<Rightarrow> FlexyRetry" where
  "NewFlexyRetry maxRtyAtmpt maxrRtyGap =
     \<lparr>fr_maxRetryAttempt = maxRtyAtmpt, fr_maxRetryGap = maxrRtyGap\<rparr>"

fun flexy_loop ::
  "FlexyRetry \<Rightarrow> ('w gost, (goerror option \<times> bool) \<times> 'c) go \<Rightarrow> nat \<Rightarrow> nat \<Rightarrow> goerror option \<times> 'c
     \<Rightarrow> ('w gost, goerror option \<times> 'c) go" where
  "flexy_loop fr f i 0 cur s = (Ret cur, s)"
| "flexy_loop fr f i (Suc n) cur s =
     (let s1 = (if i > 0 then sleep_seconds (retryGap s) s else s)
      in case f s1 of
           (Panic p, s2) \<Rightarrow> (Panic p, s2)
         | (Ret ((err, stopRetry), c), s2) \<Rightarrow>
             if stopRetry then (Ret (err, c), s2)
             else flexy_loop fr f (Suc i) n (err, c)
               (if i \<ge> 1 then s2\<lparr>retryGap := next_gap (fr_maxRetryGap fr) (retryGap s2)\<rparr> else s2))"

definition FlexyRetry ::
  "FlexyRetry \<Rightarrow> ('w gost, (goerror option \<times> bool) \<times> 'c) go \<Rightarrow> 'c
     \<Rightarrow> ('w gost, goerror option \<times> 'c) go" where
  "FlexyRetry fr f c0 = flexy_loop fr f 0 (nat (fr_maxRetryAttempt fr)) (None, c0)"

fun constGap_loop ::
  "('w gost, (goerror option \<times> bool) \<times> 'c) go \<Rightarrow> nat \<Rightarrow> nat \<Rightarrow> goerror option \<times> 'c
     \<Rightarrow> ('w gost, goerror option \<times> 'c) go" where
  "constGap_loop f i 0 cur s = (Ret cur, s)"
| "constGap_loop f i (Suc n) cur s =
     (let s1 = (if i > 0 then sleep_seconds ConstantRetryGap s else s)
      in case f s1 of
           (Panic p, s2) \<Rightarrow> (Panic p, s2)
         | (Ret ((err, stopRetry), c), s2) \<Rightarrow>
             if stopRetry then (Ret (err, c), s2)
             else constGap_loop f (Suc i) n (err, c) s2)"

definition totalAttempt :: "FlexyRetry \<Rightarrow> int" where
  "totalAttempt fr = wrap64 (fr_maxRetryAttempt fr * 4)"

definition FlexyRetryWithConstGap ::
  "FlexyRetry \<Rightarrow> ('w gost, (goerror option \<times> bool) \<times> 'c) go \<Rightarrow> 'c
     \<Rightarrow> ('w gost, goerror option \<times> 'c) go" where
  "FlexyRetryWithConstGap fr f c0 = constGap_loop f 0 (nat (totalAttempt fr)) (None, c0)"

definition SetRetryParameters :: "int \<Rightarrow> int \<Rightarrow> ('w gost, unit) go" where
  "SetRetryParameters maxAttempts maxGap =
     gmodify (\<lambda>s.
       let s1 = (if maxAttempts > 0 then s\<lparr>maxRetryAttempt := maxAttempts\<rparr> else s)
       in if maxGap > 0 then s1\<lparr>maxRetryGap := maxGap\<rparr> else s1)"

text \<open>A call of the API client from the provider: it changes the world only.\<close>

definition call_api :: "('w \<Rightarrow> 'r \<times> 'w) \<Rightarrow> ('w gost, 'r) go" where
  "call_api m s = (case m (world s) of (r, w) \<Rightarrow> (Ret r, s\<lparr>world := w\<rparr>))"

end
