(* ===== verification/RetryLaws.thy ===== *)
theory RetryLaws
  imports Retry
begin

text \<open>
  What the retry loops promise.  \<open>attempt_spec\<close> is the specification all four share: call
  the closure until an attempt stops the loop or the bound is used up, and answer with
  the last attempt.  The locale \<open>retry_contract\<close> states that contract for a loop; each
  loop of \<open>Retry\<close> is an interpretation of it, and the session operations reason with the
  locale's rules only.
\<close>

section \<open>The abstract specification\<close>

fun attempt_spec :: "('w \<Rightarrow> 'r \<times> 'w) \<Rightarrow> ('r \<Rightarrow> bool) \<Rightarrow> nat \<Rightarrow> 'r \<Rightarrow> 'w \<Rightarrow> 'r \<times> 'w" where
  "attempt_spec f stop 0 cur w = (cur, w)"
| "attempt_spec f stop (Suc n) cur w =
     (case f w of (r, w') \<Rightarrow> if stop r then (r, w') else attempt_spec f stop n r w')"

text \<open>The number of calls the specification makes.\<close>

fun attempt_count :: "('w \<Rightarrow> 'r \<times> 'w) \<Rightarrow> ('r \<Rightarrow> bool) \<Rightarrow> nat \<Rightarrow> 'w \<Rightarrow> nat" where
  "attempt_count f stop 0 w = 0"
| "attempt_count f stop (Suc n) w =
     (case f w of (r, w') \<Rightarrow> if stop r then 1 else Suc (attempt_count f stop n w'))"

lemma attempt_count_le: "attempt_count f stop n w \<le> n"
  by (induction n arbitrary: w) (auto split: prod.split)

lemma attempt_count_pos: "0 < n \<Longrightarrow> 0 < attempt_count f stop n w"
  by (cases n) (auto split: prod.split)

text \<open>The last answer comes from a call, as soon as there is one.\<close>

lemma attempt_spec_last:
  assumes "0 < n" and "attempt_spec f stop n cur w = (r, w')"
  shows "\<exists>v v'. f v = (r, v')"
  using assms
proof (induction n arbitrary: cur w)
  case (Suc n)
  obtain r1 w1 where f: "f w = (r1, w1)" by (cases "f w")
  show ?case
  proof (cases "stop r1 \<or> n = 0")
    case True
    with Suc.prems f have "r = r1" by (cases n) (auto split: if_splits)
    with f show ?thesis by blast
  next
    case False
    with Suc.prems f have "attempt_spec f stop n r1 w1 = (r, w')" by simp
    with Suc.IH False show ?thesis by blast
  qed
qed simp

lemma attempt_spec_invariant:
  assumes "attempt_spec f stop n cur w = (r, w')" and "I w"
    and "\<And>v a v'. I v \<Longrightarrow> f v = (a, v') \<Longrightarrow> I v'"
  shows "I w'"
  using assms
  by (induction n arbitrary: cur w) (auto split: prod.splits if_splits)

text \<open>
  A property of answers that every call from an invariant world establishes holds of the
  final answer.
\<close>

lemma attempt_spec_result:
  assumes "attempt_spec f stop n cur w = (r, w')" and "I w" and "n = 0 \<longrightarrow> Q cur w"
    and "\<And>v a v'. I v \<Longrightarrow> f v = (a, v') \<Longrightarrow> I v' \<and> Q a v'"
  shows "Q r w'"
  using assms
proof (induction n arbitrary: cur w)
  case (Suc n)
  obtain r1 w1 where f: "f w = (r1, w1)" by (cases "f w")
  with Suc.prems(2,4) have "I w1" and "Q r1 w1" by blast+
  show ?case
  proof (cases "stop r1")
    case True
    with Suc.prems(1) f \<open>Q r1 w1\<close> show ?thesis by simp
  next
    case False
    with Suc.prems(1) f have "attempt_spec f stop n r1 w1 = (r, w')" by simp
    with \<open>I w1\<close> \<open>Q r1 w1\<close> Suc.prems(4) show ?thesis by (intro Suc.IH) auto
  qed
qed simp

text \<open>
  The specification ends with the first attempt that stops, when that comes within the
  bound: \<open>(snd \<circ> f) ^^ k\<close> is the world after \<open>k\<close> attempts.
\<close>

lemma attempt_spec_reaches:
  assumes "k < n" and "stop (fst (f (((snd \<circ> f) ^^ k) w)))"
    and "\<And>j. j < k \<Longrightarrow> \<not> stop (fst (f (((snd \<circ> f) ^^ j) w)))"
  shows "attempt_spec f stop n cur w = f (((snd \<circ> f) ^^ k) w)"
  using assms
proof (induction k arbitrary: n cur w)
  case 0
  then show ?case by (cases n) (auto split: prod.split)
next
  case (Suc k)
  then obtain m where n: "n = Suc m" by (cases n) auto
  obtain r v where f: "f w = (r, v)" by (cases "f w")
  have shift: "((snd \<circ> f) ^^ Suc j) w = ((snd \<circ> f) ^^ j) v" for j
    by (simp only: funpow_Suc_right comp_apply f snd_conv)
  from Suc.prems(3) [of 0] f have go: "\<not> stop r" by simp
  have "attempt_spec f stop m r v = f (((snd \<circ> f) ^^ k) v)"
  proof (rule Suc.IH)
    show "k < m" using Suc.prems(1) n by simp
    show "stop (fst (f (((snd \<circ> f) ^^ k) v)))" using Suc.prems(2) by (simp only: shift)
    show "\<not> stop (fst (f (((snd \<circ> f) ^^ j) v)))" if "j < k" for j
      using Suc.prems(3) [of "Suc j"] that by (simp only: shift Suc_less_eq not_False_eq_True)
  qed
  with f go n show ?case by (simp only: shift attempt_spec.simps prod.case if_False)
qed

section \<open>The contract of a retry loop\<close>

definition retry_stop :: "goerror option \<times> 'c \<Rightarrow> bool" where
  "retry_stop r =
     (case fst r of None \<Rightarrow> True | Some (ModelsError e) \<Rightarrow> skipRetry e | Some _ \<Rightarrow> False)"

text \<open>The part of the state no loop touches.\<close>

definition same_config :: "'w gost \<Rightarrow> 'w gost \<Rightarrow> bool" where
  "same_config s s' \<longleftrightarrow> maxRetryAttempt s' = maxRetryAttempt s \<and>
     maxRetryGap s' = maxRetryGap s \<and> MessagesEn s' = MessagesEn s"

lemma same_config_refl [simp]: "same_config s s"
  by (simp add: same_config_def)

lemma same_config_reflp [simp]: "reflp same_config"
  by (simp add: reflp_def)

lemma same_config_transp [simp]: "transp same_config"
  by (simp add: transp_def same_config_def)

lemma same_config_trans: "same_config s t \<Longrightarrow> same_config t u \<Longrightarrow> same_config s u"
  by (simp add: same_config_def)

lemma same_config_upd [simp]:
  "same_config s (s\<lparr>world := w\<rparr>)" "same_config s (s\<lparr>retryGap := g\<rparr>)"
  "same_config s (s\<lparr>slept := l\<rparr>)" "same_config s (sleep_seconds k s)"
  by (simp_all add: same_config_def sleep_seconds_def)

lemma sleep_seconds_fields [simp]:
  "world (sleep_seconds g s) = world s" "retryGap (sleep_seconds g s) = retryGap s"
  "maxRetryGap (sleep_seconds g s) = maxRetryGap s"
  "maxRetryAttempt (sleep_seconds g s) = maxRetryAttempt s"
  "MessagesEn (sleep_seconds g s) = MessagesEn s"
  "length (slept (sleep_seconds g s)) = Suc (length (slept s))"
  by (simp_all add: sleep_seconds_def)

lemma keep_gap [simp]: "g = retryGap s \<Longrightarrow> s\<lparr>world := w, retryGap := g\<rparr> = s\<lparr>world := w\<rparr>"
  by simp

locale retry_contract =
  fixes run :: "('w \<Rightarrow> 'r \<times> 'w) \<Rightarrow> 'r \<Rightarrow> 'w gost \<Rightarrow> 'r \<times> 'w gost"
    and stop :: "'r \<Rightarrow> bool"
    and bound :: "'w gost \<Rightarrow> nat"
  assumes refines: "attempt_spec f stop (bound s) r0 (world s) = (fst (run f r0 s), world (snd (run f r0 s)))"
    and config: "same_config s (snd (run f r0 s))"
    and sleeps: "length (slept (snd (run f r0 s))) =
      length (slept s) + (attempt_count f stop (bound s) (world s) - 1)"
begin

lemma answer_from_call: "0 < bound s \<Longrightarrow> \<exists>v v'. f v = (fst (run f r0 s), v')"
  using attempt_spec_last [OF _ refines] .

lemma world_invariant:
  assumes "I (world s)" and "\<And>v a v'. I v \<Longrightarrow> f v = (a, v') \<Longrightarrow> I v'"
  shows "I (world (snd (run f r0 s)))"
  by (rule attempt_spec_invariant [OF refines, where I = I]) (use assms in auto)

lemma answer_invariant:
  assumes "0 < bound s" and "I (world s)"
    and "\<And>v a v'. I v \<Longrightarrow> f v = (a, v') \<Longrightarrow> I v' \<and> Q a v'"
  shows "Q (fst (run f r0 s)) (world (snd (run f r0 s)))"
  by (rule attempt_spec_result [OF refines, where I = I]) (use assms in auto)

lemma at_most_bound_sleeps:
  "length (slept (snd (run f r0 s))) \<le> length (slept s) + (bound s - 1)"
  using sleeps [of f r0 s] attempt_count_le [of f stop "bound s" "world s"] by simp

text \<open>An attempt within the bound that stops is reached.\<close>

lemma reaches:
  assumes "k < bound s" and "stop (fst (f (((snd \<circ> f) ^^ k) (world s))))"
    and "\<And>j. j < k \<Longrightarrow> \<not> stop (fst (f (((snd \<circ> f) ^^ j) (world s))))"
  shows "(fst (run f r0 s), world (snd (run f r0 s))) = f (((snd \<circ> f) ^^ k) (world s))"
  using attempt_spec_reaches [of k "bound s" stop f "world s" r0] assms refines [of f s r0] by simp

lemma first_stop:
  assumes "f (world s) = (r, w)" and "stop r" and "0 < bound s"
  shows "fst (run f r0 s) = r" and "world (snd (run f r0 s)) = w"
proof -
  have "attempt_spec f stop (bound s) r0 (world s) = (r, w)"
    using assms by (cases "bound s") simp_all
  then show "fst (run f r0 s) = r" and "world (snd (run f r0 s)) = w"
    using refines [of f s r0] by simp_all
qed

end

text \<open>
  The two world-only loops share their shape; \<open>attempt_loop\<close> is that shape (one step that
  stops, one step that goes on), and the contract is proved from it once.
\<close>

locale attempt_loop =
  fixes L :: "('w \<Rightarrow> 'r \<times> 'w) \<Rightarrow> 'x \<Rightarrow> nat \<Rightarrow> 'r \<Rightarrow> 'w gost \<Rightarrow> 'r \<times> 'w gost"
    and stop :: "'r \<Rightarrow> bool"
    and start :: "'x \<Rightarrow> bool"
  assumes zero: "L f x 0 cur s = (cur, s)"
    and step_stop: "f (world s) = (r, w) \<Longrightarrow> stop r \<Longrightarrow>
      \<exists>t. L f x (Suc n) cur s = (r, t) \<and> world t = w \<and> same_config s t \<and>
        length (slept t) = length (slept s) + (if start x then 0 else 1)"
    and step_go: "f (world s) = (r, w) \<Longrightarrow> \<not> stop r \<Longrightarrow>
      \<exists>y t. L f x (Suc n) cur s = L f y n r t \<and> \<not> start y \<and> world t = w \<and> same_config s t \<and>
        length (slept t) = length (slept s) + (if start x then 0 else 1)"
begin

lemma loop_refines:
  "attempt_spec f stop n cur (world s) = (fst (L f x n cur s), world (snd (L f x n cur s)))"
proof (induction n arbitrary: x cur s)
  case (Suc n)
  obtain r w where f: "f (world s) = (r, w)" by (cases "f (world s)")
  show ?case
  proof (cases "stop r")
    case True
    with step_stop [of f s r w x n cur, OF f True] f show ?thesis by auto
  next
    case False
    with step_go [of f s r w x n cur, OF f False] obtain y t where
      "L f x (Suc n) cur s = L f y n r t" and "world t = w" by blast
    with Suc.IH [of r t y] f False show ?thesis by simp
  qed
qed (simp add: zero)

lemma loop_config: "same_config s (snd (L f x n cur s))"
proof (induction n arbitrary: x cur s)
  case (Suc n)
  obtain r w where f: "f (world s) = (r, w)" by (cases "f (world s)")
  show ?case
  proof (cases "stop r")
    case True
    with step_stop [of f s r w x n cur, OF f True] show ?thesis by auto
  next
    case False
    with step_go [of f s r w x n cur, OF f False] obtain y t where
      "L f x (Suc n) cur s = L f y n r t" and "same_config s t" by blast
    with Suc.IH [of t y r] show ?thesis by (auto intro: same_config_trans)
  qed
qed (simp add: zero)

lemma loop_sleeps:
  "length (slept (snd (L f x n cur s))) =
     length (slept s) + (attempt_count f stop n (world s) - (if start x then 1 else 0))"
proof (induction n arbitrary: x cur s)
  case (Suc n)
  obtain r w where f: "f (world s) = (r, w)" by (cases "f (world s)")
  show ?case
  proof (cases "stop r")
    case True
    with step_stop [of f s r w x n cur, OF f True] f show ?thesis by auto
  next
    case False
    with step_go [of f s r w x n cur, OF f False] obtain y t where
      "L f x (Suc n) cur s = L f y n r t" and "\<not> start y" and "world t = w" and
      "length (slept t) = length (slept s) + (if start x then 0 else 1)" by blast
    with Suc.IH [of y r t] f False show ?thesis by simp
  qed
qed (simp add: zero)

end

section \<open>The world-only loops satisfy the contract\<close>

lemma retry_loop_Suc_stop:
  assumes "f (world s) = (r, w)" and "retry_stop r"
  shows "retry_loop f i (Suc n) cur s =
    (r, (if i > 0 then sleep_seconds (retryGap s) s else s)\<lparr>world := w\<rparr>)"
  using assms by (cases r) (auto simp: retry_stop_def Let_def split: option.splits goerror.splits)

definition gap_after :: "nat \<Rightarrow> goerror option \<Rightarrow> int \<Rightarrow> int \<Rightarrow> int" where
  "gap_after i err cap g =
     (case err of Some (ModelsError e) \<Rightarrow> if i \<ge> 1 then next_gap cap g else g | _ \<Rightarrow> g)"

lemma retry_loop_Suc_go:
  assumes "f (world s) = (r, w)" and "\<not> retry_stop r"
  shows "retry_loop f i (Suc n) cur s =
    retry_loop f (Suc i) n r
      ((if i > 0 then sleep_seconds (retryGap s) s else s)
         \<lparr>world := w, retryGap := gap_after i (fst r) (maxRetryGap s) (retryGap s)\<rparr>)"
proof -
  obtain err c where r: "r = (Some err, c)"
    using assms(2) by (cases r) (auto simp: retry_stop_def split: option.splits)
  show ?thesis
  proof (cases err)
    case (ModelsError e)
    with r assms(2) have "\<not> skipRetry e" by (simp add: retry_stop_def)
    with r ModelsError assms(1) show ?thesis
      by (cases "i \<ge> 1") (auto simp: Let_def gap_after_def)
  qed (use r assms(1) in \<open>simp_all add: Let_def gap_after_def\<close>)
qed

interpretation retry_shape: attempt_loop retry_loop retry_stop "\<lambda>i. i = 0"
proof unfold_locales
  fix f :: "'a \<Rightarrow> (goerror option \<times> 'c) \<times> 'a" and s :: "'a gost" and r w x n cur
  assume a: "f (world s) = (r, w)" and st: "retry_stop r"
  show "\<exists>t. retry_loop f x (Suc n) cur s = (r, t) \<and> world t = w \<and> same_config s t \<and>
        length (slept t) = length (slept s) + (if x = 0 then 0 else 1)"
    unfolding retry_loop_Suc_stop [where f = f and s = s, OF a st] by (auto simp: same_config_def)
next
  fix f :: "'a \<Rightarrow> (goerror option \<times> 'c) \<times> 'a" and s :: "'a gost" and r w x n cur
  assume a: "f (world s) = (r, w)" and st: "\<not> retry_stop r"
  show "\<exists>y t. retry_loop f x (Suc n) cur s = retry_loop f y n r t \<and> \<not> y = 0 \<and> world t = w \<and>
      same_config s t \<and> length (slept t) = length (slept s) + (if x = 0 then 0 else 1)"
    by (rule exI [of _ "Suc x"], rule exI [of _ "(if x > 0 then sleep_seconds (retryGap s) s else s)
         \<lparr>world := w, retryGap := gap_after x (fst r) (maxRetryGap s) (retryGap s)\<rparr>"])
      (simp add: retry_loop_Suc_go [where f = f and s = s, OF a st] same_config_def del: retry_loop.simps)
qed simp

definition retry_run ::
  "('w \<Rightarrow> (goerror option \<times> 'c) \<times> 'w) \<Rightarrow> goerror option \<times> 'c \<Rightarrow> 'w gost
     \<Rightarrow> (goerror option \<times> 'c) \<times> 'w gost" where
  "retry_run f r0 s = retry_loop f 0 (nat (maxRetryAttempt s)) r0 s"

interpretation retry: retry_contract retry_run retry_stop "\<lambda>s. nat (maxRetryAttempt s)"
  by unfold_locales
    (simp_all add: retry_run_def retry_shape.loop_refines retry_shape.loop_config
      retry_shape.loop_sleeps)

lemma retry_eq_run:
  "retry f c0 s = (Ret (fst (retry_run f (None, c0) s)), snd (retry_run f (None, c0) s))"
  by (simp add: retry_def retry_run_def map_prod_def split: prod.split)

lemma minRetries_loop_Suc_stop:
  assumes "f (world s) = (r, w)" and "retry_stop r"
  shows "minRetries_loop f i (Suc n) g cur s =
    (r, (if i > 0 then sleep_seconds g s else s)\<lparr>world := w\<rparr>)"
  using assms by (cases r) (auto simp: retry_stop_def Let_def split: option.splits goerror.splits)

lemma minRetries_loop_Suc_go:
  assumes "f (world s) = (r, w)" and "\<not> retry_stop r"
  shows "\<exists>g'. minRetries_loop f i (Suc n) g cur s =
    minRetries_loop f (Suc i) n g' r ((if i > 0 then sleep_seconds g s else s)\<lparr>world := w\<rparr>)"
proof -
  obtain err c where r: "r = (Some err, c)"
    using assms(2) by (cases r) (auto simp: retry_stop_def split: option.splits)
  show ?thesis
  proof (cases err)
    case (ModelsError e)
    with r assms(2) have "\<not> skipRetry e" by (simp add: retry_stop_def)
    with r ModelsError assms(1) show ?thesis
      by (cases "i \<ge> 1") (auto simp: Let_def)
  qed (use r assms(1) in \<open>auto simp: Let_def\<close>)
qed

interpretation min_shape: attempt_loop
  "\<lambda>f (i, g) n. minRetries_loop f i n g" retry_stop "\<lambda>(i, g). i = 0"
proof unfold_locales
  fix f :: "'a \<Rightarrow> (goerror option \<times> 'c) \<times> 'a" and s :: "'a gost" and r w and x :: "nat \<times> int" and n cur
  assume a: "f (world s) = (r, w)" and st: "retry_stop r"
  obtain i g where x: "x = (i, g)" by (cases x)
  show "\<exists>t. (case x of (i, g) \<Rightarrow> \<lambda>n. minRetries_loop f i n g) (Suc n) cur s = (r, t) \<and> world t = w \<and>
      same_config s t \<and> length (slept t) = length (slept s) + (if case x of (i, g) \<Rightarrow> i = 0 then 0 else 1)"
    unfolding x prod.case minRetries_loop_Suc_stop [where f = f and s = s, OF a st] by (auto simp: same_config_def)
next
  fix f :: "'a \<Rightarrow> (goerror option \<times> 'c) \<times> 'a" and s :: "'a gost" and r w and x :: "nat \<times> int" and n cur
  assume a: "f (world s) = (r, w)" and st: "\<not> retry_stop r"
  obtain i g where x: "x = (i, g)" by (cases x)
  obtain g' where step: "minRetries_loop f i (Suc n) g cur s =
    minRetries_loop f (Suc i) n g' r ((if i > 0 then sleep_seconds g s else s)\<lparr>world := w\<rparr>)"
    using minRetries_loop_Suc_go [where f = f and s = s, OF a st] by blast
  show "\<exists>y t. (case x of (i, g) \<Rightarrow> \<lambda>n. minRetries_loop f i n g) (Suc n) cur s =
        (case y of (i, g) \<Rightarrow> \<lambda>n. minRetries_loop f i n g) n r t \<and>
      \<not> (case y of (i, g) \<Rightarrow> i = 0) \<and> world t = w \<and> same_config s t \<and>
      length (slept t) = length (slept s) + (if case x of (i, g) \<Rightarrow> i = 0 then 0 else 1)"
    by (rule exI [of _ "(Suc i, g')"],
        rule exI [of _ "(if i > 0 then sleep_seconds g s else s)\<lparr>world := w\<rparr>"])
      (simp add: x step same_config_def del: minRetries_loop.simps)
qed auto

definition minRetries_run ::
  "('w \<Rightarrow> (goerror option \<times> 'c) \<times> 'w) \<Rightarrow> goerror option \<times> 'c \<Rightarrow> 'w gost
     \<Rightarrow> (goerror option \<times> 'c) \<times> 'w gost" where
  "minRetries_run f r0 s = minRetries_loop f 0 (nat minRetryAttempt) 10 r0 s"

interpretation minRetries: retry_contract minRetries_run retry_stop "\<lambda>s. nat minRetryAttempt"
  using min_shape.loop_refines [where x = "(0, 10)"] min_shape.loop_config [where x = "(0, 10)"]
    min_shape.loop_sleeps [where x = "(0, 10)"]
  by unfold_locales (simp_all add: minRetries_run_def)

lemma retryWithMinRetries_eq_run:
  "retryWithMinRetries f c0 s =
     (Ret (fst (minRetries_run f (None, c0) s)), snd (minRetries_run f (None, c0) s))"
  by (simp add: retryWithMinRetries_def minRetries_run_def map_prod_def split: prod.split)

section \<open>The flexible loops\<close>

text \<open>
  A closure of \<open>FlexyRetry\<close> decides itself when to stop and may panic.  What the loop
  keeps of an attempt's outcome is \<open>attempt_out\<close>.
\<close>

fun attempt_out :: "((goerror option \<times> bool) \<times> 'c) outcome \<Rightarrow> (goerror option \<times> 'c) outcome" where
  "attempt_out (Ret ((e, st), c)) = Ret (e, c)"
| "attempt_out (Panic p) = Panic p"

text \<open>State predicates that sleeping and adjusting the gap keep.\<close>

definition gap_blind :: "('w gost \<Rightarrow> bool) \<Rightarrow> bool" where
  "gap_blind I \<longleftrightarrow> (\<forall>t k. I t \<longrightarrow> I (sleep_seconds k t)) \<and> (\<forall>t g. I t \<longrightarrow> I (t\<lparr>retryGap := g\<rparr>))"

lemma gap_blind_config: "gap_blind (same_config s)"
  by (simp add: gap_blind_def same_config_def)

lemma gap_blind_world: "gap_blind (\<lambda>s. P (world s))"
  by (simp add: gap_blind_def)

lemma gap_blind_conj: "gap_blind I \<Longrightarrow> gap_blind J \<Longrightarrow> gap_blind (\<lambda>s. I s \<and> J s)"
  by (simp add: gap_blind_def)

lemma gap_blind_True [simp]: "gap_blind (\<lambda>s. True)"
  by (simp add: gap_blind_def)

locale flexy_contract =
  fixes run :: "('w gost, (goerror option \<times> bool) \<times> 'c) go \<Rightarrow> goerror option \<times> 'c
      \<Rightarrow> ('w gost, goerror option \<times> 'c) go"
    and bound :: nat
  assumes none: "bound = 0 \<Longrightarrow> run f r0 s = (Ret r0, s)"
    and first_stop: "0 < bound \<Longrightarrow> f s = (Ret ((e, True), c), s') \<Longrightarrow> run f r0 s = (Ret (e, c), s')"
    and first_panic: "0 < bound \<Longrightarrow> f s = (Panic p, s') \<Longrightarrow> run f r0 s = (Panic p, s')"
    and attempts: "run f r0 s = (out, s') \<Longrightarrow> I s \<Longrightarrow> gap_blind I \<Longrightarrow>
      (\<And>t a t'. I t \<Longrightarrow> f t = (a, t') \<Longrightarrow> I t' \<and> J a (world t')) \<Longrightarrow>
      I s' \<and> (bound = 0 \<and> out = Ret r0 \<or> (\<exists>a. J a (world s') \<and> out = attempt_out a))"
begin

text \<open>The outcome is that of some attempt, as soon as one is allowed.\<close>

lemma outcome_from_attempt:
  assumes "0 < bound" and "run f r0 s = (out, s')" and "I s" and "gap_blind I"
    and "\<And>t a t'. I t \<Longrightarrow> f t = (a, t') \<Longrightarrow> I t' \<and> J a (world t')"
  obtains a where "J a (world s')" and "out = attempt_out a" and "I s'"
  using attempts [OF assms(2), of I J] assms by blast

lemma keeps:
  assumes "run f r0 s = (out, s')" and "I s" and "gap_blind I"
    and "\<And>t a t'. I t \<Longrightarrow> f t = (a, t') \<Longrightarrow> I t'"
  shows "I s'"
  using attempts [OF assms(1), of I "\<lambda>_ _. True"] assms by blast

lemma keeps_config:
  assumes "preserves same_config f"
  shows "preserves same_config (run f r0)"
proof (rule preservesI)
  fix s out s'
  assume "run f r0 s = (out, s')"
  then show "same_config s s'"
    by (rule keeps [where I = "same_config s"])
      (simp_all add: gap_blind_config, meson assms preservesD same_config_trans)
qed

text \<open>When no attempt panics, neither does the loop.\<close>

lemma no_panic:
  assumes "run f r0 s = (out, s')" and "I s" and "gap_blind I"
    and "\<And>t a t'. I t \<Longrightarrow> f t = (a, t') \<Longrightarrow> I t' \<and> (\<exists>r. a = Ret r)"
  shows "\<exists>r. out = Ret r"
proof -
  have "bound = 0 \<and> out = Ret r0 \<or> (\<exists>a. (\<exists>r. a = Ret r) \<and> out = attempt_out a)"
    using attempts [OF assms(1), of I "\<lambda>a _. \<exists>r. a = Ret r"] assms by blast
  then show ?thesis by (metis attempt_out.simps(1) prod.exhaust)
qed

end

lemma gap_blindD:
  "gap_blind I \<Longrightarrow> I t \<Longrightarrow> I (sleep_seconds k t)" "gap_blind I \<Longrightarrow> I t \<Longrightarrow> I (t\<lparr>retryGap := g\<rparr>)"
  by (simp_all add: gap_blind_def)

lemma flexy_loop_attempts:
  assumes "flexy_loop fr f i n r0 s = (out, s')" and "I s" and blind: "gap_blind I"
    and each: "\<And>t a t'. I t \<Longrightarrow> f t = (a, t') \<Longrightarrow> I t' \<and> J a (world t')"
  shows "I s' \<and> (n = 0 \<and> out = Ret r0 \<or> (\<exists>a. J a (world s') \<and> out = attempt_out a))"
  using assms(1,2)
proof (induction n arbitrary: i r0 s)
  case (Suc n)
  define s1 where "s1 = (if i > 0 then sleep_seconds (retryGap s) s else s)"
  have I1: "I s1" using Suc.prems(2) blind by (simp add: s1_def gap_blindD)
  obtain a s2 where f: "f s1 = (a, s2)" by (cases "f s1")
  with each [OF I1 f] have I2: "I s2" and J2: "J a (world s2)" by blast+
  show ?case
  proof (cases a)
    case (Panic p)
    with f Suc.prems(1) I2 J2 show ?thesis by (auto simp: s1_def Let_def)
  next
    case (Ret x)
    obtain e st c where x: "x = ((e, st), c)" by (metis prod.exhaust)
    show ?thesis
    proof (cases st)
      case True
      with f Ret x Suc.prems(1) I2 J2 show ?thesis by (auto simp: s1_def [symmetric] Let_def)
    next
      case False
      define s3 where "s3 = (if i \<ge> 1 then s2\<lparr>retryGap := next_gap (fr_maxRetryGap fr) (retryGap s2)\<rparr> else s2)"
      from False f Ret x Suc.prems(1) have run: "flexy_loop fr f (Suc i) n (e, c) s3 = (out, s')"
        by (simp add: s1_def [symmetric] s3_def Let_def)
      have "I s3" using I2 blind by (simp add: s3_def gap_blindD)
      from Suc.IH [OF run this] show ?thesis
      proof (elim conjE disjE)
        assume "I s'" and "n = 0" and "out = Ret (e, c)"
        with run have "world s' = world s2" by (auto simp: s3_def)
        with J2 Ret x False \<open>out = _\<close> \<open>I s'\<close> show ?thesis by (metis attempt_out.simps(1))
      qed blast
    qed
  qed
qed simp

lemma constGap_loop_attempts:
  assumes "constGap_loop f i n r0 s = (out, s')" and "I s" and blind: "gap_blind I"
    and each: "\<And>t a t'. I t \<Longrightarrow> f t = (a, t') \<Longrightarrow> I t' \<and> J a (world t')"
  shows "I s' \<and> (n = 0 \<and> out = Ret r0 \<or> (\<exists>a. J a (world s') \<and> out = attempt_out a))"
  using assms(1,2)
proof (induction n arbitrary: i r0 s)
  case (Suc n)
  define s1 where "s1 = (if i > 0 then sleep_seconds ConstantRetryGap s else s)"
  have I1: "I s1" using Suc.prems(2) blind by (simp add: s1_def gap_blindD)
  obtain a s2 where f: "f s1 = (a, s2)" by (cases "f s1")
  with each [OF I1 f] have I2: "I s2" and J2: "J a (world s2)" by blast+
  show ?case
  proof (cases a)
    case (Panic p)
    with f Suc.prems(1) I2 J2 show ?thesis by (auto simp: s1_def Let_def)
  next
    case (Ret x)
    obtain e st c where x: "x = ((e, st), c)" by (metis prod.exhaust)
    show ?thesis
    proof (cases st)
      case True
      with f Ret x Suc.prems(1) I2 J2 show ?thesis by (auto simp: s1_def [symmetric] Let_def)
    next
      case False
      with f Ret x Suc.prems(1) have run: "constGap_loop f (Suc i) n (e, c) s2 = (out, s')"
        by (simp add: s1_def [symmetric] Let_def)
      from Suc.IH [OF run I2] show ?thesis
      proof (elim conjE disjE)
        assume "I s'" and "n = 0" and "out = Ret (e, c)"
        with run have "world s' = world s2" by auto
        with J2 Ret x False \<open>out = _\<close> \<open>I s'\<close> show ?thesis by (metis attempt_out.simps(1))
      qed blast
    qed
  qed
qed simp

definition flexy_run ::
  "FlexyRetry \<Rightarrow> ('w gost, (goerror option \<times> bool) \<times> 'c) go \<Rightarrow> goerror option \<times> 'c
     \<Rightarrow> ('w gost, goerror option \<times> 'c) go" where
  "flexy_run fr f = flexy_loop fr f 0 (nat (fr_maxRetryAttempt fr))"

lemma FlexyRetry_eq_run: "FlexyRetry fr f c0 = flexy_run fr f (None, c0)"
  by (simp add: FlexyRetry_def flexy_run_def)

interpretation flexy: flexy_contract "flexy_run fr" "nat (fr_maxRetryAttempt fr)" for fr
proof unfold_locales
  fix f :: "('a gost, (goerror option \<times> bool) \<times> 'b) go" and e c s s' r0 p
  assume n: "0 < nat (fr_maxRetryAttempt fr)"
  then obtain m where m: "nat (fr_maxRetryAttempt fr) = Suc m" by (metis gr0_implies_Suc)
  show "f s = (Ret ((e, True), c), s') \<Longrightarrow> flexy_run fr f r0 s = (Ret (e, c), s')"
    by (simp add: flexy_run_def m Let_def)
  show "f s = (Panic p, s') \<Longrightarrow> flexy_run fr f r0 s = (Panic p, s')"
    by (simp add: flexy_run_def m Let_def)
next
  fix f :: "('a gost, (goerror option \<times> bool) \<times> 'b) go" and r0 s out s' I J
  assume "flexy_run fr f r0 s = (out, s')" and "I s" and "gap_blind I"
    and "\<And>t a t'. I t \<Longrightarrow> f t = (a, t') \<Longrightarrow> I t' \<and> J a (world t')"
  then show "I s' \<and> (nat (fr_maxRetryAttempt fr) = 0 \<and> out = Ret r0 \<or>
      (\<exists>a. J a (world s') \<and> out = attempt_out a))"
    unfolding flexy_run_def by (rule flexy_loop_attempts)
qed (simp add: flexy_run_def)

definition constGap_run ::
  "FlexyRetry \<Rightarrow> ('w gost, (goerror option \<times> bool) \<times> 'c) go \<Rightarrow> goerror option \<times> 'c
     \<Rightarrow> ('w gost, goerror option \<times> 'c) go" where
  "constGap_run fr f = constGap_loop f 0 (nat (totalAttempt fr))"

lemma FlexyRetryWithConstGap_eq_run:
  "FlexyRetryWithConstGap fr f c0 = constGap_run fr f (None, c0)"
  by (simp add: FlexyRetryWithConstGap_def constGap_run_def)

interpretation constGap: flexy_contract "constGap_run fr" "nat (totalAttempt fr)" for fr
proof unfold_locales
  fix f :: "('a gost, (goerror option \<times> bool) \<times> 'b) go" and e c s s' r0 p
  assume n: "0 < nat (totalAttempt fr)"
  then obtain m where m: "nat (totalAttempt fr) = Suc m" by (metis gr0_implies_Suc)
  show "f s = (Ret ((e, True), c), s') \<Longrightarrow> constGap_run fr f r0 s = (Ret (e, c), s')"
    by (simp add: constGap_run_def m Let_def)
  show "f s = (Panic p, s') \<Longrightarrow> constGap_run fr f r0 s = (Panic p, s')"
    by (simp add: constGap_run_def m Let_def)
next
  fix f :: "('a gost, (goerror option \<times> bool) \<times> 'b) go" and r0 s out s' I J
  assume "constGap_run fr f r0 s = (out, s')" and "I s" and "gap_blind I"
    and "\<And>t a t'. I t \<Longrightarrow> f t = (a, t') \<Longrightarrow> I t' \<and> J a (world t')"
  then show "I s' \<and> (nat (totalAttempt fr) = 0 \<and> out = Ret r0 \<or>
      (\<exists>a. J a (world s') \<and> out = attempt_out a))"
    unfolding constGap_run_def by (rule constGap_loop_attempts)
qed (simp add: constGap_run_def)

section \<open>The gap\<close>

text \<open>
  \<open>gap_ok M s\<close>: the shared gap is positive and at most \<open>M\<close>.  With \<open>M\<close> at least the
  configured maximum, every loop keeps it, and no doubling overflows.
\<close>

definition gap_ok :: "int \<Rightarrow> 'w gost \<Rightarrow> bool" where
  "gap_ok M s \<longleftrightarrow> 0 < retryGap s \<and> retryGap s \<le> M"

lemma next_gap_bounds:
  assumes "0 < g" and "g \<le> M" and "0 < cap" and "cap \<le> M" and "M \<le> 2 ^ 61"
  shows "0 < next_gap cap g" and "next_gap cap g \<le> M" and "g \<le> cap \<Longrightarrow> g \<le> next_gap cap g"
proof -
  have "wrap64 (2 * g) = 2 * g" using assms by (intro wrap64_id) (simp add: in_int64_def)
  then show "0 < next_gap cap g" and "next_gap cap g \<le> M" and "g \<le> cap \<Longrightarrow> g \<le> next_gap cap g"
    using assms by (simp_all add: next_gap_def Let_def)
qed

lemma gap_after_bounds:
  assumes "0 < g" and "g \<le> M" and "0 < cap" and "cap \<le> M" and "M \<le> 2 ^ 61"
  shows "0 < gap_after i e cap g" and "gap_after i e cap g \<le> M"
    and "g \<le> cap \<Longrightarrow> g \<le> gap_after i e cap g \<and> gap_after i e cap g \<le> cap"
  using next_gap_bounds [OF assms] next_gap_bounds [of g cap cap] assms
  by (auto simp: gap_after_def split: option.split goerror.split)

lemma retry_loop_gap:
  assumes "0 < retryGap s" and "retryGap s \<le> M" and "0 < maxRetryGap s" and "maxRetryGap s \<le> M"
    and "M \<le> 2 ^ 61"
  shows "gap_ok M (snd (retry_loop f i n cur s))"
  using assms(1-4)
proof (induction n arbitrary: i cur s)
  case (Suc n)
  obtain r w where f: "f (world s) = (r, w)" by (cases "f (world s)")
  show ?case
  proof (cases "retry_stop r")
    case True
    show ?thesis unfolding retry_loop_Suc_stop [where f = f and s = s, OF f True]
      using Suc.prems by (simp add: gap_ok_def)
  next
    case False
    show ?thesis unfolding retry_loop_Suc_go [where f = f and s = s, OF f False]
      by (rule Suc.IH) (use Suc.prems gap_after_bounds [OF _ _ _ _ assms(5)] in auto)
  qed
qed (simp add: gap_ok_def)

text \<open>The shared gap never shrinks in a call: a later operation starts with the gap an
  earlier one left.\<close>

lemma retry_loop_gap_mono:
  assumes "0 < retryGap s" and "retryGap s \<le> maxRetryGap s" and "maxRetryGap s \<le> 2 ^ 61"
  shows "retryGap s \<le> retryGap (snd (retry_loop f i n cur s))"
  using assms
proof (induction n arbitrary: i cur s)
  case (Suc n)
  obtain r w where f: "f (world s) = (r, w)" by (cases "f (world s)")
  show ?case
  proof (cases "retry_stop r")
    case True
    show ?thesis unfolding retry_loop_Suc_stop [where f = f and s = s, OF f True] by simp
  next
    case False
    let ?g = "gap_after i (fst r) (maxRetryGap s) (retryGap s)"
    let ?t = "(if i > 0 then sleep_seconds (retryGap s) s else s)\<lparr>world := w, retryGap := ?g\<rparr>"
    have g: "retryGap s \<le> ?g" "?g \<le> maxRetryGap s" "0 < ?g"
      using gap_after_bounds [of "retryGap s" "maxRetryGap s" "maxRetryGap s" i "fst r"] Suc.prems
      by auto
    with Suc.prems have "retryGap ?t \<le> retryGap (snd (retry_loop f (Suc i) n r ?t))"
      by (intro Suc.IH) auto
    with g show ?thesis unfolding retry_loop_Suc_go [where f = f and s = s, OF f False] by simp
  qed
qed simp

section \<open>The skip decision\<close>

lemma skipRetry_items_unlisted:
  "list_all (\<lambda>it. skipErrorCodes (ei_Code it) = None) its \<Longrightarrow> \<not> skipRetry_items its"
  by (induction its) auto

lemma skipRetry_items_first:
  "list_all (\<lambda>it. skipErrorCodes (ei_Code it) = None) pre \<Longrightarrow> skipErrorCodes (ei_Code it) = Some st \<Longrightarrow>
     skipRetry_items (pre @ it # post) = st"
  by (induction pre) auto

lemma skipErrorCodes_listed:
  "skipErrorCodes SharesNotFound = Some True"
  "skipErrorCodes SnapshotNotFound = Some True"
  "skipErrorCodes ''shares_target_not_found'' = Some True"
  "skipErrorCodes ''internal_error'' = Some False"
  "skipErrorCodes ''service_error'' = Some False"
  "skipErrorCodes ''shares_status_pending'' = Some False"
  by (simp_all add: skipErrorCodes_def skipErrorCodes_entries_def SharesNotFound_def
      SnapshotNotFound_def)

section \<open>Rules for the operations\<close>

lemma retry_first_stop:
  assumes "f (world s) = (r, w)" and "retry_stop r" and "0 < maxRetryAttempt s"
  shows "retry f c0 s = (Ret r, s\<lparr>world := w\<rparr>)"
proof -
  obtain n where n: "nat (maxRetryAttempt s) = Suc n"
    using assms(3) by (metis gr0_implies_Suc zero_less_nat_eq)
  show ?thesis
    unfolding retry_def n retry_loop_Suc_stop [where f = f and s = s, OF assms(1,2)] by simp
qed

lemma retry_stop_success [simp]: "retry_stop (None, c)"
  by (simp add: retry_stop_def)

lemma retry_returns: "retry f c0 s = (out, s') \<Longrightarrow> \<exists>r. out = Ret r"
  by (auto simp: retry_eq_run)

lemma retry_no_attempt: "maxRetryAttempt s \<le> 0 \<Longrightarrow> retry f c0 s = (Ret (None, c0), s)"
  by (simp add: retry_def)

lemma retry_answer:
  assumes "retry f c0 s = (Ret r, s')" and "0 < maxRetryAttempt s" and "I (world s)"
    and "\<And>v a v'. I v \<Longrightarrow> f v = (a, v') \<Longrightarrow> I v' \<and> Q a v'"
  shows "Q r (world s')"
  using retry.answer_invariant [of s I f Q "(None, c0)"] assms by (auto simp: retry_eq_run)

lemma retry_from_call:
  assumes "retry f c0 s = (Ret r, s')" and "0 < maxRetryAttempt s"
  shows "\<exists>v v'. f v = (r, v')"
  using retry.answer_from_call [of s f "(None, c0)"] assms by (auto simp: retry_eq_run)

lemma retry_last_call:
  assumes "retry f c0 s = (Ret r, s')" and "0 < maxRetryAttempt s"
  shows "\<exists>w. f w = (r, world s')"
  using retry_answer [OF assms, where I = "\<lambda>_. True" and Q = "\<lambda>r v. \<exists>w. f w = (r, v)"] by auto

lemma retry_cases:
  obtains err a s' where "retry f c0 s = (Ret (err, a), s')"
  using retry_returns [of f c0 s] by (metis prod.exhaust)

lemma retry_world_invariant:
  assumes "retry f c0 s = (out, s')" and "I (world s)"
    and "\<And>v a v'. I v \<Longrightarrow> f v = (a, v') \<Longrightarrow> I v'"
  shows "I (world s')"
  using retry.world_invariant [of I s f "(None, c0)"] assms by (auto simp: retry_eq_run)

section \<open>What the state keeps\<close>

lemma preserves_retry [pres_rules]: "preserves same_config (retry f c0)"
  by (rule preservesI) (auto simp: retry_eq_run retry.config)

lemma retry_config: "retry f c0 s = (out, s') \<Longrightarrow> same_config s s'"
  by (rule preservesD [OF preserves_retry])

lemma preserves_retryWithMinRetries [pres_rules]: "preserves same_config (retryWithMinRetries f c0)"
  by (rule preservesI) (auto simp: retryWithMinRetries_eq_run minRetries.config)

lemma preserves_FlexyRetry [pres_rules]:
  "preserves same_config f \<Longrightarrow> preserves same_config (FlexyRetry fr f c0)"
  by (simp add: FlexyRetry_eq_run flexy.keeps_config)

lemma preserves_FlexyRetryWithConstGap [pres_rules]:
  "preserves same_config f \<Longrightarrow> preserves same_config (FlexyRetryWithConstGap fr f c0)"
  by (simp add: FlexyRetryWithConstGap_eq_run constGap.keeps_config)

lemma preserves_call_api [pres_rules]: "preserves same_config (call_api m)"
  by (rule preservesI) (auto simp: call_api_def split: prod.splits)

lemma call_api_run [go_eval]: "m (world s) = (r, w) \<Longrightarrow> call_api m s = (Ret r, s\<lparr>world := w\<rparr>)"
  by (simp add: call_api_def)

end
