(* ===== verification/VpcApi.thy ===== *)
theory VpcApi
  imports RetryLaws
begin

text \<open>
  The interfaces between the provider and the API client: \<^verbatim>\<open>FileShareManager\<close>
  (\<^verbatim>\<open>file_share_service.go\<close>), \<^verbatim>\<open>SnapshotManager\<close> (\<^verbatim>\<open>snapshot_service.go\<close>), \<^verbatim>\<open>RegionalAPI\<close>
  (\<^verbatim>\<open>riaas.go\<close>) and the session that holds them (\<^verbatim>\<open>session.go\<close>).  A Go interface value is a
  record of functions; a call of a method changes the world \<open>'w\<close> behind the client.  The
  locale \<open>fallible_call\<close> is the contract the provider relies on wherever it dereferences
  a result after checking the error.
\<close>

type_synonym ('w, 'r) api = "'w \<Rightarrow> 'r \<times> 'w"

type_synonym 'a result = "'a option \<times> goerror option"

text \<open>The part of \<^verbatim>\<open>*http.Response\<close> the provider sees.\<close>

record HttpResponse =
  resp_StatusCode :: int
  resp_Status :: string
  resp_Header :: "string \<Rightarrow> string list option"
  resp_Body :: string

record 'w FileShareManager =
  fs_GetShareProfile :: "string \<Rightarrow> ('w, ProfileDetails result) api"
  fs_CreateFileShare :: "Share \<Rightarrow> ('w, Share result) api"
  fs_UpdateVolume :: "UpdatePVC \<Rightarrow> ('w, goerror option) api"
  fs_ListFileShares :: "int \<Rightarrow> string \<Rightarrow> ListShareFilters option \<Rightarrow> ('w, ShareList result) api"
  fs_GetFileShare :: "string \<Rightarrow> ('w, Share result) api"
  fs_GetFileShareByName :: "string \<Rightarrow> ('w, Share result) api"
  fs_GetFileShareEtag :: "string \<Rightarrow> ('w, Share option \<times> string \<times> goerror option) api"
  fs_UpdateFileShareWithEtag :: "string \<Rightarrow> string \<Rightarrow> Share \<Rightarrow> ('w, goerror option) api"
  fs_DeleteFileShare :: "string \<Rightarrow> ('w, goerror option) api"
  fs_CreateFileShareTarget :: "ShareTarget \<Rightarrow> ('w, ShareTarget result) api"
  fs_ListFileShareTargets ::
    "string \<Rightarrow> ListShareTargetFilters option \<Rightarrow> ('w, ShareTargetList result) api"
  fs_GetFileShareTarget :: "string \<Rightarrow> string \<Rightarrow> ('w, ShareTarget result) api"
  fs_GetFileShareTargetByName :: "string \<Rightarrow> string \<Rightarrow> ('w, ShareTarget result) api"
  fs_DeleteFileShareTarget :: "ShareTarget \<Rightarrow> ('w, HttpResponse result) api"
  fs_ExpandVolume :: "string \<Rightarrow> Share \<Rightarrow> ('w, Share result) api"
  fs_ListSubnets :: "int \<Rightarrow> string \<Rightarrow> ListSubnetFilters option \<Rightarrow> ('w, SubnetList result) api"
  fs_ListSecurityGroups ::
    "int \<Rightarrow> string \<Rightarrow> ListSecurityGroupFilters option \<Rightarrow> ('w, SecurityGroupList result) api"

record 'w SnapshotManager =
  ss_CreateSnapshot :: "string \<Rightarrow> Snapshot \<Rightarrow> ('w, Snapshot result) api"
  ss_DeleteSnapshot :: "string \<Rightarrow> string \<Rightarrow> ('w, goerror option) api"
  ss_GetSnapshot :: "string \<Rightarrow> string \<Rightarrow> ('w, Snapshot result) api"
  ss_GetSnapshotByName :: "string \<Rightarrow> string \<Rightarrow> ('w, Snapshot result) api"
  ss_ListSnapshots ::
    "string \<Rightarrow> int \<Rightarrow> string \<Rightarrow> LisSnapshotFilters option \<Rightarrow> ('w, SnapshotList result) api"

record 'w RegionalAPI =
  api_FileShareService :: "'w FileShareManager"
  api_SnapshotService :: "'w SnapshotManager"

section \<open>Sessions\<close>

datatype AuthType = IAMAccessToken | IMSToken | OtherAuth string

record ContextCredentials =
  cc_AuthType :: AuthType
  cc_Credential :: string
  cc_IAMAccountID :: string
  cc_UserID :: string

definition VPC_provider_name :: string where "VPC_provider_name = ''VPC-SHARE''"
definition VolumeType_name :: string where "VolumeType_name = ''vpc-share''"

text \<open>
  \<open>VPCSession\<close>, as \<^verbatim>\<open>OpenSession\<close> builds it: the API client is there.  (The empty session
  that the dual IKS provider makes when its own client cannot be opened is modelled where
  it is made.)
\<close>

record 'w VPCSession =
  vs_VPCAccountID :: string
  vs_ContextCredentials :: ContextCredentials
  vs_VolumeType :: string
  vs_Provider :: string
  vs_Apiclient :: "'w RegionalAPI"
  vs_APIRetry :: FlexyRetry

definition GetProviderDisplayName :: "'w VPCSession \<Rightarrow> string" where
  "GetProviderDisplayName vpcs = VPC_provider_name"

definition ProviderName :: "'w VPCSession \<Rightarrow> string" where
  "ProviderName vpcs = VPC_provider_name"

definition SessionType :: "'w VPCSession \<Rightarrow> string" where
  "SessionType vpcs = VolumeType_name"

abbreviation FileShareService :: "'w VPCSession \<Rightarrow> 'w FileShareManager" where
  "FileShareService vpcs \<equiv> api_FileShareService (vs_Apiclient vpcs)"

abbreviation SnapshotService :: "'w VPCSession \<Rightarrow> 'w SnapshotManager" where
  "SnapshotService vpcs \<equiv> api_SnapshotService (vs_Apiclient vpcs)"

text \<open>
  The closures handed to \<open>retry\<close> in the shape of the source: assign the result to the
  captured variable, return the error.
\<close>

definition capture :: "('w, 'a result) api \<Rightarrow> 'w \<Rightarrow> (goerror option \<times> 'a option) \<times> 'w" where
  "capture m w = (case m w of ((a, e), w') \<Rightarrow> ((e, a), w'))"

definition only_error :: "('w, goerror option) api \<Rightarrow> 'w \<Rightarrow> (goerror option \<times> unit) \<times> 'w" where
  "only_error m w = (case m w of (e, w') \<Rightarrow> ((e, ()), w'))"

lemma capture_run: "m w = ((a, e), w') \<Longrightarrow> capture m w = ((e, a), w')"
  by (simp add: capture_def)

lemma captureD: "capture m w = ((e, a), w') \<Longrightarrow> m w = ((a, e), w')"
  by (auto simp: capture_def split: prod.splits)

lemma only_errorD: "only_error m w = ((e, u), w') \<Longrightarrow> m w = (e, w')"
  by (auto simp: only_error_def split: prod.splits)

text \<open>\<^verbatim>\<open>userError.GetUserError\<close> called from an operation: it reads the package's catalogue.\<close>

definition user_error ::
  "ext \<Rightarrow> string \<Rightarrow> goerror option \<Rightarrow> fmt_arg list \<Rightarrow> ('w gost, goerror) go" where
  "user_error X code err args = gbind gget (\<lambda>s. gret (GetUserError X (MessagesEn s) code err args))"

lemma user_error_run [go_eval]:
  "user_error X code err args s = (Ret (GetUserError X (MessagesEn s) code err args), s)"
  by (simp add: user_error_def gbind_def gget_def gret_def)

lemma preserves_user_error [pres_rules]: "preserves same_config (user_error X code err args)"
  by (rule preservesI) (simp add: user_error_run)

text \<open>A retried call that ends with a result got it from the API, in the final world.\<close>

lemma retry_capture_Some:
  assumes "retry (capture m) None s = (Ret (e, Some a), s')"
  shows "0 < maxRetryAttempt s" and "\<exists>w. m w = ((Some a, e), world s')"
proof -
  show pos: "0 < maxRetryAttempt s"
  proof (rule ccontr)
    assume "\<not> 0 < maxRetryAttempt s"
    then have "retry (capture m) None s = (Ret (None, None), s)" by (intro retry_no_attempt) simp
    with assms show False by simp
  qed
  show "\<exists>w. m w = ((Some a, e), world s')"
    using retry_last_call [OF assms pos] by (blast dest: captureD)
qed

section \<open>The contract of a fallible call\<close>

text \<open>
  A call that answers with a result exactly when it reports no error.  The provider
  dereferences the results of such calls after a check of the error only.
\<close>

locale fallible_call =
  fixes call :: "('w, 'a result) api"
  assumes result_or_error: "call w = ((a, e), w') \<Longrightarrow> (a = None \<longleftrightarrow> e \<noteq> None)"
begin

text \<open>After at least one attempt the retried call has a result unless it has an error.\<close>

lemma retried_result:
  assumes "retry (capture call) None s = (Ret (e, a), s')" and "0 < maxRetryAttempt s"
  shows "a = None \<longleftrightarrow> e \<noteq> None"
proof -
  from assms(1) have ans: "(e, a) = fst (retry_run (capture call) (None, None) s)"
    by (simp add: retry_eq_run)
  then obtain v v' where "capture call v = ((e, a), v')"
    using retry_from_call [OF assms] by blast
  then show ?thesis by (blast dest: captureD result_or_error)
qed

lemma retried_success:
  assumes "retry (capture call) None s = (Ret (None, a), s')" and "0 < maxRetryAttempt s"
  obtains x where "a = Some x"
  using retried_result [OF assms] by auto

text \<open>A first call that succeeds is the answer, without a sleep.\<close>

lemma first_success:
  assumes "call (world s) = ((a, None), w)" and "0 < maxRetryAttempt s"
  shows "retry (capture call) None s = (Ret (None, a), s\<lparr>world := w\<rparr>)"
  by (rule retry_first_stop) (use assms in \<open>simp_all add: capture_run\<close>)

end

end
