(* ===== verification/Convert.thy ===== *)
theory Convert
  imports VpcApi
begin

text \<open>
  The conversions of \<^verbatim>\<open>file/provider/util.go\<close> between the client's models and the
  interface library's types, and its numeric helpers.
\<close>

definition GiB :: int where "GiB = 1024 * 1024 * 1024"
definition StatusStable :: string where "StatusStable = ''stable''"
definition StatusDeleting :: string where "StatusDeleting = ''deleting''"
definition StatusDeleted :: string where "StatusDeleted = ''deleted''"
definition snapshotReadyState :: string where "snapshotReadyState = ''stable''"

section \<open>Numbers\<close>

definition ToInt :: "string \<Rightarrow> int" where
  "ToInt valueInInt = (case Atoi valueInInt of (v, None) \<Rightarrow> v | (v, Some _) \<Rightarrow> 0)"

definition ToInt64 :: "string \<Rightarrow> int" where
  "ToInt64 valueInInt = (case ParseInt valueInInt of (v, None) \<Rightarrow> v | (v, Some _) \<Rightarrow> 0)"

definition roundUpSize :: "int \<Rightarrow> int \<Rightarrow> int" where
  "roundUpSize volumeSizeBytes allocationUnitBytes =
     wrap64 (go_div (wrap64 (wrap64 (volumeSizeBytes + allocationUnitBytes) - 1)) allocationUnitBytes)"

definition GiBToBytes :: "int \<Rightarrow> int" where
  "GiBToBytes volumeSizeGiB = wrap64 (volumeSizeGiB * GiB)"

definition IsValidVolumeIDFormat :: "string \<Rightarrow> bool" where
  "IsValidVolumeIDFormat volID = (length (Split volID ''-'') \<ge> volumeIDPartsCount)"

section \<open>Shares, targets, profiles, snapshots\<close>

definition FromProviderToLibVolumeAccessPoint :: "ShareTarget option \<Rightarrow> VolumeAccessPoint" where
  "FromProviderToLibVolumeAccessPoint vpcShareTarget =
     (case vpcShareTarget of
        None \<Rightarrow> zeroVolumeAccessPoint
      | Some t \<Rightarrow>
          \<lparr>vap_ID = st_ID t,
           vap_Href = st_Href t,
           vap_Name = st_Name t,
           vap_Status = st_Status t,
           vap_MountPath = Some (st_MountPath t),
           vap_VPC = st_VPC t,
           vap_CreatedAt = st_CreatedAt t,
           vap_Zone = map_option (\<lambda>z. \<lparr>lzn_Name = zn_Name z, lzn_Href = zn_Href z\<rparr>) (st_Zone t)\<rparr>)"

definition FromProviderToLibVolume :: "Share option \<Rightarrow> Volume option" where
  "FromProviderToLibVolume vpcVolume =
     (case vpcVolume of
        None \<Rightarrow> None
      | Some v \<Rightarrow>
          let libVolume = zeroVolume
                \<lparr>vol_VolumeID := sh_ID v,
                 vol_Provider := VPC_provider_name,
                 vol_Capacity := Some (sh_Size v),
                 vol_Iops := Some (Itoa (sh_Iops v)),
                 vol_Href := sh_Href v,
                 vol_Profile := map_option (\<lambda>p. zeroLibProfile\<lparr>lpr_Name := pr_Name p\<rparr>) (sh_Profile v),
                 vol_Bandwidth := sh_Bandwidth v,
                 vol_VolumeType := VolumeType_name,
                 vol_CreationTime := (case sh_CreatedAt v of None \<Rightarrow> ZeroTime | Some t \<Rightarrow> t)\<rparr>;
              libVolume = (case sh_SourceSnapshot v of
                 None \<Rightarrow> libVolume | Some sn \<Rightarrow> libVolume\<lparr>vol_SnapshotID := sn_ID sn\<rparr>);
              libVolume = (case sh_Zone v of
                 None \<Rightarrow> libVolume | Some z \<Rightarrow> libVolume\<lparr>vol_Az := zn_Name z\<rparr>);
              libVolume = libVolume\<lparr>vol_CRN := sh_CRN v\<rparr>
          in case sh_ShareTargets v of
               None \<Rightarrow> Some (libVolume\<lparr>vol_VolumeAccessPoints := Some []\<rparr>)
             | Some ts \<Rightarrow> Some (libVolume\<lparr>vol_VolumeAccessPoints :=
                 Some (map (\<lambda>t. FromProviderToLibVolumeAccessPoint (Some t)) ts)\<rparr>))"

definition FromLibToProviderProfile :: "ProfileDetails option \<Rightarrow> LibProfile option" where
  "FromLibToProviderProfile vpcProfile =
     (case vpcProfile of
        None \<Rightarrow> None
      | Some p \<Rightarrow> Some
          \<lparr>lpr_Name = pr_Name p, lpr_Href = pr_Href p, lpr_Capacity = pd_Capacity p,
           lpr_Family = pd_Family p, lpr_Iops = pd_Iops p, lpr_ResourceType = pd_ResourceType p\<rparr>)"

definition FromProviderToLibSnapshot :: "string \<Rightarrow> Snapshot option \<Rightarrow> LibSnapshot option" where
  "FromProviderToLibSnapshot sourceVolumeID vpcSnapshot =
     (case vpcSnapshot of
        None \<Rightarrow> None
      | Some s \<Rightarrow> Some
          \<lparr>lsn_VolumeID = sourceVolumeID,
           lsn_SnapshotID = sn_ID s,
           lsn_SnapshotCRN = sn_CRN s,
           lsn_SnapshotCreationTime = (case sn_CreatedAt s of None \<Rightarrow> ZeroTime | Some t \<Rightarrow> t),
           lsn_SnapshotSize = GiBToBytes (sn_MinimumSize s),
           lsn_VPC = \<lparr>lvpc_ID = [], lvpc_Href = sn_Href s\<rparr>,
           lsn_ReadyToUse = (sn_LifecycleState s = snapshotReadyState)\<rparr>)"

section \<open>Lemmas\<close>

lemma GiB_pos: "0 < GiB"
  by (simp add: GiB_def)

lemma ToInt64_Itoa: "in_int64 i \<Longrightarrow> ToInt64 (Itoa i) = i"
  by (simp add: ToInt64_def ParseInt_Itoa)

lemma IsValidVolumeIDFormat_iff: "IsValidVolumeIDFormat v \<longleftrightarrow> 4 \<le> count_list v CHR ''-''"
  by (auto simp: IsValidVolumeIDFormat_def Split_char_length volumeIDPartsCount_def)

text \<open>Without overflow, \<open>roundUpSize\<close> is division rounded up.\<close>

lemma roundUpSize_ceiling:
  assumes "0 \<le> v" and "0 < u" and "v + u \<le> max_int64"
  shows "roundUpSize v u = (v + u - 1) div u"
proof -
  have a: "wrap64 (v + u) = v + u" and b: "wrap64 (v + u - 1) = v + u - 1"
    using assms by (auto intro: wrap64_id simp: in_int64_def)
  have "0 \<le> (v + u - 1) div u" and "(v + u - 1) div u \<le> v + u - 1"
    using assms zdiv_mono2 [of "v + u - 1" 1 u] by (simp_all add: pos_imp_zdiv_nonneg_iff)
  then have "in_int64 ((v + u - 1) div u)" using assms by (simp add: in_int64_def)
  with assms show ?thesis
    by (simp add: roundUpSize_def a b go_div_nonneg wrap64_id)
qed

lemma roundUpSize_bounds:
  assumes "0 \<le> v" and "0 < u" and "v + u \<le> max_int64"
  shows "v \<le> roundUpSize v u * u" and "roundUpSize v u * u < v + u"
  using ceil_div_bounds [OF assms(2), of v] by (simp_all add: roundUpSize_ceiling [OF assms])

lemma FromProviderToLibVolume_None [simp]: "FromProviderToLibVolume None = None"
  by (simp add: FromProviderToLibVolume_def)

lemma FromProviderToLibSnapshot_None [simp]: "FromProviderToLibSnapshot v None = None"
  by (simp add: FromProviderToLibSnapshot_def)

lemma FromProviderToLibVolume_Some:
  "\<exists>lv. FromProviderToLibVolume (Some v) = Some lv \<and> vol_VolumeID lv = sh_ID v \<and>
     vol_Capacity lv = Some (sh_Size v) \<and> vol_Iops lv = Some (Itoa (sh_Iops v)) \<and>
     vol_CRN lv = sh_CRN v \<and> vol_Href lv = sh_Href v \<and>
     vol_VolumeAccessPoints lv =
       Some (map (\<lambda>t. FromProviderToLibVolumeAccessPoint (Some t))
         (case sh_ShareTargets v of None \<Rightarrow> [] | Some ts \<Rightarrow> ts))"
  by (simp add: FromProviderToLibVolume_def Let_def zeroVolume_def split: option.split)

end
