(* ===== verification/Volumes.thy ===== *)
theory Volumes
  imports Convert
begin

text \<open>
  The volume operations of \<^verbatim>\<open>VPCSession\<close>: \<^verbatim>\<open>create_volume.go\<close>, \<^verbatim>\<open>delete_volume.go\<close>,
  \<^verbatim>\<open>get_volume.go\<close>, \<^verbatim>\<open>list_volumes.go\<close>, \<^verbatim>\<open>update_volume.go\<close>, \<^verbatim>\<open>expand_volume.go\<close>,
  \<^verbatim>\<open>wait_for_valid_volume_state.go\<close> and \<^verbatim>\<open>get_volume_profile.go\<close> of \<^verbatim>\<open>file/provider\<close>.
  Each operation is a \<open>go\<close> computation on the package state; \<open>X\<close> holds the texts that come
  from the interface library, \<open>vpcs\<close> is the session.
\<close>

definition minSize :: int where "minSize = 10"
definition RFSProfile :: string where "RFSProfile = ''rfs''"
definition maxLimit :: int where "maxLimit = 100"
definition startVolumeIDNotFoundMsg :: string where
  "startVolumeIDNotFoundMsg = ''start parameter is not valid''"

section \<open>Waiting for a stable share\<close>

text \<open>One attempt: the share must be there and stable.\<close>

definition validState_attempt ::
  "ext \<Rightarrow> catalogue \<Rightarrow> 'w VPCSession \<Rightarrow> string \<Rightarrow> 'w \<Rightarrow> (goerror option \<times> Share option) \<times> 'w" where
  "validState_attempt X en vpcs volumeID w =
     (case fs_GetFileShare (FileShareService vpcs) volumeID w of
        ((volume, Some e), w') \<Rightarrow> ((Some e, volume), w')
      | ((volume, None), w') \<Rightarrow>
          ((if (case volume of None \<Rightarrow> False | Some v \<Rightarrow> sh_Status v = StatusStable) then None
            else Some (GetUserError X en ''VolumeNotInValidState'' None [AStr volumeID]),
            volume), w'))"

definition WaitForValidVolumeState ::
  "ext \<Rightarrow> 'w VPCSession \<Rightarrow> string \<Rightarrow> ('w gost, goerror option) go" where
  "WaitForValidVolumeState X vpcs volumeID =
     gbind gget (\<lambda>s.
     gbind (retry (validState_attempt X (MessagesEn s) vpcs volumeID) None) (\<lambda>(err, volume).
       case err of
         Some e \<Rightarrow> gbind (user_error X ''VolumeNotInValidState'' (Some e) [AStr volumeID])
                     (\<lambda>ue. gret (Some ue))
       | None \<Rightarrow> gret None))"

section \<open>CreateVolume\<close>

definition validateVolumeRequest ::
  "ext \<Rightarrow> catalogue \<Rightarrow> Volume \<Rightarrow> ResourceGroup \<times> int \<times> int \<times> goerror option" where
  "validateVolumeRequest X en req =
     (let resourceGroup = zeroResourceGroup in
      if (case vol_Name req of None \<Rightarrow> True | Some n \<Rightarrow> length n = 0)
      then (resourceGroup, 0, 0, Some (GetUserError X en ''InvalidVolumeName'' None [ANil]))
      else case vol_Profile req of
        None \<Rightarrow> (resourceGroup, 0, 0, Some (GetUserError X en ''VolumeProfileEmpty'' None []))
      | Some profile \<Rightarrow>
        (case vol_ResourceGroup req of
           None \<Rightarrow> (resourceGroup, 0, 0, Some (GetUserError X en ''EmptyResourceGroup'' None []))
         | Some rg \<Rightarrow>
           if length (lrg_ID rg) = 0 \<and> length (lrg_Name rg) = 0
           then (resourceGroup, 0, 0,
                 Some (GetUserError X en ''EmptyResourceGroupIDandName'' None []))
           else
             let resourceGroup = (if length (lrg_ID rg) > 0
                   then resourceGroup\<lparr>rg_ID := lrg_ID rg\<rparr> else resourceGroup);
                 resourceGroup = (if length (lrg_Name rg) > 0
                   then resourceGroup\<lparr>rg_Name := lrg_Name rg\<rparr> else resourceGroup)
             in case vol_Capacity req of
                  None \<Rightarrow> (resourceGroup, 0, 0,
                           Some (GetUserError X en ''VolumeCapacityInvalid'' None [ANil]))
                | Some capacity \<Rightarrow>
                    if capacity < minSize \<and> lpr_Name profile \<noteq> RFSProfile
                    then (resourceGroup, 0, 0,
                          Some (GetUserError X en ''VolumeCapacityInvalid'' None [AInt capacity]))
                    else (resourceGroup,
                          case vol_Iops req of None \<Rightarrow> 0 | Some i \<Rightarrow> ToInt64 i,
                          vol_Bandwidth req, None)))"

definition setENIParameters :: "ShareTarget \<Rightarrow> Volume \<Rightarrow> ShareTarget" where
  "setENIParameters shareTarget req =
     (let vni = zeroVNI\<lparr>vni_SecurityGroups := vol_SecurityGroups req,
                        vni_ResourceGroup := vol_ResourceGroup req\<rparr>;
          vni = (if length (vol_SubnetID req) \<noteq> 0
                 then vni\<lparr>vni_Subnet := Some \<lparr>sr_CRN = [], sr_ID = vol_SubnetID req, sr_Href = []\<rparr>\<rparr>
                 else vni);
          vni = (case vol_PrimaryIP req of
                   None \<Rightarrow> vni | Some ip \<Rightarrow> vni\<lparr>vni_PrimaryIP := Some ip\<rparr>)
      in shareTarget\<lparr>st_VirtualNetworkInterface := Some vni\<rparr>)"

text \<open>The target template of a request that names a VPC, a subnet or a primary IP.\<close>

definition shareTargetTemplate :: "Volume \<Rightarrow> string \<Rightarrow> ShareTarget" where
  "shareTargetTemplate req name =
     (let t = zeroShareTarget\<lparr>st_Name := name\<rparr>;
          t = (if vol_AccessControlMode req = SecurityGroupMode then setENIParameters t req
               else t\<lparr>st_VPC := Some \<lparr>lvpc_ID = vol_VPCID req, lvpc_Href = []\<rparr>\<rparr>)
      in t\<lparr>st_AccessProtocol := ''nfs4'', st_TransitEncryption := vol_TransitEncryption req\<rparr>)"

definition wantsTarget :: "Volume \<Rightarrow> bool" where
  "wantsTarget req \<longleftrightarrow> length (vol_VPCID req) \<noteq> 0 \<or> length (vol_SubnetID req) \<noteq> 0 \<or>
     (case vol_PrimaryIP req of None \<Rightarrow> False | Some ip \<Rightarrow> length (pip_ID ip) \<noteq> 0)"

definition shareTemplate ::
  "Volume \<Rightarrow> string \<Rightarrow> int \<Rightarrow> LibProfile \<Rightarrow> ResourceGroup \<Rightarrow> int \<Rightarrow> int \<Rightarrow> Share" where
  "shareTemplate req name capacity profile resourceGroup iops bandwidth =
     (let zone = (if vol_Az req \<noteq> [] then Some \<lparr>zn_Name = vol_Az req, zn_Href = []\<rparr> else None);
          t = zeroShare\<lparr>sh_Name := name, sh_Size := capacity, sh_InitialOwner := vol_InitialOwner req,
                sh_Iops := iops, sh_Bandwidth := bandwidth,
                sh_AccessControlMode := vol_AccessControlMode req,
                sh_ResourceGroup := Some resourceGroup,
                sh_Profile := Some (zeroProfile\<lparr>pr_Name := lpr_Name profile\<rparr>), sh_Zone := zone\<rparr>;
          t = (if wantsTarget req
               then t\<lparr>sh_ShareTargets := Some [shareTargetTemplate req name]\<rparr> else t);
          t = (case vol_VolumeEncryptionKey req of
                 None \<Rightarrow> t
               | Some k \<Rightarrow> if length (ek_CRN k) > 0
                           then t\<lparr>sh_EncryptionKey := Some \<lparr>ek_CRN = ek_CRN k\<rparr>\<rparr> else t);
          t = (if length (vol_SnapshotCRN req) > 0
               then t\<lparr>sh_SourceSnapshot := Some (zeroSnapshot\<lparr>sn_CRN := vol_SnapshotCRN req\<rparr>)\<rparr>
               else if length (vol_SnapshotID req) > 0
               then t\<lparr>sh_SourceSnapshot := Some (zeroSnapshot\<lparr>sn_ID := vol_SnapshotID req\<rparr>)\<rparr>
               else t)
      in if sh_SourceSnapshot t \<noteq> None then t\<lparr>sh_Zone := None, sh_AccessControlMode := []\<rparr> else t)"

definition CreateVolume ::
  "ext \<Rightarrow> 'w VPCSession \<Rightarrow> Volume \<Rightarrow> ('w gost, Volume option \<times> goerror option) go" where
  "CreateVolume X vpcs req =
     gbind gget (\<lambda>s.
     case validateVolumeRequest X (MessagesEn s) req of
       (resourceGroup, iops, bandwidth, Some e) \<Rightarrow> gret (None, Some e)
     | (resourceGroup, iops, bandwidth, None) \<Rightarrow>
         gbind (deref (vol_Name req)) (\<lambda>name.
         gbind (deref (vol_Capacity req)) (\<lambda>capacity.
         gbind (deref (vol_Profile req)) (\<lambda>profile.
         let template = shareTemplate req name capacity profile resourceGroup iops bandwidth in
         gbind (retry (capture (fs_CreateFileShare (FileShareService vpcs) template)) None)
           (\<lambda>(err, volume).
         case err of
           Some e \<Rightarrow> gbind (user_error X ''FailedToPlaceOrder'' (Some e) []) (\<lambda>ue. gret (None, Some ue))
         | None \<Rightarrow>
             gbind (deref volume) (\<lambda>v.
             gbind (WaitForValidVolumeState X vpcs (sh_ID v)) (\<lambda>werr.
             case werr of
               Some e \<Rightarrow> gbind (user_error X ''VolumeNotInValidState'' (Some e) [AStr (sh_ID v)])
                           (\<lambda>ue. gret (None, Some ue))
             | None \<Rightarrow>
                 gbind (deref (FromProviderToLibVolume volume)) (\<lambda>resp.
                 gret (Some (resp\<lparr>vol_Region := vol_Region req\<rparr>), None)))))))))"

section \<open>GetVolume and GetVolumeByName\<close>

definition validateVolumeID :: "ext \<Rightarrow> catalogue \<Rightarrow> string \<Rightarrow> goerror option" where
  "validateVolumeID X en volumeID =
     (if IsValidVolumeIDFormat volumeID then None
      else Some (GetUserError X en ''InvalidVolumeID'' None [AStr volumeID]))"

definition GetVolume ::
  "ext \<Rightarrow> 'w VPCSession \<Rightarrow> string \<Rightarrow> ('w gost, Volume option \<times> goerror option) go" where
  "GetVolume X vpcs vid =
     gbind gget (\<lambda>s.
     case validateVolumeID X (MessagesEn s) vid of
       Some e \<Rightarrow> gret (None, Some e)
     | None \<Rightarrow>
         gbind (retry (capture (fs_GetFileShare (FileShareService vpcs) vid)) None) (\<lambda>(err, volume).
         case err of
           Some e \<Rightarrow> gbind (user_error X ''StorageFindFailedWithVolumeId'' (Some e) [AStr vid])
                       (\<lambda>ue. gret (None, Some ue))
         | None \<Rightarrow> gret (FromProviderToLibVolume volume, None)))"

definition GetVolumeByName ::
  "ext \<Rightarrow> 'w VPCSession \<Rightarrow> string \<Rightarrow> ('w gost, Volume option \<times> goerror option) go" where
  "GetVolumeByName X vpcs name =
     (if length name \<le> 0
      then gbind (user_error X ''InvalidVolumeName'' None [AStr name]) (\<lambda>ue. gret (None, Some ue))
      else
        gbind (retry (capture (fs_GetFileShareByName (FileShareService vpcs) name)) None)
          (\<lambda>(err, volume).
        case err of
          Some e \<Rightarrow> gbind (user_error X ''StorageFindFailedWithVolumeName'' (Some e) [AStr name])
                      (\<lambda>ue. gret (None, Some ue))
        | None \<Rightarrow> gret (FromProviderToLibVolume volume, None)))"

section \<open>DeleteVolume\<close>

definition validateVolume :: "ext \<Rightarrow> catalogue \<Rightarrow> Volume option \<Rightarrow> goerror option" where
  "validateVolume X en volume =
     (case volume of
        None \<Rightarrow> Some (GetUserError X en ''InvalidVolumeID'' None [ANil])
      | Some v \<Rightarrow>
          if IsValidVolumeIDFormat (vol_VolumeID v) then None
          else Some (GetUserError X en ''InvalidVolumeID'' None [AStr (vol_VolumeID v)]))"

text \<open>
  One attempt of \<open>WaitForVolumeDeletion\<close>: the error, if any, decides with \<open>skipRetry\<close>
  whether to go on, and is dropped.  The type assertion panics for an error that is not a
  \<^verbatim>\<open>*models.Error\<close>.
\<close>

definition deletion_attempt ::
  "('w, 'a result) api \<Rightarrow> ('w gost, (goerror option \<times> bool) \<times> bool) go" where
  "deletion_attempt get =
     gbind (call_api get) (\<lambda>(r, err).
       case err of
         None \<Rightarrow> gret ((None, False), False)
       | Some (ModelsError e) \<Rightarrow> gret ((None, skipRetry e), skipRetry e)
       | Some _ \<Rightarrow> gpanic BadTypeAssertion)"

definition WaitForVolumeDeletion ::
  "'w VPCSession \<Rightarrow> string \<Rightarrow> ('w gost, goerror option) go" where
  "WaitForVolumeDeletion vpcs volumeID =
     gbind (FlexyRetry (vs_APIRetry vpcs)
             (deletion_attempt (fs_GetFileShare (FileShareService vpcs) volumeID)) False)
       (\<lambda>(err, skip). gret err)"

definition access_point_vpcs :: "VolumeAccessPoint list \<Rightarrow> string list" where
  "access_point_vpcs aps = map lvpc_ID (List.map_filter vap_VPC aps)"

definition DeleteVolume ::
  "ext \<Rightarrow> 'w VPCSession \<Rightarrow> Volume option \<Rightarrow> ('w gost, goerror option) go" where
  "DeleteVolume X vpcs volume =
     gbind gget (\<lambda>s.
     case validateVolume X (MessagesEn s) volume of
       Some e \<Rightarrow> gret (Some e)
     | None \<Rightarrow>
         gbind (deref volume) (\<lambda>v.
         gbind (GetVolume X vpcs (vol_VolumeID v)) (\<lambda>(existing, err).
         case err of
           Some e \<Rightarrow> gret (Some e)
         | None \<Rightarrow>
             gbind (deref existing) (\<lambda>existingVol.
             if (case vol_VolumeAccessPoints existingVol of None \<Rightarrow> False | Some aps \<Rightarrow> length aps \<noteq> 0)
             then gbind (deref (vol_VolumeAccessPoints existingVol)) (\<lambda>aps.
                  gbind (user_error X ''VolumeAccessPointExist'' None
                          [AStr (vol_VolumeID v), AStrs (access_point_vpcs aps)])
                    (\<lambda>ue. gret (Some ue)))
             else
               gbind (retry (only_error (fs_DeleteFileShare (FileShareService vpcs) (vol_VolumeID v))) ())
                 (\<lambda>(err, _).
               case err of
                 Some e \<Rightarrow> gbind (user_error X ''FailedToDeleteVolume'' (Some e) [AStr (vol_VolumeID v)])
                             (\<lambda>ue. gret (Some ue))
               | None \<Rightarrow>
                   gbind (WaitForVolumeDeletion vpcs (vol_VolumeID v)) (\<lambda>werr.
                   case werr of
                     Some e \<Rightarrow> gbind (user_error X ''FailedToDeleteVolume'' (Some e)
                                       [AStr (vol_VolumeID v)]) (\<lambda>ue. gret (Some ue))
                   | None \<Rightarrow> gret None))))))"

section \<open>ListVolumes\<close>

text \<open>The next token: what follows \<^verbatim>\<open>start=\<close> in the link, up to \<^verbatim>\<open>&\<close>.\<close>

definition next_token :: "string \<Rightarrow> ('w gost, string) go" where
  "next_token href =
     (if Contains href ''start=''
      then (let parts = Split href ''start='' in
            if 1 < length parts then gret (hd (Split (parts ! 1) ''&'')) else gpanic IndexOutOfRange)
      else gret [])"

definition ListVolumes ::
  "ext \<Rightarrow> 'w VPCSession \<Rightarrow> int \<Rightarrow> string \<Rightarrow> (string \<Rightarrow> string option)
     \<Rightarrow> ('w gost, VolumeList option \<times> goerror option) go" where
  "ListVolumes X vpcs limit start tags =
     (if limit < 0
      then gbind (user_error X ''InvalidListVolumesLimit'' None [AInt limit])
             (\<lambda>ue. gret (None, Some ue))
      else
        let limit = (if limit > maxLimit then maxLimit else limit);
            filters = \<lparr>shf_ResourceGroupID = map_get tags [] ''resource_group.id'',
                       shf_ShareName = map_get tags [] ''name''\<rparr> in
        gbind (retry (capture (fs_ListFileShares (FileShareService vpcs) limit start (Some filters))) None)
          (\<lambda>(err, volumes).
        case err of
          Some e \<Rightarrow>
            if Contains (ErrorString X e) startVolumeIDNotFoundMsg
            then gbind (user_error X ''StartVolumeIDNotFound'' (Some e) [AStr start])
                   (\<lambda>ue. gret (None, Some ue))
            else gbind (user_error X ''ListVolumesFailed'' (Some e) []) (\<lambda>ue. gret (None, Some ue))
        | None \<Rightarrow>
            (case volumes of
               None \<Rightarrow> gret (Some \<lparr>vl_Next = [], vl_Volumes = []\<rparr>, None)
             | Some vs \<Rightarrow>
                 gbind (case shl_Next vs of None \<Rightarrow> gret [] | Some h \<Rightarrow> next_token (href_Href h))
                   (\<lambda>next.
                 gret (Some \<lparr>vl_Next = next, vl_Volumes = map FromProviderToLibVolume (shl_Shares vs)\<rparr>,
                       None)))))"

section \<open>UpdateVolume\<close>

definition ifTagsEqual :: "string list \<Rightarrow> string list \<Rightarrow> bool" where
  "ifTagsEqual existingTags newTags =
     (let tags = ToLower (Join existingTags '','')
      in list_all (\<lambda>v. Contains tags (ToLower v)) newTags)"

text \<open>One attempt of \<open>UpdateVolume\<close>: read the share and its etag, then write the tags.\<close>

definition updateTags_attempt ::
  "ext \<Rightarrow> catalogue \<Rightarrow> 'w VPCSession \<Rightarrow> Volume \<Rightarrow> 'w \<Rightarrow> (goerror option \<times> unit) \<times> 'w" where
  "updateTags_attempt X en vpcs template w =
     (case fs_GetFileShareEtag (FileShareService vpcs) (vol_VolumeID template) w of
        ((existShare, etag, Some e), w1) \<Rightarrow> ((Some e, ()), w1)
      | ((existShare, etag, None), w1) \<Rightarrow>
          (case (case existShare of
                   None \<Rightarrow> None
                 | Some sh \<Rightarrow> if sh_Status sh = StatusStable then Some sh else None) of
             None \<Rightarrow> ((Some (GetUserError X en ''VolumeNotInValidState'' None
                              [AStr (vol_VolumeID template)]), ()), w1)
           | Some sh \<Rightarrow>
               if ifTagsEqual (sh_UserTags sh) (vol_Tags template) then ((None, ()), w1)
               else only_error (fs_UpdateFileShareWithEtag (FileShareService vpcs)
                      (vol_VolumeID template) etag
                      (zeroShare\<lparr>sh_UserTags := sh_UserTags sh @ vol_Tags template\<rparr>)) w1))"

definition UpdateVolume ::
  "ext \<Rightarrow> 'w VPCSession \<Rightarrow> Volume \<Rightarrow> ('w gost, goerror option) go" where
  "UpdateVolume X vpcs template =
     gbind gget (\<lambda>s.
     gbind (retryWithMinRetries (updateTags_attempt X (MessagesEn s) vpcs template) ())
       (\<lambda>(err, _).
     case err of
       Some e \<Rightarrow> gbind (user_error X ''FailedToUpdateVolume'' (Some e) [AStr (vol_VolumeID template)])
                   (\<lambda>ue. gret (Some ue))
     | None \<Rightarrow> gret None))"

section \<open>ExpandVolume and GetVolumeProfileByName\<close>

record ExpandVolumeRequest =
  evr_VolumeID :: string
  evr_Capacity :: int

definition ExpandVolume ::
  "ext \<Rightarrow> 'w VPCSession \<Rightarrow> ExpandVolumeRequest \<Rightarrow> ('w gost, int \<times> goerror option) go" where
  "ExpandVolume X vpcs req =
     gbind (GetVolume X vpcs (evr_VolumeID req)) (\<lambda>(existing, err).
     case err of
       Some e \<Rightarrow> gret (- 1, Some e)
     | None \<Rightarrow>
         gbind (deref existing) (\<lambda>existingVolume.
         case (case vol_Capacity existingVolume of
                 None \<Rightarrow> None | Some c \<Rightarrow> if c \<ge> evr_Capacity req then Some c else None) of
           Some c \<Rightarrow> gret (c, None)
         | None \<Rightarrow>
             let template = zeroShare\<lparr>sh_Size := roundUpSize (evr_Capacity req) GiB\<rparr> in
             gbind (retry (capture (fs_ExpandVolume (FileShareService vpcs) (evr_VolumeID req) template))
                     None) (\<lambda>(err, share).
             case err of
               Some e \<Rightarrow> gbind (user_error X ''FailedToExpandVolume'' (Some e) [AStr (evr_VolumeID req)])
                           (\<lambda>ue. gret (- 1, Some ue))
             | None \<Rightarrow>
                 gbind (deref share) (\<lambda>sh.
                 gbind (WaitForValidVolumeState X vpcs (sh_ID sh)) (\<lambda>werr.
                 case werr of
                   Some e \<Rightarrow> gbind (user_error X ''VolumeNotInValidState'' (Some e) [AStr (sh_ID sh)])
                               (\<lambda>ue. gret (- 1, Some ue))
                 | None \<Rightarrow> gret (evr_Capacity req, None))))))"

definition GetVolumeProfileByName ::
  "'w VPCSession \<Rightarrow> string \<Rightarrow> ('w gost, LibProfile option \<times> goerror option) go" where
  "GetVolumeProfileByName vpcs name =
     gbind (call_api (fs_GetShareProfile (FileShareService vpcs) name)) (\<lambda>(profile, err).
       if err \<noteq> None \<or> profile = None then gret (None, err)
       else gret (FromLibToProviderProfile profile, None))"

end
