(* ===== verification/Snapshots.thy ===== *)
theory Snapshots
  imports Volumes
begin

text \<open>
  The snapshot operations of \<^verbatim>\<open>VPCSession\<close>: \<^verbatim>\<open>create_snapshot.go\<close>, \<^verbatim>\<open>get_snapshot.go\<close>,
  \<^verbatim>\<open>delete_snapshot.go\<close> and \<^verbatim>\<open>list_snapshots.go\<close> of \<^verbatim>\<open>file/provider\<close>.  The tags of a snapshot
  request are a Go map; they are given as the list of its entries in the order in which the
  iteration visits them.  The variadic source volume ID is a list.
\<close>

definition startSnapshoIDNotFoundMsg :: string where
  "startSnapshoIDNotFoundMsg = ''`start` parameter is invalid''"

section \<open>CreateSnapshot\<close>

record SnapshotParameters =
  snp_Name :: string
  snp_SnapshotTags :: "(string \<times> string) list"

definition validateSnapshotRequest :: "ext \<Rightarrow> catalogue \<Rightarrow> string \<Rightarrow> goerror option" where
  "validateSnapshotRequest X en sourceVolumeID =
     (if length sourceVolumeID = 0
      then Some (GetUserError X en (ReasonErrorRequiredFieldMissing X) None [AStr ''SourceVolumeID''])
      else None)"

definition snapshotTags :: "(string \<times> string) list \<Rightarrow> string list" where
  "snapshotTags tags = map (\<lambda>(key, val). Sprintf ''%s:%s'' [AStr key, AStr val]) tags"

definition CreateSnapshot ::
  "ext \<Rightarrow> 'w VPCSession \<Rightarrow> string \<Rightarrow> SnapshotParameters
     \<Rightarrow> ('w gost, LibSnapshot option \<times> goerror option) go" where
  "CreateSnapshot X vpcs sourceVolumeID params =
     gbind gget (\<lambda>s.
     case validateSnapshotRequest X (MessagesEn s) sourceVolumeID of
       Some e \<Rightarrow> gret (None, Some e)
     | None \<Rightarrow>
         let template = zeroSnapshot\<lparr>sn_Name := snp_Name params,
                                     sn_UserTags := snapshotTags (snp_SnapshotTags params)\<rparr> in
         gbind (retry (capture (ss_CreateSnapshot (SnapshotService vpcs) sourceVolumeID template)) None)
           (\<lambda>(err, snapshot).
         case err of
           Some e \<Rightarrow> gbind (user_error X ''SnapshotCreationFailed'' (Some e) []) (\<lambda>ue. gret (None, Some ue))
         | None \<Rightarrow> gret (FromProviderToLibSnapshot sourceVolumeID snapshot, None)))"

section \<open>GetSnapshot and GetSnapshotByName\<close>

definition GetSnapshot ::
  "ext \<Rightarrow> 'w VPCSession \<Rightarrow> string \<Rightarrow> string list \<Rightarrow> ('w gost, LibSnapshot option \<times> goerror option) go" where
  "GetSnapshot X vpcs snapshotID sourceVolumeID =
     (case sourceVolumeID of
        [] \<Rightarrow> gbind (user_error X ''ErrorRequiredFieldMissing'' None [AStr ''sourceVolumeID''])
                (\<lambda>ue. gret (None, Some ue))
      | v # _ \<Rightarrow>
          gbind (retry (capture (ss_GetSnapshot (SnapshotService vpcs) v snapshotID)) None) (\<lambda>(err, snapshot).
          case err of
            Some e \<Rightarrow> gbind (user_error X ''FailedToFindSnapshot'' (Some e) [AStr snapshotID, AStrs sourceVolumeID])
                        (\<lambda>ue. gret (None, Some ue))
          | None \<Rightarrow> gret (FromProviderToLibSnapshot v snapshot, None)))"

definition GetSnapshotByName ::
  "ext \<Rightarrow> 'w VPCSession \<Rightarrow> string \<Rightarrow> string list \<Rightarrow> ('w gost, LibSnapshot option \<times> goerror option) go" where
  "GetSnapshotByName X vpcs name sourceVolumeID =
     (case sourceVolumeID of
        [] \<Rightarrow> gbind (user_error X ''ErrorRequiredFieldMissing'' None [AStr ''sourceVolumeID''])
                (\<lambda>ue. gret (None, Some ue))
      | v # _ \<Rightarrow>
          if length name \<le> 0
          then gbind (user_error X ''ErrorRequiredFieldMissing'' None [AStr ''SnapshotName''])
                 (\<lambda>ue. gret (None, Some ue))
          else
            gbind (retry (capture (ss_GetSnapshotByName (SnapshotService vpcs) v name)) None)
              (\<lambda>(err, snapshot).
            case err of
              Some e \<Rightarrow> gbind (user_error X ''StorageFindFailedWithSnapshotName'' (Some e)
                                [AStr name, AStrs sourceVolumeID]) (\<lambda>ue. gret (None, Some ue))
            | None \<Rightarrow> gret (FromProviderToLibSnapshot v snapshot, None)))"

section \<open>DeleteSnapshot\<close>

definition WaitForSnapshotDeletion ::
  "'w VPCSession \<Rightarrow> string \<Rightarrow> string \<Rightarrow> ('w gost, goerror option) go" where
  "WaitForSnapshotDeletion vpcs volumeID snapshotID =
     gbind (FlexyRetry (vs_APIRetry vpcs)
             (deletion_attempt (ss_GetSnapshot (SnapshotService vpcs) volumeID snapshotID)) False)
       (\<lambda>(err, skip). gret err)"

text \<open>The first code of the backend's error says that the share or the snapshot is gone.\<close>

definition already_gone :: "goerror \<Rightarrow> bool" where
  "already_gone err =
     (case err of
        ModelsError e \<Rightarrow>
          (case err_Errors e of
             [] \<Rightarrow> False
           | it # _ \<Rightarrow> ei_Code it = SnapshotNotFound \<or> ei_Code it = SharesNotFound)
      | _ \<Rightarrow> False)"

definition DeleteSnapshot ::
  "ext \<Rightarrow> 'w VPCSession \<Rightarrow> LibSnapshot option \<Rightarrow> ('w gost, goerror option) go" where
  "DeleteSnapshot X vpcs snapshot =
     (case snapshot of
        None \<Rightarrow> gbind (user_error X ''ErrorRequiredFieldMissing'' None [AStr ''snapshotID'']) (\<lambda>ue. gret (Some ue))
      | Some sn \<Rightarrow>
          gbind (retry (only_error (ss_DeleteSnapshot (SnapshotService vpcs) (lsn_VolumeID sn) (lsn_SnapshotID sn))) ())
            (\<lambda>(err, _).
          case err of
            Some e \<Rightarrow>
              if already_gone e then gret None
              else gbind (user_error X ''FailedToDeleteSnapshot'' (Some e)
                           [AStr (lsn_SnapshotID sn), AStr (lsn_VolumeID sn)]) (\<lambda>ue. gret (Some ue))
          | None \<Rightarrow>
              gbind (WaitForSnapshotDeletion vpcs (lsn_VolumeID sn) (lsn_SnapshotID sn)) (\<lambda>werr.
              case werr of
                Some e \<Rightarrow> gbind (user_error X ''FailedToDeleteSnapshot'' (Some e)
                                  [AStr (lsn_SnapshotID sn), AStr (lsn_VolumeID sn)]) (\<lambda>ue. gret (Some ue))
              | None \<Rightarrow> gret None)))"

section \<open>ListSnapshots\<close>

definition ListSnapshots ::
  "ext \<Rightarrow> 'w VPCSession \<Rightarrow> int \<Rightarrow> string \<Rightarrow> (string \<Rightarrow> string option)
     \<Rightarrow> ('w gost, LibSnapshotList option \<times> goerror option) go" where
  "ListSnapshots X vpcs limit start filters =
     (if limit < 0
      then gbind (user_error X ''InvalidListSnapshotLimit'' None [AInt limit]) (\<lambda>ue. gret (None, Some ue))
      else
        let limit = (if limit > maxLimit then maxLimit else limit);
            filter = \<lparr>snf_Name = map_get filters [] ''name''\<rparr>;
            sourceVolumeID = map_get filters [] ''source_volume.id'' in
        gbind (retry (capture (ss_ListSnapshots (SnapshotService vpcs) sourceVolumeID limit start (Some filter))) None)
          (\<lambda>(err, snapshots).
        case err of
          Some e \<Rightarrow>
            if Contains (ErrorString X e) startSnapshoIDNotFoundMsg
            then gbind (user_error X ''StartSnapshotIDNotFound'' (Some e) [AStr start]) (\<lambda>ue. gret (None, Some ue))
            else gbind (user_error X ''ListSnapshotsFailed'' (Some e) [AStr sourceVolumeID])
                   (\<lambda>ue. gret (None, Some ue))
        | None \<Rightarrow>
            (case snapshots of
               None \<Rightarrow> gret (Some \<lparr>lsl_Next = [], lsl_Snapshots = []\<rparr>, None)
             | Some l \<Rightarrow>
                 gbind (case snl_Next l of None \<Rightarrow> gret [] | Some h \<Rightarrow> next_token (href_Href h)) (\<lambda>token.
                 gret (Some \<lparr>lsl_Next = token,
                             lsl_Snapshots = map (FromProviderToLibSnapshot sourceVolumeID) (snl_Snapshots l)\<rparr>,
                       None)))))"

end
