(* ===== verification/AccessPoints.thy ===== *)
theory AccessPoints
  imports Convert
begin

text \<open>
  Access points of a volume (share targets of the backend): \<^verbatim>\<open>create_volume_access_point.go\<close>,
  \<^verbatim>\<open>delete_volume_access_point.go\<close>, \<^verbatim>\<open>get_volume.access_point.go\<close> and the two
  \<^verbatim>\<open>wait_for_..._volume_access_point.go\<close> of \<^verbatim>\<open>file/provider\<close>.  The reason codes of
  \<^verbatim>\<open>common/messages/reason_code.go\<close> they use are the constants of the first section.
\<close>

section \<open>Reason codes\<close>

definition CreateVolumeAccessPointFailed :: string where
  "CreateVolumeAccessPointFailed = ''CreateVolumeAccessPointFailed''"
definition CreateVolumeAccessPointTimedOut :: string where
  "CreateVolumeAccessPointTimedOut = ''CreateVolumeAccessPointTimedOut''"
definition DeleteVolumeAccessPointFailed :: string where
  "DeleteVolumeAccessPointFailed = ''DeleteVolumeAccessPointFailed''"
definition DeleteVolumeAccessPointTimedOut :: string where
  "DeleteVolumeAccessPointTimedOut = ''DeleteVolumeAccessPointTimedOut''"
definition AccessPointWithAPIDFindFailed :: string where
  "AccessPointWithAPIDFindFailed = ''AccessPointWithAPIDFindFailed''"
definition AccessPointWithVPCIDFindFailed :: string where
  "AccessPointWithVPCIDFindFailed = ''AccessPointWithVPCIDFindFailed''"

section \<open>Validation\<close>

definition validateVolumeAccessPointRequest ::
  "ext \<Rightarrow> catalogue \<Rightarrow> VolumeAccessPointRequest \<Rightarrow> goerror option" where
  "validateVolumeAccessPointRequest X en q =
     (if length (vapq_VolumeID q) = 0
      then Some (GetUserError X en (ReasonErrorRequiredFieldMissing X) None [AStr ''VolumeID''])
      else if length (vapq_VPCID q) = 0 \<and> length (vapq_SubnetID q) = 0 \<and> length (vapq_AccessPointID q) = 0
      then Some (GetUserError X en (ReasonErrorRequiredFieldMissing X) None
             [AStr ''VPCID or SubnetID or AccessPointID''])
      else None)"

section \<open>GetVolumeAccessPoint\<close>

text \<open>A closure of \<open>FlexyRetry\<close> that makes one API call: its error, and whether to stop.\<close>

definition flexy_call ::
  "('w, 'a result) api \<Rightarrow> ('a option \<Rightarrow> goerror option \<Rightarrow> bool)
     \<Rightarrow> ('w gost, (goerror option \<times> bool) \<times> 'a option) go" where
  "flexy_call m stop = gbind (call_api m) (\<lambda>(a, err). gret ((err, stop a err), a))"

text \<open>When the lookup by ID and the listing stop.\<close>

definition get_stop :: "ShareTarget option \<Rightarrow> goerror option \<Rightarrow> bool" where
  "get_stop a err =
     (case err of
        Some e \<Rightarrow> if a = None then skipRetryForObviousErrors e else True
      | None \<Rightarrow> True)"

definition list_stop :: "ShareTargetList option \<Rightarrow> goerror option \<Rightarrow> bool" where
  "list_stop a err = (case err of Some e \<Rightarrow> skipRetryForObviousErrors e | None \<Rightarrow> True)"

definition getVolumeAccessPointByID ::
  "ext \<Rightarrow> 'w VPCSession \<Rightarrow> ShareTarget \<Rightarrow> ('w gost, VolumeAccessPointResponse option \<times> goerror option) go" where
  "getVolumeAccessPointByID X vpcs q =
     gbind (FlexyRetry (vs_APIRetry vpcs)
             (flexy_call (fs_GetFileShareTarget (FileShareService vpcs) (st_ShareID q) (st_ID q))
               get_stop) None) (\<lambda>(err, r).
     case err of
       Some e \<Rightarrow> gbind (user_error X AccessPointWithAPIDFindFailed (Some e) [AStr (st_ShareID q), AStr (st_ID q)])
                   (\<lambda>ue. gret (None, Some ue))
     | None \<Rightarrow> gbind (deref r) (\<lambda>t.
         gret (Some ((ToVolumeAccessPointResponse t)\<lparr>vapr_VolumeID := st_ShareID q\<rparr>), None)))"

text \<open>The first target of the list in the given VPC; a nil item panics.\<close>

fun find_vpc_target :: "string \<Rightarrow> ShareTarget option list \<Rightarrow> ('s, ShareTarget option) go" where
  "find_vpc_target vpcid [] = gret None"
| "find_vpc_target vpcid (None # items) = gpanic NilDeref"
| "find_vpc_target vpcid (Some t # items) =
     (if (case st_VPC t of None \<Rightarrow> False | Some v \<Rightarrow> lvpc_ID v = vpcid) then gret (Some t)
      else find_vpc_target vpcid items)"

definition getVolumeAccessPointByVPCID ::
  "ext \<Rightarrow> 'w VPCSession \<Rightarrow> ShareTarget \<Rightarrow> ('w gost, VolumeAccessPointResponse option \<times> goerror option) go" where
  "getVolumeAccessPointByVPCID X vpcs q =
     gbind (FlexyRetry (vs_APIRetry vpcs)
             (flexy_call (fs_ListFileShareTargets (FileShareService vpcs) (st_ShareID q) None) list_stop) None)
       (\<lambda>(err, r).
     gbind (deref (st_VPC q)) (\<lambda>vpc.
     case err of
       Some e \<Rightarrow> gbind (user_error X AccessPointWithVPCIDFindFailed (Some e)
                         [AStr (st_ShareID q), AStr (lvpc_ID vpc)]) (\<lambda>ue. gret (None, Some ue))
     | None \<Rightarrow>
         gbind (case r of None \<Rightarrow> gret None | Some l \<Rightarrow> find_vpc_target (lvpc_ID vpc) (stl_ShareTargets l))
           (\<lambda>found.
         case found of
           Some t \<Rightarrow> gret (Some ((ToVolumeAccessPointResponse t)\<lparr>vapr_VolumeID := st_ShareID q\<rparr>), None)
         | None \<Rightarrow> gbind (user_error X AccessPointWithVPCIDFindFailed
                           (Some (PlainError ''no volume access point found''))
                           [AStr (st_ShareID q), AStr (lvpc_ID vpc)]) (\<lambda>ue. gret (None, Some ue)))))"

definition GetVolumeAccessPoint ::
  "ext \<Rightarrow> 'w VPCSession \<Rightarrow> VolumeAccessPointRequest
     \<Rightarrow> ('w gost, VolumeAccessPointResponse option \<times> goerror option) go" where
  "GetVolumeAccessPoint X vpcs q =
     gbind gget (\<lambda>s.
     case validateVolumeAccessPointRequest X (MessagesEn s) q of
       Some e \<Rightarrow> gret (None, Some e)
     | None \<Rightarrow>
         let volumeAccessPoint = NewShareTarget q in
         if length (st_ID volumeAccessPoint) > 0
         then getVolumeAccessPointByID X vpcs volumeAccessPoint
         else getVolumeAccessPointByVPCID X vpcs volumeAccessPoint)"

section \<open>CreateVolumeAccessPoint\<close>

text \<open>The target sent to the backend: in security-group mode a network interface replaces the VPC.\<close>

definition accessPointTemplate :: "VolumeAccessPointRequest \<Rightarrow> ShareTarget" where
  "accessPointTemplate q =
     (let t = NewShareTarget q
      in if vapq_AccessControlMode q = SecurityGroupMode
         then let vni = zeroVNI\<lparr>vni_SecurityGroups := vapq_SecurityGroups q,
                                vni_ResourceGroup := vapq_ResourceGroup q\<rparr>;
                  vni = (if length (vapq_SubnetID q) \<noteq> 0
                         then vni\<lparr>vni_Subnet := Some \<lparr>sr_CRN = [], sr_ID = vapq_SubnetID q, sr_Href = []\<rparr>\<rparr>
                         else vni);
                  vni = (case vapq_PrimaryIP q of
                           None \<Rightarrow> vni | Some ip \<Rightarrow> vni\<lparr>vni_PrimaryIP := Some ip\<rparr>)
              in t\<lparr>st_VPC := None, st_VirtualNetworkInterface := Some vni\<rparr>
         else t)"

definition createAccessPoint_attempt ::
  "ext \<Rightarrow> 'w VPCSession \<Rightarrow> VolumeAccessPointRequest
     \<Rightarrow> ('w gost, (goerror option \<times> bool) \<times> VolumeAccessPointResponse option) go" where
  "createAccessPoint_attempt X vpcs q =
     gbind (GetVolumeAccessPoint X vpcs q) (\<lambda>(current, err).
     if err = None \<and> current \<noteq> None then gret ((None, True), current)
     else
       gbind (call_api (fs_CreateFileShareTarget (FileShareService vpcs) (accessPointTemplate q)))
         (\<lambda>(result, err).
       case (err, result) of
         (Some e, None) \<Rightarrow> gret ((Some e, skipRetryForObviousErrors e), None)
       | _ \<Rightarrow> gbind (deref result) (\<lambda>t. gret ((err, True), Some (ToVolumeAccessPointResponse t)))))"

definition CreateVolumeAccessPoint ::
  "ext \<Rightarrow> 'w VPCSession \<Rightarrow> VolumeAccessPointRequest
     \<Rightarrow> ('w gost, VolumeAccessPointResponse option \<times> goerror option) go" where
  "CreateVolumeAccessPoint X vpcs q =
     gbind gget (\<lambda>s.
     case validateVolumeAccessPointRequest X (MessagesEn s) q of
       Some e \<Rightarrow> gret (None, Some e)
     | None \<Rightarrow>
         gbind (FlexyRetry (vs_APIRetry vpcs) (createAccessPoint_attempt X vpcs q) None) (\<lambda>(err, varp).
         case err of
           Some e \<Rightarrow> gbind (user_error X CreateVolumeAccessPointFailed (Some e)
                             [AStr (vapq_VolumeID q), AStr (vapq_VPCID q)]) (\<lambda>ue. gret (None, Some ue))
         | None \<Rightarrow> gbind (deref varp) (\<lambda>r. gret (Some (r\<lparr>vapr_VolumeID := vapq_VolumeID q\<rparr>), None))))"

section \<open>DeleteVolumeAccessPoint\<close>

text \<open>\<^verbatim>\<open>&http.Response{StatusCode: http.StatusOK}\<close>\<close>

definition okResponse :: HttpResponse where
  "okResponse = \<lparr>resp_StatusCode = 200, resp_Status = [], resp_Header = Map.empty, resp_Body = []\<rparr>"

definition deleteAccessPoint_attempt ::
  "ext \<Rightarrow> 'w VPCSession \<Rightarrow> VolumeAccessPointRequest
     \<Rightarrow> ('w gost, (goerror option \<times> bool) \<times> HttpResponse option) go" where
  "deleteAccessPoint_attempt X vpcs q =
     gbind (GetVolumeAccessPoint X vpcs q) (\<lambda>(current, err).
     case (if err = None then current else None) of
       Some cur \<Rightarrow>
         if vapr_Status cur \<noteq> StatusDeleting \<and> vapr_Status cur \<noteq> StatusDeleted
         then
           gbind (call_api (fs_DeleteFileShareTarget (FileShareService vpcs)
                   ((NewShareTarget q)\<lparr>st_ShareID := vapr_VolumeID cur, st_ID := vapr_AccessPointID cur\<rparr>)))
             (\<lambda>(response, err).
           case err of
             Some e \<Rightarrow> gret ((Some e, False), response)
           | None \<Rightarrow> gret ((None, True), Some okResponse))
         else gret ((None, True), Some okResponse)
     | None \<Rightarrow> gret ((None, True), Some okResponse))"

definition DeleteVolumeAccessPoint ::
  "ext \<Rightarrow> 'w VPCSession \<Rightarrow> VolumeAccessPointRequest
     \<Rightarrow> ('w gost, HttpResponse option \<times> goerror option) go" where
  "DeleteVolumeAccessPoint X vpcs q =
     gbind gget (\<lambda>s.
     case validateVolumeAccessPointRequest X (MessagesEn s) q of
       Some e \<Rightarrow> gret (None, Some e)
     | None \<Rightarrow>
         gbind (FlexyRetry (vs_APIRetry vpcs) (deleteAccessPoint_attempt X vpcs q) None) (\<lambda>(err, response).
         case err of
           Some e \<Rightarrow> gbind (user_error X DeleteVolumeAccessPointFailed (Some e)
                             [AStr (vapq_VolumeID q), AStr (vapq_AccessPointID q)])
                       (\<lambda>ue. gret (response, Some ue))
         | None \<Rightarrow> gret (response, None)))"

section \<open>Waiting\<close>

definition isStable :: "VolumeAccessPointResponse option \<Rightarrow> bool" where
  "isStable current = (case current of None \<Rightarrow> False | Some c \<Rightarrow> vapr_Status c = StatusStable)"

definition waitCreate_attempt ::
  "ext \<Rightarrow> 'w VPCSession \<Rightarrow> VolumeAccessPointRequest
     \<Rightarrow> ('w gost, (goerror option \<times> bool) \<times> VolumeAccessPointResponse option) go" where
  "waitCreate_attempt X vpcs q =
     gbind (GetVolumeAccessPoint X vpcs q) (\<lambda>(current, err).
       case err of
         Some e \<Rightarrow> gret ((Some e, True), current)
       | None \<Rightarrow> gret ((None, isStable current), current))"

definition WaitForCreateVolumeAccessPoint ::
  "ext \<Rightarrow> 'w VPCSession \<Rightarrow> VolumeAccessPointRequest
     \<Rightarrow> ('w gost, VolumeAccessPointResponse option \<times> goerror option) go" where
  "WaitForCreateVolumeAccessPoint X vpcs q =
     gbind gget (\<lambda>s.
     case validateVolumeAccessPointRequest X (MessagesEn s) q of
       Some e \<Rightarrow> gret (None, Some e)
     | None \<Rightarrow>
         gbind (FlexyRetryWithConstGap (vs_APIRetry vpcs) (waitCreate_attempt X vpcs q) None)
           (\<lambda>(err, current).
         if err = None \<and> isStable current then gret (current, None)
         else gbind (user_error X CreateVolumeAccessPointTimedOut None
                      [AStr (vapq_VolumeID q), AStr (vapq_AccessPointID q)]) (\<lambda>ue. gret (None, Some ue))))"

definition waitDelete_attempt ::
  "ext \<Rightarrow> 'w VPCSession \<Rightarrow> VolumeAccessPointRequest \<Rightarrow> ('w gost, (goerror option \<times> bool) \<times> unit) go" where
  "waitDelete_attempt X vpcs q =
     gbind (GetVolumeAccessPoint X vpcs q) (\<lambda>(current, err). gret ((err, err \<noteq> None), ()))"

definition WaitForDeleteVolumeAccessPoint ::
  "ext \<Rightarrow> 'w VPCSession \<Rightarrow> VolumeAccessPointRequest \<Rightarrow> ('w gost, goerror option) go" where
  "WaitForDeleteVolumeAccessPoint X vpcs q =
     gbind gget (\<lambda>s.
     case validateVolumeAccessPointRequest X (MessagesEn s) q of
       Some e \<Rightarrow> gret (Some e)
     | None \<Rightarrow>
         gbind (FlexyRetryWithConstGap (vs_APIRetry vpcs) (waitDelete_attempt X vpcs q) ())
           (\<lambda>(err, _).
         if (case err of Some (UserMessage m) \<Rightarrow> msg_Code m = AccessPointWithAPIDFindFailed | _ \<Rightarrow> False)
         then gret None
         else gbind (user_error X DeleteVolumeAccessPointTimedOut err
                      [AStr (vapq_VolumeID q), AStr (vapq_AccessPointID q)]) (\<lambda>ue. gret (Some ue))))"

end
