(* ===== verification/GoUrl.thy ===== *)
theory GoUrl
  imports GoStrings
begin

text \<open>
  What the program uses of Go's \<^verbatim>\<open>net/url\<close>: \<^verbatim>\<open>url.Parse\<close> with its error cases,
  \<^verbatim>\<open>Query().Get\<close>, percent-encoding, and \<^verbatim>\<open>url.Values\<close> with \<^verbatim>\<open>Encode\<close>.  An error is its text
  (\<open>Inl\<close>).  The address inside the brackets of a literal IPv6 host is taken as it is.
\<close>

section \<open>Percent-encoding\<close>

datatype encoding =
    encodePath | encodePathSegment | encodeHost | encodeZone | encodeUserPassword
  | encodeQueryComponent | encodeFragment

definition is_letter :: "char \<Rightarrow> bool" where
  "is_letter c = (let n = (of_char c :: nat) in (65 \<le> n \<and> n \<le> 90) \<or> (97 \<le> n \<and> n \<le> 122))"

definition shouldEscape :: "char \<Rightarrow> encoding \<Rightarrow> bool" where
  "shouldEscape c mode =
     (if is_letter c \<or> is_digit c then False
      else if (mode = encodeHost \<or> mode = encodeZone) \<and> c \<in> set (CHR 0x22 # ''!$&'' @ CHR 0x27 # ''()*+,;=:[]<>'')
      then False
      else if c \<in> set ''-_.~'' then False
      else if c \<in> set ''$&+,/:;=?@''
      then (case mode of
              encodePath \<Rightarrow> c = CHR ''?''
            | encodePathSegment \<Rightarrow> c \<in> set ''/;,?''
            | encodeUserPassword \<Rightarrow> c \<in> set ''@/?:''
            | encodeQueryComponent \<Rightarrow> True
            | encodeFragment \<Rightarrow> False
            | _ \<Rightarrow> True)
      else if mode = encodeFragment \<and> c \<in> set ''!()*'' then False
      else True)"

definition is_hex :: "char \<Rightarrow> bool" where
  "is_hex c = (let n = (of_char c :: nat) in is_digit c \<or> (97 \<le> n \<and> n \<le> 102) \<or> (65 \<le> n \<and> n \<le> 70))"

definition unhex :: "char \<Rightarrow> nat" where
  "unhex c = (let n = (of_char c :: nat) in
     if 48 \<le> n \<and> n \<le> 57 then n - 48
     else if 97 \<le> n \<and> n \<le> 102 then n - 97 + 10
     else if 65 \<le> n \<and> n \<le> 70 then n - 65 + 10 else 0)"

definition upperhex :: "nat \<Rightarrow> char" where
  "upperhex d = (if d < 10 then char_of (48 + d) else char_of (55 + d))"

text \<open>\<^verbatim>\<open>strconv.Quote\<close> of an ASCII text, as \<^verbatim>\<open>%q\<close> prints it.\<close>

definition quote_char :: "char \<Rightarrow> string" where
  "quote_char c = (let n = (of_char c :: nat) in
     if n = 34 \<or> n = 92 then [CHR 0x5C, c]
     else if n = 7 then [CHR 0x5C, CHR ''a''] else if n = 8 then [CHR 0x5C, CHR ''b'']
     else if n = 12 then [CHR 0x5C, CHR ''f''] else if n = 10 then [CHR 0x5C, CHR ''n'']
     else if n = 13 then [CHR 0x5C, CHR ''r''] else if n = 9 then [CHR 0x5C, CHR ''t'']
     else if n = 11 then [CHR 0x5C, CHR ''v'']
     else if n < 32 \<or> n = 127
     then [CHR 0x5C, CHR ''x'', lower_char (upperhex (n div 16)), lower_char (upperhex (n mod 16))]
     else [c])"

definition Quote :: "string \<Rightarrow> string" where
  "Quote s = [CHR 0x22] @ concat (map quote_char s) @ [CHR 0x22]"

definition escape_char :: "encoding \<Rightarrow> char \<Rightarrow> string" where
  "escape_char mode c =
     (if shouldEscape c mode
      then if c = CHR '' '' \<and> mode = encodeQueryComponent then ''+''
           else (let n = (of_char c :: nat) in [CHR ''%'', upperhex (n div 16), upperhex (n mod 16)])
      else [c])"

definition escape :: "string \<Rightarrow> encoding \<Rightarrow> string" where
  "escape s mode = concat (map (escape_char mode) s)"

definition QueryEscape :: "string \<Rightarrow> string" where
  "QueryEscape s = escape s encodeQueryComponent"

definition EscapeError :: "string \<Rightarrow> string" where
  "EscapeError s = ''invalid URL escape '' @ Quote s"

definition InvalidHostError :: "string \<Rightarrow> string" where
  "InvalidHostError s = ''invalid character '' @ Quote s @ '' in host name''"

text \<open>The escape \<open>p\<close> (three characters) in a host or zone must be one of those allowed there.\<close>

definition hostEscape_ok :: "encoding \<Rightarrow> string \<Rightarrow> nat \<Rightarrow> nat \<Rightarrow> bool" where
  "hostEscape_ok mode p a b =
     (if mode = encodeHost then \<not> (a < 8 \<and> p \<noteq> ''%25'')
      else if mode = encodeZone
      then p = ''%25'' \<or> 16 * a + b = 32 \<or> \<not> shouldEscape (char_of (16 * a + b)) encodeHost
      else True)"

text \<open>
  The checking and the decoding pass in one: an error is that of the first bad byte, as
  nothing is returned beside it.
\<close>

fun unescape :: "string \<Rightarrow> encoding \<Rightarrow> string + string" where
  "unescape [] mode = Inr []"
| "unescape (c # cs) mode =
     (if c = CHR ''%''
      then (case cs of
              a # b # rest \<Rightarrow>
                if \<not> (is_hex a \<and> is_hex b) then Inl (EscapeError [c, a, b])
                else if \<not> hostEscape_ok mode [c, a, b] (unhex a) (unhex b) then Inl (EscapeError [c, a, b])
                else map_sum id (\<lambda>u. char_of (16 * unhex a + unhex b) # u) (unescape rest mode)
            | _ \<Rightarrow> Inl (EscapeError (c # cs)))
      else if c = CHR ''+'' \<and> mode = encodeQueryComponent
      then map_sum id (\<lambda>u. CHR '' '' # u) (unescape cs mode)
      else if (mode = encodeHost \<or> mode = encodeZone) \<and> (of_char c :: nat) < 128 \<and> shouldEscape c mode
      then Inl (InvalidHostError [c])
      else map_sum id (\<lambda>u. c # u) (unescape cs mode))"

definition QueryUnescape :: "string \<Rightarrow> string + string" where
  "QueryUnescape s = unescape s encodeQueryComponent"

section \<open>url.Parse\<close>

record URL =
  u_Scheme :: string
  u_Opaque :: string
  u_User :: "(string \<times> string option) option"
  u_Host :: string
  u_Path :: string
  u_RawPath :: string
  u_OmitHost :: bool
  u_ForceQuery :: bool
  u_RawQuery :: string
  u_Fragment :: string
  u_RawFragment :: string

definition zeroURL :: URL where
  "zeroURL = \<lparr>u_Scheme = [], u_Opaque = [], u_User = None, u_Host = [], u_Path = [], u_RawPath = [],
     u_OmitHost = False, u_ForceQuery = False, u_RawQuery = [], u_Fragment = [], u_RawFragment = []\<rparr>"

text \<open>\<open>getSchemeAcc acc rest\<close>: the scheme read so far (reversed) and what is left.\<close>

fun getSchemeAcc :: "string \<Rightarrow> string \<Rightarrow> string \<Rightarrow> string + (string \<times> string)" where
  "getSchemeAcc raw acc [] = Inr ([], raw)"
| "getSchemeAcc raw acc (c # cs) =
     (if is_letter c then getSchemeAcc raw (c # acc) cs
      else if is_digit c \<or> c \<in> set ''+-.''
      then if acc = [] then Inr ([], raw) else getSchemeAcc raw (c # acc) cs
      else if c = CHR '':''
      then if acc = [] then Inl ''missing protocol scheme'' else Inr (rev acc, cs)
      else Inr ([], raw))"

definition getScheme :: "string \<Rightarrow> string + (string \<times> string)" where
  "getScheme raw = getSchemeAcc raw [] raw"

definition validOptionalPort :: "string \<Rightarrow> bool" where
  "validOptionalPort port = (port = [] \<or> (hd port = CHR '':'' \<and> list_all is_digit (tl port)))"

text \<open>The text before and after the last occurrence of \<open>c\<close>.\<close>

definition cutLast :: "string \<Rightarrow> char \<Rightarrow> (string \<times> string) option" where
  "cutLast s c =
     (if c \<in> set s
      then Some (rev (tl (dropWhile (\<lambda>x. x \<noteq> c) (rev s))), rev (takeWhile (\<lambda>x. x \<noteq> c) (rev s)))
      else None)"

definition parseHost :: "string \<Rightarrow> string + string" where
  "parseHost host =
     (if HasPrefix host ''[''
      then case cutLast host CHR '']'' of
             None \<Rightarrow> Inl ''missing ']' in host''
           | Some (addr, colonPort) \<Rightarrow>
               if \<not> validOptionalPort colonPort
               then Inl (''invalid port '' @ Quote colonPort @ '' after host'')
               else if Contains addr ''%25''
               then (let pre = hd (Split addr ''%25''); zone = drop (length pre) addr in
                     case (unescape pre encodeHost, unescape zone encodeZone,
                           unescape ('']'' @ colonPort) encodeHost) of
                       (Inl e, _, _) \<Rightarrow> Inl e
                     | (_, Inl e, _) \<Rightarrow> Inl e
                     | (_, _, Inl e) \<Rightarrow> Inl e
                     | (Inr a, Inr b, Inr c) \<Rightarrow> Inr (a @ b @ c))
               else unescape host encodeHost
      else case cutLast host CHR '':'' of
             None \<Rightarrow> unescape host encodeHost
           | Some (name, port) \<Rightarrow>
               if \<not> validOptionalPort ('':'' @ port)
               then Inl (''invalid port '' @ Quote ('':'' @ port) @ '' after host'')
               else unescape host encodeHost)"

definition validUserinfo :: "string \<Rightarrow> bool" where
  "validUserinfo s =
     list_all (\<lambda>c. is_letter c \<or> is_digit c \<or> c \<in> set (''-._:~!$&'' @ CHR 0x27 # ''()*+,;=%@'')) s"

definition parseAuthority :: "string \<Rightarrow> string + ((string \<times> string option) option \<times> string)" where
  "parseAuthority authority =
     (case cutLast authority CHR ''@'' of
        None \<Rightarrow> map_sum id (\<lambda>h. (None, h)) (parseHost authority)
      | Some (userinfo, hostpart) \<Rightarrow>
          (case parseHost hostpart of
             Inl e \<Rightarrow> Inl e
           | Inr h \<Rightarrow>
               if \<not> validUserinfo userinfo then Inl ''net/url: invalid userinfo''
               else if \<not> Contains userinfo '':''
               then map_sum id (\<lambda>u. (Some (u, None), h)) (unescape userinfo encodeUserPassword)
               else (let (username, password, _) = Cut userinfo CHR '':'' in
                     case unescape username encodeUserPassword of
                       Inl e \<Rightarrow> Inl e
                     | Inr u \<Rightarrow> map_sum id (\<lambda>p. (Some (u, Some p), h)) (unescape password encodeUserPassword))))"

definition setPath :: "URL \<Rightarrow> string \<Rightarrow> string + URL" where
  "setPath u p =
     (case unescape p encodePath of
        Inl e \<Rightarrow> Inl e
      | Inr path \<Rightarrow> Inr (u\<lparr>u_Path := path, u_RawPath := (if p = escape path encodePath then [] else p)\<rparr>))"

definition stringContainsCTLByte :: "string \<Rightarrow> bool" where
  "stringContainsCTLByte s = list_ex (\<lambda>c. (of_char c :: nat) < 32 \<or> (of_char c :: nat) = 127) s"

text \<open>\<^verbatim>\<open>parse(rawURL, false)\<close>\<close>

definition parse :: "string \<Rightarrow> string + URL" where
  "parse rawURL =
     (if stringContainsCTLByte rawURL then Inl ''net/url: invalid control character in URL''
      else if rawURL = ''*'' then Inr (zeroURL\<lparr>u_Path := ''*''\<rparr>)
      else case getScheme rawURL of
        Inl e \<Rightarrow> Inl e
      | Inr (scheme, rest) \<Rightarrow>
          let url = zeroURL\<lparr>u_Scheme := ToLower scheme\<rparr>;
              force = (HasSuffix rest ''?'' \<and> count_list rest CHR ''?'' = 1);
              (rest', query, _) = Cut rest CHR ''?'';
              url = url\<lparr>u_ForceQuery := force, u_RawQuery := query\<rparr>
          in if \<not> HasPrefix rest' ''/'' \<and> u_Scheme url \<noteq> [] then Inr (url\<lparr>u_Opaque := rest'\<rparr>)
             else if \<not> HasPrefix rest' ''/'' \<and> Contains (fst (Cut rest' CHR ''/'')) '':''
             then Inl ''first path segment in URL cannot contain colon''
             else if (u_Scheme url \<noteq> [] \<or> \<not> HasPrefix rest' ''///'') \<and> HasPrefix rest' ''//''
             then (let after = drop 2 rest';
                       authority = takeWhile (\<lambda>c. c \<noteq> CHR ''/'') after;
                       path = dropWhile (\<lambda>c. c \<noteq> CHR ''/'') after
                   in case parseAuthority authority of
                        Inl e \<Rightarrow> Inl e
                      | Inr (user, host) \<Rightarrow> setPath (url\<lparr>u_User := user, u_Host := host\<rparr>) path)
             else setPath (url\<lparr>u_OmitHost := (u_Scheme url \<noteq> [] \<and> HasPrefix rest' ''/'')\<rparr>) rest')"

text \<open>\<^verbatim>\<open>url.Parse\<close>; the text of its error is that of \<^verbatim>\<open>*url.Error\<close>.\<close>

definition url_error :: "string \<Rightarrow> string \<Rightarrow> string" where
  "url_error raw e = ''parse '' @ Quote raw @ '': '' @ e"

definition Parse :: "string \<Rightarrow> string + URL" where
  "Parse rawURL =
     (let (u, frag, _) = Cut rawURL CHR ''#'' in
      case parse u of
        Inl e \<Rightarrow> Inl (url_error u e)
      | Inr url \<Rightarrow>
          if frag = [] then Inr url
          else (case unescape frag encodeFragment of
                  Inl e \<Rightarrow> Inl (url_error rawURL e)
                | Inr f \<Rightarrow> Inr (url\<lparr>u_Fragment := f,
                    u_RawFragment := (if frag = escape f encodeFragment then [] else frag)\<rparr>)))"

section \<open>Printing and resolving a URL\<close>

definition validEncoded :: "string \<Rightarrow> encoding \<Rightarrow> bool" where
  "validEncoded s mode =
     list_all (\<lambda>c. c \<in> set (''!$&'' @ CHR 0x27 # ''()*+,;=:@[]%'') \<or> \<not> shouldEscape c mode) s"

definition EscapedPath :: "URL \<Rightarrow> string" where
  "EscapedPath u =
     (if u_RawPath u \<noteq> [] \<and> validEncoded (u_RawPath u) encodePath \<and>
         unescape (u_RawPath u) encodePath = Inr (u_Path u)
      then u_RawPath u
      else if u_Path u = ''*'' then ''*'' else escape (u_Path u) encodePath)"

definition EscapedFragment :: "URL \<Rightarrow> string" where
  "EscapedFragment u =
     (if u_RawFragment u \<noteq> [] \<and> validEncoded (u_RawFragment u) encodeFragment \<and>
         unescape (u_RawFragment u) encodeFragment = Inr (u_Fragment u)
      then u_RawFragment u else escape (u_Fragment u) encodeFragment)"

definition userinfo_text :: "string \<times> string option \<Rightarrow> string" where
  "userinfo_text ui = (case ui of
       (u, None) \<Rightarrow> escape u encodeUserPassword
     | (u, Some p) \<Rightarrow> escape u encodeUserPassword @ '':'' @ escape p encodeUserPassword)"

definition url_prefix :: "URL \<Rightarrow> string" where
  "url_prefix u =
     (if u_Scheme u \<noteq> [] \<or> u_Host u \<noteq> [] \<or> u_User u \<noteq> None
      then if u_OmitHost u \<and> u_Host u = [] \<and> u_User u = None then []
           else (if u_Host u \<noteq> [] \<or> u_Path u \<noteq> [] \<or> u_User u \<noteq> None then ''//'' else []) @
                (case u_User u of None \<Rightarrow> [] | Some ui \<Rightarrow> userinfo_text ui @ ''@'') @
                (if u_Host u \<noteq> [] then escape (u_Host u) encodeHost else [])
      else [])"

definition URLString :: "URL \<Rightarrow> string" where
  "URLString u =
     (let scheme = (if u_Scheme u \<noteq> [] then u_Scheme u @ '':'' else []);
          path = EscapedPath u;
          start = scheme @ url_prefix u @ (if path \<noteq> [] \<and> hd path \<noteq> CHR ''/'' \<and> u_Host u \<noteq> [] then ''/'' else []);
          start = (if start = [] \<and> Contains (fst (Cut path CHR ''/'')) '':'' then ''./'' else start);
          body = (if u_Opaque u \<noteq> [] then scheme @ u_Opaque u else start @ path)
      in body @ (if u_ForceQuery u \<or> u_RawQuery u \<noteq> [] then ''?'' @ u_RawQuery u else []) @
         (if u_Fragment u \<noteq> [] then ''#'' @ EscapedFragment u else []))"

text \<open>
  The loop of \<^verbatim>\<open>resolvePath\<close> over the elements of the path: \<open>dst\<close> is what is written after
  the leading slash, \<open>first\<close> whether the next element needs no separator.
\<close>

fun resolveElems :: "string list \<Rightarrow> string \<Rightarrow> bool \<Rightarrow> string \<times> bool" where
  "resolveElems [] dst first = (dst, first)"
| "resolveElems (e # es) dst first =
     (if e = ''.'' then resolveElems es dst False
      else if e = ''..''
      then (case cutLast dst CHR ''/'' of
              None \<Rightarrow> resolveElems es [] True
            | Some (keep, _) \<Rightarrow> resolveElems es keep first)
      else resolveElems es (dst @ (if first then [] else ''/'') @ e) False)"

definition resolvePath :: "string \<Rightarrow> string \<Rightarrow> string" where
  "resolvePath base ref =
     (let full = (if ref = [] then base
                  else if hd ref \<noteq> CHR ''/''
                  then (case cutLast base CHR ''/'' of None \<Rightarrow> [] | Some (d, _) \<Rightarrow> d @ ''/'') @ ref
                  else ref)
      in if full = [] then []
         else let elems = Split full ''/'';
                  (dst, _) = resolveElems elems [] True;
                  r = ''/'' @ dst @ (if last elems = ''.'' \<or> last elems = ''..'' then ''/'' else [])
              in if length r > 1 \<and> r ! 1 = CHR ''/'' then tl r else r)"

text \<open>\<^verbatim>\<open>setPath\<close> with its error dropped, as \<^verbatim>\<open>ResolveReference\<close> calls it.\<close>

definition setPath_ok :: "URL \<Rightarrow> string \<Rightarrow> URL" where
  "setPath_ok u p = (case setPath u p of Inl e \<Rightarrow> u | Inr u' \<Rightarrow> u')"

definition ResolveReference :: "URL \<Rightarrow> URL \<Rightarrow> URL" where
  "ResolveReference u ref =
     (let url = (if u_Scheme ref = [] then ref\<lparr>u_Scheme := u_Scheme u\<rparr> else ref) in
      if u_Scheme ref \<noteq> [] \<or> u_Host ref \<noteq> [] \<or> u_User ref \<noteq> None
      then setPath_ok url (resolvePath (EscapedPath ref) [])
      else if u_Opaque ref \<noteq> []
      then url\<lparr>u_Opaque := u_Opaque ref, u_User := None, u_Host := [], u_Path := []\<rparr>
      else
        let url = (if u_Path ref = [] \<and> \<not> u_ForceQuery ref \<and> u_RawQuery ref = []
                   then let url = url\<lparr>u_RawQuery := u_RawQuery u\<rparr>
                        in if u_Fragment ref = []
                           then url\<lparr>u_Fragment := u_Fragment u, u_RawFragment := u_RawFragment u\<rparr> else url
                   else url)
        in if u_Path ref = [] \<and> u_Opaque u \<noteq> []
           then url\<lparr>u_Opaque := u_Opaque u, u_User := None, u_Host := [], u_Path := []\<rparr>
           else setPath_ok (url\<lparr>u_Host := u_Host u, u_User := u_User u\<rparr>)
                  (resolvePath (EscapedPath u) (EscapedPath ref)))"

section \<open>url.Values\<close>

text \<open>The keys in order of their first insertion, each with its list of values.\<close>

type_synonym url_values = "(string \<times> string list) list"

fun values_add :: "string \<Rightarrow> string \<Rightarrow> url_values \<Rightarrow> url_values" where
  "values_add k v [] = [(k, [v])]"
| "values_add k v ((k', vs) # m) = (if k' = k then (k', vs @ [v]) # m else (k', vs) # values_add k v m)"

fun values_set :: "string \<Rightarrow> string \<Rightarrow> url_values \<Rightarrow> url_values" where
  "values_set k v [] = [(k, [v])]"
| "values_set k v ((k', vs) # m) = (if k' = k then (k', [v]) # m else (k', vs) # values_set k v m)"

definition values_get :: "url_values \<Rightarrow> string \<Rightarrow> string" where
  "values_get m k = (case map_of m k of Some (v # vs) \<Rightarrow> v | _ \<Rightarrow> [])"

text \<open>\<^verbatim>\<open>ParseQuery\<close> over the settings between the ampersands; a bad one is left out.\<close>

fun parseSettings :: "string list \<Rightarrow> url_values \<Rightarrow> url_values" where
  "parseSettings [] m = m"
| "parseSettings (kv # kvs) m =
     (if Contains kv '';'' \<or> kv = [] then parseSettings kvs m
      else let (k, v, _) = Cut kv CHR ''='' in
        case (QueryUnescape k, QueryUnescape v) of
          (Inr k', Inr v') \<Rightarrow> parseSettings kvs (values_add k' v' m)
        | _ \<Rightarrow> parseSettings kvs m)"

definition Query :: "URL \<Rightarrow> url_values" where
  "Query u = (if u_RawQuery u = [] then [] else parseSettings (Split (u_RawQuery u) ''&'') [])"

text \<open>\<^verbatim>\<open>Values.Encode\<close>: sorted by key.\<close>

fun byte_le :: "string \<Rightarrow> string \<Rightarrow> bool" where
  "byte_le [] t = True"
| "byte_le (c # cs) [] = False"
| "byte_le (c # cs) (d # ds) =
     ((of_char c :: nat) < of_char d \<or> (c = d \<and> byte_le cs ds))"

fun insert_key :: "string \<times> string list \<Rightarrow> url_values \<Rightarrow> url_values" where
  "insert_key p [] = [p]"
| "insert_key p (q # qs) = (if byte_le (fst p) (fst q) then p # q # qs else q # insert_key p qs)"

definition sort_keys :: "url_values \<Rightarrow> url_values" where
  "sort_keys m = foldr insert_key m []"

definition Encode :: "url_values \<Rightarrow> string" where
  "Encode m = Join (concat (map (\<lambda>(k, vs). map (\<lambda>v. QueryEscape k @ ''='' @ QueryEscape v) vs) (sort_keys m))) ''&''"

section \<open>Lemmas\<close>

lemma upperhex_hex: "d < 16 \<Longrightarrow> is_hex (upperhex d) \<and> unhex (upperhex d) = d"
proof -
  assume "d < 16"
  then have "d \<in> set [0 ..< 16]" by simp
  moreover have "\<forall>d \<in> set [0 ..< 16]. is_hex (upperhex d) \<and> unhex (upperhex d) = d"
    by (simp add: upt_rec is_hex_def unhex_def upperhex_def is_digit_def)
  ultimately show ?thesis by blast
qed

lemma of_char_less: "(of_char (c :: char) :: nat) < 256"
proof -
  have "of_char (char_of (of_char c :: nat) :: char) = (of_char c :: nat) mod 256" by (rule of_char_of)
  then have "(of_char c :: nat) = of_char c mod 256" by simp
  then show ?thesis by (metis mod_less_divisor zero_less_numeral)
qed

text \<open>What was escaped as a query component is read back.\<close>

lemma QueryUnescape_escape: "QueryUnescape (QueryEscape s) = Inr s"
proof (induction s)
  case (Cons c s)
  have n: "(of_char c :: nat) div 16 < 16" "(of_char c :: nat) mod 16 < 16"
    using of_char_less [of c] by (simp_all add: less_mult_imp_div_less)
  have pct: "shouldEscape CHR ''%'' encodeQueryComponent" "shouldEscape CHR ''+'' encodeQueryComponent"
    by (simp_all add: shouldEscape_def is_letter_def is_digit_def)
  from Cons have ih: "unescape (concat (map (escape_char encodeQueryComponent) s)) encodeQueryComponent = Inr s"
    by (simp add: QueryUnescape_def QueryEscape_def escape_def)
  show ?case
  proof (cases "shouldEscape c encodeQueryComponent")
    case True
    then show ?thesis using ih upperhex_hex [OF n(1)] upperhex_hex [OF n(2)]
      by (auto simp: QueryUnescape_def QueryEscape_def escape_def escape_char_def Let_def hostEscape_ok_def)
  next
    case False
    with pct have "c \<noteq> CHR ''%''" "c \<noteq> CHR ''+''" by auto
    with False ih show ?thesis
      by (simp add: QueryUnescape_def QueryEscape_def escape_def escape_char_def)
  qed
qed (simp add: QueryUnescape_def QueryEscape_def escape_def)

end
