(* ===== verification/Samples.thy ===== *)
theory Samples
  imports VpcApi
begin

text \<open>
  Concrete sessions and values on which the witnesses evaluate the properties: an API
  client that refuses every call with a given error (a witness then updates the operation
  it is about), a session on such a client, and the texts of the interface library.
\<close>

definition sampleExt :: ext where
  "sampleExt = \<lparr>MessageErrorString = msg_Code,
     UtilErrorString = (\<lambda>c d ws. c), ReasonErrorRequiredFieldMissing = ''ErrorRequiredFieldMissing''\<rparr>"

definition item_of :: "string \<Rightarrow> ErrorItem" where
  "item_of c = \<lparr>ei_Code = c, ei_Message = [], ei_MoreInfo = [], ei_Target = None, ei_Status = []\<rparr>"

definition api_error :: "string \<Rightarrow> goerror" where
  "api_error c = ModelsError \<lparr>err_Errors = [item_of c], err_Trace = []\<rparr>"

definition refusing :: "goerror \<Rightarrow> 'w FileShareManager" where
  "refusing e =
     \<lparr>fs_GetShareProfile = \<lambda>_ w. ((None, Some e), w),
      fs_CreateFileShare = \<lambda>_ w. ((None, Some e), w),
      fs_UpdateVolume = \<lambda>_ w. (Some e, w),
      fs_ListFileShares = \<lambda>_ _ _ w. ((None, Some e), w),
      fs_GetFileShare = \<lambda>_ w. ((None, Some e), w),
      fs_GetFileShareByName = \<lambda>_ w. ((None, Some e), w),
      fs_GetFileShareEtag = \<lambda>_ w. ((None, [], Some e), w),
      fs_UpdateFileShareWithEtag = \<lambda>_ _ _ w. (Some e, w),
      fs_DeleteFileShare = \<lambda>_ w. (Some e, w),
      fs_CreateFileShareTarget = \<lambda>_ w. ((None, Some e), w),
      fs_ListFileShareTargets = \<lambda>_ _ w. ((None, Some e), w),
      fs_GetFileShareTarget = \<lambda>_ _ w. ((None, Some e), w),
      fs_GetFileShareTargetByName = \<lambda>_ _ w. ((None, Some e), w),
      fs_DeleteFileShareTarget = \<lambda>_ w. ((None, Some e), w),
      fs_ExpandVolume = \<lambda>_ _ w. ((None, Some e), w),
      fs_ListSubnets = \<lambda>_ _ _ w. ((None, Some e), w),
      fs_ListSecurityGroups = \<lambda>_ _ _ w. ((None, Some e), w)\<rparr>"

definition refusingSnapshots :: "goerror \<Rightarrow> 'w SnapshotManager" where
  "refusingSnapshots e =
     \<lparr>ss_CreateSnapshot = \<lambda>_ _ w. ((None, Some e), w),
      ss_DeleteSnapshot = \<lambda>_ _ w. (Some e, w),
      ss_GetSnapshot = \<lambda>_ _ w. ((None, Some e), w),
      ss_GetSnapshotByName = \<lambda>_ _ w. ((None, Some e), w),
      ss_ListSnapshots = \<lambda>_ _ _ _ w. ((None, Some e), w)\<rparr>"

definition sampleSession :: "'w FileShareManager \<Rightarrow> 'w SnapshotManager \<Rightarrow> 'w VPCSession" where
  "sampleSession fsm ssm =
     \<lparr>vs_VPCAccountID = ''acct'',
      vs_ContextCredentials = \<lparr>cc_AuthType = IAMAccessToken, cc_Credential = ''tok'',
        cc_IAMAccountID = ''acct'', cc_UserID = ''user''\<rparr>,
      vs_VolumeType = VolumeType_name, vs_Provider = VPC_provider_name,
      vs_Apiclient = \<lparr>api_FileShareService = fsm, api_SnapshotService = ssm\<rparr>,
      vs_APIRetry = \<lparr>fr_maxRetryAttempt = 2, fr_maxRetryGap = 60\<rparr>\<rparr>"

definition fileSession :: "'w FileShareManager \<Rightarrow> 'w VPCSession" where
  "fileSession fsm = sampleSession fsm (refusingSnapshots (api_error ''internal_error''))"

definition snapshotSession :: "'w SnapshotManager \<Rightarrow> 'w VPCSession" where
  "snapshotSession ssm = sampleSession (refusing (api_error ''internal_error'')) ssm"

definition sampleVolumeID :: string where "sampleVolumeID = ''r134-a-b-c-d''"

definition sampleVolume :: Volume where
  "sampleVolume = zeroVolume
     \<lparr>vol_VolumeID := sampleVolumeID, vol_Name := Some ''share-1'', vol_Capacity := Some 10,
      vol_Iops := Some ''100'', vol_Profile := Some (zeroLibProfile\<lparr>lpr_Name := ''dp2''\<rparr>),
      vol_ResourceGroup := Some \<lparr>lrg_ID = ''rg'', lrg_Name = []\<rparr>, vol_Region := ''us-south''\<rparr>"

definition sampleShare :: Share where
  "sampleShare = zeroShare\<lparr>sh_ID := sampleVolumeID, sh_Size := 10, sh_Status := ''stable''\<rparr>"

lemma fileSession_sel [simp]:
  "api_FileShareService (vs_Apiclient (fileSession m)) = m"
  "vs_APIRetry (fileSession m) = \<lparr>fr_maxRetryAttempt = 2, fr_maxRetryGap = 60\<rparr>"
  by (simp_all add: fileSession_def sampleSession_def)

lemma snapshotSession_sel [simp]:
  "api_SnapshotService (vs_Apiclient (snapshotSession m)) = m"
  "vs_APIRetry (snapshotSession m) = \<lparr>fr_maxRetryAttempt = 2, fr_maxRetryGap = 60\<rparr>"
  by (simp_all add: snapshotSession_def sampleSession_def)

lemma init_gost_sel [simp]:
  "maxRetryAttempt (init_gost w) = 10" "world (init_gost w) = w" "MessagesEn (init_gost w) = Map.empty"
  "maxRetryGap (init_gost w) = 60" "retryGap (init_gost w) = 10" "slept (init_gost w) = []"
  by (simp_all add: init_gost_def)

lemma init_gost_world [simp]: "(init_gost w)\<lparr>world := w'\<rparr> = init_gost w'"
  by (simp add: init_gost_def)

text \<open>A retried call that stops at once, evaluated on the start state.\<close>

lemma retry_init:
  "retry_stop (fst (f w)) \<Longrightarrow> retry f c0 (init_gost w) = (Ret (fst (f w)), init_gost (snd (f w)))"
  by (rule retry_first_stop [of f, where s = "init_gost w", simplified]) simp_all

lemma minRetries_init:
  "retry_stop (fst (f w)) \<Longrightarrow>
     retryWithMinRetries f c0 (init_gost w) = (Ret (fst (f w)), init_gost (snd (f w)))"
proof -
  assume stop: "retry_stop (fst (f w))"
  have n: "nat minRetryAttempt = Suc 4" by (simp add: minRetryAttempt_def)
  have "minRetries_loop f 0 (Suc 4) 10 (None, c0) (init_gost w) = (fst (f w), (init_gost w)\<lparr>world := snd (f w)\<rparr>)"
    by (subst minRetries_loop_Suc_stop [OF _ stop]) simp_all
  then show ?thesis by (simp add: retryWithMinRetries_def n del: minRetries_loop.simps)
qed

lemma skipRetry_api_error:
  "skipRetry \<lparr>err_Errors = [item_of c], err_Trace = t\<rparr> =
     (case skipErrorCodes c of Some st \<Rightarrow> st | None \<Rightarrow> False)"
  by (simp add: skipRetry_def item_of_def split: option.split)

end
