(* ===== verification/NetLookup.thy ===== *)
theory NetLookup
  imports Convert GoUrl Samples
begin

text \<open>
  The lookups of a subnet and of a security group (\<^verbatim>\<open>get_subnet.go\<close>,
  \<^verbatim>\<open>get_security_group.go\<close> of \<^verbatim>\<open>file/provider\<close>).  Both read a paged listing in an unbounded
  \<^verbatim>\<open>for\<close> loop, following the \<^verbatim>\<open>start\<close> parameter of the next link.  A loop body is a step
  that ends the lookup (\<open>Inl\<close>) or names the next page (\<open>Inr\<close>); \<open>page_loop n\<close> runs at most
  \<open>n\<close> bodies, and \<open>None\<close> means that the loop has not ended by then.
\<close>

section \<open>The loop\<close>

fun page_loop ::
  "nat \<Rightarrow> (string \<Rightarrow> 'w \<Rightarrow> ('r + string) \<times> 'w) \<Rightarrow> string \<Rightarrow> 'w \<Rightarrow> 'r option \<times> 'w" where
  "page_loop 0 step start w = (None, w)"
| "page_loop (Suc n) step start w =
     (case step start w of
        (Inl r, w') \<Rightarrow> (Some r, w')
      | (Inr next, w') \<Rightarrow> page_loop n step next w')"

text \<open>The next page of a link: the \<^verbatim>\<open>start\<close> parameter of its query, or a parse error.\<close>

definition next_start :: "string \<Rightarrow> string + string" where
  "next_start href = map_sum id (\<lambda>u. values_get (Query u) ''start'') (Parse href)"

section \<open>Subnets\<close>

record SubnetRequest =
  snq_SubnetIDList :: string
  snq_ZoneName :: string
  snq_VPCID :: string
  snq_ResourceGroup :: "LibResourceGroup option"

definition subnet_not_found :: "ext \<Rightarrow> catalogue \<Rightarrow> SubnetRequest \<Rightarrow> goerror \<Rightarrow> string \<times> goerror option" where
  "subnet_not_found X en req e =
     ([], Some (GetUserError X en ''SubnetFindFailed'' (Some e) [AStr (snq_ZoneName req), AStr (snq_SubnetIDList req)]))"

definition subnet_step ::
  "ext \<Rightarrow> catalogue \<Rightarrow> 'w VPCSession \<Rightarrow> SubnetRequest \<Rightarrow> ListSubnetFilters \<Rightarrow> string \<Rightarrow> 'w
     \<Rightarrow> ((string \<times> goerror option) + string) \<times> 'w" where
  "subnet_step X en vpcs req filters start w =
     (case fs_ListSubnets (FileShareService vpcs) pageSize start (Some filters) w of
        ((subnets, Some e), w') \<Rightarrow> (Inl ([], Some (GetUserError X en ''SubnetsListFailed'' (Some e) [])), w')
      | ((None, None), w') \<Rightarrow>
          (Inl ([], Some (GetUserError X en ''SubnetsListFailed'' (Some (PlainError ''Subnet list is empty'')) [])), w')
      | ((Some subnets, None), w') \<Rightarrow>
          (case List.find (\<lambda>item. Contains (snq_SubnetIDList req) (sub_ID item)) (subl_Subnets subnets) of
             Some item \<Rightarrow> (Inl (sub_ID item, None), w')
           | None \<Rightarrow>
               (case subl_Next subnets of
                  None \<Rightarrow> (Inl (subnet_not_found X en req (PlainError ''no subnet found'')), w')
                | Some link \<Rightarrow>
                    (case next_start (href_Href link) of
                       Inl e \<Rightarrow> (Inl (subnet_not_found X en req (PlainError e)), w')
                     | Inr next \<Rightarrow>
                         if next = []
                         then (Inl (subnet_not_found X en req (PlainError ''no subnet found'')), w')
                         else (Inr next, w')))))"

definition getSubnetByZoneAndSubnetID ::
  "nat \<Rightarrow> ext \<Rightarrow> 'w VPCSession \<Rightarrow> SubnetRequest \<Rightarrow> ('w gost, (string \<times> goerror option) option) go" where
  "getSubnetByZoneAndSubnetID n X vpcs req =
     gbind (deref (snq_ResourceGroup req)) (\<lambda>rg.
     let filters = \<lparr>subf_ResourceGroupID = lrg_ID rg, subf_VPCID = snq_VPCID req,
                    subf_ZoneName = snq_ZoneName req\<rparr> in
     gbind gget (\<lambda>s. call_api (page_loop n (subnet_step X (MessagesEn s) vpcs req filters) [])))"

definition GetSubnetForVolumeAccessPoint ::
  "nat \<Rightarrow> ext \<Rightarrow> 'w VPCSession \<Rightarrow> SubnetRequest \<Rightarrow> ('w gost, (string \<times> goerror option) option) go" where
  "GetSubnetForVolumeAccessPoint n X vpcs req = getSubnetByZoneAndSubnetID n X vpcs req"

section \<open>Security groups\<close>

record SecurityGroupRequest =
  sgq_Name :: string
  sgq_VPCID :: string
  sgq_ResourceGroup :: "LibResourceGroup option"

definition security_group_not_found ::
  "ext \<Rightarrow> catalogue \<Rightarrow> SecurityGroupRequest \<Rightarrow> goerror \<Rightarrow> string \<times> goerror option" where
  "security_group_not_found X en req e =
     ([], Some (GetUserError X en ''SecurityGroupFindFailed'' (Some e) [AStr (sgq_Name req)]))"

definition security_group_step ::
  "ext \<Rightarrow> catalogue \<Rightarrow> 'w VPCSession \<Rightarrow> SecurityGroupRequest \<Rightarrow> ListSecurityGroupFilters \<Rightarrow> string \<Rightarrow> 'w
     \<Rightarrow> ((string \<times> goerror option) + string) \<times> 'w" where
  "security_group_step X en vpcs req filters start w =
     (case fs_ListSecurityGroups (FileShareService vpcs) pageSize start (Some filters) w of
        ((groups, Some e), w') \<Rightarrow> (Inl ([], Some (GetUserError X en ''SecurityGroupsListFailed'' (Some e) [])), w')
      | ((None, None), w') \<Rightarrow>
          (Inl ([], Some (GetUserError X en ''SecurityGroupsListFailed''
                  (Some (PlainError ''SecurityGroup list is empty'')) [])), w')
      | ((Some groups, None), w') \<Rightarrow>
          (case List.find (\<lambda>item. EqualFold (sgq_Name req) (sg_Name item)) (sgl_SecurityGroups groups) of
             Some item \<Rightarrow> (Inl (sg_ID item, None), w')
           | None \<Rightarrow>
               (case sgl_Next groups of
                  None \<Rightarrow> (Inl (security_group_not_found X en req (PlainError ''no securityGroup found'')), w')
                | Some link \<Rightarrow>
                    (case next_start (href_Href link) of
                       Inl e \<Rightarrow> (Inl (security_group_not_found X en req (PlainError e)), w')
                     | Inr next \<Rightarrow>
                         if next = []
                         then (Inl (security_group_not_found X en req (PlainError ''no securityGroup found'')), w')
                         else (Inr next, w')))))"

definition getSecurityGroupByVPCAndSecurityGroupName ::
  "nat \<Rightarrow> ext \<Rightarrow> 'w VPCSession \<Rightarrow> SecurityGroupRequest \<Rightarrow> ('w gost, (string \<times> goerror option) option) go" where
  "getSecurityGroupByVPCAndSecurityGroupName n X vpcs req =
     gbind (deref (sgq_ResourceGroup req)) (\<lambda>rg.
     let filters = \<lparr>sgf_ResourceGroupID = lrg_ID rg, sgf_VPCID = sgq_VPCID req\<rparr> in
     gbind gget (\<lambda>s. call_api (page_loop n (security_group_step X (MessagesEn s) vpcs req filters) [])))"

definition GetSecurityGroupForVolumeAccessPoint ::
  "nat \<Rightarrow> ext \<Rightarrow> 'w VPCSession \<Rightarrow> SecurityGroupRequest \<Rightarrow> ('w gost, (string \<times> goerror option) option) go" where
  "GetSecurityGroupForVolumeAccessPoint n X vpcs req = getSecurityGroupByVPCAndSecurityGroupName n X vpcs req"

section \<open>The contract of a paged lookup\<close>

text \<open>
  \<open>good r\<close>: \<open>r\<close> is a successful answer; \<open>listed r w\<close>: some page that was read in world \<open>w\<close>
  holds it.
\<close>

locale paged_lookup =
  fixes step :: "string \<Rightarrow> 'w \<Rightarrow> ((string \<times> goerror option) + string) \<times> 'w"
    and listed :: "string \<Rightarrow> bool"
  assumes success_listed: "step start w = (Inl (r, None), w') \<Longrightarrow> listed r"
    and failure_empty: "step start w = (Inl (r, Some e), w') \<Longrightarrow> r = []"
    and next_nonempty: "step start w = (Inr next, w') \<Longrightarrow> next \<noteq> []"
begin

lemma more_fuel: "page_loop n step start w = (Some r, w') \<Longrightarrow> n \<le> m \<Longrightarrow> page_loop m step start w = (Some r, w')"
proof (induction n arbitrary: start w m)
  case (Suc n)
  then obtain k where m: "m = Suc k" by (cases m) auto
  from Suc.prems m Suc.IH show ?case by (auto split: prod.splits sum.splits)
qed simp

lemma answer:
  "page_loop n step start w = (Some (r, e), w') \<Longrightarrow> (e = None \<longrightarrow> listed r) \<and> (e \<noteq> None \<longrightarrow> r = [])"
  by (induction n arbitrary: start w)
    (auto split: prod.splits sum.splits dest: success_listed failure_empty)

lemma terminates:
  assumes "\<And>start w nx w'. step start w = (Inr nx, w') \<Longrightarrow> rank nx < (rank start :: nat)"
  shows "\<exists>r w'. page_loop (Suc (rank start)) step start w = (Some r, w')"
proof (induction "rank start" arbitrary: start w rule: less_induct)
  case less
  obtain o1 w1 where st: "step start w = (o1, w1)" by (cases "step start w")
  show ?case
  proof (cases o1)
    case (Inr nx)
    with st assms have lt: "rank nx < rank start" by blast
    from less [OF lt] obtain r w' where "page_loop (Suc (rank nx)) step nx w1 = (Some r, w')" by blast
    then have "page_loop (rank start) step nx w1 = (Some r, w')" by (rule more_fuel) (use lt in simp)
    with st Inr show ?thesis by simp
  qed (use st in simp)
qed

lemma diverges:
  assumes "\<And>start w. \<exists>nx w'. step start w = (Inr nx, w')"
  shows "fst (page_loop n step start w) = None"
proof (induction n arbitrary: start w)
  case (Suc n)
  obtain nx w' where "step start w = (Inr nx, w')" using assms by blast
  with Suc.IH show ?case by simp
qed simp

end

text \<open>What makes an answer good: a page of the listing holds an item that matches it.\<close>

definition subnet_listed :: "'w VPCSession \<Rightarrow> SubnetRequest \<Rightarrow> ListSubnetFilters \<Rightarrow> string \<Rightarrow> bool" where
  "subnet_listed vpcs req filters r \<longleftrightarrow>
     (\<exists>start w page w' item. fs_ListSubnets (FileShareService vpcs) pageSize start (Some filters) w = ((Some page, None), w') \<and>
        item \<in> set (subl_Subnets page) \<and> sub_ID item = r \<and> Contains (snq_SubnetIDList req) r)"

definition security_group_listed ::
  "'w VPCSession \<Rightarrow> SecurityGroupRequest \<Rightarrow> ListSecurityGroupFilters \<Rightarrow> string \<Rightarrow> bool" where
  "security_group_listed vpcs req filters r \<longleftrightarrow>
     (\<exists>start w page w' item. fs_ListSecurityGroups (FileShareService vpcs) pageSize start (Some filters) w
          = ((Some page, None), w') \<and>
        item \<in> set (sgl_SecurityGroups page) \<and> sg_ID item = r \<and> EqualFold (sgq_Name req) (sg_Name item))"

lemma find_SomeD: "List.find P xs = Some x \<Longrightarrow> x \<in> set xs \<and> P x"
  by (auto simp: find_Some_iff)

lemma subnet_step_success:
  assumes "subnet_step X en vpcs req filters start w = (Inl (r, None), w')"
  shows "subnet_listed vpcs req filters r"
proof -
  obtain page err w1 where call: "fs_ListSubnets (FileShareService vpcs) pageSize start (Some filters) w = ((page, err), w1)"
    by (metis prod.exhaust)
  with assms obtain items item where "err = None" and "page = Some items"
    and "List.find (\<lambda>item. Contains (snq_SubnetIDList req) (sub_ID item)) (subl_Subnets items) = Some item" and "sub_ID item = r"
    by (auto simp: subnet_step_def subnet_not_found_def split: option.splits sum.splits if_splits)
  with call find_SomeD [OF this(3)] show ?thesis unfolding subnet_listed_def by blast
qed

interpretation subnets: paged_lookup "subnet_step X en vpcs req filters" "subnet_listed vpcs req filters"
  for X en vpcs req filters
  by (unfold_locales, rule subnet_step_success, assumption)
    (auto simp: subnet_step_def subnet_not_found_def
      split: prod.splits option.splits sum.splits if_splits)

lemma security_group_step_success:
  assumes "security_group_step X en vpcs req filters start w = (Inl (r, None), w')"
  shows "security_group_listed vpcs req filters r"
proof -
  obtain page err w1 where call: "fs_ListSecurityGroups (FileShareService vpcs) pageSize start (Some filters) w = ((page, err), w1)"
    by (metis prod.exhaust)
  with assms obtain items item where "err = None" and "page = Some items"
    and "List.find (\<lambda>item. EqualFold (sgq_Name req) (sg_Name item)) (sgl_SecurityGroups items) = Some item" and "sg_ID item = r"
    by (auto simp: security_group_step_def security_group_not_found_def split: option.splits sum.splits if_splits)
  with call find_SomeD [OF this(3)] show ?thesis unfolding security_group_listed_def by blast
qed

interpretation security_groups: paged_lookup "security_group_step X en vpcs req filters" "security_group_listed vpcs req filters"
  for X en vpcs req filters
  by (unfold_locales, rule security_group_step_success, assumption)
    (auto simp: security_group_step_def security_group_not_found_def
      split: prod.splits option.splits sum.splits if_splits)

section \<open>Properties\<close>

lemma call_api_eq: "call_api m s = (Ret (fst (m (world s))), s\<lparr>world := snd (m (world s))\<rparr>)"
  by (simp add: call_api_def split: prod.split)

abbreviation subnet_filters :: "SubnetRequest \<Rightarrow> LibResourceGroup \<Rightarrow> ListSubnetFilters" where
  "subnet_filters req rg \<equiv>
     \<lparr>subf_ResourceGroupID = lrg_ID rg, subf_VPCID = snq_VPCID req, subf_ZoneName = snq_ZoneName req\<rparr>"

abbreviation group_filters :: "SecurityGroupRequest \<Rightarrow> LibResourceGroup \<Rightarrow> ListSecurityGroupFilters" where
  "group_filters req rg \<equiv> \<lparr>sgf_ResourceGroupID = lrg_ID rg, sgf_VPCID = sgq_VPCID req\<rparr>"

lemma subnet_lookup_run:
  assumes "snq_ResourceGroup req = Some rg"
  shows "GetSubnetForVolumeAccessPoint n X vpcs req s =
    (case page_loop n (subnet_step X (MessagesEn s) vpcs req (subnet_filters req rg)) [] (world s) of
       (r, w) \<Rightarrow> (Ret r, s\<lparr>world := w\<rparr>))"
  using assms by (simp add: GetSubnetForVolumeAccessPoint_def getSubnetByZoneAndSubnetID_def gbind_def gget_def
      deref_def gret_def call_api_eq Let_def split: prod.split)

lemma security_group_lookup_run:
  assumes "sgq_ResourceGroup req = Some rg"
  shows "GetSecurityGroupForVolumeAccessPoint n X vpcs req s =
    (case page_loop n (security_group_step X (MessagesEn s) vpcs req (group_filters req rg)) [] (world s) of
       (r, w) \<Rightarrow> (Ret r, s\<lparr>world := w\<rparr>))"
  using assms by (simp add: GetSecurityGroupForVolumeAccessPoint_def
      getSecurityGroupByVPCAndSecurityGroupName_def gbind_def gget_def deref_def gret_def call_api_eq Let_def split: prod.split)

text \<open>C29: A subnet that the lookup returns is in a page of the backend's listing for the requested
  resource group, VPC and zone, and its ID occurs in the requested list; a failed lookup returns
  the empty ID.\<close>

theorem subnet_lookup_sound:
  assumes "snq_ResourceGroup req = Some rg"
    and "GetSubnetForVolumeAccessPoint n X vpcs req s = (Ret (Some (r, e)), s')"
  shows "(e = None \<longrightarrow> subnet_listed vpcs req (subnet_filters req rg) r) \<and> (e \<noteq> None \<longrightarrow> r = [])"
proof -
  from assms obtain w' where
    "page_loop n (subnet_step X (MessagesEn s) vpcs req (subnet_filters req rg)) [] (world s) = (Some (r, e), w')"
    by (auto simp: subnet_lookup_run split: prod.splits)
  then show ?thesis by (rule subnets.answer)
qed

text \<open>A security group that the lookup returns is in a page of the backend's listing and has the
  requested name up to case; a failed lookup returns the empty ID.\<close>

lemma security_group_lookup_sound:
  assumes "sgq_ResourceGroup req = Some rg"
    and "GetSecurityGroupForVolumeAccessPoint n X vpcs req s = (Ret (Some (r, e)), s')"
  shows "(e = None \<longrightarrow> security_group_listed vpcs req (group_filters req rg) r) \<and> (e \<noteq> None \<longrightarrow> r = [])"
proof -
  from assms obtain w' where
    "page_loop n (security_group_step X (MessagesEn s) vpcs req (group_filters req rg)) [] (world s) = (Some (r, e), w')"
    by (auto simp: security_group_lookup_run split: prod.splits)
  then show ?thesis by (rule security_groups.answer)
qed

text \<open>
  The links of a listing lead forward: whatever the backend answers and in whatever state, the page that
  an answered page links to has a smaller \<open>rank\<close>, say the number of pages from it to the end.
\<close>

definition leads_forward ::
  "(string \<Rightarrow> ('w, 'p result) api) \<Rightarrow> ('p \<Rightarrow> HReference option) \<Rightarrow> (string \<Rightarrow> nat) \<Rightarrow> bool" where
  "leads_forward call link rank \<longleftrightarrow>
     (\<forall>start w page w' h nx. call start w = ((Some page, None), w') \<longrightarrow> link page = Some h \<longrightarrow>
        next_start (href_Href h) = Inr nx \<longrightarrow> nx \<noteq> [] \<longrightarrow> rank nx < rank start)"

abbreviation subnet_pages ::
  "'w VPCSession \<Rightarrow> SubnetRequest \<Rightarrow> LibResourceGroup \<Rightarrow> string \<Rightarrow> ('w, SubnetList result) api" where
  "subnet_pages vpcs req rg start \<equiv> fs_ListSubnets (FileShareService vpcs) pageSize start (Some (subnet_filters req rg))"

abbreviation group_pages ::
  "'w VPCSession \<Rightarrow> SecurityGroupRequest \<Rightarrow> LibResourceGroup \<Rightarrow> string \<Rightarrow> ('w, SecurityGroupList result) api" where
  "group_pages vpcs req rg start \<equiv>
     fs_ListSecurityGroups (FileShareService vpcs) pageSize start (Some (group_filters req rg))"

text \<open>A step goes to the page that the backend's answer links to.\<close>

lemma subnet_step_next:
  assumes "subnet_step X en vpcs req filters start w = (Inr nx, w')"
  obtains page h where "fs_ListSubnets (FileShareService vpcs) pageSize start (Some filters) w = ((Some page, None), w')"
    and "subl_Next page = Some h" and "next_start (href_Href h) = Inr nx" and "nx \<noteq> []"
  using assms by (auto simp: subnet_step_def split: prod.splits option.splits sum.splits if_splits)

lemma security_group_step_next:
  assumes "security_group_step X en vpcs req filters start w = (Inr nx, w')"
  obtains page h where "fs_ListSecurityGroups (FileShareService vpcs) pageSize start (Some filters) w = ((Some page, None), w')"
    and "sgl_Next page = Some h" and "next_start (href_Href h) = Inr nx" and "nx \<noteq> []"
  using assms by (auto simp: security_group_step_def split: prod.splits option.splits sum.splits if_splits)

lemma subnet_lookup_ends:
  assumes "snq_ResourceGroup req = Some rg"
    and "leads_forward (subnet_pages vpcs req rg) subl_Next rank" and "rank [] < n"
  shows "\<exists>r w. GetSubnetForVolumeAccessPoint n X vpcs req s = (Ret (Some r), s\<lparr>world := w\<rparr>)"
proof -
  have "rank nx < rank start" if "subnet_step X (MessagesEn s) vpcs req (subnet_filters req rg) start w = (Inr nx, w')" for start w nx w'
    using assms(2) subnet_step_next [OF that] unfolding leads_forward_def by metis
  from subnets.terminates [OF this] assms(3) obtain r w' where
    "page_loop n (subnet_step X (MessagesEn s) vpcs req (subnet_filters req rg)) [] (world s) = (Some r, w')"
    by (meson Suc_leI subnets.more_fuel)
  with subnet_lookup_run [OF assms(1), of n X vpcs s] show ?thesis by auto
qed

text \<open>C30: The subnet lookup ends if the links of the backend's listing lead forward, whatever else the backend
  answers: one more round than the rank of the first page is enough.\<close>

theorem subnet_lookup_terminates:
  assumes "snq_ResourceGroup req = Some rg"
    and "leads_forward (subnet_pages vpcs req rg) subl_Next rank" and "rank [] < n"
  shows "\<exists>r. fst (GetSubnetForVolumeAccessPoint n X vpcs req s) = Ret (Some r)"
  using subnet_lookup_ends [OF assms, of X s] by auto

text \<open>So does the security group lookup.\<close>

lemma security_group_lookup_terminates:
  assumes "sgq_ResourceGroup req = Some rg"
    and "leads_forward (group_pages vpcs req rg) sgl_Next rank" and "rank [] < n"
  shows "\<exists>r w. GetSecurityGroupForVolumeAccessPoint n X vpcs req s = (Ret (Some r), s\<lparr>world := w\<rparr>)"
proof -
  have "rank nx < rank start" if "security_group_step X (MessagesEn s) vpcs req (group_filters req rg) start w = (Inr nx, w')"
    for start w nx w'
    using assms(2) security_group_step_next [OF that] unfolding leads_forward_def by metis
  from security_groups.terminates [OF this] assms(3) obtain r w' where
    "page_loop n (security_group_step X (MessagesEn s) vpcs req (group_filters req rg)) [] (world s) = (Some r, w')"
    by (meson Suc_leI security_groups.more_fuel)
  with security_group_lookup_run [OF assms(1), of n X vpcs s] show ?thesis by auto
qed

text \<open>C31: There is no bound on the rounds of the security group lookup: against a backend whose every page
  has no match and links to a further one, it never ends.\<close>

theorem security_group_lookup_diverges:
  assumes "sgq_ResourceGroup req = Some rg"
    and "\<And>start w. \<exists>page w' link nx.
      fs_ListSecurityGroups (FileShareService vpcs) pageSize start (Some (group_filters req rg)) w = ((Some page, None), w') \<and>
      list_all (\<lambda>item. \<not> EqualFold (sgq_Name req) (sg_Name item)) (sgl_SecurityGroups page) \<and>
      sgl_Next page = Some link \<and> next_start (href_Href link) = Inr nx \<and> nx \<noteq> []"
  shows "fst (GetSecurityGroupForVolumeAccessPoint n X vpcs req s) = Ret None"
proof -
  have "\<exists>nx w'. security_group_step X (MessagesEn s) vpcs req (group_filters req rg) start w = (Inr nx, w')" for start w
  proof -
    from assms(2) [of start w] obtain page w' link nx where
      p: "fs_ListSecurityGroups (FileShareService vpcs) pageSize start (Some (group_filters req rg)) w = ((Some page, None), w')"
      "list_all (\<lambda>item. \<not> EqualFold (sgq_Name req) (sg_Name item)) (sgl_SecurityGroups page)"
      "sgl_Next page = Some link" "next_start (href_Href link) = Inr nx" "nx \<noteq> []" by blast
    then have "List.find (\<lambda>item. EqualFold (sgq_Name req) (sg_Name item)) (sgl_SecurityGroups page) = None"
      by (simp add: find_None_iff list_all_iff)
    with p show ?thesis by (simp add: security_group_step_def)
  qed
  then have "fst (page_loop n (security_group_step X (MessagesEn s) vpcs req (group_filters req rg)) [] (world s)) = None"
    by (rule security_groups.diverges)
  with assms(1) show ?thesis by (simp add: security_group_lookup_run case_prod_unfold)
qed

section \<open>Witnesses\<close>

definition sampleSubnet :: Subnet where
  "sampleSubnet = \<lparr>sub_CRN = [], sub_Href = [], sub_ID = ''s1'', sub_Name = [], sub_ResourceGroup = None,
     sub_VPC = None, sub_Zone = None\<rparr>"

definition sampleSubnetRequest :: SubnetRequest where
  "sampleSubnetRequest = \<lparr>snq_SubnetIDList = ''s0,s1'', snq_ZoneName = ''z'', snq_VPCID = ''vpc'',
     snq_ResourceGroup = Some \<lparr>lrg_ID = ''rg'', lrg_Name = []\<rparr>\<rparr>"

definition sampleGroup :: SecurityGroup where
  "sampleGroup = \<lparr>sg_CRN = [], sg_Href = [], sg_ID = ''g1'', sg_Name = ''Kube'', sg_ResourceGroup = None,
     sg_VPC = None\<rparr>"

definition sampleGroupRequest :: SecurityGroupRequest where
  "sampleGroupRequest = \<lparr>sgq_Name = ''kube'', sgq_VPCID = ''vpc'',
     sgq_ResourceGroup = Some \<lparr>lrg_ID = ''rg'', lrg_Name = []\<rparr>\<rparr>"

definition netSession :: "SecurityGroupList \<Rightarrow> nat VPCSession" where
  "netSession groups = fileSession ((refusing (api_error ''internal_error''))
     \<lparr>fs_ListSubnets := \<lambda>_ _ _ w. ((Some (zeroSubnetList\<lparr>subl_Subnets := [sampleSubnet]\<rparr>), None), w),
      fs_ListSecurityGroups := \<lambda>_ _ _ w. ((Some groups, None), w)\<rparr>)"

lemma netSession_sel [simp]:
  "fs_ListSubnets (FileShareService (netSession groups)) =
     (\<lambda>_ _ _ w. ((Some (zeroSubnetList\<lparr>subl_Subnets := [sampleSubnet]\<rparr>), None), w))"
  "fs_ListSecurityGroups (FileShareService (netSession groups)) = (\<lambda>_ _ _ w. ((Some groups, None), w))"
  by (simp_all add: netSession_def)

lemma sample_requests [simp]:
  "snq_ResourceGroup sampleSubnetRequest = Some \<lparr>lrg_ID = ''rg'', lrg_Name = []\<rparr>"
  "sgq_ResourceGroup sampleGroupRequest = Some \<lparr>lrg_ID = ''rg'', lrg_Name = []\<rparr>"
  by (simp_all add: sampleSubnetRequest_def sampleGroupRequest_def)

lemma sampleSubnet_match: "Contains (snq_SubnetIDList sampleSubnetRequest) (sub_ID sampleSubnet)"
  by (simp add: sampleSubnetRequest_def sampleSubnet_def)

lemma sampleSubnet_step:
  "subnet_step X en (netSession groups) sampleSubnetRequest filters start w = (Inl (''s1'', None), w)"
  using sampleSubnet_match by (simp add: subnet_step_def) (simp add: sampleSubnet_def)

lemma subnet_lookup_sound_witness:
  "subnet_listed (netSession zeroSecurityGroupList) sampleSubnetRequest
     (subnet_filters sampleSubnetRequest \<lparr>lrg_ID = ''rg'', lrg_Name = []\<rparr>) ''s1''"
proof -
  let ?vpcs = "netSession zeroSecurityGroupList"
  have "GetSubnetForVolumeAccessPoint 1 sampleExt ?vpcs sampleSubnetRequest (init_gost 0)
      = (Ret (Some (''s1'', None)), init_gost 0)"
    by (simp add: subnet_lookup_run sampleSubnet_step)
  from subnet_lookup_sound [OF _ this] show ?thesis by simp
qed

text \<open>A listing of two pages, with the subnet on the second one.\<close>

definition subnetPage :: "string \<Rightarrow> SubnetList" where
  "subnetPage start =
     (if start = [] then zeroSubnetList\<lparr>subl_Next := Some \<lparr>href_Href = ''https://iaas/v1/subnets?start=p2&limit=50''\<rparr>\<rparr>
      else zeroSubnetList\<lparr>subl_Subnets := [sampleSubnet]\<rparr>)"

definition twoSubnetPages :: "nat VPCSession" where
  "twoSubnetPages = fileSession ((refusing (api_error ''internal_error''))
     \<lparr>fs_ListSubnets := \<lambda>_ start _ w. ((Some (subnetPage start), None), Suc w)\<rparr>)"

lemma second_subnet_page: "next_start ''https://iaas/v1/subnets?start=p2&limit=50'' = Inr ''p2''"
  by code_simp

lemma subnet_lookup_terminates_witness:
  "\<exists>r. fst (GetSubnetForVolumeAccessPoint 2 sampleExt twoSubnetPages sampleSubnetRequest (init_gost 0)) = Ret (Some r)"
proof (rule subnet_lookup_terminates [where rank = "\<lambda>start. if start = [] then 1 else 0"])
  show "leads_forward (subnet_pages twoSubnetPages sampleSubnetRequest \<lparr>lrg_ID = ''rg'', lrg_Name = []\<rparr>) subl_Next
      (\<lambda>start. if start = [] then 1 else 0)"
    by (auto simp: leads_forward_def twoSubnetPages_def subnetPage_def second_subnet_page zeroSubnetList_def)
qed simp_all

lemma security_group_lookup_sound_witness:
  "security_group_listed (netSession (zeroSecurityGroupList\<lparr>sgl_SecurityGroups := [sampleGroup]\<rparr>)) sampleGroupRequest
     (group_filters sampleGroupRequest \<lparr>lrg_ID = ''rg'', lrg_Name = []\<rparr>) ''g1''"
proof -
  let ?vpcs = "netSession (zeroSecurityGroupList\<lparr>sgl_SecurityGroups := [sampleGroup]\<rparr>)"
  have "EqualFold (sgq_Name sampleGroupRequest) (sg_Name sampleGroup)"
    by code_simp
  then have "GetSecurityGroupForVolumeAccessPoint 1 sampleExt ?vpcs sampleGroupRequest (init_gost 0)
      = (Ret (Some (''g1'', None)), init_gost 0)"
    by (simp add: security_group_lookup_run security_group_step_def) (simp add: sampleGroup_def)
  from security_group_lookup_sound [OF _ this] show ?thesis by simp
qed

lemma sample_next: "next_start ''https://iaas/v1/security_groups?limit=50&start=p2'' = Inr ''p2''"
  by code_simp

lemma security_group_lookup_diverges_witness:
  "fst (GetSecurityGroupForVolumeAccessPoint 1000 sampleExt
     (netSession (zeroSecurityGroupList\<lparr>sgl_Next :=
        Some \<lparr>href_Href = ''https://iaas/v1/security_groups?limit=50&start=p2''\<rparr>\<rparr>))
     sampleGroupRequest (init_gost 0)) = Ret None"
  by (rule security_group_lookup_diverges)
    (auto simp: sample_next zeroSecurityGroupList_def)

end
