(* ===== verification/Client.thy ===== *)
theory Client
  imports VpcApi GoUrl
begin

text \<open>
  The REST client of \<^verbatim>\<open>common/vpcclient/client\<close>: \<^verbatim>\<open>client.go\<close>, \<^verbatim>\<open>request.go\<close>, \<^verbatim>\<open>params.go\<close>,
  \<^verbatim>\<open>authentication.go\<close> and the JSON parts of \<^verbatim>\<open>payload\<close>.  The HTTP transport
  (\<^verbatim>\<open>http.Client.Do\<close>) is a parameter \<open>T\<close>, and the JSON coding of the structs a parameter
  \<open>C\<close>; a decoder returns the receiver as it is left together with its error, if any.  A Go
  map (path parameters, query values, headers) is the list of its entries, in the order in
  which an iteration visits them.  The debug output is in DebugLog.
\<close>

section \<open>Requests on the wire\<close>

record HttpRequest =
  hr_Method :: string
  hr_URL :: string
  hr_Header :: url_values
  hr_Body :: "string option"

type_synonym 'w transport = "HttpRequest \<Rightarrow> 'w \<Rightarrow> (goerror + HttpResponse) \<times> 'w"

text \<open>What is sent as JSON.\<close>

datatype body =
    ShareBody Share | TargetBody ShareTarget | SnapshotBody Snapshot | UpdatePVCBody UpdatePVC

text \<open>A payload: the pointer that was passed, or the map made of a struct value, with the
  resource group if there is one.\<close>

datatype json_payload = JSONPointer body | JSONMap body "string option"

record codec =
  enc :: "json_payload \<Rightarrow> goerror + string"
  dec_Share :: "string \<Rightarrow> Share \<times> goerror option"
  dec_ShareList :: "string \<Rightarrow> ShareList \<times> goerror option"
  dec_ShareTarget :: "string \<Rightarrow> ShareTarget \<times> goerror option"
  dec_ShareTargetList :: "string \<Rightarrow> ShareTargetList \<times> goerror option"
  dec_ProfileDetails :: "string \<Rightarrow> ProfileDetails \<times> goerror option"
  dec_Snapshot :: "string \<Rightarrow> Snapshot \<times> goerror option"
  dec_SnapshotList :: "string \<Rightarrow> SnapshotList \<times> goerror option"
  dec_SubnetList :: "string \<Rightarrow> SubnetList \<times> goerror option"
  dec_SecurityGroupList :: "string \<Rightarrow> SecurityGroupList \<times> goerror option"
  dec_Error :: "string \<Rightarrow> Error \<times> goerror option"
  dec_IksError :: "string \<Rightarrow> IksError \<times> goerror option"

section \<open>Parameters and headers\<close>

type_synonym Params = "(string \<times> string) list"

fun params_set :: "string \<Rightarrow> string \<Rightarrow> Params \<Rightarrow> Params" where
  "params_set k v [] = [(k, v)]"
| "params_set k v ((k', v') # ps) = (if k' = k then (k', v) # ps else (k', v') # params_set k v ps)"

definition Params_Copy :: "Params \<Rightarrow> Params" where
  "Params_Copy p = foldl (\<lambda>params (k, v). params_set k v params) [] p"

text \<open>\<^verbatim>\<open>http.CanonicalHeaderKey\<close>, for a key made of token characters.\<close>

fun canonicalAcc :: "bool \<Rightarrow> string \<Rightarrow> string" where
  "canonicalAcc upper [] = []"
| "canonicalAcc upper (c # cs) =
     (if upper then upper_char c else lower_char c) # canonicalAcc (c = CHR ''-'') cs"

definition CanonicalHeaderKey :: "string \<Rightarrow> string" where
  "CanonicalHeaderKey k = canonicalAcc True k"

definition header_set :: "string \<Rightarrow> string \<Rightarrow> url_values \<Rightarrow> url_values" where
  "header_set k v h = values_set (CanonicalHeaderKey k) v h"

definition header_get :: "(string \<Rightarrow> string list option) \<Rightarrow> string \<Rightarrow> string" where
  "header_get h k = (case h (CanonicalHeaderKey k) of Some (v # vs) \<Rightarrow> v | _ \<Rightarrow> [])"

section \<open>The client\<close>

record Operation =
  op_Name :: string
  op_Method :: string
  op_PathPattern :: string

record authenticationHandler =
  ah_authToken :: string
  ah_resourceGroup :: string

record SessionClient =
  cl_baseURL :: string
  cl_pathParams :: Params
  cl_queryValues :: url_values
  cl_authenHandler :: authenticationHandler
  cl_debug :: bool
  cl_resourceGroup :: string
  cl_contextID :: string

record Request =
  rq_baseURL :: string
  rq_authenHandler :: authenticationHandler
  rq_operation :: Operation
  rq_pathParams :: Params
  rq_headers :: url_values
  rq_queryValues :: url_values
  rq_bodyProvider :: "json_payload option"
  rq_debug :: bool
  rq_resourceGroup :: string

definition APIVersion :: string where "APIVersion = ''2026-02-27''"
definition APIGeneration :: int where "APIGeneration = 1"
definition UserAgent :: string where "UserAgent = ''IBM-Kubernetes-Service''"

definition newClient :: "string \<Rightarrow> url_values \<Rightarrow> string \<Rightarrow> string \<Rightarrow> SessionClient" where
  "newClient baseURL queryValues contextID resourceGroupID =
     \<lparr>cl_baseURL = baseURL, cl_pathParams = [], cl_queryValues = queryValues,
      cl_authenHandler = \<lparr>ah_authToken = [], ah_resourceGroup = []\<rparr>, cl_debug = False,
      cl_resourceGroup = resourceGroupID, cl_contextID = contextID\<rparr>"

definition NewRequest :: "SessionClient \<Rightarrow> Operation \<Rightarrow> Request" where
  "NewRequest c operation =
     (let headers = header_set ''Accept'' ''application/json'' [];
          headers = header_set ''User-Agent'' UserAgent headers;
          headers = (if cl_contextID c \<noteq> []
                     then header_set ''X-Transaction-ID'' (cl_contextID c)
                            (header_set ''X-Request-ID'' (cl_contextID c) headers)
                     else headers);
          headers = (if cl_resourceGroup c \<noteq> []
                     then header_set ''X-Auth-Resource-Group-ID'' (cl_resourceGroup c) headers
                     else headers)
      in \<lparr>rq_baseURL = cl_baseURL c, rq_authenHandler = cl_authenHandler c, rq_operation = operation,
          rq_pathParams = Params_Copy (cl_pathParams c), rq_headers = headers,
          rq_queryValues = cl_queryValues c, rq_bodyProvider = None, rq_debug = cl_debug c,
          rq_resourceGroup = cl_resourceGroup c\<rparr>)"

definition WithDebug :: "SessionClient \<Rightarrow> SessionClient" where
  "WithDebug c = c\<lparr>cl_debug := True\<rparr>"

definition WithAuthToken :: "string \<Rightarrow> SessionClient \<Rightarrow> SessionClient" where
  "WithAuthToken authToken c = c\<lparr>cl_authenHandler := \<lparr>ah_authToken = authToken, ah_resourceGroup = []\<rparr>\<rparr>"

definition WithPathParameter :: "string \<Rightarrow> string \<Rightarrow> SessionClient \<Rightarrow> SessionClient" where
  "WithPathParameter name val c = c\<lparr>cl_pathParams := params_set name val (cl_pathParams c)\<rparr>"

definition WithQueryValue :: "string \<Rightarrow> string \<Rightarrow> SessionClient \<Rightarrow> SessionClient" where
  "WithQueryValue name val c = c\<lparr>cl_queryValues := values_set name val (cl_queryValues c)\<rparr>"

section \<open>Building a request\<close>

definition substitute :: "string \<times> string \<Rightarrow> string \<Rightarrow> string" where
  "substitute p path = ReplaceAll path (''{'' @ fst p @ ''}'') (snd p)"

definition request_path :: "Request \<Rightarrow> string" where
  "request_path r = foldl (\<lambda>path p. substitute p path) (op_PathPattern (rq_operation r)) (rq_pathParams r)"

definition URLof :: "Request \<Rightarrow> string" where
  "URLof r =
     (case Parse (rq_baseURL r) of
        Inl e \<Rightarrow> []
      | Inr baseURL \<Rightarrow>
          let baseURL = (if \<not> HasSuffix (u_Path baseURL) ''/''
                         then baseURL\<lparr>u_Path := u_Path baseURL @ ''/''\<rparr> else baseURL)
          in case Parse (request_path r) of
               Inl e \<Rightarrow> []
             | Inr pathURL \<Rightarrow>
                 URLString ((ResolveReference baseURL pathURL)\<lparr>u_RawQuery := Encode (rq_queryValues r)\<rparr>))"

definition PathParameter :: "string \<Rightarrow> string \<Rightarrow> Request \<Rightarrow> Request" where
  "PathParameter name val r = r\<lparr>rq_pathParams := params_set name val (rq_pathParams r)\<rparr>"

definition AddQueryValue :: "string \<Rightarrow> string \<Rightarrow> Request \<Rightarrow> Request" where
  "AddQueryValue key val r = r\<lparr>rq_queryValues := values_add key val (rq_queryValues r)\<rparr>"

definition SetQueryValue :: "string \<Rightarrow> string \<Rightarrow> Request \<Rightarrow> Request" where
  "SetQueryValue key val r = r\<lparr>rq_queryValues := values_set key val (rq_queryValues r)\<rparr>"

definition SetHeader :: "string \<Rightarrow> string \<Rightarrow> Request \<Rightarrow> Request" where
  "SetHeader key val r = r\<lparr>rq_headers := header_set key val (rq_headers r)\<rparr>"

text \<open>\<open>JSONBody\<close> of a pointer, which every operation passes, and of a struct value.\<close>

definition JSONBody :: "body \<Rightarrow> Request \<Rightarrow> Request" where
  "JSONBody p r = r\<lparr>rq_bodyProvider := Some (JSONPointer p)\<rparr>"

definition JSONBodyValue :: "body \<Rightarrow> Request \<Rightarrow> Request" where
  "JSONBodyValue p r =
     (if op_Method (rq_operation r) = ''POST''
      then r\<lparr>rq_bodyProvider := Some (JSONMap p (if rq_resourceGroup r \<noteq> [] then Some (rq_resourceGroup r) else None))\<rparr>
      else r\<lparr>rq_bodyProvider := Some (JSONPointer p)\<rparr>)"

section \<open>Authentication\<close>

definition ErrAuthenticationRequired :: goerror where
  "ErrAuthenticationRequired = PlainError ''authentication token required''"

definition Before :: "authenticationHandler \<Rightarrow> Request \<Rightarrow> goerror option \<times> Request" where
  "Before a request =
     (let request = request\<lparr>rq_resourceGroup := ah_resourceGroup a\<rparr>
      in if ah_authToken a = [] then (Some ErrAuthenticationRequired, request)
         else (None, SetHeader ''Authorization'' (''Bearer '' @ ah_authToken a) request))"

section \<open>Invoke\<close>

text \<open>The receivers of an error response: a \<^verbatim>\<open>*models.Error\<close> or a \<^verbatim>\<open>*models.IksError\<close>.\<close>

datatype error_receiver = ErrorReceiver Error | IksReceiver IksError

definition consume_error :: "codec \<Rightarrow> error_receiver \<Rightarrow> string \<Rightarrow> error_receiver \<times> goerror option" where
  "consume_error C rcv text =
     (case rcv of
        ErrorReceiver _ \<Rightarrow> map_prod ErrorReceiver id (dec_Error C text)
      | IksReceiver _ \<Rightarrow> map_prod IksReceiver id (dec_IksError C text))"

fun receiver_error :: "error_receiver \<Rightarrow> goerror" where
  "receiver_error (ErrorReceiver e) = ModelsError e"
| "receiver_error (IksReceiver e) = IksErrorPtr e"

text \<open>The status line is written into the first item of a \<^verbatim>\<open>*models.Error\<close>.\<close>

fun stamp_status :: "string \<Rightarrow> error_receiver \<Rightarrow> error_receiver" where
  "stamp_status status (ErrorReceiver e) =
     ErrorReceiver (case err_Errors e of
       [] \<Rightarrow> e | it # its \<Rightarrow> e\<lparr>err_Errors := it\<lparr>ei_Status := status\<rparr> # its\<rparr>)"
| "stamp_status status (IksReceiver e) = IksReceiver e"

record 'a invoked =
  iv_Response :: "HttpResponse option"
  iv_Error :: "goerror option"
  iv_Success :: 'a
  iv_ErrorReceiver :: error_receiver

text \<open>The answer to a request: what the status code says, and which receiver is filled.\<close>

definition receive ::
  "codec \<Rightarrow> (string \<Rightarrow> 'a \<times> goerror option) option \<Rightarrow> 'a \<Rightarrow> error_receiver option \<Rightarrow> error_receiver
     \<Rightarrow> HttpResponse \<Rightarrow> 'a invoked" where
  "receive C success receiver errs rcv resp =
     (let st = resp_StatusCode resp;
          out = \<lparr>iv_Response = Some resp, iv_Error = None, iv_Success = receiver, iv_ErrorReceiver = rcv\<rparr>
      in if st = 204 then out
         else if 200 \<le> st \<and> st \<le> 299
         then (case success of
                 None \<Rightarrow> out
               | Some dec \<Rightarrow> (case dec (resp_Body resp) of (a, e) \<Rightarrow> out\<lparr>iv_Error := e, iv_Success := a\<rparr>))
         else (case errs of
                 None \<Rightarrow> out
               | Some rc \<Rightarrow>
                   (case consume_error C rc (resp_Body resp) of
                      (rc', Some e) \<Rightarrow> out\<lparr>iv_Error := Some e, iv_ErrorReceiver := rc'\<rparr>
                    | (rc', None) \<Rightarrow>
                        let rc'' = stamp_status (resp_Status resp) rc'
                        in out\<lparr>iv_Error := Some (receiver_error rc''), iv_ErrorReceiver := rc''\<rparr>)))"

definition encode_body :: "codec \<Rightarrow> Request \<Rightarrow> goerror + (string option \<times> Request)" where
  "encode_body C r =
     (case rq_bodyProvider r of
        None \<Rightarrow> Inr (None, r)
      | Some p \<Rightarrow>
          (case enc C p of
             Inl e \<Rightarrow> Inl e
           | Inr text \<Rightarrow> Inr (Some text, SetHeader ''Content-Type'' ''application/json'' r)))"

definition Invoke ::
  "'w transport \<Rightarrow> codec \<Rightarrow> (string \<Rightarrow> 'a \<times> goerror option) option \<Rightarrow> 'a \<Rightarrow> error_receiver option
     \<Rightarrow> Request \<Rightarrow> ('w, 'a invoked) api" where
  "Invoke T C success receiver errs r w =
     (let rcv = (case errs of None \<Rightarrow> ErrorReceiver zeroError | Some rc \<Rightarrow> rc);
          failed = (\<lambda>e. \<lparr>iv_Response = None, iv_Error = Some e, iv_Success = receiver, iv_ErrorReceiver = rcv\<rparr>)
      in case Before (rq_authenHandler r) r of
           (Some e, _) \<Rightarrow> (failed e, w)
         | (None, r1) \<Rightarrow>
             (case encode_body C r1 of
                Inl e \<Rightarrow> (failed e, w)
              | Inr (text, r2) \<Rightarrow>
                  (case Parse (URLof r2) of
                     Inl e \<Rightarrow> (failed (PlainError e), w)
                   | Inr u \<Rightarrow>
                       (case T \<lparr>hr_Method = op_Method (rq_operation r2), hr_URL = URLString u,
                                hr_Header = rq_headers r2, hr_Body = text\<rparr> w of
                          (Inl e, w') \<Rightarrow> (failed e, w')
                        | (Inr resp, w') \<Rightarrow> (receive C success receiver errs rcv resp, w')))))"

end
