(* ===== verification/FileShareApi.thy ===== *)
theory FileShareApi
  imports Client
begin

text \<open>
  The API operations of \<^verbatim>\<open>common/vpcclient/vpcfilevolume\<close> as requests of the REST client, the
  two service values that hold them, and the sessions of \<^verbatim>\<open>common/vpcclient/riaas\<close> that
  build those services.  \<open>T\<close> is the HTTP transport, \<open>C\<close> the JSON coding, \<open>vs\<close> the client of
  the service.
\<close>

section \<open>Paths\<close>

definition Version :: string where "Version = ''/v1''"
definition sharesPath :: string where "sharesPath = Version @ ''/shares''"
definition shareIDParam :: string where "shareIDParam = ''share-id''"
definition shareIDPath :: string where "shareIDPath = sharesPath @ ''/{'' @ shareIDParam @ ''}''"
definition shareTargetsPath :: string where "shareTargetsPath = ''/mount_targets''"
definition shareTargetIDParam :: string where "shareTargetIDParam = ''target-id''"
definition shareTargetIDPath :: string where "shareTargetIDPath = shareTargetsPath @ ''/{'' @ shareTargetIDParam @ ''}''"
definition subnetsPath :: string where "subnetsPath = Version @ ''/subnets''"
definition securityGroupsPath :: string where "securityGroupsPath = Version @ ''/security_groups''"
definition updateVolumePath :: string where "updateVolumePath = ''updateVolume''"
definition profileName :: string where "profileName = ''profile-name''"
definition shareProfiles :: string where "shareProfiles = Version @ ''/share/profiles''"
definition shareProfileName :: string where "shareProfileName = shareProfiles @ ''/{'' @ profileName @ ''}''"
definition snapshotsPath :: string where "snapshotsPath = shareIDPath @ ''/snapshots''"
definition snapshotIDParam :: string where "snapshotIDParam = ''snapshot-id''"
definition snapshotIDPath :: string where "snapshotIDPath = snapshotsPath @ ''/{'' @ snapshotIDParam @ ''}''"
definition IksV2PathPrefix :: string where "IksV2PathPrefix = ''v2/storage/''"

lemmas path_defs = Version_def sharesPath_def shareIDParam_def shareIDPath_def shareTargetsPath_def
  shareTargetIDParam_def shareTargetIDPath_def subnetsPath_def securityGroupsPath_def updateVolumePath_def
  profileName_def shareProfiles_def shareProfileName_def snapshotsPath_def snapshotIDParam_def
  snapshotIDPath_def IksV2PathPrefix_def

section \<open>Calls\<close>

text \<open>The error receiver of every operation: \<^verbatim>\<open>var apiErr models.Error\<close>.\<close>

abbreviation apiErr :: error_receiver where "apiErr \<equiv> ErrorReceiver zeroError"

text \<open>\<^verbatim>\<open>if err != nil { return nil, err }; return &receiver, nil\<close>\<close>

definition pointer_or_error :: "('w, 'a invoked) api \<Rightarrow> ('w, 'a result) api" where
  "pointer_or_error m w =
     (case m w of (iv, w') \<Rightarrow>
        ((case iv_Error iv of Some e \<Rightarrow> (None, Some e) | None \<Rightarrow> (Some (iv_Success iv), None)), w'))"

definition error_only :: "('w, 'a invoked) api \<Rightarrow> ('w, goerror option) api" where
  "error_only m w = (case m w of (iv, w') \<Rightarrow> (iv_Error iv, w'))"

text \<open>The query values an operation adds when they are set.\<close>

definition query_if :: "bool \<Rightarrow> string \<Rightarrow> string \<Rightarrow> Request \<Rightarrow> Request" where
  "query_if c key val r = (if c then AddQueryValue key val r else r)"

definition paging :: "int \<Rightarrow> string \<Rightarrow> Request \<Rightarrow> Request" where
  "paging limit start r =
     query_if (start \<noteq> []) ''start'' start (query_if (limit > 0) ''limit'' (Itoa limit) r)"

section \<open>Shares\<close>

definition CreateFileShare :: "'w transport \<Rightarrow> codec \<Rightarrow> SessionClient \<Rightarrow> Share \<Rightarrow> ('w, Share result) api" where
  "CreateFileShare T C vs shareTemplate =
     (let operation = \<lparr>op_Name = ''CreateFileShare'', op_Method = ''POST'', op_PathPattern = sharesPath\<rparr>;
          request = JSONBody (ShareBody shareTemplate) (NewRequest vs operation)
      in pointer_or_error (Invoke T C (Some (dec_Share C)) zeroShare (Some apiErr) request))"

definition GetFileShare :: "'w transport \<Rightarrow> codec \<Rightarrow> SessionClient \<Rightarrow> string \<Rightarrow> ('w, Share result) api" where
  "GetFileShare T C vs shareID =
     (let operation = \<lparr>op_Name = ''GetFileShare'', op_Method = ''GET'', op_PathPattern = shareIDPath\<rparr>;
          request = PathParameter shareIDParam shareID (NewRequest vs operation)
      in pointer_or_error (Invoke T C (Some (dec_Share C)) zeroShare (Some apiErr) request))"

definition ListFileShares ::
  "'w transport \<Rightarrow> codec \<Rightarrow> SessionClient \<Rightarrow> int \<Rightarrow> string \<Rightarrow> ListShareFilters option \<Rightarrow> ('w, ShareList result) api" where
  "ListFileShares T C vs limit start filters =
     (let operation = \<lparr>op_Name = ''ListFileShares'', op_Method = ''GET'', op_PathPattern = sharesPath\<rparr>;
          request = paging limit start (NewRequest vs operation);
          request = (case filters of
              None \<Rightarrow> request
            | Some f \<Rightarrow>
                query_if (shf_ShareName f \<noteq> []) ''name'' (shf_ShareName f)
                  (query_if (shf_ResourceGroupID f \<noteq> []) ''resource_group.id'' (shf_ResourceGroupID f) request))
      in pointer_or_error (Invoke T C (Some (dec_ShareList C)) zeroShareList (Some apiErr) request))"

definition GetFileShareByName :: "'w transport \<Rightarrow> codec \<Rightarrow> SessionClient \<Rightarrow> string \<Rightarrow> ('w, Share result) api" where
  "GetFileShareByName T C vs shareName w =
     (case ListFileShares T C vs 1 [] (Some \<lparr>shf_ResourceGroupID = [], shf_ShareName = shareName\<rparr>) w of
        ((shares, Some e), w') \<Rightarrow> ((None, Some e), w')
      | ((shares, None), w') \<Rightarrow>
          (case shares of
             None \<Rightarrow> ((None, None), w')
           | Some l \<Rightarrow> (case shl_Shares l of [] \<Rightarrow> ((None, None), w') | sh # _ \<Rightarrow> ((sh, None), w'))))"

definition GetFileShareEtag ::
  "'w transport \<Rightarrow> codec \<Rightarrow> SessionClient \<Rightarrow> string \<Rightarrow> ('w, Share option \<times> string \<times> goerror option) api" where
  "GetFileShareEtag T C vs shareID w =
     (let operation = \<lparr>op_Name = ''GetFileShareEtag'', op_Method = ''GET'', op_PathPattern = shareIDPath\<rparr>;
          request = PathParameter shareIDParam shareID (NewRequest vs operation)
      in case Invoke T C (Some (dec_Share C)) zeroShare (Some apiErr) request w of
           (iv, w') \<Rightarrow>
             (case (iv_Error iv, iv_Response iv) of
                (None, Some resp) \<Rightarrow> ((Some (iv_Success iv), header_get (resp_Header resp) ''etag'', None), w')
              | (e, _) \<Rightarrow> ((None, [], e), w')))"

definition UpdateFileShareWithEtag ::
  "'w transport \<Rightarrow> codec \<Rightarrow> SessionClient \<Rightarrow> string \<Rightarrow> string \<Rightarrow> Share \<Rightarrow> ('w, goerror option) api" where
  "UpdateFileShareWithEtag T C vs shareID etag shareTemplate =
     (let operation = \<lparr>op_Name = ''UpdateFileShare'', op_Method = ''PATCH'', op_PathPattern = shareIDPath\<rparr>;
          request = SetHeader ''If-Match'' etag (NewRequest vs operation);
          request = JSONBody (ShareBody shareTemplate) (PathParameter shareIDParam shareID request)
      in error_only (Invoke T C None () (Some apiErr) request))"

definition DeleteFileShare :: "'w transport \<Rightarrow> codec \<Rightarrow> SessionClient \<Rightarrow> string \<Rightarrow> ('w, goerror option) api" where
  "DeleteFileShare T C vs shareID =
     (let operation = \<lparr>op_Name = ''DeleteFileShare'', op_Method = ''DELETE'', op_PathPattern = shareIDPath\<rparr>;
          request = PathParameter shareIDParam shareID (NewRequest vs operation)
      in error_only (Invoke T C None () (Some apiErr) request))"

definition ExpandVolumeApi ::
  "'w transport \<Rightarrow> codec \<Rightarrow> SessionClient \<Rightarrow> string \<Rightarrow> Share \<Rightarrow> ('w, Share result) api" where
  "ExpandVolumeApi T C vs shareID volumeTemplate =
     (let operation = \<lparr>op_Name = ''ExpandVolume'', op_Method = ''PATCH'', op_PathPattern = shareIDPath\<rparr>;
          request = JSONBody (ShareBody volumeTemplate) (PathParameter shareIDParam shareID (NewRequest vs operation))
      in pointer_or_error (Invoke T C (Some (dec_Share C)) zeroShare (Some apiErr) request))"

definition GetShareProfile ::
  "'w transport \<Rightarrow> codec \<Rightarrow> SessionClient \<Rightarrow> string \<Rightarrow> ('w, ProfileDetails result) api" where
  "GetShareProfile T C vs name =
     (let operation = \<lparr>op_Name = ''GetShareProfile'', op_Method = ''GET'', op_PathPattern = shareProfileName\<rparr>;
          request = PathParameter profileName name (NewRequest vs operation)
      in pointer_or_error (Invoke T C (Some (dec_ProfileDetails C)) zeroProfileDetails (Some apiErr) request))"

text \<open>\<^verbatim>\<open>update_volume.go\<close>: not supported by the VPC service.\<close>

definition UpdateVolumeUnsupported :: "UpdatePVC \<Rightarrow> ('w, goerror option) api" where
  "UpdateVolumeUnsupported pvcTemplate w = (Some (PlainError ''unsupported Operation''), w)"

section \<open>Share targets\<close>

definition CreateFileShareTarget ::
  "'w transport \<Rightarrow> codec \<Rightarrow> SessionClient \<Rightarrow> ShareTarget \<Rightarrow> ('w, ShareTarget result) api" where
  "CreateFileShareTarget T C vs target =
     (let operation = \<lparr>op_Name = ''CreateFileShareTarget'', op_Method = ''POST'',
                        op_PathPattern = shareIDPath @ shareTargetsPath\<rparr>;
          request = JSONBody (TargetBody target) (PathParameter shareIDParam (st_ShareID target) (NewRequest vs operation))
      in pointer_or_error (Invoke T C (Some (dec_ShareTarget C)) zeroShareTarget (Some apiErr) request))"

definition ListFileShareTargets ::
  "'w transport \<Rightarrow> codec \<Rightarrow> SessionClient \<Rightarrow> string \<Rightarrow> ListShareTargetFilters option \<Rightarrow> ('w, ShareTargetList result) api" where
  "ListFileShareTargets T C vs shareID filters =
     (let operation = \<lparr>op_Name = ''ListFileShareTargets'', op_Method = ''GET'',
                        op_PathPattern = shareIDPath @ shareTargetsPath\<rparr>;
          request = PathParameter shareIDParam shareID (NewRequest vs operation);
          request = (case filters of
              None \<Rightarrow> request
            | Some f \<Rightarrow> query_if (stf_ShareTargetName f \<noteq> []) ''name'' (stf_ShareTargetName f) request)
      in pointer_or_error (Invoke T C (Some (dec_ShareTargetList C)) zeroShareTargetList (Some apiErr) request))"

definition GetFileShareTarget ::
  "'w transport \<Rightarrow> codec \<Rightarrow> SessionClient \<Rightarrow> string \<Rightarrow> string \<Rightarrow> ('w, ShareTarget result) api" where
  "GetFileShareTarget T C vs shareID targetID =
     (let operation = \<lparr>op_Name = ''GetFileShareTarget'', op_Method = ''GET'',
                        op_PathPattern = shareIDPath @ shareTargetIDPath\<rparr>;
          request = PathParameter shareTargetIDParam targetID (PathParameter shareIDParam shareID (NewRequest vs operation))
      in pointer_or_error (Invoke T C (Some (dec_ShareTarget C)) zeroShareTarget (Some apiErr) request))"

definition GetFileShareTargetByName ::
  "'w transport \<Rightarrow> codec \<Rightarrow> SessionClient \<Rightarrow> string \<Rightarrow> string \<Rightarrow> ('w, ShareTarget result) api" where
  "GetFileShareTargetByName T C vs shareID targetName w =
     (case ListFileShareTargets T C vs targetName (Some \<lparr>stf_ShareTargetName = targetName\<rparr>) w of
        ((targets, Some e), w') \<Rightarrow> ((None, Some e), w')
      | ((targets, None), w') \<Rightarrow>
          (case targets of
             None \<Rightarrow> ((None, None), w')
           | Some l \<Rightarrow> (case stl_ShareTargets l of [] \<Rightarrow> ((None, None), w') | t # _ \<Rightarrow> ((t, None), w'))))"

text \<open>An error other than a 404 is dropped; a 404 is reported as the \<^verbatim>\<open>models.Error\<close> value.\<close>

definition DeleteFileShareTarget ::
  "'w transport \<Rightarrow> codec \<Rightarrow> SessionClient \<Rightarrow> ShareTarget \<Rightarrow> ('w, HttpResponse result) api" where
  "DeleteFileShareTarget T C vs target w =
     (let operation = \<lparr>op_Name = ''DeleteFileShareTarget'', op_Method = ''DELETE'',
                        op_PathPattern = shareIDPath @ shareTargetIDPath\<rparr>;
          request = PathParameter shareTargetIDParam (st_ID target)
                      (PathParameter shareIDParam (st_ShareID target) (NewRequest vs operation))
      in case Invoke T C None () (Some apiErr) request w of
           (iv, w') \<Rightarrow>
             (case (iv_Error iv, iv_Response iv, iv_ErrorReceiver iv) of
                (Some e, Some resp, ErrorReceiver err) \<Rightarrow>
                  if resp_StatusCode resp = 404 then ((Some resp, Some (ModelsErrorVal err)), w')
                  else ((Some resp, None), w')
              | (_, resp, _) \<Rightarrow> ((resp, None), w')))"

section \<open>Subnets and security groups\<close>

definition ListSubnets ::
  "'w transport \<Rightarrow> codec \<Rightarrow> SessionClient \<Rightarrow> int \<Rightarrow> string \<Rightarrow> ListSubnetFilters option \<Rightarrow> ('w, SubnetList result) api" where
  "ListSubnets T C vs limit start filters =
     (let operation = \<lparr>op_Name = ''ListSubnets'', op_Method = ''GET'', op_PathPattern = subnetsPath\<rparr>;
          request = paging limit start (NewRequest vs operation);
          request = (case filters of
              None \<Rightarrow> request
            | Some f \<Rightarrow>
                query_if (subf_ZoneName f \<noteq> []) ''zone.name'' (subf_ZoneName f)
                  (query_if (subf_VPCID f \<noteq> []) ''vpc.id'' (subf_VPCID f)
                    (query_if (subf_ResourceGroupID f \<noteq> []) ''resource_group.id'' (subf_ResourceGroupID f) request)))
      in pointer_or_error (Invoke T C (Some (dec_SubnetList C)) zeroSubnetList (Some apiErr) request))"

definition ListSecurityGroups ::
  "'w transport \<Rightarrow> codec \<Rightarrow> SessionClient \<Rightarrow> int \<Rightarrow> string \<Rightarrow> ListSecurityGroupFilters option
     \<Rightarrow> ('w, SecurityGroupList result) api" where
  "ListSecurityGroups T C vs limit start filters =
     (let operation = \<lparr>op_Name = ''ListSecurityGroups'', op_Method = ''GET'', op_PathPattern = securityGroupsPath\<rparr>;
          request = paging limit start (NewRequest vs operation);
          request = (case filters of
              None \<Rightarrow> request
            | Some f \<Rightarrow>
                query_if (sgf_VPCID f \<noteq> []) ''vpc.id'' (sgf_VPCID f)
                  (query_if (sgf_ResourceGroupID f \<noteq> []) ''resource_group.id'' (sgf_ResourceGroupID f) request))
      in pointer_or_error (Invoke T C (Some (dec_SecurityGroupList C)) zeroSecurityGroupList (Some apiErr) request))"

section \<open>Snapshots\<close>

definition CreateSnapshotApi ::
  "'w transport \<Rightarrow> codec \<Rightarrow> SessionClient \<Rightarrow> string \<Rightarrow> Snapshot \<Rightarrow> ('w, Snapshot result) api" where
  "CreateSnapshotApi T C ss shareID snapshotTemplate =
     (let operation = \<lparr>op_Name = ''CreateSnapshot'', op_Method = ''POST'', op_PathPattern = snapshotsPath\<rparr>;
          request = JSONBody (SnapshotBody snapshotTemplate) (PathParameter shareIDParam shareID (NewRequest ss operation))
      in pointer_or_error (Invoke T C (Some (dec_Snapshot C)) zeroSnapshot (Some apiErr) request))"

definition DeleteSnapshotApi ::
  "'w transport \<Rightarrow> codec \<Rightarrow> SessionClient \<Rightarrow> string \<Rightarrow> string \<Rightarrow> ('w, goerror option) api" where
  "DeleteSnapshotApi T C ss shareID snapshotID =
     (let operation = \<lparr>op_Name = ''DeleteSnapshot'', op_Method = ''DELETE'', op_PathPattern = snapshotIDPath\<rparr>;
          request = PathParameter snapshotIDParam snapshotID (PathParameter shareIDParam shareID (NewRequest ss operation))
      in error_only (Invoke T C None () (Some apiErr) request))"

definition GetSnapshotApi ::
  "'w transport \<Rightarrow> codec \<Rightarrow> SessionClient \<Rightarrow> string \<Rightarrow> string \<Rightarrow> ('w, Snapshot result) api" where
  "GetSnapshotApi T C ss shareID snapshotID =
     (let operation = \<lparr>op_Name = ''GetSnapshot'', op_Method = ''GET'', op_PathPattern = snapshotIDPath\<rparr>;
          request = PathParameter snapshotIDParam snapshotID (PathParameter shareIDParam shareID (NewRequest ss operation))
      in pointer_or_error (Invoke T C (Some (dec_Snapshot C)) zeroSnapshot (Some apiErr) request))"

definition ListSnapshotsApi ::
  "'w transport \<Rightarrow> codec \<Rightarrow> SessionClient \<Rightarrow> string \<Rightarrow> int \<Rightarrow> string \<Rightarrow> LisSnapshotFilters option
     \<Rightarrow> ('w, SnapshotList result) api" where
  "ListSnapshotsApi T C ss shareID limit start filters =
     (let operation = \<lparr>op_Name = ''ListSnapshots'', op_Method = ''GET'', op_PathPattern = snapshotsPath\<rparr>;
          request = paging limit start (PathParameter shareIDParam shareID (NewRequest ss operation));
          request = (case filters of
              None \<Rightarrow> request
            | Some f \<Rightarrow> query_if (snf_Name f \<noteq> []) ''name'' (snf_Name f) request)
      in pointer_or_error (Invoke T C (Some (dec_SnapshotList C)) zeroSnapshotList (Some apiErr) request))"

definition GetSnapshotByNameApi ::
  "'w transport \<Rightarrow> codec \<Rightarrow> SessionClient \<Rightarrow> string \<Rightarrow> string \<Rightarrow> ('w, Snapshot result) api" where
  "GetSnapshotByNameApi T C ss shareID snapshotName w =
     (case ListSnapshotsApi T C ss shareID 1 [] (Some \<lparr>snf_Name = snapshotName\<rparr>) w of
        ((snapshots, Some e), w') \<Rightarrow> ((None, Some e), w')
      | ((snapshots, None), w') \<Rightarrow>
          (case snapshots of
             None \<Rightarrow> ((None, None), w')
           | Some l \<Rightarrow> (case snl_Snapshots l of [] \<Rightarrow> ((None, None), w') | s # _ \<Rightarrow> ((s, None), w'))))"

section \<open>The services\<close>

definition NewFileShareService :: "'w transport \<Rightarrow> codec \<Rightarrow> SessionClient \<Rightarrow> 'w FileShareManager" where
  "NewFileShareService T C client =
     \<lparr>fs_GetShareProfile = GetShareProfile T C client,
      fs_CreateFileShare = CreateFileShare T C client,
      fs_UpdateVolume = UpdateVolumeUnsupported,
      fs_ListFileShares = ListFileShares T C client,
      fs_GetFileShare = GetFileShare T C client,
      fs_GetFileShareByName = GetFileShareByName T C client,
      fs_GetFileShareEtag = GetFileShareEtag T C client,
      fs_UpdateFileShareWithEtag = UpdateFileShareWithEtag T C client,
      fs_DeleteFileShare = DeleteFileShare T C client,
      fs_CreateFileShareTarget = CreateFileShareTarget T C client,
      fs_ListFileShareTargets = ListFileShareTargets T C client,
      fs_GetFileShareTarget = GetFileShareTarget T C client,
      fs_GetFileShareTargetByName = GetFileShareTargetByName T C client,
      fs_DeleteFileShareTarget = DeleteFileShareTarget T C client,
      fs_ExpandVolume = ExpandVolumeApi T C client,
      fs_ListSubnets = ListSubnets T C client,
      fs_ListSecurityGroups = ListSecurityGroups T C client\<rparr>"

definition NewSnapshotManager :: "'w transport \<Rightarrow> codec \<Rightarrow> SessionClient \<Rightarrow> 'w SnapshotManager" where
  "NewSnapshotManager T C client =
     \<lparr>ss_CreateSnapshot = CreateSnapshotApi T C client,
      ss_DeleteSnapshot = DeleteSnapshotApi T C client,
      ss_GetSnapshot = GetSnapshotApi T C client,
      ss_GetSnapshotByName = GetSnapshotByNameApi T C client,
      ss_ListSnapshots = ListSnapshotsApi T C client\<rparr>"

text \<open>\<^verbatim>\<open>IKSVolumeService\<close>: the file share service with its own \<open>UpdateVolume\<close>.\<close>

definition IKSUpdateVolume :: "'w transport \<Rightarrow> codec \<Rightarrow> SessionClient \<Rightarrow> UpdatePVC \<Rightarrow> ('w, goerror option) api" where
  "IKSUpdateVolume T C client pvcTemplate =
     (let operation = \<lparr>op_Name = ''UpdateVolume'', op_Method = ''POST'',
                        op_PathPattern = IksV2PathPrefix @ updateVolumePath\<rparr>;
          request = JSONBody (UpdatePVCBody pvcTemplate) (NewRequest client operation)
      in error_only (Invoke T C None () (Some (IksReceiver zeroIksError)) request))"

definition NewIKSVolumeService :: "'w transport \<Rightarrow> codec \<Rightarrow> SessionClient \<Rightarrow> 'w FileShareManager" where
  "NewIKSVolumeService T C client =
     (NewFileShareService T C client)\<lparr>fs_UpdateVolume := IKSUpdateVolume T C client\<rparr>"

section \<open>Sessions\<close>

record Config =
  cfg_BaseURL :: string
  cfg_AccountID :: string
  cfg_Username :: string
  cfg_APIKey :: string
  cfg_ResourceGroup :: string
  cfg_Password :: string
  cfg_ContextID :: string
  cfg_DebugWriter :: bool
  cfg_APIVersion :: string
  cfg_APIGeneration :: int

record Session =
  ses_client :: SessionClient
  ses_config :: Config

definition NewSession :: "Config \<Rightarrow> Session \<times> goerror option" where
  "NewSession config =
     (let backendAPIVersion = (if length (cfg_APIVersion config) > 0 then cfg_APIVersion config else APIVersion);
          apiGen = (if cfg_APIGeneration config > 0 then cfg_APIGeneration config else APIGeneration);
          queryValues = [(''version'', [backendAPIVersion]), (''generation'', [Itoa apiGen])];
          riaasClient = newClient (cfg_BaseURL config) queryValues (cfg_ContextID config) (cfg_ResourceGroup config);
          riaasClient = (if cfg_DebugWriter config then WithDebug riaasClient else riaasClient)
      in (\<lparr>ses_client = riaasClient, ses_config = config\<rparr>, None))"

definition Login :: "string \<Rightarrow> Session \<Rightarrow> goerror option \<times> Session" where
  "Login token s = (None, s\<lparr>ses_client := WithAuthToken token (ses_client s)\<rparr>)"

text \<open>The API of a session, and of an IKS session, as the provider uses it after the login.\<close>

definition SessionAPI :: "'w transport \<Rightarrow> codec \<Rightarrow> Session \<Rightarrow> 'w RegionalAPI" where
  "SessionAPI T C s = \<lparr>api_FileShareService = NewFileShareService T C (ses_client s),
     api_SnapshotService = NewSnapshotManager T C (ses_client s)\<rparr>"

definition IKSSessionAPI :: "'w transport \<Rightarrow> codec \<Rightarrow> Session \<Rightarrow> 'w RegionalAPI" where
  "IKSSessionAPI T C s = \<lparr>api_FileShareService = NewIKSVolumeService T C (ses_client s),
     api_SnapshotService = NewSnapshotManager T C (ses_client s)\<rparr>"

end
