(* ===== verification/GoTime.thy ===== *)
theory GoTime
  imports GoStrings
begin

text \<open>
  The part of Go's \<^verbatim>\<open>time\<close> package that the provider configuration uses:
  \<^verbatim>\<open>time.ParseDuration\<close> for the HTTP timeout, and \<^verbatim>\<open>time.Parse(time.DateOnly, v)\<close> for the API
  version.  Durations are in nanoseconds.  \<^verbatim>\<open>ParseDuration\<close> computes the fraction of a unit
  in floating point; the model takes the exact quotient, rounded down.
\<close>

section \<open>Durations\<close>

text \<open>\<open>leadingInt\<close>: the number at the front (at most \<open>2 ^ 63\<close>, or none) and the rest.\<close>

fun leadingInt :: "int \<Rightarrow> string \<Rightarrow> (int \<times> string) option" where
  "leadingInt x [] = Some (x, [])"
| "leadingInt x (c # s) =
     (if \<not> is_digit c then Some (x, c # s)
      else if x > 2 ^ 63 div 10 then None
      else let x' = x * 10 + int (digit_val c) in if x' > 2 ^ 63 then None else leadingInt x' s)"

fun leadingFraction :: "int \<Rightarrow> int \<Rightarrow> bool \<Rightarrow> string \<Rightarrow> int \<times> int \<times> string" where
  "leadingFraction x sc overflow [] = (x, sc, [])"
| "leadingFraction x sc overflow (c # s) =
     (if \<not> is_digit c then (x, sc, c # s)
      else if overflow \<or> x > (2 ^ 63 - 1) div 10 then leadingFraction x sc True s
      else let y = x * 10 + int (digit_val c)
           in if y > 2 ^ 63 then leadingFraction x sc True s else leadingFraction y (sc * 10) False s)"

fun unitMap :: "string \<Rightarrow> int option" where
  "unitMap u =
     (if u = ''ns'' then Some 1
      else if u \<in> {''us'', [CHR 0xC2, CHR 0xB5, CHR ''s''], [CHR 0xCE, CHR 0xBC, CHR ''s'']} then Some 1000
      else if u = ''ms'' then Some 1000000
      else if u = ''s'' then Some 1000000000
      else if u = ''m'' then Some 60000000000
      else if u = ''h'' then Some 3600000000000
      else None)"

definition is_unit_char :: "char \<Rightarrow> bool" where
  "is_unit_char c \<longleftrightarrow> c \<noteq> CHR ''.'' \<and> \<not> is_digit c"

definition lowerhex :: "nat \<Rightarrow> char" where
  "lowerhex n = ''0123456789abcdef'' ! n"

definition time_quote_char :: "char \<Rightarrow> string" where
  "time_quote_char c =
     (let n = of_char c :: nat
      in if n \<ge> 128 \<or> n < 32 then [CHR 0x5C, CHR ''x'', lowerhex (n div 16), lowerhex (n mod 16)]
         else if c = CHR 0x22 \<or> c = CHR 0x5C then [CHR 0x5C, c] else [c])"

definition time_quote :: "string \<Rightarrow> string" where
  "time_quote s = [CHR 0x22] @ concat (map time_quote_char s) @ [CHR 0x22]"

definition invalid_duration :: "string \<Rightarrow> string" where
  "invalid_duration orig = ''time: invalid duration '' @ time_quote orig"

text \<open>One number with its unit: its value and the rest of the text, or the error's text.\<close>

definition duration_part :: "string \<Rightarrow> string \<Rightarrow> string + (int \<times> string)" where
  "duration_part orig s =
     (if \<not> (hd s = CHR ''.'' \<or> is_digit (hd s)) then Inl (invalid_duration orig)
      else case leadingInt 0 s of
             None \<Rightarrow> Inl (invalid_duration orig)
           | Some (v, s1) \<Rightarrow>
               let pre = (length s1 \<noteq> length s);
                   frac = (s1 \<noteq> [] \<and> hd s1 = CHR ''.'');
                   (f, scale, s2) = (if frac then leadingFraction 0 1 False (tl s1) else (0, 1, s1));
                   post = (frac \<and> length s2 \<noteq> length (tl s1));
                   u = takeWhile is_unit_char s2;
                   s3 = dropWhile is_unit_char s2
               in if \<not> pre \<and> \<not> post then Inl (invalid_duration orig)
                  else if u = [] then Inl (''time: missing unit in duration '' @ time_quote orig)
                  else case unitMap u of
                         None \<Rightarrow> Inl (''time: unknown unit '' @ time_quote u @ '' in duration '' @ time_quote orig)
                       | Some unit \<Rightarrow>
                           if v > 2 ^ 63 div unit then Inl (invalid_duration orig)
                           else let v = v * unit + f * unit div scale
                                in if v > 2 ^ 63 then Inl (invalid_duration orig) else Inr (v, s3))"

lemma dropWhile_takeWhile_length:
  "takeWhile P xs \<noteq> [] \<Longrightarrow> length (dropWhile P xs) < length xs"
  by (cases xs) (auto simp: length_dropWhile_le less_Suc_eq_le split: if_splits)

lemma leadingInt_length: "leadingInt x s = Some (v, t) \<Longrightarrow> length t \<le> length s"
  by (induction x s rule: leadingInt.induct) (auto simp: Let_def le_SucI split: if_splits)

lemma leadingFraction_length: "leadingFraction x sc ov s = (f, scale, t) \<Longrightarrow> length t \<le> length s"
  by (induction x sc ov s rule: leadingFraction.induct) (auto simp: Let_def le_SucI split: if_splits)

lemma duration_part_shorter:
  assumes "duration_part orig s = Inr (v, t)" and "s \<noteq> []"
  shows "length t < length s"
proof -
  from assms(1) obtain v1 s1 where s1: "leadingInt 0 s = Some (v1, s1)"
    by (auto simp: duration_part_def split: if_splits option.splits)
  obtain f sc s2 where s2: "(if s1 \<noteq> [] \<and> hd s1 = CHR ''.'' then leadingFraction 0 1 False (tl s1) else (0, 1, s1)) = (f, sc, s2)"
    by (metis prod.exhaust)
  have "length s2 \<le> length s1"
    using s2 leadingFraction_length [of 0 1 False "tl s1" f sc s2] by (cases s1) (auto split: if_splits)
  moreover from assms(1) s1 s2 have "takeWhile is_unit_char s2 \<noteq> []" and "t = dropWhile is_unit_char s2"
    by (auto simp: duration_part_def Let_def split: if_splits option.splits prod.splits)
  ultimately show ?thesis
    using leadingInt_length [OF s1] dropWhile_takeWhile_length [of is_unit_char s2] by simp
qed

function parts_loop :: "string \<Rightarrow> int \<Rightarrow> string \<Rightarrow> string + int" where
  "parts_loop orig d s =
     (if s = [] then Inr d
      else case duration_part orig s of
             Inl e \<Rightarrow> Inl e
           | Inr (v, t) \<Rightarrow>
               if d + v > 2 ^ 63 then Inl (invalid_duration orig) else parts_loop orig (d + v) t)"
  by pat_completeness auto

termination
  by (relation "measure (\<lambda>(orig, d, s). length s)") (auto dest: duration_part_shorter)

declare parts_loop.simps [simp del]

definition ParseDuration :: "string \<Rightarrow> string + int" where
  "ParseDuration orig =
     (let neg = (orig \<noteq> [] \<and> hd orig = CHR ''-'');
          s = (if orig \<noteq> [] \<and> (hd orig = CHR ''-'' \<or> hd orig = CHR ''+'') then tl orig else orig)
      in if s = ''0'' then Inr 0
         else if s = [] then Inl (invalid_duration orig)
         else case parts_loop orig 0 s of
                Inl e \<Rightarrow> Inl e
              | Inr d \<Rightarrow>
                  if neg then Inr (- d)
                  else if d > 2 ^ 63 - 1 then Inl (invalid_duration orig)
                  else Inr d)"

section \<open>Dates\<close>

definition leap :: "nat \<Rightarrow> bool" where
  "leap y \<longleftrightarrow> y mod 4 = 0 \<and> (y mod 100 \<noteq> 0 \<or> y mod 400 = 0)"

definition daysIn :: "nat \<Rightarrow> nat \<Rightarrow> nat" where
  "daysIn m year =
     (if m = 2 then (if leap year then 29 else 28)
      else if m \<in> {4, 6, 9, 11} then 30 else 31)"

text \<open>\<open>2006-01-02\<close>: four digits, two digits and two digits, and a day of that month.\<close>

fun ParseDateOnly :: "string \<Rightarrow> (nat \<times> nat \<times> nat) option" where
  "ParseDateOnly [a, b, c, d, h1, e, f, h2, g, k] =
     (let year = ((digit_val a * 10 + digit_val b) * 10 + digit_val c) * 10 + digit_val d;
          month = digit_val e * 10 + digit_val f;
          day = digit_val g * 10 + digit_val k
      in if list_all is_digit [a, b, c, d, e, f, g, k] \<and> h1 = CHR ''-'' \<and> h2 = CHR ''-''
            \<and> 1 \<le> month \<and> month \<le> 12 \<and> 1 \<le> day \<and> day \<le> daysIn month year
         then Some (year, month, day) else None)"
| "ParseDateOnly _ = None"

definition pad2 :: "nat \<Rightarrow> string" where
  "pad2 n = (if n < 10 then ''0'' else []) @ showNat n"

definition FormatDate :: "nat \<times> nat \<times> nat \<Rightarrow> string" where
  "FormatDate ymd = (case ymd of (y, m, d) \<Rightarrow> showNat y @ ''-'' @ pad2 m @ ''-'' @ pad2 d)"

end
