(* ===== verification/FileProvider.thy ===== *)
theory FileProvider
  imports FileShareApi GoTime
begin

text \<open>
  The VPC provider: its construction and the opening of a session
  (\<^verbatim>\<open>file/provider/provider.go\<close>), the credentials factory (\<^verbatim>\<open>common/auth/factory.go\<close>), the IKS
  token exchange it may install (\<^verbatim>\<open>common/iam/token_exchange_iks.go\<close>) and the clients that
  \<^verbatim>\<open>common/vpcclient/riaas\<close> supplies.  The interface library, the secret provider and the
  HTTP client are fields of the record \<open>environment\<close>; the record \<open>VPCProviderConfig\<close> has the
  fields of the library's configuration that this program reads or writes.

  The configuration is shared by pointer.  \<open>NewProvider\<close> writes it once, by \<open>configure\<close>, and
  nothing writes it later, so a provider keeps the value it was built with;
  \<open>configure_idem\<close> is why a second \<open>NewProvider\<close> on the same configuration leaves the first
  provider's view of it unchanged.
\<close>

section \<open>Configuration\<close>

record VPCProviderConfig =
  vc_Enabled :: bool
  vc_VPCVolumeType :: string
  vc_G2EndpointURL :: string
  vc_G2EndpointPrivateURL :: string
  vc_G2VPCAPIGeneration :: int
  vc_G2APIVersion :: string
  vc_APIVersion :: string
  vc_VPCBlockProviderType :: string
  vc_VPCTypeEnabled :: string
  vc_VPCTimeout :: string
  vc_MaxRetryAttempt :: int
  vc_MaxRetryGap :: int
  vc_G2ResourceGroupID :: string
  vc_G2APIKey :: string
  vc_G2TokenExchangeURL :: string
  vc_IamClientID :: string
  vc_IamClientSecret :: string
  vc_IKSTokenExchangePrivateURL :: string

record IKSConfig =
  ic_Enabled :: bool
  ic_IKSFileProviderName :: string

record ServerConfig =
  sc_DebugTrace :: bool

record VPCFileConfig =
  fc_VPCConfig :: "VPCProviderConfig option"
  fc_IKSConfig :: "IKSConfig option"
  fc_ServerConfig :: "ServerConfig option"

definition VPCNextGen :: string where "VPCNextGen = ''g2''"
definition PrivatePrefix :: string where "PrivatePrefix = ''private-''"
definition BasePrivateURL :: string where "BasePrivateURL = ''https://'' @ PrivatePrefix"
definition HTTPSLength :: nat where "HTTPSLength = 8"
definition NEXTGenProvider :: int where "NEXTGenProvider = 2"

section \<open>Token exchange\<close>

record AccessToken =
  at_Token :: string

record IMSToken =
  ims_Token :: string

record 'w TokenExchangeService =
  tes_RefreshTokenForAccessToken :: "string \<Rightarrow> ('w, AccessToken result) go"
  tes_IAMAPIKeyForAccessToken :: "string \<Rightarrow> ('w, AccessToken result) api"
  tes_AccessTokenForIMSToken :: "AccessToken \<Rightarrow> ('w, IMSToken result) api"
  tes_IAMAPIKeyForIMSToken :: "string \<Rightarrow> ('w, IMSToken result) api"
  tes_IAMAccountIDFromAccessToken :: "AccessToken \<Rightarrow> string \<times> goerror option"

record AuthConfiguration =
  ac_IamURL :: string
  ac_IamClientID :: string
  ac_IamClientSecret :: string

record IksAuthConfiguration =
  iac_PrivateAPIRoute :: string
  iac_IamAPIKey :: string
  iac_CSRFToken :: string

text \<open>The exchange request as the REST client of the IBM Cloud SDK sends it: its URL, the values of the
  header \<^verbatim>\<open>X-CSRF-TOKEN\<close>, to which every attempt adds one, and the API key of its body.\<close>

record exchange_request =
  xr_URL :: string
  xr_CSRFTokens :: "string list"
  xr_APIKey :: string

record exchange_error =
  xe_Code :: string
  xe_Description :: string
  xe_Type :: string
  xe_IncidentID :: string

text \<open>What the client's \<^verbatim>\<open>Do\<close> gives: the status of the response, an error, and the two receivers.\<close>

record exchange_answer =
  xa_Status :: "int option"
  xa_Error :: "goerror option"
  xa_Token :: string
  xa_ErrorBody :: exchange_error

text \<open>A secret provider is its method \<^verbatim>\<open>GetDefaultIAMToken\<close>, called with \<open>false\<close>.\<close>

type_synonym 'w secret_provider = "('w, string \<times> goerror option) api"

text \<open>\<open>'w\<close> is the world behind all external calls.  The retrier runs a computation on the exchange
  request and the world.\<close>

record 'w environment =
  env_ext :: ext
  env_transport :: "'w transport"
  env_codec :: codec
  env_NewContextCredentialsFactory :: "AuthConfiguration \<Rightarrow> ('w, goerror + 'w TokenExchangeService) api"
  env_ForIAMAccessToken :: "'w TokenExchangeService \<Rightarrow> string \<Rightarrow> ('w, ContextCredentials \<times> goerror option) api"
  env_GeneralCAHttpClient :: "('w, goerror option) api"
  env_GeneralCAHttpClientWithTimeout :: "int \<Rightarrow> ('w, goerror option) api"
  env_NewSecretProvider :: "('w, goerror + 'w secret_provider) api"
  env_RestDo :: "exchange_request \<Rightarrow> ('w, exchange_answer) api"
  env_ErrorRetry ::
    "(exchange_request \<times> 'w, (goerror option \<times> bool) \<times> string option) go \<Rightarrow>
       (exchange_request \<times> 'w, goerror option \<times> string option) go"
  env_IsConnectionError :: "goerror option \<Rightarrow> bool"
  env_ErrorReasonCode :: "goerror \<Rightarrow> string"
  env_ReasonEndpointNotReachable :: string
  env_ReasonTimeout :: string

definition sendTokenExchangeRequest ::
  "'w environment \<Rightarrow> IksAuthConfiguration \<Rightarrow> (exchange_request \<times> 'w, string option \<times> goerror option) go" where
  "sendTokenExchangeRequest E cfg st =
     (case st of (rq, w) \<Rightarrow>
       let rq = rq\<lparr>xr_CSRFTokens := xr_CSRFTokens rq @ [iac_CSRFToken cfg], xr_APIKey := iac_IamAPIKey cfg\<rparr>
       in case env_RestDo E rq w of (a, w') \<Rightarrow>
         (case xa_Error a of
            Some e \<Rightarrow> (Ret (None, Some (UtilError ''ErrorUnclassified'' ''IAM token exchange request failed'' [e])), (rq, w'))
          | None \<Rightarrow>
              if xa_Status a = Some 200 then (Ret (Some (xa_Token a), None), (rq, w'))
              else if xa_Status a = None then (Panic NilDeref, (rq, w'))
              else let b = xa_ErrorBody a in
                if xe_Description b \<noteq> []
                then (Ret (None, Some (UtilError ''ErrorFailedTokenExchange''
                        (''IAM token exchange request failed: '' @ xe_Description b)
                        [PlainError (xe_Code b @ '' '' @ xe_Type b @ '', Description: '' @ xe_Description b @
                           '', API IncidentID:'' @ xe_IncidentID b)])), (rq, w'))
                else (Ret (None, Some (UtilError ''ErrorUnclassified'' ''Unexpected IAM token exchange response'' [])),
                      (rq, w'))))"

definition exchange_attempt ::
  "'w environment \<Rightarrow> IksAuthConfiguration \<Rightarrow> (exchange_request \<times> 'w, (goerror option \<times> bool) \<times> string option) go" where
  "exchange_attempt E cfg =
     gbind (sendTokenExchangeRequest E cfg)
       (\<lambda>(iamResp, err). gret ((err, \<not> env_IsConnectionError E err), iamResp))"

definition newTokenExchangeRequest :: "IksAuthConfiguration \<Rightarrow> exchange_request" where
  "newTokenExchangeRequest cfg =
     \<lparr>xr_URL = iac_PrivateAPIRoute cfg @ ''/v1/iam/apikey'', xr_CSRFTokens = [], xr_APIKey = []\<rparr>"

definition exchangeForAccessToken ::
  "'w environment \<Rightarrow> IksAuthConfiguration \<Rightarrow> (exchange_request \<times> 'w, AccessToken result) go" where
  "exchangeForAccessToken E cfg =
     gbind (env_ErrorRetry E (exchange_attempt E cfg)) (\<lambda>(err, iamResp).
       case err of
         Some e \<Rightarrow> gret (None, Some e)
       | None \<Rightarrow> gbind (deref iamResp) (\<lambda>t. gret (Some \<lparr>at_Token = t\<rparr>, None)))"

definition ExchangeRefreshTokenForAccessToken ::
  "'w environment \<Rightarrow> IksAuthConfiguration \<Rightarrow> string \<Rightarrow> ('w, AccessToken result) go" where
  "ExchangeRefreshTokenForAccessToken E cfg refreshToken w =
     map_prod id snd (exchangeForAccessToken E cfg (newTokenExchangeRequest cfg, w))"

definition ExchangeIAMAPIKeyForAccessToken :: "'w secret_provider \<Rightarrow> string \<Rightarrow> ('w, AccessToken result) api" where
  "ExchangeIAMAPIKeyForAccessToken spObject iamAPIKey w =
     (case spObject w of
        ((token, Some e), w') \<Rightarrow> ((None, Some e), w')
      | ((token, None), w') \<Rightarrow> ((Some \<lparr>at_Token = token\<rparr>, None), w'))"

text \<open>The service that replaces the library's one.\<close>

definition NewTokenExchangeIKSService ::
  "'w environment \<Rightarrow> IksAuthConfiguration \<Rightarrow> ('w, goerror + 'w TokenExchangeService) api" where
  "NewTokenExchangeIKSService E cfg w =
     (case env_GeneralCAHttpClient E w of
        (Some e, w1) \<Rightarrow> (Inl e, w1)
      | (None, w1) \<Rightarrow>
          (case env_NewSecretProvider E w1 of
             (Inl e, w2) \<Rightarrow> (Inl e, w2)
           | (Inr spObject, w2) \<Rightarrow>
               (Inr \<lparr>tes_RefreshTokenForAccessToken =
                       ExchangeRefreshTokenForAccessToken E cfg,
                     tes_IAMAPIKeyForAccessToken = ExchangeIAMAPIKeyForAccessToken spObject,
                     tes_AccessTokenForIMSToken = (\<lambda>t v. ((None, None), v)),
                     tes_IAMAPIKeyForIMSToken = (\<lambda>k v. ((None, None), v)),
                     tes_IAMAccountIDFromAccessToken = (\<lambda>t. (''Not required to implement'', None))\<rparr>, w2)))"

definition NewVPCContextCredentialsFactory ::
  "'w environment \<Rightarrow> VPCProviderConfig \<Rightarrow> ('w, goerror + 'w TokenExchangeService) api" where
  "NewVPCContextCredentialsFactory E conf w =
     (let authConfig = \<lparr>ac_IamURL = vc_G2TokenExchangeURL conf, ac_IamClientID = vc_IamClientID conf,
                        ac_IamClientSecret = vc_IamClientSecret conf\<rparr>
      in case env_NewContextCredentialsFactory E authConfig w of
           (Inl e, w1) \<Rightarrow> (Inl e, w1)
         | (Inr ccf, w1) \<Rightarrow>
             if vc_IKSTokenExchangePrivateURL conf \<noteq> []
             then NewTokenExchangeIKSService E
                    \<lparr>iac_PrivateAPIRoute = vc_IKSTokenExchangePrivateURL conf, iac_IamAPIKey = vc_G2APIKey conf,
                     iac_CSRFToken = []\<rparr> w1
             else (Inr ccf, w1))"

section \<open>The provider\<close>

datatype client_provider = DefaultRegionalAPIClientProvider | IKSRegionalAPIClientProvider

record 'w VPCFileProvider =
  vp_timeout :: int
  vp_Config :: VPCFileConfig
  vp_ContextCF :: "'w TokenExchangeService"
  vp_ClientProvider :: "client_provider option"
  vp_APIConfig :: Config

text \<open>What \<open>NewProvider\<close> writes into the configuration.\<close>

definition configure :: "VPCProviderConfig \<Rightarrow> VPCProviderConfig" where
  "configure conf =
     (let conf = (if vc_G2EndpointPrivateURL conf \<noteq> []
                  then conf\<lparr>vc_G2EndpointURL := vc_G2EndpointPrivateURL conf\<rparr> else conf);
          conf = conf\<lparr>vc_G2VPCAPIGeneration := NEXTGenProvider\<rparr>;
          conf = (if vc_G2APIVersion conf \<noteq> [] then conf\<lparr>vc_APIVersion := vc_G2APIVersion conf\<rparr> else conf)
      in conf\<lparr>vc_VPCBlockProviderType := VPCNextGen, vc_VPCTypeEnabled := VPCNextGen\<rparr>)"

definition providerTimeout :: "VPCProviderConfig \<Rightarrow> string + int" where
  "providerTimeout conf =
     (let timeoutString = vc_VPCTimeout conf
      in ParseDuration (if timeoutString = [] \<or> timeoutString = ''0s'' then ''120s'' else timeoutString))"

definition apiConfig :: "VPCProviderConfig \<Rightarrow> Config" where
  "apiConfig conf =
     \<lparr>cfg_BaseURL = vc_G2EndpointURL conf, cfg_AccountID = [], cfg_Username = [], cfg_APIKey = [],
      cfg_ResourceGroup = vc_G2ResourceGroupID conf, cfg_Password = [], cfg_ContextID = [],
      cfg_DebugWriter = False, cfg_APIVersion = vc_APIVersion conf,
      cfg_APIGeneration = vc_G2VPCAPIGeneration conf\<rparr>"

text \<open>The result has the configuration as \<open>NewProvider\<close> leaves it.\<close>

definition NewProvider ::
  "'w environment \<Rightarrow> VPCFileConfig \<Rightarrow> ('w gost, VPCFileConfig \<times> (goerror + 'w VPCFileProvider)) go" where
  "NewProvider E fc =
     (case fc_VPCConfig fc of
        None \<Rightarrow> gret (fc, Inl (PlainError ''incomplete config for VPCFileProvider''))
      | Some conf0 \<Rightarrow>
          let conf = configure conf0; fc = fc\<lparr>fc_VPCConfig := Some conf\<rparr> in
          gbind (call_api (NewVPCContextCredentialsFactory E conf)) (\<lambda>contextCF.
            case contextCF of
              Inl e \<Rightarrow> gret (fc, Inl e)
            | Inr ccf \<Rightarrow>
                (case providerTimeout conf of
                   Inl e \<Rightarrow> gret (fc, Inl (PlainError e))
                 | Inr timeout \<Rightarrow>
                     gbind (call_api (env_GeneralCAHttpClientWithTimeout E timeout)) (\<lambda>err.
                       case err of
                         Some e \<Rightarrow> gret (fc, Inl e)
                       | None \<Rightarrow>
                           gbind (SetRetryParameters (vc_MaxRetryAttempt conf) (vc_MaxRetryGap conf)) (\<lambda>_.
                           gbind (gmodify (\<lambda>s. s\<lparr>MessagesEn := InitMessages\<rparr>)) (\<lambda>_.
                             gret (fc, Inr \<lparr>vp_timeout = timeout, vp_Config = fc, vp_ContextCF = ccf,
                               vp_ClientProvider = None, vp_APIConfig = apiConfig conf\<rparr>)))))))"

text \<open>The API that a client provider makes for a configuration, once it is logged in.\<close>

definition ClientAPI :: "'w environment \<Rightarrow> client_provider \<Rightarrow> Session \<Rightarrow> 'w RegionalAPI" where
  "ClientAPI E cp client =
     (case cp of
        DefaultRegionalAPIClientProvider \<Rightarrow> SessionAPI (env_transport E) (env_codec E) client
      | IKSRegionalAPIClientProvider \<Rightarrow> IKSSessionAPI (env_transport E) (env_codec E) client)"

definition getAccessToken :: "ContextCredentials \<Rightarrow> goerror + AccessToken" where
  "getAccessToken creds =
     (case cc_AuthType creds of
        IAMAccessToken \<Rightarrow> Inr \<lparr>at_Token = cc_Credential creds\<rparr>
      | _ \<Rightarrow> Inl (PlainError ''unknown AuthType''))"

text \<open>The context is its request ID, if it has one.  The provider is updated in place: the debug writer, the
  client provider and the context ID stay set for the sessions that follow.\<close>

definition client_provider_of :: "'w VPCFileProvider \<Rightarrow> client_provider" where
  "client_provider_of vpcp =
     (case vp_ClientProvider vpcp of None \<Rightarrow> DefaultRegionalAPIClientProvider | Some cp \<Rightarrow> cp)"

definition prepareClient :: "ServerConfig \<Rightarrow> string option \<Rightarrow> 'w VPCFileProvider \<Rightarrow> 'w VPCFileProvider" where
  "prepareClient server ctx vpcp =
     (let vpcp = (if sc_DebugTrace server
                  then vpcp\<lparr>vp_APIConfig := (vp_APIConfig vpcp)\<lparr>cfg_DebugWriter := True\<rparr>\<rparr> else vpcp);
          vpcp = vpcp\<lparr>vp_ClientProvider := Some (client_provider_of vpcp)\<rparr>
      in case ctx of
           None \<Rightarrow> vpcp
         | Some rid \<Rightarrow> vpcp\<lparr>vp_APIConfig := (vp_APIConfig vpcp)\<lparr>cfg_ContextID := rid\<rparr>\<rparr>)"

definition updateRetryDefaults :: "VPCProviderConfig \<Rightarrow> ('w gost, unit) go" where
  "updateRetryDefaults conf =
     gbind (gmodify (\<lambda>s. if vc_MaxRetryAttempt conf > 0 then s\<lparr>maxRetryAttempt := vc_MaxRetryAttempt conf\<rparr> else s)) (\<lambda>_.
       gmodify (\<lambda>s. if vc_MaxRetryGap conf > 0 then s\<lparr>maxRetryGap := vc_MaxRetryGap conf\<rparr> else s))"

definition OpenSession ::
  "'w environment \<Rightarrow> string option \<Rightarrow> ContextCredentials \<Rightarrow> 'w VPCFileProvider
     \<Rightarrow> ('w gost, (goerror + 'w VPCSession) \<times> 'w VPCFileProvider) go" where
  "OpenSession E ctx creds vpcp =
     (if cc_Credential creds = []
      then gret (Inl (UtilError ''Error Insufficient Authentication'' ''No authentication credential provided'' []), vpcp)
      else
        gbind (deref (fc_ServerConfig (vp_Config vpcp))) (\<lambda>server.
        let vpcp = prepareClient server ctx vpcp
        in case NewSession (vp_APIConfig vpcp) of
             (client, Some e) \<Rightarrow> gret (Inl e, vpcp)
           | (client, None) \<Rightarrow>
               (case getAccessToken creds of
                  Inl e \<Rightarrow> gret (Inl e, vpcp)
                | Inr token \<Rightarrow>
                    (case Login (at_Token token) client of
                       (Some e, client) \<Rightarrow> gret (Inl e, vpcp)
                     | (None, client) \<Rightarrow>
                         gbind (deref (fc_VPCConfig (vp_Config vpcp))) (\<lambda>conf.
                         gbind (updateRetryDefaults conf) (\<lambda>_.
                         gbind gget (\<lambda>s.
                           gret (Inr \<lparr>vs_VPCAccountID = cc_IAMAccountID creds, vs_ContextCredentials = creds,
                                      vs_VolumeType = ''vpc-share'', vs_Provider = VPC_provider_name,
                                      vs_Apiclient = ClientAPI E (client_provider_of vpcp) client,
                                      vs_APIRetry = NewFlexyRetryDefault s\<rparr>, vpcp))))))))"

definition getPrivateEndpoint :: "string \<Rightarrow> string" where
  "getPrivateEndpoint publicEndPoint =
     (if \<not> Contains publicEndPoint PrivatePrefix
      then if length publicEndPoint > HTTPSLength then BasePrivateURL @ drop HTTPSLength publicEndPoint else []
      else publicEndPoint)"

end
