(* ===== verification/IksProvider.thy ===== *)
theory IksProvider
  imports FileProvider Volumes
begin

text \<open>
  The dual provider of \<^verbatim>\<open>iks/provider\<close>: a session holds a VPC session and, for the cluster's own
  volume records, a session whose client is the IKS service.  When the IKS credentials cannot be had,
  that second session is the empty one, without an API client; when the IKS session cannot be
  opened it is the nil pointer.  The operations of the VPC session are inherited, except
  \<open>UpdateVolume\<close>, which goes to the IKS service.
\<close>

section \<open>Sessions\<close>

datatype 'w session_pointer = NilSession | EmptySession goerror | OpenedSession "'w VPCSession"

record 'w IksVpcSession =
  iv_VPCSession :: "'w VPCSession"
  iv_IksSession :: "'w session_pointer"

definition IksProviderName :: string where "IksProviderName = ''VPC-SHARE''"
definition IksVolumeType :: string where "IksVolumeType = ''vpc-share''"
definition ClusterIDTagName :: string where "ClusterIDTagName = ''clusterid''"
definition VolumeStatus :: string where "VolumeStatus = ''status''"

definition iks_GetProviderDisplayName :: "'w IksVpcSession \<Rightarrow> string" where
  "iks_GetProviderDisplayName vpcIks = IksProviderName"

definition iks_ProviderName :: "'w IksVpcSession \<Rightarrow> string" where
  "iks_ProviderName vpcIks = IksProviderName"

definition iks_Type :: "'w IksVpcSession \<Rightarrow> string" where
  "iks_Type vpcIks = IksVolumeType"

text \<open>The file share service of a session pointer: a nil pointer and a nil API client both panic.\<close>

definition pointed_service :: "'w session_pointer \<Rightarrow> ('w gost, 'w FileShareManager) go" where
  "pointed_service p =
     (case p of OpenedSession vs \<Rightarrow> gret (FileShareService vs) | _ \<Rightarrow> gpanic NilDeref)"

section \<open>Updating a volume record\<close>

definition NewUpdatePVC :: "Volume \<Rightarrow> UpdatePVC" where
  "NewUpdatePVC volumeRequest =
     \<lparr>upvc_ID = vol_VolumeID volumeRequest,
      upvc_CRN = vol_CRN volumeRequest,
      upvc_Tags = vol_Tags volumeRequest,
      upvc_Provider = vol_Provider volumeRequest,
      upvc_VolumeType = vol_VolumeType volumeRequest,
      upvc_Name = (case vol_Name volumeRequest of None \<Rightarrow> [] | Some n \<Rightarrow> n),
      upvc_Capacity = (case vol_Capacity volumeRequest of None \<Rightarrow> 0 | Some c \<Rightarrow> c),
      upvc_Iops = (case vol_Iops volumeRequest of None \<Rightarrow> 0 | Some i \<Rightarrow> fst (ParseInt i)),
      upvc_Cluster = map_get (vol_Attributes volumeRequest) [] ClusterIDTagName,
      upvc_Status = map_get (vol_Attributes volumeRequest) [] VolumeStatus\<rparr>"

definition iks_validateVolumeRequest :: "ext \<Rightarrow> catalogue \<Rightarrow> Volume \<Rightarrow> goerror option" where
  "iks_validateVolumeRequest X en volumeRequest =
     (if vol_VolumeID volumeRequest = []
      then Some (GetUserError X en ''ErrorRequiredFieldMissing'' None [AStr ''VolumeID''])
      else if vol_Provider volumeRequest = []
      then Some (GetUserError X en ''ErrorRequiredFieldMissing'' None [AStr ''Provider''])
      else if vol_VolumeType volumeRequest = []
      then Some (GetUserError X en ''ErrorRequiredFieldMissing'' None [AStr ''VolumeType''])
      else None)"

definition iksUpdate_attempt ::
  "'w IksVpcSession \<Rightarrow> UpdatePVC \<Rightarrow> ('w gost, (goerror option \<times> bool) \<times> unit) go" where
  "iksUpdate_attempt vpcIks pvcTemplate =
     gbind (pointed_service (iv_IksSession vpcIks)) (\<lambda>fs.
     gbind (call_api (fs_UpdateVolume fs pvcTemplate)) (\<lambda>err.
       gret ((err, case err of None \<Rightarrow> True | Some e \<Rightarrow> SkipRetryForIKS e), ())))"

definition iks_UpdateVolume ::
  "ext \<Rightarrow> 'w IksVpcSession \<Rightarrow> Volume \<Rightarrow> ('w gost, goerror option) go" where
  "iks_UpdateVolume X vpcIks volumeRequest =
     (let pvcTemplate = NewUpdatePVC volumeRequest in
      gbind gget (\<lambda>s.
        case iks_validateVolumeRequest X (MessagesEn s) volumeRequest of
          Some e \<Rightarrow> gret (Some e)
        | None \<Rightarrow>
            gbind (FlexyRetry (vs_APIRetry (iv_VPCSession vpcIks)) (iksUpdate_attempt vpcIks pvcTemplate) ()) (\<lambda>(err, _).
              case err of
                None \<Rightarrow> gret None
              | Some e \<Rightarrow> gbind (user_error X ''UpdateFailed'' (Some e) []) (\<lambda>ue. gret (Some ue)))))"

section \<open>The dual provider\<close>

record 'w IksVpcFileProvider =
  ip_vpcFileProvider :: "'w VPCFileProvider"
  ip_iksFileProvider :: "'w VPCFileProvider"

definition iks_NewProvider ::
  "'w environment \<Rightarrow> VPCFileConfig \<Rightarrow> ('w gost, VPCFileConfig \<times> (goerror + 'w IksVpcFileProvider)) go" where
  "iks_NewProvider E fc =
     gbind (NewProvider E fc) (\<lambda>(fc, r1).
       case r1 of
         Inl e \<Rightarrow> gret (fc, Inl e)
       | Inr vpcFileProvider \<Rightarrow>
           gbind (NewProvider E fc) (\<lambda>(fc, r2).
             case r2 of
               Inl e \<Rightarrow> gret (fc, Inl e)
             | Inr iksFileProvider \<Rightarrow>
                 gbind (deref (fc_VPCConfig fc)) (\<lambda>conf.
                 let iksFileProvider = iksFileProvider\<lparr>vp_APIConfig :=
                       (vp_APIConfig iksFileProvider)\<lparr>cfg_BaseURL := vc_IKSTokenExchangePrivateURL conf\<rparr>\<rparr>
                 in gbind (call_api (NewVPCContextCredentialsFactory E conf)) (\<lambda>ccf.
                      case ccf of
                        Inl e \<Rightarrow> gret (fc, Inl e)
                      | Inr cf \<Rightarrow>
                          gret (fc, Inr \<lparr>ip_vpcFileProvider = vpcFileProvider,
                            ip_iksFileProvider = iksFileProvider\<lparr>vp_ContextCF := cf\<rparr>\<rparr>)))))"

definition token_error :: "'w environment \<Rightarrow> goerror \<Rightarrow> ('w gost, goerror) go" where
  "token_error E err =
     (if env_ErrorReasonCode E err = env_ReasonEndpointNotReachable E
      then user_error (env_ext E) ''EndpointNotReachable'' (Some err) []
      else if env_ErrorReasonCode E err = env_ReasonTimeout E
      then user_error (env_ext E) ''Timeout'' (Some err) []
      else gret err)"

text \<open>The credentials argument is not used: the session fetches its own.\<close>

definition iks_OpenSession ::
  "'w environment \<Rightarrow> string option \<Rightarrow> ContextCredentials \<Rightarrow> 'w IksVpcFileProvider
     \<Rightarrow> ('w gost, (goerror + 'w IksVpcSession) \<times> 'w IksVpcFileProvider) go" where
  "iks_OpenSession E ctx creds iksp =
     gbind (deref (fc_VPCConfig (vp_Config (ip_iksFileProvider iksp)))) (\<lambda>conf.
     gbind (call_api (env_ForIAMAccessToken E (vp_ContextCF (ip_vpcFileProvider iksp)) (vc_G2APIKey conf)))
       (\<lambda>(vpcContextCredentials, err).
       case err of
         Some e \<Rightarrow> gbind (token_error E e) (\<lambda>e'. gret (Inl e', iksp))
       | None \<Rightarrow>
           gbind (OpenSession E ctx vpcContextCredentials (ip_vpcFileProvider iksp)) (\<lambda>(r, vpcp).
           let iksp = iksp\<lparr>ip_vpcFileProvider := vpcp\<rparr> in
             case r of
               Inl e \<Rightarrow> gret (Inl e, iksp)
             | Inr vpcSession \<Rightarrow>
                 let iksFileProvider = (ip_iksFileProvider iksp)\<lparr>vp_ClientProvider := Some IKSRegionalAPIClientProvider\<rparr>;
                     iksp = iksp\<lparr>ip_iksFileProvider := iksFileProvider\<rparr>
                 in gbind (call_api (env_ForIAMAccessToken E (vp_ContextCF iksFileProvider) (vc_G2APIKey conf)))
                      (\<lambda>(iksContextCredentials, err).
                      case err of
                        Some e \<Rightarrow>
                          gret (Inr \<lparr>iv_VPCSession = vpcSession, iv_IksSession = EmptySession e\<rparr>, iksp)
                      | None \<Rightarrow>
                          gbind (OpenSession E ctx iksContextCredentials iksFileProvider) (\<lambda>(r2, p2).
                            gret (Inr \<lparr>iv_VPCSession = vpcSession,
                                       iv_IksSession = (case r2 of Inl e \<Rightarrow> NilSession | Inr vs \<Rightarrow> OpenedSession vs)\<rparr>,
                                  iksp\<lparr>ip_iksFileProvider := p2\<rparr>))))))"

end
