(* ===== verification/SessionState.thy ===== *)
theory SessionState
  imports Snapshots AccessPoints NetLookup IksProvider
begin

text \<open>
  What every operation of a session does to the package state.  The locale \<open>state_relation\<close>
  is the interface: a relation that the few primitive changes keep (the world behind the API
  client, a sleep, a growing gap) is kept by the retry loops and by every operation, panics
  included.  It is interpreted twice: for the configuration, which no operation changes, and
  for the retry gap and the sleeps, which stay in bounds.
\<close>

section \<open>Relations that the primitive changes keep\<close>

text \<open>\<open>ok fr\<close> is what the relation asks of a session's own retry parameters, \<open>lg s g\<close> what it asks
  of the local gap of \<open>retryWithMinRetries\<close>.\<close>

locale state_relation =
  fixes R :: "'w gost \<Rightarrow> 'w gost \<Rightarrow> bool" and ok :: "FlexyRetry \<Rightarrow> bool" and lg :: "'w gost \<Rightarrow> int \<Rightarrow> bool"
  assumes refl: "reflp R" and trans: "transp R"
    and world_step: "R s (s\<lparr>world := w\<rparr>)"
    and nap: "R s (sleep_seconds (retryGap s) s)"
    and constant_nap: "R s (sleep_seconds ConstantRetryGap s)"
    and local_nap: "lg s g \<Longrightarrow> R s (sleep_seconds g s)"
    and grow: "R s (s\<lparr>retryGap := next_gap (maxRetryGap s) (retryGap s)\<rparr>)"
    and flexy_grow: "ok fr \<Longrightarrow> R s (s\<lparr>retryGap := next_gap (fr_maxRetryGap fr) (retryGap s)\<rparr>)"
    and local_start: "lg s 10"
    and local_keep: "lg s g \<Longrightarrow> R s s' \<Longrightarrow> lg s' g"
    and local_grow: "lg s g \<Longrightarrow> lg s (next_gap (maxRetryGap s) g)"
begin

lemma R_refl: "R s s"
  using refl by (simp add: reflp_def)

lemma R_trans: "R s t \<Longrightarrow> R t u \<Longrightarrow> R s u"
  using trans by (meson transpD)

lemma call_api: "preserves R (call_api m)"
  by (rule preservesI) (auto simp: call_api_def world_step split: prod.splits)

lemma nap_if: "R s (if i > 0 then sleep_seconds (retryGap s) s else s)"
  by (simp add: nap R_refl)

lemma retry_loop: "R s (snd (retry_loop f i n cur s))"
proof (induction n arbitrary: i cur s)
  case 0
  show ?case by (simp add: R_refl)
next
  case (Suc n)
  let ?s1 = "if i > 0 then sleep_seconds (retryGap s) s else s"
  obtain r w where f: "f (world s) = (r, w)" by (cases "f (world s)")
  have 1: "R s (?s1\<lparr>world := w\<rparr>)" by (rule R_trans [OF nap_if world_step])
  show ?case
  proof (cases "retry_stop r")
    case True
    from 1 show ?thesis unfolding retry_loop_Suc_stop [where f = f and s = s, OF f True] by simp
  next
    case False
    let ?s2 = "?s1\<lparr>world := w\<rparr>"
    have "R ?s2 (?s1\<lparr>world := w, retryGap := gap_after i (fst r) (maxRetryGap s) (retryGap s)\<rparr>)"
      using grow [of ?s2] R_refl [of ?s2]
      by (auto simp: gap_after_def split: option.split goerror.split)
    from R_trans [OF 1 this] Suc.IH show ?thesis
      unfolding retry_loop_Suc_go [where f = f and s = s, OF f False] by (rule R_trans)
  qed
qed

lemma retry: "preserves R (retry f c0)"
  by (simp add: preserves_def retry_def retry_loop)

lemma minRetries_loop: "lg s g \<Longrightarrow> R s (snd (minRetries_loop f i n g cur s))"
proof (induction n arbitrary: i g cur s)
  case 0
  show ?case by (simp add: R_refl)
next
  case (Suc n)
  let ?s1 = "if i > 0 then sleep_seconds g s else s"
  obtain e c w where f: "f (world ?s1) = ((e, c), w)" by (metis prod.exhaust)
  let ?s2 = "?s1\<lparr>world := w\<rparr>"
  have "R s ?s1" using Suc.prems by (simp add: local_nap R_refl)
  then have 2: "R s ?s2" using world_step by (rule R_trans)
  have lg2: "lg ?s2 g" using Suc.prems 2 by (rule local_keep)
  have go: "R s (snd (minRetries_loop f (Suc i) n g' cur' ?s2))" if "lg ?s2 g'" for g' cur'
    using 2 Suc.IH [OF that] by (rule R_trans)
  show ?case
    using f 2 go lg2 local_grow [OF lg2]
    by (auto simp: Let_def split: option.split goerror.split if_splits)
qed

lemma retryWithMinRetries: "preserves R (retryWithMinRetries f c0)"
  by (simp add: preserves_def retryWithMinRetries_def minRetries_loop [OF local_start])

lemma flexy_loop:
  assumes "ok fr" and "preserves R f"
  shows "R s (snd (flexy_loop fr f i n cur s))"
proof (induction n arbitrary: i cur s)
  case 0
  show ?case by (simp add: R_refl)
next
  case (Suc n)
  let ?s1 = "if i > 0 then sleep_seconds (retryGap s) s else s"
  obtain r s2 where f: "f ?s1 = (r, s2)" by (cases "f ?s1")
  have 2: "R s s2" using nap_if preservesD [OF assms(2) f] by (rule R_trans)
  have go: "R s (snd (flexy_loop fr f (Suc i) n cur' s3))" if "R s2 s3" for cur' s3
    using R_trans [OF 2 that] Suc.IH by (rule R_trans)
  show ?case
    using f 2 go [OF R_refl] go [OF flexy_grow [OF assms(1)]]
    by (auto simp: Let_def split: outcome.split prod.split if_splits)
qed

lemma FlexyRetry: "ok fr \<Longrightarrow> preserves R f \<Longrightarrow> preserves R (FlexyRetry fr f c0)"
  by (simp add: FlexyRetry_def preserves_def flexy_loop)

lemma constGap_loop:
  assumes "preserves R f"
  shows "R s (snd (constGap_loop f i n cur s))"
proof (induction n arbitrary: i cur s)
  case 0
  show ?case by (simp add: R_refl)
next
  case (Suc n)
  let ?s1 = "if i > 0 then sleep_seconds ConstantRetryGap s else s"
  obtain r s2 where f: "f ?s1 = (r, s2)" by (cases "f ?s1")
  have "R s ?s1" by (simp add: constant_nap R_refl)
  then have 2: "R s s2" using preservesD [OF assms f] by (rule R_trans)
  have go: "R s (snd (constGap_loop f (Suc i) n cur' s2))" for cur'
    using 2 Suc.IH by (rule R_trans)
  show ?case
    using f 2 go by (auto simp: Let_def split: outcome.split prod.split)
qed

lemma FlexyRetryWithConstGap: "preserves R f \<Longrightarrow> preserves R (FlexyRetryWithConstGap fr f c0)"
  by (simp add: FlexyRetryWithConstGap_def preserves_def constGap_loop)

lemma user_error: "preserves R (user_error X code err args)"
  by (rule preservesI) (simp add: user_error_run R_refl)

lemma Wait: "preserves R (WaitForValidVolumeState X vpcs vid)"
  unfolding WaitForValidVolumeState_def
  by (intro pres_rules refl trans retry user_error)

lemma CreateVolume: "preserves R (CreateVolume X vpcs req)"
  unfolding CreateVolume_def Let_def
  by (intro pres_rules refl trans retry user_error Wait)

lemma GetVolume: "preserves R (GetVolume X vpcs vid)"
  unfolding GetVolume_def
  by (intro pres_rules refl trans retry user_error)

lemma GetVolumeByName: "preserves R (GetVolumeByName X vpcs name)"
  unfolding GetVolumeByName_def
  by (intro pres_rules refl trans retry user_error)

lemma deletion_attempt: "preserves R (deletion_attempt get)"
  unfolding deletion_attempt_def
  by (intro pres_rules refl trans call_api) (auto intro: pres_rules refl split: goerror.split)

lemma WaitForVolumeDeletion: "ok (vs_APIRetry vpcs) \<Longrightarrow> preserves R (WaitForVolumeDeletion vpcs vid)"
  unfolding WaitForVolumeDeletion_def
  by (intro pres_rules refl trans FlexyRetry deletion_attempt)

lemma DeleteVolume: "ok (vs_APIRetry vpcs) \<Longrightarrow> preserves R (DeleteVolume X vpcs volume)"
  unfolding DeleteVolume_def
  by (intro pres_rules refl trans retry user_error GetVolume WaitForVolumeDeletion)

lemma next_token: "preserves R (next_token href)"
  unfolding next_token_def Let_def by (intro pres_rules refl)

lemma ListVolumes: "preserves R (ListVolumes X vpcs limit start tags)"
  unfolding ListVolumes_def Let_def
  by (intro pres_rules refl trans retry user_error next_token)

lemma UpdateVolume: "preserves R (UpdateVolume X vpcs template)"
  unfolding UpdateVolume_def
  by (intro pres_rules refl trans retryWithMinRetries user_error)

lemma ExpandVolume: "preserves R (ExpandVolume X vpcs req)"
  unfolding ExpandVolume_def Let_def
  by (intro pres_rules refl trans retry user_error GetVolume Wait)

lemma GetVolumeProfileByName: "preserves R (GetVolumeProfileByName vpcs name)"
  unfolding GetVolumeProfileByName_def
  by (intro pres_rules refl trans call_api)

lemma find_vpc_target: "preserves R (find_vpc_target vpcid items)"
  by (induction vpcid items rule: find_vpc_target.induct) (auto intro: pres_rules refl split: option.split)

lemma flexy_call: "preserves R (flexy_call m stop)"
  unfolding flexy_call_def by (intro pres_rules refl trans call_api)

lemma GetVolumeAccessPoint: "ok (vs_APIRetry vpcs) \<Longrightarrow> preserves R (GetVolumeAccessPoint X vpcs q)"
  unfolding GetVolumeAccessPoint_def getVolumeAccessPointByID_def getVolumeAccessPointByVPCID_def Let_def
  by (intro pres_rules refl trans FlexyRetry flexy_call find_vpc_target user_error)

lemma CreateVolumeAccessPoint: "ok (vs_APIRetry vpcs) \<Longrightarrow> preserves R (CreateVolumeAccessPoint X vpcs q)"
  unfolding CreateVolumeAccessPoint_def createAccessPoint_attempt_def
  by (intro pres_rules refl trans FlexyRetry GetVolumeAccessPoint call_api user_error)

lemma DeleteVolumeAccessPoint: "ok (vs_APIRetry vpcs) \<Longrightarrow> preserves R (DeleteVolumeAccessPoint X vpcs q)"
  unfolding DeleteVolumeAccessPoint_def deleteAccessPoint_attempt_def
  by (intro pres_rules refl trans FlexyRetry GetVolumeAccessPoint call_api user_error)

lemma WaitForCreateVolumeAccessPoint:
  "ok (vs_APIRetry vpcs) \<Longrightarrow> preserves R (WaitForCreateVolumeAccessPoint X vpcs q)"
  unfolding WaitForCreateVolumeAccessPoint_def waitCreate_attempt_def
  by (intro pres_rules refl trans FlexyRetryWithConstGap GetVolumeAccessPoint user_error)

lemma WaitForDeleteVolumeAccessPoint:
  "ok (vs_APIRetry vpcs) \<Longrightarrow> preserves R (WaitForDeleteVolumeAccessPoint X vpcs q)"
  unfolding WaitForDeleteVolumeAccessPoint_def waitDelete_attempt_def
  by (intro pres_rules refl trans FlexyRetryWithConstGap GetVolumeAccessPoint user_error)

lemma lookups:
  "preserves R (GetSubnetForVolumeAccessPoint n X vpcs sreq)"
  "preserves R (GetSecurityGroupForVolumeAccessPoint n X vpcs greq)"
  unfolding GetSubnetForVolumeAccessPoint_def getSubnetByZoneAndSubnetID_def
    GetSecurityGroupForVolumeAccessPoint_def getSecurityGroupByVPCAndSecurityGroupName_def Let_def
  by (intro pres_rules refl trans call_api)+

lemma CreateSnapshot: "preserves R (CreateSnapshot X vpcs vid params)"
  unfolding CreateSnapshot_def Let_def
  by (intro pres_rules refl trans retry user_error)

lemma GetSnapshot: "preserves R (GetSnapshot X vpcs sid vids)"
  by (cases vids) (auto simp: GetSnapshot_def intro!: pres_rules refl trans retry user_error)

lemma GetSnapshotByName: "preserves R (GetSnapshotByName X vpcs name vids)"
  by (cases vids) (auto simp: GetSnapshotByName_def intro!: pres_rules refl trans retry user_error)

lemma DeleteSnapshot: "ok (vs_APIRetry vpcs) \<Longrightarrow> preserves R (DeleteSnapshot X vpcs snapshot)"
  unfolding DeleteSnapshot_def WaitForSnapshotDeletion_def
  by (intro pres_rules refl trans retry user_error FlexyRetry deletion_attempt)

lemma ListSnapshots: "preserves R (ListSnapshots X vpcs limit start filters)"
  unfolding ListSnapshots_def Let_def
  by (intro pres_rules refl trans retry user_error next_token)

lemma iks_UpdateVolume: "ok (vs_APIRetry (iv_VPCSession dual)) \<Longrightarrow> preserves R (iks_UpdateVolume X dual volume)"
  unfolding iks_UpdateVolume_def iksUpdate_attempt_def pointed_service_def Let_def
  by (intro pres_rules refl trans FlexyRetry call_api user_error)
    (auto intro: pres_rules refl split: session_pointer.split)

end

section \<open>The configuration\<close>

interpretation config_state: state_relation same_config "\<lambda>_. True" "\<lambda>_ _. True"
  by unfold_locales simp_all

section \<open>The gap and the sleeps\<close>

text \<open>The gap and the configured maximum are positive and at most \<open>B\<close> seconds.\<close>

definition gap_in :: "int \<Rightarrow> 'w gost \<Rightarrow> bool" where
  "gap_in B s \<longleftrightarrow> 0 < retryGap s \<and> retryGap s \<le> B \<and> 0 < maxRetryGap s \<and> maxRetryGap s \<le> B"

definition naps_in :: "int \<Rightarrow> int list \<Rightarrow> bool" where
  "naps_in B l \<longleftrightarrow> list_all (\<lambda>d. 0 < d \<and> d \<le> B * 1000000000) l"

definition gap_step :: "int \<Rightarrow> 'w gost \<Rightarrow> 'w gost \<Rightarrow> bool" where
  "gap_step B s s' \<longleftrightarrow> maxRetryGap s' = maxRetryGap s \<and>
     (gap_in B s \<longrightarrow> gap_in B s' \<and> (\<exists>l. slept s' = slept s @ l \<and> naps_in B l))"

definition retry_in :: "int \<Rightarrow> FlexyRetry \<Rightarrow> bool" where
  "retry_in B fr \<longleftrightarrow> 0 < fr_maxRetryGap fr \<and> fr_maxRetryGap fr \<le> B"

definition local_gap :: "int \<Rightarrow> 'w gost \<Rightarrow> int \<Rightarrow> bool" where
  "local_gap B s g \<longleftrightarrow> (0 < maxRetryGap s \<and> maxRetryGap s \<le> B \<longrightarrow> 0 < g \<and> g \<le> B)"

text \<open>The bound on \<open>B\<close> keeps the nanoseconds of a sleep below \<open>2 ^ 63\<close>.\<close>

lemma sleep_in:
  assumes "0 < g" and "g \<le> B" and "B \<le> 2 ^ 33"
  shows "gap_in B s \<Longrightarrow> gap_in B (sleep_seconds g s) \<and>
    (\<exists>l. slept (sleep_seconds g s) = slept s @ l \<and> naps_in B l)"
proof -
  have "wrap64 (g * 1000000000) = g * 1000000000"
    using assms by (intro wrap64_id) (simp add: in_int64_def)
  then show "gap_in B s \<Longrightarrow> ?thesis" using assms by (simp add: gap_in_def sleep_seconds_def naps_in_def)
qed

lemma gap_step_silent:
  "slept s' = slept s \<Longrightarrow> maxRetryGap s' = maxRetryGap s \<Longrightarrow> (gap_in B s \<Longrightarrow> gap_in B s') \<Longrightarrow>
     gap_step B s s'"
  by (simp add: gap_step_def naps_in_def exI [where x = "[]"])

lemma gap_step_trans: "gap_step B s t \<Longrightarrow> gap_step B t u \<Longrightarrow> gap_step B s u"
  by (fastforce simp: gap_step_def naps_in_def)

lemma gap_step_sleep:
  "(gap_in B s \<Longrightarrow> 0 < g \<and> g \<le> B) \<Longrightarrow> B \<le> 2 ^ 33 \<Longrightarrow> gap_step B s (sleep_seconds g s)"
  using sleep_in [of g B s] by (simp add: gap_step_def sleep_seconds_def)

lemma gap_step_grow:
  assumes "0 < cap" and "cap \<le> B" and "B \<le> 2 ^ 33"
  shows "gap_step B s (s\<lparr>retryGap := next_gap cap (retryGap s)\<rparr>)"
  using assms next_gap_bounds [of "retryGap s" B cap]
  by (intro gap_step_silent) (simp_all add: gap_in_def)

lemma gap_step_state:
  assumes B: "10 \<le> B" "B \<le> 2 ^ 33"
  shows "state_relation (gap_step B) (retry_in B) (local_gap B)"
proof
  show "reflp (gap_step B)" by (rule reflpI) (simp add: gap_step_silent)
  show "transp (gap_step B)" by (rule transpI) (rule gap_step_trans)
  fix s s' :: "'w gost" and w g fr
  show "gap_step B s (s\<lparr>world := w\<rparr>)" by (rule gap_step_silent) (simp_all add: gap_in_def)
  show "gap_step B s (sleep_seconds (retryGap s) s)"
    and "gap_step B s (sleep_seconds ConstantRetryGap s)"
    using B by (auto intro!: gap_step_sleep simp: gap_in_def ConstantRetryGap_def)
  show "local_gap B s g \<Longrightarrow> gap_step B s (sleep_seconds g s)"
    using B by (auto intro!: gap_step_sleep simp: local_gap_def gap_in_def)
  show "gap_step B s (s\<lparr>retryGap := next_gap (maxRetryGap s) (retryGap s)\<rparr>)"
    using gap_step_grow [of "maxRetryGap s" B s] B by (auto simp: gap_step_def [of B s] gap_in_def)
  show "retry_in B fr \<Longrightarrow> gap_step B s (s\<lparr>retryGap := next_gap (fr_maxRetryGap fr) (retryGap s)\<rparr>)"
    using B by (auto intro: gap_step_grow simp: retry_in_def)
  show "local_gap B s 10" using B by (simp add: local_gap_def)
  show "local_gap B s g \<Longrightarrow> gap_step B s s' \<Longrightarrow> local_gap B s' g"
    by (simp add: local_gap_def gap_step_def)
  show "local_gap B s g \<Longrightarrow> local_gap B s (next_gap (maxRetryGap s) g)"
    using next_gap_bounds [of g B "maxRetryGap s"] B by (simp add: local_gap_def)
qed

end
