(* ===== verification/Registry.thy ===== *)
theory Registry
  imports Models
begin

text \<open>
  The registry of providers of \<^verbatim>\<open>common/registry/registry.go\<close>: a map from provider IDs to
  providers, made on the first registration.  A registered provider may be the nil
  interface value, which \<open>Get\<close> treats as unknown.  The locale \<open>providers\<close> is the contract
  of the interface \<^verbatim>\<open>Providers\<close>, and \<open>ProviderRegistry\<close> is its interpretation.
\<close>

record 'p ProviderRegistry =
  reg_providers :: "(string \<Rightarrow> 'p option option) option"

definition emptyRegistry :: "'p ProviderRegistry" where
  "emptyRegistry = \<lparr>reg_providers = None\<rparr>"

definition RegistryGet :: "'p ProviderRegistry \<Rightarrow> string \<Rightarrow> 'p option \<times> goerror option" where
  "RegistryGet pr providerID =
     (let prov = (case reg_providers pr of None \<Rightarrow> None | Some m \<Rightarrow> map_get m None providerID)
      in (prov, if prov = None
                then Some (UtilError ''ErrorUnclassified'' (''Provider unknown: '' @ providerID) [])
                else None))"

definition Register :: "string \<Rightarrow> 'p option \<Rightarrow> 'p ProviderRegistry \<Rightarrow> 'p ProviderRegistry" where
  "Register providerID p pr =
     (let m = (case reg_providers pr of None \<Rightarrow> Map.empty | Some m \<Rightarrow> m)
      in pr\<lparr>reg_providers := Some (m(providerID \<mapsto> p))\<rparr>)"

section \<open>The contract of a registry\<close>

locale providers =
  fixes fetch :: "'r \<Rightarrow> string \<Rightarrow> 'p option \<times> goerror option"
    and put :: "string \<Rightarrow> 'p option \<Rightarrow> 'r \<Rightarrow> 'r"
    and empty :: 'r
  assumes fetch_empty: "fst (fetch empty k) = None"
    and fetch_put: "fst (fetch (put k p r) k') = (if k' = k then p else fst (fetch r k'))"
    and fetch_error: "snd (fetch r k) = None \<longleftrightarrow> fst (fetch r k) \<noteq> None"
begin

text \<open>After a sequence of registrations the last one under a key answers.\<close>

lemma fetch_registrations:
  "fst (fetch (foldl (\<lambda>r (k, p). put k p r) empty regs) k) =
     (case map_of (rev regs) k of Some p \<Rightarrow> p | None \<Rightarrow> None)"
proof (induction regs rule: rev_induct)
  case (snoc x regs)
  then show ?case by (cases x) (simp add: fetch_put)
qed (simp add: fetch_empty)

lemma fetch_registered: "fetch (put k (Some p) r) k = (Some p, None)"
  using fetch_put [of k "Some p" r k] fetch_error [of "put k (Some p) r" k] by (simp add: prod_eq_iff)

end

interpretation registry: providers RegistryGet Register emptyRegistry
  by unfold_locales
    (auto simp: RegistryGet_def Register_def emptyRegistry_def Let_def map_get_def split: option.split)

end
