(* ===== verification/CloudProvider.thy ===== *)
theory CloudProvider
  imports IksProvider Registry
begin

text \<open>
  From the configuration to a session: \<^verbatim>\<open>file/utils/init_provider.go\<close>, which builds the providers
  and opens sessions on them, and \<^verbatim>\<open>pkg/ibmcloudprovider/volume_provider.go\<close>, the entry point of the
  CSI driver.  The registry holds pointers: a provider that opening a session has changed is written
  back under its key.
\<close>

datatype 'w local_provider = VPCProv "'w VPCFileProvider" | IksProv "'w IksVpcFileProvider"

datatype 'w lib_session = VPCSess "'w VPCSession" | IksSess "'w IksVpcSession"

section \<open>Providers\<close>

definition register_provider ::
  "string \<Rightarrow> 'w local_provider \<Rightarrow> 'w local_provider ProviderRegistry \<Rightarrow> 'w local_provider ProviderRegistry" where
  "register_provider k p = Register k (Some p)"

text \<open>The VPC step and the IKS step of \<open>InitProviders\<close>: the configuration, the registry and whether there
  is a provider yet.\<close>

definition init_vpc ::
  "'w environment \<Rightarrow> VPCFileConfig \<Rightarrow>
     ('w gost, VPCFileConfig \<times> (goerror + 'w local_provider ProviderRegistry \<times> bool)) go" where
  "init_vpc E fc =
     (case fc_VPCConfig fc of
        None \<Rightarrow> gret (fc, Inr (emptyRegistry, False))
      | Some conf \<Rightarrow>
          if \<not> vc_Enabled conf then gret (fc, Inr (emptyRegistry, False))
          else gbind (NewProvider E fc) (\<lambda>(fc, r).
                 case r of
                   Inl e \<Rightarrow> gret (fc, Inl e)
                 | Inr p \<Rightarrow> gret (fc, Inr (register_provider (vc_VPCVolumeType conf) (VPCProv p) emptyRegistry, True))))"

definition init_iks ::
  "'w environment \<Rightarrow> VPCFileConfig \<Rightarrow> 'w local_provider ProviderRegistry \<times> bool \<Rightarrow>
     ('w gost, VPCFileConfig \<times> (goerror + 'w local_provider ProviderRegistry \<times> bool)) go" where
  "init_iks E fc reg =
     (case fc_IKSConfig fc of
        None \<Rightarrow> gret (fc, Inr reg)
      | Some ic \<Rightarrow>
          if \<not> ic_Enabled ic then gret (fc, Inr reg)
          else gbind (iks_NewProvider E fc) (\<lambda>(fc, r).
                 case r of
                   Inl e \<Rightarrow> gret (fc, Inl e)
                 | Inr p \<Rightarrow>
                     gret (fc, Inr (register_provider (ic_IKSFileProviderName ic) (IksProv p) (fst reg), True))))"

definition InitProviders ::
  "'w environment \<Rightarrow> VPCFileConfig \<Rightarrow>
     ('w gost, VPCFileConfig \<times> (goerror + 'w local_provider ProviderRegistry)) go" where
  "InitProviders E fc =
     gbind (init_vpc E fc) (\<lambda>(fc, r1).
       case r1 of
         Inl e \<Rightarrow> gret (fc, Inl e)
       | Inr reg \<Rightarrow>
           gbind (init_iks E fc reg) (\<lambda>(fc, r2).
             case r2 of
               Inl e \<Rightarrow> gret (fc, Inl e)
             | Inr (reg, haveProviders) \<Rightarrow>
                 if haveProviders then gret (fc, Inr reg)
                 else gret (fc, Inl (PlainError ''no providers registered''))))"

section \<open>Sessions\<close>

definition zeroCredentials :: ContextCredentials where
  "zeroCredentials = \<lparr>cc_AuthType = OtherAuth [], cc_Credential = [], cc_IAMAccountID = [], cc_UserID = []\<rparr>"

definition ContextCredentialsFactory :: "'w local_provider \<Rightarrow> 'w TokenExchangeService" where
  "ContextCredentialsFactory prov =
     (case prov of VPCProv p \<Rightarrow> vp_ContextCF p | IksProv p \<Rightarrow> vp_ContextCF (ip_iksFileProvider p))"

definition GenerateContextCredentials ::
  "'w environment \<Rightarrow> VPCFileConfig \<Rightarrow> string \<Rightarrow> 'w TokenExchangeService
     \<Rightarrow> ('w gost, ContextCredentials \<times> goerror option) go" where
  "GenerateContextCredentials E conf providerID ccf =
     (case fc_VPCConfig conf of
        Some vc \<Rightarrow>
          if providerID = vc_VPCVolumeType vc then call_api (env_ForIAMAccessToken E ccf (vc_G2APIKey vc))
          else (case fc_IKSConfig conf of
                  Some ic \<Rightarrow>
                    if providerID = ic_IKSFileProviderName ic then gret (zeroCredentials, None)
                    else gret (zeroCredentials, Some (UtilError ''ErrorInsufficientAuthentication''
                           ''Insufficient authentication credentials'' []))
                | None \<Rightarrow> gret (zeroCredentials, Some (UtilError ''ErrorInsufficientAuthentication''
                           ''Insufficient authentication credentials'' [])))
      | None \<Rightarrow>
          (case fc_IKSConfig conf of
             Some ic \<Rightarrow>
               if providerID = ic_IKSFileProviderName ic then gret (zeroCredentials, None)
               else gret (zeroCredentials, Some (UtilError ''ErrorInsufficientAuthentication''
                      ''Insufficient authentication credentials'' []))
           | None \<Rightarrow> gret (zeroCredentials, Some (UtilError ''ErrorInsufficientAuthentication''
                      ''Insufficient authentication credentials'' []))))"

definition provider_OpenSession ::
  "'w environment \<Rightarrow> string option \<Rightarrow> ContextCredentials \<Rightarrow> 'w local_provider
     \<Rightarrow> ('w gost, (goerror + 'w lib_session) \<times> 'w local_provider) go" where
  "provider_OpenSession E ctx creds prov =
     (case prov of
        VPCProv p \<Rightarrow> gbind (OpenSession E ctx creds p) (\<lambda>(r, p'). gret (map_sum id VPCSess r, VPCProv p'))
      | IksProv p \<Rightarrow> gbind (iks_OpenSession E ctx creds p) (\<lambda>(r, p'). gret (map_sum id IksSess r, IksProv p')))"

text \<open>The session, whether the failure is fatal, the error, and the provider as it is left.\<close>

definition OpenProviderSessionWithContext ::
  "'w environment \<Rightarrow> string option \<Rightarrow> 'w local_provider \<Rightarrow> VPCFileConfig \<Rightarrow> string
     \<Rightarrow> ('w gost, ('w lib_session option \<times> bool \<times> goerror option) \<times> 'w local_provider) go" where
  "OpenProviderSessionWithContext E ctx prov conf providerID =
     gbind (GenerateContextCredentials E conf providerID (ContextCredentialsFactory prov))
       (\<lambda>(contextCredentials, err).
       case err of
         Some e \<Rightarrow> gret ((None, True, Some e), prov)
       | None \<Rightarrow>
           gbind (provider_OpenSession E ctx contextCredentials prov) (\<lambda>(r, prov').
             case r of
               Inl e \<Rightarrow> gret ((None, True, Some e), prov')
             | Inr session \<Rightarrow> gret ((Some session, False, None), prov')))"

definition OpenProviderSession ::
  "'w environment \<Rightarrow> 'w local_provider \<Rightarrow> VPCFileConfig \<Rightarrow> string
     \<Rightarrow> ('w gost, ('w lib_session option \<times> bool \<times> goerror option) \<times> 'w local_provider) go" where
  "OpenProviderSession E prov conf providerID = OpenProviderSessionWithContext E None prov conf providerID"

section \<open>The storage provider\<close>

record LibConfig =
  lc_VPC :: "VPCProviderConfig option"
  lc_IKS :: "IKSConfig option"
  lc_Server :: "ServerConfig option"

record 'w IBMCloudStorageProvider =
  icp_ProviderName :: string
  icp_ProviderConfig :: LibConfig
  icp_Registry :: "'w local_provider ProviderRegistry"
  icp_ClusterID :: string

record 'w cloud_environment =
  ce_env :: "'w environment"
  ce_ReadConfig :: "('w, goerror + LibConfig) api"
  ce_GetClusterInfo :: "('w, goerror + string) api"
  ce_IKS_ENABLED :: string

definition normalizeAPIVersion :: "string \<Rightarrow> string" where
  "normalizeAPIVersion v =
     (case ParseDateOnly v of Some dateTime \<Rightarrow> FormatDate dateTime | None \<Rightarrow> ''2026-02-27'')"

definition file_config :: "LibConfig \<Rightarrow> VPCFileConfig" where
  "file_config conf = \<lparr>fc_VPCConfig = lc_VPC conf, fc_IKSConfig = lc_IKS conf, fc_ServerConfig = lc_Server conf\<rparr>"

definition wants_cluster_info :: "'w cloud_environment \<Rightarrow> LibConfig \<Rightarrow> bool" where
  "wants_cluster_info CE conf =
     ((case lc_IKS conf of None \<Rightarrow> False | Some ic \<Rightarrow> ic_Enabled ic) \<or> ce_IKS_ENABLED CE = ''True'')"

definition NewIBMCloudStorageProvider ::
  "'w cloud_environment \<Rightarrow> ('w gost, goerror + 'w IBMCloudStorageProvider) go" where
  "NewIBMCloudStorageProvider CE =
     gbind (call_api (ce_ReadConfig CE)) (\<lambda>r.
       case r of
         Inl e \<Rightarrow> gret (Inl e)
       | Inr conf \<Rightarrow>
           gbind (deref (lc_VPC conf)) (\<lambda>vc.
           let conf = conf\<lparr>lc_VPC := Some (vc\<lparr>vc_APIVersion := normalizeAPIVersion (vc_APIVersion vc)\<rparr>)\<rparr> in
           gbind (if wants_cluster_info CE conf then call_api (ce_GetClusterInfo CE) else gret (Inr []))
             (\<lambda>clusterInfo.
             case clusterInfo of
               Inl e \<Rightarrow> gret (Inl e)
             | Inr clusterID \<Rightarrow>
                 gbind (InitProviders (ce_env CE) (file_config conf)) (\<lambda>(fc, r2).
                   case r2 of
                     Inl e \<Rightarrow> gret (Inl e)
                   | Inr reg \<Rightarrow>
                       let conf = conf\<lparr>lc_VPC := fc_VPCConfig fc\<rparr> in
                       gbind (deref (lc_IKS conf)) (\<lambda>ic.
                       gbind (deref (lc_VPC conf)) (\<lambda>vc.
                         gret (Inr \<lparr>icp_ProviderName =
                                 (if ic_Enabled ic then ic_IKSFileProviderName ic
                                  else if vc_Enabled vc then vc_VPCVolumeType vc else []),
                               icp_ProviderConfig = conf, icp_Registry = reg, icp_ClusterID = clusterID\<rparr>)))))))"

definition GetProviderSession ::
  "'w environment \<Rightarrow> string option \<Rightarrow> 'w IBMCloudStorageProvider
     \<Rightarrow> ('w gost, ('w lib_session option \<times> goerror option) \<times> 'w IBMCloudStorageProvider) go" where
  "GetProviderSession E ctx icp =
     (case RegistryGet (icp_Registry icp) (icp_ProviderName icp) of
        (None, err) \<Rightarrow> gret ((None, err), icp)
      | (Some prov, err) \<Rightarrow>
          gbind (OpenProviderSessionWithContext E ctx prov (file_config (icp_ProviderConfig icp)) (icp_ProviderName icp))
            (\<lambda>((session, _, err), prov').
            let icp = icp\<lparr>icp_Registry := Register (icp_ProviderName icp) (Some prov') (icp_Registry icp)\<rparr>
            in case err of
                 None \<Rightarrow> gret ((session, None), icp)
               | Some e \<Rightarrow> gret ((None, Some e), icp)))"

definition GetConfig :: "'w IBMCloudStorageProvider \<Rightarrow> LibConfig" where
  "GetConfig icp = icp_ProviderConfig icp"

definition GetClusterID :: "'w IBMCloudStorageProvider \<Rightarrow> string" where
  "GetClusterID icp = icp_ClusterID icp"

end
