(* ===== verification/ClientLaws.thy ===== *)
theory ClientLaws
  imports FileShareApi Samples
begin

text \<open>
  The properties of the REST client and of the API operations built on it.
\<close>

section \<open>Path parameters\<close>

text \<open>A path pattern as its literals and placeholders.\<close>

datatype segment = Lit string | Par string

fun segment_text :: "segment \<Rightarrow> string" where
  "segment_text (Lit l) = l"
| "segment_text (Par k) = ''{'' @ k @ ''}''"

definition pattern_text :: "segment list \<Rightarrow> string" where
  "pattern_text segs = concat (map segment_text segs)"

definition no_braces :: "string \<Rightarrow> bool" where
  "no_braces s \<longleftrightarrow> CHR ''{'' \<notin> set s \<and> CHR ''}'' \<notin> set s"

fun segment_ok :: "segment \<Rightarrow> bool" where
  "segment_ok (Lit l) = no_braces l"
| "segment_ok (Par k) = no_braces k"

fun fill :: "string \<times> string \<Rightarrow> segment \<Rightarrow> segment" where
  "fill p (Lit l) = Lit l"
| "fill p (Par k) = (if k = fst p then Lit (snd p) else Par k)"

lemma splitAcc_acc:
  "splitAcc sep (a @ b) s = (rev b @ hd (splitAcc sep a s)) # tl (splitAcc sep a s)"
  by (induction sep a s rule: splitAcc.induct) auto

lemma Join_hd: "Join ((x @ h) # t) sep = x @ Join (h # t) sep"
  by (cases t) simp_all

lemma Join_splitAcc_acc: "Join (splitAcc sep acc s) new = rev acc @ Join (splitAcc sep [] s) new"
  using splitAcc_acc [of sep "[]" acc s] Join_hd [of "rev acc" "hd (splitAcc sep [] s)" "tl (splitAcc sep [] s)" new]
  by simp

lemma splitAcc_skip: "sep \<noteq> [] \<Longrightarrow> hd sep \<notin> set xs \<Longrightarrow> splitAcc sep acc (xs @ s) = splitAcc sep (rev xs @ acc) s"
proof (induction xs arbitrary: acc)
  case (Cons x xs)
  then have "\<not> prefix sep (x # xs @ s)" by (cases sep) auto
  with Cons show ?case by simp
qed simp

lemma ReplaceAll_skip:
  "sep \<noteq> [] \<Longrightarrow> hd sep \<notin> set xs \<Longrightarrow> ReplaceAll (xs @ s) sep new = xs @ ReplaceAll s sep new"
  using Join_splitAcc_acc [of sep "rev xs" s new]
  by (simp add: ReplaceAll_def Split_def splitAcc_skip)

lemma ReplaceAll_match: "sep \<noteq> [] \<Longrightarrow> ReplaceAll (sep @ s) sep new = new @ ReplaceAll s sep new"
  by (cases sep) (simp_all add: ReplaceAll_def Split_def Join_Cons)

lemma prefix_placeholder:
  assumes "no_braces k" and "no_braces k'" and "prefix (k @ ''}'') (k' @ ''}'' @ s)"
  shows "k = k'"
  using assms
proof (induction k arbitrary: k')
  case Nil
  then show ?case by (cases k') (auto simp: no_braces_def)
next
  case (Cons c k)
  then show ?case by (cases k') (auto simp: no_braces_def)
qed

lemma substitute_segment:
  assumes "segment_ok sg" and "no_braces (fst p)"
  shows "substitute p (segment_text sg @ s) = segment_text (fill p sg) @ substitute p s"
proof (cases sg)
  case (Lit l)
  with assms show ?thesis by (simp add: substitute_def ReplaceAll_skip no_braces_def)
next
  case (Par k)
  show ?thesis
  proof (cases "k = fst p")
    case True
    then show ?thesis using Par ReplaceAll_match [of "''{'' @ k @ ''}''" s "snd p"]
      by (simp add: substitute_def)
  next
    case False
    let ?sep = "''{'' @ fst p @ ''}''"
    from Par assms False have np: "\<not> prefix (fst p @ ''}'') (k @ ''}'' @ s)"
      using prefix_placeholder [of "fst p" k s] by auto
    have "splitAcc ?sep [] (CHR ''{'' # (k @ ''}'') @ s) = splitAcc ?sep [CHR ''{''] ((k @ ''}'') @ s)"
      using np by simp
    also have "\<dots> = splitAcc ?sep (rev (k @ ''}'') @ [CHR ''{'']) s"
      by (rule splitAcc_skip) (use Par assms in \<open>auto simp: no_braces_def\<close>)
    finally have e: "splitAcc ?sep [] (CHR ''{'' # (k @ ''}'') @ s) = splitAcc ?sep (rev (k @ ''}'') @ [CHR ''{'']) s" .
    have "Join (splitAcc ?sep [] (CHR ''{'' # (k @ ''}'') @ s)) (snd p)
        = rev (rev (k @ ''}'') @ [CHR ''{'']) @ Join (splitAcc ?sep [] s) (snd p)"
      unfolding e by (rule Join_splitAcc_acc)
    with Par False show ?thesis by (simp add: substitute_def ReplaceAll_def Split_def del: splitAcc.simps)
  qed
qed

lemma substitute_pattern:
  "list_all segment_ok segs \<Longrightarrow> no_braces (fst p) \<Longrightarrow>
     substitute p (pattern_text segs) = pattern_text (map (fill p) segs)"
proof (induction segs)
  case Nil
  then show ?case by (simp add: pattern_text_def substitute_def ReplaceAll_def Split_def)
next
  case (Cons sg segs)
  then show ?case by (simp add: pattern_text_def substitute_segment)
qed

lemma fill_ok: "no_braces (snd p) \<Longrightarrow> segment_ok sg \<Longrightarrow> segment_ok (fill p sg)"
  by (cases sg) simp_all

text \<open>The placeholder's parameter, or the placeholder itself when there is none.\<close>

fun segment_value :: "Params \<Rightarrow> segment \<Rightarrow> string" where
  "segment_value ps (Lit l) = l"
| "segment_value ps (Par k) = (case map_of ps k of Some v \<Rightarrow> v | None \<Rightarrow> ''{'' @ k @ ''}'')"

lemma segment_value_fill: "segment_value ps (fill p sg) = segment_value (p # ps) sg"
  by (cases sg; cases p) auto

text \<open>Path substitution is the simultaneous one, whatever the order in which the Go map of parameters
  is iterated: for a pattern and parameters whose texts have no braces, the path of a request is
  the pattern with each placeholder replaced by its parameter's value.\<close>

lemma request_path_simultaneous:
  assumes "op_PathPattern (rq_operation r) = pattern_text segs" and "list_all segment_ok segs"
    and "list_all (\<lambda>p. no_braces (fst p) \<and> no_braces (snd p)) (rq_pathParams r)"
  shows "request_path r = concat (map (segment_value (rq_pathParams r)) segs)"
proof -
  have "foldl (\<lambda>path p. substitute p path) (pattern_text segs) ps = concat (map (segment_value ps) segs)"
    if "list_all segment_ok segs" "list_all (\<lambda>p. no_braces (fst p) \<and> no_braces (snd p)) ps" for segs ps
    using that
  proof (induction ps arbitrary: segs)
    case Nil
    have "segment_text = segment_value []"
    proof
      show "segment_text sg = segment_value [] sg" for sg by (cases sg) simp_all
    qed
    then show ?case by (simp add: pattern_text_def)
  next
    case (Cons p ps)
    have "foldl (\<lambda>path p. substitute p path) (pattern_text segs) (p # ps)
        = foldl (\<lambda>path p. substitute p path) (pattern_text (map (fill p) segs)) ps"
      using Cons.prems by (simp add: substitute_pattern)
    also have "\<dots> = concat (map (segment_value ps) (map (fill p) segs))"
      by (rule Cons.IH) (use Cons.prems in \<open>auto simp: list_all_iff intro: fill_ok\<close>)
    also have "\<dots> = concat (map (segment_value (p # ps)) segs)"
      by (simp add: segment_value_fill comp_def del: segment_value.simps)
    finally show ?case .
  qed
  with assms show ?thesis by (simp add: request_path_def)
qed

text \<open>The parameters can be permuted.\<close>

lemma request_path_simultaneous_witness:
  "request_path \<lparr>rq_baseURL = [], rq_authenHandler = \<lparr>ah_authToken = [], ah_resourceGroup = []\<rparr>,
     rq_operation = \<lparr>op_Name = [], op_Method = ''GET'', op_PathPattern = shareIDPath @ shareTargetIDPath\<rparr>,
     rq_pathParams = [(''target-id'', ''t1''), (''share-id'', ''s1'')], rq_headers = [], rq_queryValues = [],
     rq_bodyProvider = None, rq_debug = False, rq_resourceGroup = []\<rparr> = ''/v1/shares/s1/mount_targets/t1''"
  by (subst request_path_simultaneous [where segs = "[Lit ''/v1/shares/'', Par ''share-id'', Lit ''/mount_targets/'',
      Par ''target-id'']"])
    (simp_all add: pattern_text_def path_defs no_braces_def)

section \<open>Authentication\<close>

text \<open>Without a token no request leaves the client: \<open>Invoke\<close> answers
  \<open>ErrAuthenticationRequired\<close>, without a response and with the world untouched.\<close>

lemma Invoke_unauthenticated:
  assumes "ah_authToken (rq_authenHandler r) = []"
  shows "\<exists>iv. Invoke T C success receiver errs r w = (iv, w) \<and>
    iv_Error iv = Some ErrAuthenticationRequired \<and> iv_Response iv = None"
  using assms by (simp add: Invoke_def Before_def)

lemma Invoke_unauthenticated_witness:
  "\<exists>iv. Invoke (\<lambda>q w. (Inl (PlainError ''sent''), Suc w)) C None () None
      (NewRequest (newClient ''https://iaas'' [] [] []) \<lparr>op_Name = [], op_Method = ''GET'', op_PathPattern = sharesPath\<rparr>)
      0 = (iv, 0) \<and> iv_Error iv = Some ErrAuthenticationRequired \<and> iv_Response iv = None"
  by (rule Invoke_unauthenticated) (simp add: NewRequest_def newClient_def Let_def)

lemma map_of_values_set: "map_of (values_set k v m) k' = (if k' = k then Some [v] else map_of m k')"
  by (induction k v m rule: values_set.induct) auto

lemma canonical_idem:
  "CanonicalHeaderKey ''Authorization'' = ''Authorization''" "CanonicalHeaderKey ''Content-Type'' = ''Content-Type''"
  by code_simp+

text \<open>The URL depends on the client, the operation and the parameters only.\<close>

lemma URLof_same [simp]: "URLof (SetHeader k v r) = URLof r" "URLof (JSONBody b r) = URLof r"
  "URLof (r\<lparr>rq_resourceGroup := g\<rparr>) = URLof r" "URLof (PathParameter k v (JSONBody b r)) = URLof (PathParameter k v r)"
  by (simp_all add: URLof_def request_path_def SetHeader_def JSONBody_def PathParameter_def Let_def split: sum.split)

text \<open>What a request carries when it is sent.\<close>

lemma sent_request:
  assumes "Before (rq_authenHandler r) r = (None, r1)" and "encode_body C r1 = Inr (tx, r2)"
  shows "map_of (rq_headers r2) ''Authorization'' = Some [''Bearer '' @ ah_authToken (rq_authenHandler r)]"
    and "rq_operation r2 = rq_operation r" and "URLof r2 = URLof r"
    and "case rq_bodyProvider r of None \<Rightarrow> tx = None | Some p \<Rightarrow> (\<exists>u. enc C p = Inr u \<and> tx = Some u)"
  using assms
  by (auto simp: Before_def encode_body_def SetHeader_def header_set_def canonical_idem map_of_values_set Let_def
      URLof_def request_path_def split: if_splits option.splits sum.splits)

lemma Invoke_cong_token:
  assumes "\<And>q v. map_of (hr_Header q) ''Authorization'' = Some [''Bearer '' @ ah_authToken (rq_authenHandler r)] \<Longrightarrow>
      hr_Method q = op_Method (rq_operation r) \<Longrightarrow> T q v = T' q v"
  shows "Invoke T C success receiver errs r w = Invoke T' C success receiver errs r w"
proof -
  have "T q v = T' q v"
    if b: "Before (rq_authenHandler r) r = (None, r1)" "encode_body C r1 = Inr (tx, r2)"
      and q: "q = \<lparr>hr_Method = op_Method (rq_operation r2), hr_URL = u, hr_Header = rq_headers r2, hr_Body = tx\<rparr>"
    for r1 tx r2 q u v
  proof -
    from sent_request [OF b] q show ?thesis by (intro assms) simp_all
  qed
  then show ?thesis by (auto simp: Invoke_def Let_def split: prod.splits option.splits sum.splits)
qed

text \<open>Transports that agree on the requests carrying a token.\<close>

definition agree_on_token :: "string \<Rightarrow> 'w transport \<Rightarrow> 'w transport \<Rightarrow> bool" where
  "agree_on_token token T T' \<longleftrightarrow>
     (\<forall>q. map_of (hr_Header q) ''Authorization'' = Some [''Bearer '' @ token] \<longrightarrow> T q = T' q)"

lemma Invoke_agree:
  assumes "agree_on_token (ah_authToken h) T T'" and "rq_authenHandler r = h"
  shows "Invoke T C success receiver errs r = Invoke T' C success receiver errs r"
  by (rule ext, rule Invoke_cong_token) (use assms in \<open>auto simp: agree_on_token_def\<close>)

lemma request_authenHandler [simp]:
  "rq_authenHandler (NewRequest cl oper) = cl_authenHandler cl"
  "rq_authenHandler (PathParameter k v r) = rq_authenHandler r"
  "rq_authenHandler (SetQueryValue k v r) = rq_authenHandler r"
  "rq_authenHandler (AddQueryValue k v r) = rq_authenHandler r"
  "rq_authenHandler (SetHeader k v r) = rq_authenHandler r"
  "rq_authenHandler (JSONBody b r) = rq_authenHandler r"
  "rq_authenHandler (query_if c k v r) = rq_authenHandler r"
  "rq_authenHandler (paging limit start r) = rq_authenHandler r"
  by (simp_all add: NewRequest_def PathParameter_def SetQueryValue_def AddQueryValue_def SetHeader_def JSONBody_def
      query_if_def paging_def Let_def)

text \<open>The operations of a client, as one bundle.\<close>

lemmas share_operations =
  CreateFileShare_def GetFileShare_def ListFileShares_def GetFileShareByName_def GetFileShareEtag_def
  UpdateFileShareWithEtag_def DeleteFileShare_def ExpandVolumeApi_def GetShareProfile_def
  CreateFileShareTarget_def ListFileShareTargets_def GetFileShareTarget_def GetFileShareTargetByName_def
  DeleteFileShareTarget_def ListSubnets_def ListSecurityGroups_def

lemmas snapshot_operations =
  CreateSnapshotApi_def DeleteSnapshotApi_def GetSnapshotApi_def GetSnapshotByNameApi_def ListSnapshotsApi_def

text \<open>No operation of a service sends a request without the token of its client.\<close>

lemma services_agree:
  assumes "agree_on_token (ah_authToken (cl_authenHandler client)) T T'"
  shows "NewFileShareService T C client = NewFileShareService T' C client"
    and "NewSnapshotManager T C client = NewSnapshotManager T' C client"
    and "NewIKSVolumeService T C client = NewIKSVolumeService T' C client"
proof -
  note agree = Invoke_agree [OF assms, where C = C]
  show fs: "NewFileShareService T C client = NewFileShareService T' C client"
    by (auto simp: NewFileShareService_def share_operations Let_def fun_eq_iff agree split: option.split)
  show "NewSnapshotManager T C client = NewSnapshotManager T' C client"
    by (auto simp: NewSnapshotManager_def snapshot_operations Let_def fun_eq_iff agree split: option.split)
  show "NewIKSVolumeService T C client = NewIKSVolumeService T' C client"
    by (auto simp: NewIKSVolumeService_def fs IKSUpdateVolume_def Let_def fun_eq_iff agree)
qed

definition tokenClient :: SessionClient where
  "tokenClient = WithAuthToken ''tok'' (newClient ''https://iaas.test'' [] [] [])"

definition answer :: "int \<Rightarrow> string \<Rightarrow> HttpResponse" where
  "answer code text = \<lparr>resp_StatusCode = code, resp_Status = Itoa code, resp_Header = Map.empty, resp_Body = text\<rparr>"

section \<open>Responses\<close>

lemma receiver_error_not_None: "receiver_error rc \<noteq> ModelsErrorVal e"
  by (cases rc) simp_all

text \<open>The status decides what a response means, for a request with both receivers: 204 and a decoded
  2xx are successes; a 2xx that does not decode gives the decoder's error; any other status is an
  error, the decoded \<open>*models.Error\<close> with the status line in its first item, or the decoder's
  error.\<close>

lemma receive_status:
  "iv_Response (receive C (Some dec) a0 (Some (ErrorReceiver e0)) rcv resp) = Some resp \<and>
   iv_Error (receive C (Some dec) a0 (Some (ErrorReceiver e0)) rcv resp) =
     (if resp_StatusCode resp = 204 then None
      else if 200 \<le> resp_StatusCode resp \<and> resp_StatusCode resp \<le> 299 then snd (dec (resp_Body resp))
      else (case dec_Error C (resp_Body resp) of
              (e, Some derr) \<Rightarrow> Some derr
            | (e, None) \<Rightarrow> Some (ModelsError (case err_Errors e of [] \<Rightarrow> e
                | it # its \<Rightarrow> e\<lparr>err_Errors := it\<lparr>ei_Status := resp_Status resp\<rparr> # its\<rparr>))))"
  by (simp add: receive_def consume_error_def Let_def split: prod.split option.split)

lemma receive_accepted:
  assumes "iv_Error (receive C (Some dec) a0 (Some rc) rcv resp) = None"
  shows "200 \<le> resp_StatusCode resp \<and> resp_StatusCode resp \<le> 299 \<and>
    iv_Success (receive C (Some dec) a0 (Some rc) rcv resp) =
      (if resp_StatusCode resp = 204 then a0 else fst (dec (resp_Body resp)))"
  using assms by (auto simp: receive_def Let_def split: if_splits prod.splits option.splits)

text \<open>A request that \<open>Invoke\<close> reports as successful was sent as it was built and accepted with a 2xx.\<close>

lemma Invoke_accepted:
  assumes "Invoke T C (Some dec) a0 (Some rc) r w = (iv, w')" and "iv_Error iv = None"
  obtains q resp where "T q w = (Inr resp, w')" and "hr_Method q = op_Method (rq_operation r)"
    and "map_of (hr_Header q) ''Authorization'' = Some [''Bearer '' @ ah_authToken (rq_authenHandler r)]"
    and "case rq_bodyProvider r of None \<Rightarrow> hr_Body q = None | Some p \<Rightarrow> (\<exists>u. enc C p = Inr u \<and> hr_Body q = Some u)"
    and "200 \<le> resp_StatusCode resp" and "resp_StatusCode resp \<le> 299"
    and "iv_Success iv = (if resp_StatusCode resp = 204 then a0 else fst (dec (resp_Body resp)))"
proof -
  obtain r1 tx r2 u resp where b: "Before (rq_authenHandler r) r = (None, r1)" "encode_body C r1 = Inr (tx, r2)"
    and s: "T \<lparr>hr_Method = op_Method (rq_operation r2), hr_URL = u, hr_Header = rq_headers r2, hr_Body = tx\<rparr> w
      = (Inr resp, w')" and iv: "iv = receive C (Some dec) a0 (Some rc) rc resp"
    using assms by (auto simp: Invoke_def Let_def split: prod.splits option.splits sum.splits)
  note sent = sent_request [OF b]
  show ?thesis
    by (rule that [OF s]) (use sent receive_accepted [of C dec a0 rc rc resp] assms(2) iv in \<open>auto split: option.splits\<close>)
qed

section \<open>The contract of the API operations\<close>

lemma pointer_or_error_contract: "fallible_call (pointer_or_error m)"
  by unfold_locales (auto simp: pointer_or_error_def split: prod.splits option.splits)

text \<open>Each operation that answers a pointer or an error satisfies the contract on which the provider relies.\<close>

interpretation create_share: fallible_call "CreateFileShare T C vs t" for T C vs t
  unfolding CreateFileShare_def Let_def by (rule pointer_or_error_contract)

interpretation get_share: fallible_call "GetFileShare T C vs vid" for T C vs vid
  unfolding GetFileShare_def Let_def by (rule pointer_or_error_contract)

interpretation list_shares: fallible_call "ListFileShares T C vs l st f" for T C vs l st f
  unfolding ListFileShares_def Let_def by (rule pointer_or_error_contract)

interpretation expand_share: fallible_call "ExpandVolumeApi T C vs vid t" for T C vs vid t
  unfolding ExpandVolumeApi_def Let_def by (rule pointer_or_error_contract)

interpretation get_profile: fallible_call "GetShareProfile T C vs n" for T C vs n
  unfolding GetShareProfile_def Let_def by (rule pointer_or_error_contract)

interpretation create_target: fallible_call "CreateFileShareTarget T C vs t" for T C vs t
  unfolding CreateFileShareTarget_def Let_def by (rule pointer_or_error_contract)

interpretation list_targets: fallible_call "ListFileShareTargets T C vs vid f" for T C vs vid f
  unfolding ListFileShareTargets_def Let_def by (rule pointer_or_error_contract)

interpretation get_target: fallible_call "GetFileShareTarget T C vs vid t" for T C vs vid t
  unfolding GetFileShareTarget_def Let_def by (rule pointer_or_error_contract)

interpretation list_subnets: fallible_call "ListSubnets T C vs l st f" for T C vs l st f
  unfolding ListSubnets_def Let_def by (rule pointer_or_error_contract)

interpretation list_groups: fallible_call "ListSecurityGroups T C vs l st f" for T C vs l st f
  unfolding ListSecurityGroups_def Let_def by (rule pointer_or_error_contract)

interpretation create_snapshot: fallible_call "CreateSnapshotApi T C vs vid t" for T C vs vid t
  unfolding CreateSnapshotApi_def Let_def by (rule pointer_or_error_contract)

interpretation get_snapshot: fallible_call "GetSnapshotApi T C vs vid sn" for T C vs vid sn
  unfolding GetSnapshotApi_def Let_def by (rule pointer_or_error_contract)

interpretation list_snapshots: fallible_call "ListSnapshotsApi T C vs vid l st f" for T C vs vid l st f
  unfolding ListSnapshotsApi_def Let_def by (rule pointer_or_error_contract)

lemma NewFileShareService_sel [simp]:
  "fs_CreateFileShare (NewFileShareService T C client) = CreateFileShare T C client"
  "fs_GetFileShare (NewFileShareService T C client) = GetFileShare T C client"
  "fs_ExpandVolume (NewFileShareService T C client) = ExpandVolumeApi T C client"
  "fs_ListFileShares (NewFileShareService T C client) = ListFileShares T C client"
  "fs_DeleteFileShareTarget (NewFileShareService T C client) = DeleteFileShareTarget T C client"
  "fs_GetFileShareTargetByName (NewFileShareService T C client) = GetFileShareTargetByName T C client"
  "fs_UpdateVolume (NewFileShareService T C client) = UpdateVolumeUnsupported"
  by (simp_all add: NewFileShareService_def)

section \<open>Operations with a defect\<close>

text \<open>What the error receiver holds after a refusal: the decoded error with the status line in its first item.\<close>

definition answered_error :: "codec \<Rightarrow> HttpResponse \<Rightarrow> Error" where
  "answered_error C resp =
     (case dec_Error C (resp_Body resp) of
        (e, Some derr) \<Rightarrow> e
      | (e, None) \<Rightarrow> (case err_Errors e of [] \<Rightarrow> e | it # its \<Rightarrow> e\<lparr>err_Errors := it\<lparr>ei_Status := resp_Status resp\<rparr> # its\<rparr>))"

abbreviation target_request :: "SessionClient \<Rightarrow> ShareTarget \<Rightarrow> Request" where
  "target_request client t \<equiv>
     PathParameter ''target-id'' (st_ID t) (PathParameter ''share-id'' (st_ShareID t) (NewRequest client
       \<lparr>op_Name = ''DeleteFileShareTarget'', op_Method = ''DELETE'',
        op_PathPattern = ''/v1/shares/{share-id}/mount_targets/{target-id}''\<rparr>))"

text \<open>C34: \<open>DeleteFileShareTarget\<close> sends one authorized DELETE and takes every answer for a success but one: a response
  with status 404 is reported, with the error it holds, as a \<^verbatim>\<open>models.Error\<close> value, which the retry logic does
  not recognise.  A delete that is refused, that gets no answer, or that is never sent because the token is
  missing or the URL does not parse, is answered without an error.\<close>

theorem DeleteFileShareTarget_swallows:
  "\<exists>q. hr_Method q = ''DELETE'' \<and>
     map_of (hr_Header q) ''Authorization'' = Some [''Bearer '' @ ah_authToken (cl_authenHandler client)] \<and>
     (\<forall>u. Parse (URLof (target_request client t)) = Inr u \<longrightarrow> hr_URL q = URLString u) \<and>
     (\<forall>w. DeleteFileShareTarget T C client t w =
        (if ah_authToken (cl_authenHandler client) = [] \<or> isl (Parse (URLof (target_request client t))) then ((None, None), w)
         else case T q w of
                (Inl e, w') \<Rightarrow> ((None, None), w')
              | (Inr resp, w') \<Rightarrow>
                  ((Some resp,
                    if resp_StatusCode resp = 404 then Some (ModelsErrorVal (answered_error C resp)) else None), w'))) \<and>
     (\<forall>v. \<not> skipRetryForObviousErrors (ModelsErrorVal v))"
proof -
  define r where "r = target_request client t"
  define tok where "tok = ah_authToken (cl_authenHandler client)"
  define r0 where "r0 = r\<lparr>rq_resourceGroup := ah_resourceGroup (cl_authenHandler client)\<rparr>"
  define r1 where "r1 = SetHeader ''Authorization'' (''Bearer '' @ tok) r0"
  define u where "u = projr (Parse (URLof r))"
  define q where "q = \<lparr>hr_Method = ''DELETE'', hr_URL = URLString u, hr_Header = rq_headers r1, hr_Body = None\<rparr>"
  have handler: "rq_authenHandler r = cl_authenHandler client" by (simp add: r_def)
  have parts: "request_path r1 = request_path r" "rq_baseURL r1 = rq_baseURL r" "rq_queryValues r1 = rq_queryValues r"
    "rq_bodyProvider r1 = rq_bodyProvider r" "rq_operation r1 = rq_operation r"
    by (simp_all add: r1_def r0_def SetHeader_def request_path_def)
  have url: "URLof r1 = URLof r" unfolding URLof_def parts ..
  have op: "op_Method (rq_operation r1) = ''DELETE''" and body: "encode_body C r1 = Inr (None, r1)"
    unfolding encode_body_def parts by (simp_all add: r_def PathParameter_def NewRequest_def Let_def)
  have auth: "map_of (rq_headers r1) ''Authorization'' = Some [''Bearer '' @ tok]"
    by (simp add: r1_def SetHeader_def header_set_def canonical_idem map_of_values_set)
  have sent: "Before (cl_authenHandler client) r = (if tok = [] then (Some ErrAuthenticationRequired, r0) else (None, r1))"
    by (simp add: Before_def Let_def r1_def r0_def tok_def)
  have delete: "DeleteFileShareTarget T C client t w =
      (case Invoke T C None () (Some (ErrorReceiver zeroError)) r w of (iv, w') \<Rightarrow>
         (case (iv_Error iv, iv_Response iv, iv_ErrorReceiver iv) of
            (Some e, Some resp, ErrorReceiver err) \<Rightarrow>
              if resp_StatusCode resp = 404 then ((Some resp, Some (ModelsErrorVal err)), w') else ((Some resp, None), w')
          | (_, resp, _) \<Rightarrow> ((resp, None), w')))" for w
    by (simp add: DeleteFileShareTarget_def path_defs Let_def r_def)
  have run: "DeleteFileShareTarget T C client t w =
      (if tok = [] \<or> isl (Parse (URLof r)) then ((None, None), w)
       else case T q w of
              (Inl e, w') \<Rightarrow> ((None, None), w')
            | (Inr resp, w') \<Rightarrow>
                ((Some resp, if resp_StatusCode resp = 404 then Some (ModelsErrorVal (answered_error C resp)) else None), w'))" for w
  proof (cases "tok = [] \<or> isl (Parse (URLof r))")
    case True
    then show ?thesis
      by (cases "tok = []"; cases "Parse (URLof r)") (simp_all add: delete Invoke_def handler sent body url Let_def)
  next
    case False
    then have p: "Parse (URLof r) = Inr u" by (simp add: u_def)
    obtain a w' where T: "T q w = (a, w')" by (cases "T q w")
    with False p show ?thesis
      by (cases a) (auto simp: delete Invoke_def handler sent body url op q_def [symmetric] receive_def consume_error_def
          answered_error_def Let_def split: prod.split option.split list.split)
  qed
  show ?thesis
    unfolding r_def [symmetric] tok_def [symmetric]
    by (intro exI [of _ q] conjI allI impI run) (auto simp: q_def auth u_def skipRetryForObviousErrors_def)
qed

definition sampleCodec :: codec where
  "sampleCodec = \<lparr>enc = \<lambda>_. Inr ''{}'', dec_Share = \<lambda>_. (sampleShare, None), dec_ShareList = \<lambda>_. (zeroShareList, None),
     dec_ShareTarget = \<lambda>_. (zeroShareTarget, None), dec_ShareTargetList = \<lambda>_. (zeroShareTargetList, None),
     dec_ProfileDetails = \<lambda>_. (zeroProfileDetails, None), dec_Snapshot = \<lambda>_. (zeroSnapshot, None),
     dec_SnapshotList = \<lambda>_. (zeroSnapshotList, None), dec_SubnetList = \<lambda>_. (zeroSubnetList, None),
     dec_SecurityGroupList = \<lambda>_. (zeroSecurityGroupList, None),
     dec_Error = \<lambda>c. (\<lparr>err_Errors = [item_of c], err_Trace = []\<rparr>, None), dec_IksError = \<lambda>c. (zeroIksError, None)\<rparr>"

lemma tokenClient_targets: "\<exists>u. Parse (URLof (target_request tokenClient zeroShareTarget)) = Inr u"
proof -
  have "case Parse (URLof (target_request tokenClient zeroShareTarget)) of Inl e \<Rightarrow> False | Inr u \<Rightarrow> True" by code_simp
  then show ?thesis by (auto split: sum.splits)
qed

text \<open>A 404 and a refused delete.\<close>

lemma DeleteFileShareTarget_swallows_witness:
  "DeleteFileShareTarget (\<lambda>q w. (Inr (answer 404 ''shares_target_not_found''), Suc w)) sampleCodec tokenClient zeroShareTarget 0 =
     ((Some (answer 404 ''shares_target_not_found''),
       Some (ModelsErrorVal (answered_error sampleCodec (answer 404 ''shares_target_not_found'')))), 1) \<and>
   DeleteFileShareTarget (\<lambda>q w. (Inr (answer 403 ''forbidden''), Suc w)) sampleCodec tokenClient zeroShareTarget 0 =
     ((Some (answer 403 ''forbidden''), None), 1)"
proof -
  have tok: "ah_authToken (cl_authenHandler tokenClient) \<noteq> []" by (simp add: tokenClient_def WithAuthToken_def)
  show ?thesis
    using DeleteFileShareTarget_swallows [of tokenClient zeroShareTarget "\<lambda>q w. (Inr (answer 404 ''shares_target_not_found''), Suc w)" sampleCodec]
      DeleteFileShareTarget_swallows [of tokenClient zeroShareTarget "\<lambda>q w. (Inr (answer 403 ''forbidden''), Suc w)" sampleCodec]
      tok tokenClient_targets by (auto simp: answer_def)
qed

text \<open>\<open>GetFileShareTargetByName\<close> does not use its share ID: it lists the targets of the share whose ID
  is the target's name.\<close>

lemma GetFileShareTargetByName_ignores_share:
  "GetFileShareTargetByName T C vs shareID targetName = GetFileShareTargetByName T C vs shareID' targetName \<and>
   snd (fst (GetFileShareTargetByName T C vs shareID targetName w)) =
     snd (fst (ListFileShareTargets T C vs targetName (Some \<lparr>stf_ShareTargetName = targetName\<rparr>) w)) \<and>
   snd (GetFileShareTargetByName T C vs shareID targetName w) =
     snd (ListFileShareTargets T C vs targetName (Some \<lparr>stf_ShareTargetName = targetName\<rparr>) w)"
  by (auto simp: GetFileShareTargetByName_def fun_eq_iff split: prod.split option.split list.split)

end
