(* ===== verification/VolumeLaws.thy ===== *)
theory VolumeLaws
  imports Volumes Samples
begin

text \<open>
  The properties of the volume operations.
\<close>

lemmas op_run = gbind_def gget_def gret_def gpanic_def deref_def user_error_run

section \<open>Waiting for a stable share\<close>

lemma validState_attempt_None:
  "validState_attempt X en vpcs vid w = ((None, a), w') \<longleftrightarrow>
     (\<exists>v. a = Some v \<and> fs_GetFileShare (FileShareService vpcs) vid w = ((Some v, None), w') \<and>
          sh_Status v = StatusStable)"
  by (auto simp: validState_attempt_def split: prod.splits option.splits if_splits)

lemma Wait_run:
  assumes "retry (validState_attempt X (MessagesEn s) vpcs vid) None s = (Ret (err, a), s1)"
  shows "WaitForValidVolumeState X vpcs vid s =
    (Ret (map_option (\<lambda>e. GetUserError X (MessagesEn s) ''VolumeNotInValidState'' (Some e) [AStr vid]) err),
     s1)"
  using assms retry_config [OF assms]
  by (simp add: WaitForValidVolumeState_def op_run same_config_def split: option.split)

lemma Wait_returns:
  obtains err a s1 where "retry (validState_attempt X (MessagesEn s) vpcs vid) None s = (Ret (err, a), s1)"
    and "same_config s s1"
    and "WaitForValidVolumeState X vpcs vid s =
      (Ret (map_option (\<lambda>e. GetUserError X (MessagesEn s) ''VolumeNotInValidState'' (Some e) [AStr vid]) err),
       s1)"
proof -
  obtain err a s1 where r: "retry (validState_attempt X (MessagesEn s) vpcs vid) None s = (Ret (err, a), s1)"
    by (rule retry_cases)
  show ?thesis by (rule that [OF r retry_config [OF r] Wait_run [OF r]])
qed

lemma Wait_Ret: "\<exists>e s'. WaitForValidVolumeState X vpcs vid s = (Ret e, s')"
  using Wait_returns [of X s vpcs vid] by blast

lemma Wait_stable:
  assumes "WaitForValidVolumeState X vpcs vid s = (Ret None, s')" and "0 < maxRetryAttempt s"
  shows "\<exists>v w. fs_GetFileShare (FileShareService vpcs) vid w = ((Some v, None), world s') \<and>
    sh_Status v = StatusStable"
proof -
  obtain err a s1 where r: "retry (validState_attempt X (MessagesEn s) vpcs vid) None s = (Ret (err, a), s1)"
    and run: "WaitForValidVolumeState X vpcs vid s =
      (Ret (map_option (\<lambda>e. GetUserError X (MessagesEn s) ''VolumeNotInValidState'' (Some e) [AStr vid]) err), s1)"
    by (rule Wait_returns)
  from run assms(1) have "err = None" and s1: "s1 = s'" by auto
  then show ?thesis
    using retry_last_call [OF r assms(2)] by (auto simp: validState_attempt_None)
qed

lemma preserves_Wait [pres_rules]: "preserves same_config (WaitForValidVolumeState X vpcs vid)"
proof (rule preservesI)
  fix s r s'
  assume "WaitForValidVolumeState X vpcs vid s = (r, s')"
  with Wait_returns [of X s vpcs vid] show "same_config s s'" by (metis prod.inject)
qed

text \<open>C22: Polling succeeds whenever it can: if the share is read without an error but not stable in
  the first \<open>k\<close> polls (\<open>k\<close> below the configured number of attempts) and stable in the next one,
  \<open>WaitForValidVolumeState\<close> returns no error, having called the API exactly \<open>k + 1\<close> times.
  \<open>poll ^^ k\<close> is the world after \<open>k\<close> calls of \<open>GetFileShare\<close>.\<close>

theorem wait_reaches_stable:
  assumes poll: "poll = (\<lambda>w. snd (fs_GetFileShare (FileShareService vpcs) vid w))"
    and k: "int k < maxRetryAttempt s"
    and busy: "\<And>j. j < k \<Longrightarrow> \<exists>v. fst (fs_GetFileShare (FileShareService vpcs) vid ((poll ^^ j) (world s)))
        = (Some v, None) \<and> sh_Status v \<noteq> StatusStable"
    and stable: "fst (fs_GetFileShare (FileShareService vpcs) vid ((poll ^^ k) (world s))) = (Some v, None)"
      "sh_Status v = StatusStable"
  shows "\<exists>s'. WaitForValidVolumeState X vpcs vid s = (Ret None, s') \<and>
    world s' = (poll ^^ Suc k) (world s)"
proof -
  let ?f = "validState_attempt X (MessagesEn s) vpcs vid"
  have snd: "snd (?f w) = poll w" for w
    by (auto simp: validState_attempt_def poll split: prod.split option.split)
  then have pow: "((snd \<circ> ?f) ^^ j) w = (poll ^^ j) w" for j w
    by (induction j) simp_all
  have "fst (?f ((poll ^^ k) (world s))) = (None, Some v)"
    using stable by (auto simp: validState_attempt_def split: prod.split)
  moreover have "\<not> retry_stop (fst (?f ((poll ^^ j) (world s))))" if "j < k" for j
    using busy [OF that] by (auto simp: validState_attempt_def retry_stop_def GetUserError_def split: prod.split)
  ultimately have "(fst (retry_run ?f (None, None) s), world (snd (retry_run ?f (None, None) s))) =
      ?f ((poll ^^ k) (world s))" and "fst (?f ((poll ^^ k) (world s))) = (None, Some v)"
    using retry.reaches [of k s ?f "(None, None)"] k by (simp_all add: pow zless_nat_eq_int_zless)
  then have "fst (retry_run ?f (None, None) s) = (None, Some v)"
    and "world (snd (retry_run ?f (None, None) s)) = (poll ^^ Suc k) (world s)"
    by (metis fst_conv, metis snd_conv snd funpow.simps(2) comp_apply)
  then show ?thesis using Wait_run [of X s vpcs vid] by (simp add: retry_eq_run)
qed

lemma wait_reaches_stable_witness:
  "\<exists>s'. WaitForValidVolumeState sampleExt
      (fileSession ((refusing (api_error ''internal_error''))
         \<lparr>fs_GetFileShare := \<lambda>_ n. ((Some (sampleShare\<lparr>sh_Status :=
             (if n = (2::nat) then ''stable'' else ''pending'')\<rparr>), None), Suc n)\<rparr>))
      ''s'' (init_gost 0) = (Ret None, s') \<and> world s' = 3"
proof -
  let ?vpcs = "fileSession ((refusing (api_error ''internal_error''))
         \<lparr>fs_GetFileShare := \<lambda>_ n. ((Some (sampleShare\<lparr>sh_Status :=
             (if n = (2::nat) then ''stable'' else ''pending'')\<rparr>), None), Suc n)\<rparr>)"
  have pow: "(Suc ^^ j) 0 = j" for j by (induction j) simp_all
  show ?thesis
    using wait_reaches_stable [of Suc ?vpcs "''s''" 2 "init_gost 0"
        "sampleShare\<lparr>sh_Status := ''stable''\<rparr>" sampleExt]
    by (auto simp: pow StatusStable_def)
qed

section \<open>CreateVolume\<close>

text \<open>\<open>validateVolumeRequest\<close> accepts a request exactly when it has a name, a profile, a
  resource group with an ID or a name, and a capacity that is at least 10 or belongs to the
  \<open>rfs\<close> profile.\<close>

lemma validateVolumeRequest_accepts:
  "snd (snd (snd (validateVolumeRequest X en req))) = None \<longleftrightarrow>
     (\<exists>name profile rg capacity.
        vol_Name req = Some name \<and> name \<noteq> [] \<and> vol_Profile req = Some profile \<and>
        vol_ResourceGroup req = Some rg \<and> (lrg_ID rg \<noteq> [] \<or> lrg_Name rg \<noteq> []) \<and>
        vol_Capacity req = Some capacity \<and> (10 \<le> capacity \<or> lpr_Name profile = ''rfs''))"
  by (auto simp: validateVolumeRequest_def Let_def minSize_def RFSProfile_def split: option.splits)

lemma validateVolumeRequest_ok:
  assumes "validateVolumeRequest X en req = (rg, iops, bw, None)"
  obtains name profile capacity where "vol_Name req = Some name" and "vol_Profile req = Some profile"
    and "vol_Capacity req = Some capacity"
  using assms validateVolumeRequest_accepts [of X en req] by auto

definition createTemplate :: "Volume \<Rightarrow> ResourceGroup \<Rightarrow> int \<Rightarrow> int \<Rightarrow> Share" where
  "createTemplate req rg iops bw =
     shareTemplate req (the (vol_Name req)) (the (vol_Capacity req)) (the (vol_Profile req)) rg iops bw"

text \<open>A request that validation rejects reaches no API operation: \<open>CreateVolume\<close> returns
  the validation error and leaves the whole state, the world behind the client included, as
  it was.\<close>

lemma CreateVolume_invalid:
  assumes "validateVolumeRequest X (MessagesEn s) req = (rg, iops, bw, Some e)"
  shows "CreateVolume X vpcs req s = (Ret (None, Some e), s)"
  using assms by (simp add: CreateVolume_def op_run)

lemma CreateVolume_invalid_witness:
  "CreateVolume sampleExt (fileSession (refusing (api_error ''internal_error'')))
     (sampleVolume\<lparr>vol_Capacity := Some 9\<rparr>) (init_gost (0::nat)) =
   (Ret (None, Some (GetUserError sampleExt Map.empty ''VolumeCapacityInvalid'' None [AInt 9])),
    init_gost 0)"
  by (rule CreateVolume_invalid [where rg = "zeroResourceGroup\<lparr>rg_ID := ''rg''\<rparr>" and iops = 0 and bw = 0])
    (simp add: validateVolumeRequest_def sampleVolume_def zeroVolume_def minSize_def RFSProfile_def
      zeroLibProfile_def)

text \<open>The run of a valid request after the create call.\<close>

lemma CreateVolume_valid:
  assumes v: "validateVolumeRequest X (MessagesEn s) req = (rg, iops, bw, None)"
    and r: "retry (capture (fs_CreateFileShare (FileShareService vpcs) (createTemplate req rg iops bw)))
      None s = (Ret (err, a), s1)"
  shows "CreateVolume X vpcs req s =
    (case err of
       Some e \<Rightarrow> (Ret (None, Some (GetUserError X (MessagesEn s) ''FailedToPlaceOrder'' (Some e) [])), s1)
     | None \<Rightarrow>
         (case a of
            None \<Rightarrow> (Panic NilDeref, s1)
          | Some share \<Rightarrow>
              (case WaitForValidVolumeState X vpcs (sh_ID share) s1 of
                 (Ret (Some e), s2) \<Rightarrow>
                   (Ret (None, Some (GetUserError X (MessagesEn s) ''VolumeNotInValidState'' (Some e)
                      [AStr (sh_ID share)])), s2)
               | (Ret None, s2) \<Rightarrow>
                   (Ret (map_option (\<lambda>lv. lv\<lparr>vol_Region := vol_Region req\<rparr>)
                      (FromProviderToLibVolume (Some share)), None), s2)
               | (Panic p, s2) \<Rightarrow> (Panic p, s2))))"
proof -
  obtain name profile capacity where f: "vol_Name req = Some name" "vol_Profile req = Some profile"
    "vol_Capacity req = Some capacity"
    using validateVolumeRequest_ok [OF v] .
  have c1: "MessagesEn s1 = MessagesEn s" using retry_config [OF r] by (simp add: same_config_def)
  show ?thesis
  proof (cases a)
    case (Some share)
    obtain out s2 where w: "WaitForValidVolumeState X vpcs (sh_ID share) s1 = (out, s2)"
      by (cases "WaitForValidVolumeState X vpcs (sh_ID share) s1")
    have c2: "MessagesEn s2 = MessagesEn s"
      using preservesD [OF preserves_Wait w] c1 by (simp add: same_config_def)
    obtain lv where lv: "FromProviderToLibVolume (Some share) = Some lv"
      using FromProviderToLibVolume_Some by blast
    show ?thesis
      using v r w Some by (simp add: CreateVolume_def op_run f createTemplate_def c1 c2 lv
          split: option.split outcome.split)
  qed (use v r c1 in \<open>simp add: CreateVolume_def op_run f createTemplate_def split: option.split\<close>)
qed

text \<open>When \<open>CreateVolume\<close> returns a volume, the backend accepted the template built from the
  request and answered with a share, a later read of that share found it stable, and the
  returned volume carries that share's ID, size and IOPS and the requested region.\<close>

lemma CreateVolume_success:
  assumes run: "CreateVolume X vpcs req s = (Ret (Some resp, e), s')"
  shows "\<exists>rg iops bw share v w w' u.
    validateVolumeRequest X (MessagesEn s) req = (rg, iops, bw, None) \<and> e = None \<and>
    fs_CreateFileShare (FileShareService vpcs) (createTemplate req rg iops bw) w = ((Some share, None), w') \<and>
    fs_GetFileShare (FileShareService vpcs) (sh_ID share) u = ((Some v, None), world s') \<and>
    sh_Status v = StatusStable \<and>
    vol_VolumeID resp = sh_ID share \<and> vol_Capacity resp = Some (sh_Size share) \<and>
    vol_Iops resp = Some (Itoa (sh_Iops share)) \<and> vol_Region resp = vol_Region req"
proof -
  obtain rg iops bw verr where v: "validateVolumeRequest X (MessagesEn s) req = (rg, iops, bw, verr)"
    by (metis prod.exhaust)
  have "verr = None" using run v by (cases verr) (auto simp: CreateVolume_def op_run)
  note v = v [unfolded this]
  let ?call = "fs_CreateFileShare (FileShareService vpcs) (createTemplate req rg iops bw)"
  obtain err a s1 where r: "retry (capture ?call) None s = (Ret (err, a), s1)" by (rule retry_cases)
  note eq = CreateVolume_valid [OF v r]
  obtain share where a: "err = None" "a = Some share"
    using run eq by (cases err; cases a) auto
  note r = r [unfolded a]
  have pos: "0 < maxRetryAttempt s1"
    using retry_capture_Some(1) [OF r] retry_config [OF r] by (simp add: same_config_def)
  obtain lv where lv: "FromProviderToLibVolume (Some share) = Some lv" "vol_VolumeID lv = sh_ID share"
    "vol_Capacity lv = Some (sh_Size share)" "vol_Iops lv = Some (Itoa (sh_Iops share))"
    using FromProviderToLibVolume_Some [of share] by blast
  obtain out s2 where w: "WaitForValidVolumeState X vpcs (sh_ID share) s1 = (out, s2)"
    by (cases "WaitForValidVolumeState X vpcs (sh_ID share) s1")
  from run eq a w lv(1) have "out = Ret None" "s2 = s'" "e = None" "resp = lv\<lparr>vol_Region := vol_Region req\<rparr>"
    by (auto split: outcome.splits option.splits)
  with w lv Wait_stable [of X vpcs "sh_ID share" s1 s', OF _ pos] retry_capture_Some(2) [OF r] v
  show ?thesis by force
qed

lemma CreateVolume_success_witness:
  "\<exists>resp e s'. CreateVolume sampleExt
      (fileSession ((refusing (api_error ''internal_error''))
         \<lparr>fs_CreateFileShare := \<lambda>_ w. ((Some sampleShare, None), w),
          fs_GetFileShare := \<lambda>_ w. ((Some sampleShare, None), w)\<rparr>)) sampleVolume (init_gost (0::nat))
      = (Ret (Some resp, e), s') \<and> vol_Region resp = ''us-south''"
proof -
  let ?vpcs = "fileSession ((refusing (api_error ''internal_error''))
         \<lparr>fs_CreateFileShare := \<lambda>_ w. ((Some sampleShare, None), w),
          fs_GetFileShare := \<lambda>_ w. ((Some sampleShare, None), w)\<rparr>) :: nat VPCSession"
  have "\<exists>resp e s'. CreateVolume sampleExt ?vpcs sampleVolume (init_gost 0) = (Ret (Some resp, e), s')"
    by (simp add: CreateVolume_def op_run validateVolumeRequest_def sampleVolume_def zeroVolume_def
        minSize_def RFSProfile_def zeroLibProfile_def retry_init WaitForValidVolumeState_def
        validState_attempt_def capture_def sampleShare_def StatusStable_def zeroShare_def Let_def
        FromProviderToLibVolume_def)
  then obtain resp e s' where "CreateVolume sampleExt ?vpcs sampleVolume (init_gost 0) = (Ret (Some resp, e), s')"
    by blast
  with CreateVolume_success [OF this] show ?thesis
    by (auto simp: sampleVolume_def zeroVolume_def)
qed

text \<open>\<open>CreateVolume\<close> never panics, for any request and any behaviour of \<open>GetFileShare\<close>, on a client
  whose \<open>CreateFileShare\<close> answers with a share exactly when it reports no error, provided at
  least one attempt is configured.\<close>

lemma CreateVolume_no_panic:
  assumes ok: "\<And>t w a e w'. fs_CreateFileShare (FileShareService vpcs) t w = ((a, e), w') \<Longrightarrow>
      (a = None \<longleftrightarrow> e \<noteq> None)"
    and pos: "0 < maxRetryAttempt s"
  shows "\<exists>r. fst (CreateVolume X vpcs req s) = Ret r"
proof -
  obtain rg iops bw verr where v: "validateVolumeRequest X (MessagesEn s) req = (rg, iops, bw, verr)"
    by (metis prod.exhaust)
  show ?thesis
  proof (cases verr)
    case (Some e)
    with v show ?thesis by (simp add: CreateVolume_def op_run)
  next
    case None
    note v = v [unfolded None]
    let ?call = "fs_CreateFileShare (FileShareService vpcs) (createTemplate req rg iops bw)"
    have "fallible_call ?call" by unfold_locales (rule ok)
    note result = fallible_call.retried_result [OF this]
    obtain err a s1 where r: "retry (capture ?call) None s = (Ret (err, a), s1)" by (rule retry_cases)
    have "a = None \<longleftrightarrow> err \<noteq> None" by (rule result [OF r pos])
    with CreateVolume_valid [OF v r] show ?thesis
      using Wait_Ret [of X vpcs "sh_ID (the a)" s1] by (cases a) (auto split: option.split)
  qed
qed

lemma CreateVolume_no_panic_witness:
  "\<exists>r. fst (CreateVolume sampleExt
      (fileSession ((refusing (api_error ''internal_error''))
         \<lparr>fs_CreateFileShare := \<lambda>_ w. ((Some sampleShare, None), w)\<rparr>)) sampleVolume (init_gost (0::nat)))
      = Ret r"
  by (rule CreateVolume_no_panic) auto

text \<open>A request that names a source snapshot, by CRN or by ID, is sent without a zone and without an
  access control mode, and the CRN wins over the ID.\<close>

lemma createTemplate_snapshot:
  assumes "vol_SnapshotCRN req \<noteq> [] \<or> vol_SnapshotID req \<noteq> []"
  shows "sh_Zone (createTemplate req rg iops bw) = None \<and>
    sh_AccessControlMode (createTemplate req rg iops bw) = [] \<and>
    sh_SourceSnapshot (createTemplate req rg iops bw) = Some
      (if vol_SnapshotCRN req \<noteq> [] then zeroSnapshot\<lparr>sn_CRN := vol_SnapshotCRN req\<rparr>
       else zeroSnapshot\<lparr>sn_ID := vol_SnapshotID req\<rparr>)"
  using assms by (auto simp: createTemplate_def shareTemplate_def Let_def split: option.split)

lemma createTemplate_snapshot_witness:
  "sh_Zone (createTemplate (sampleVolume\<lparr>vol_SnapshotID := ''s'', vol_Az := ''us-south-1''\<rparr>)
     zeroResourceGroup 0 0) = None"
  using createTemplate_snapshot
    [of "sampleVolume\<lparr>vol_SnapshotID := ''s'', vol_Az := ''us-south-1''\<rparr>" zeroResourceGroup 0 0]
  by simp

text \<open>Without a source snapshot the template carries the requested name, size, mode and zone; it has a
  target exactly when the request names a VPC, a subnet or a primary IP, and then a single one:
  for the VPC in VPC mode, with a network interface and no VPC in security-group mode.\<close>

lemma createTemplate_target:
  "sh_Name (createTemplate req rg iops bw) = the (vol_Name req) \<and>
   sh_Size (createTemplate req rg iops bw) = the (vol_Capacity req) \<and>
   (sh_ShareTargets (createTemplate req rg iops bw) = None \<longleftrightarrow> \<not> wantsTarget req) \<and>
   list_all (\<lambda>t. st_Name t = the (vol_Name req) \<and> st_AccessProtocol t = ''nfs4'' \<and>
       st_TransitEncryption t = vol_TransitEncryption req \<and>
       (st_VPC t = None \<longleftrightarrow> vol_AccessControlMode req = SecurityGroupMode) \<and>
       (st_VirtualNetworkInterface t = None \<longleftrightarrow> vol_AccessControlMode req \<noteq> SecurityGroupMode))
     (case sh_ShareTargets (createTemplate req rg iops bw) of None \<Rightarrow> [] | Some ts \<Rightarrow> ts)"
  by (auto simp: createTemplate_def shareTemplate_def shareTargetTemplate_def setENIParameters_def
      zeroShare_def zeroShareTarget_def Let_def split: option.split)


section \<open>GetVolume\<close>

text \<open>\<open>GetVolume\<close> rejects an ID with fewer than four dashes without calling the API; for any
  other ID its answer is the retried API answer: the converted share, or the not-found user
  error that carries the backend error.\<close>

lemma GetVolume_spec:
  "GetVolume X vpcs vid s =
     (if count_list vid CHR ''-'' < 4
      then (Ret (None, Some (GetUserError X (MessagesEn s) ''InvalidVolumeID'' None [AStr vid])), s)
      else (case retry_run (capture (fs_GetFileShare (FileShareService vpcs) vid)) (None, None) s of
          ((None, a), s1) \<Rightarrow> (Ret (FromProviderToLibVolume a, None), s1)
        | ((Some e, a), s1) \<Rightarrow>
            (Ret (None, Some (GetUserError X (MessagesEn s) ''StorageFindFailedWithVolumeId'' (Some e)
               [AStr vid])), s1)))"
proof -
  obtain err a s1 where r: "retry_run (capture (fs_GetFileShare (FileShareService vpcs) vid)) (None, None) s
      = ((err, a), s1)" by (metis prod.exhaust)
  then have "MessagesEn s1 = MessagesEn s"
    using retry.config [of s "capture (fs_GetFileShare (FileShareService vpcs) vid)" "(None, None)"]
    by (simp add: same_config_def)
  with r show ?thesis
    by (auto simp: GetVolume_def op_run validateVolumeID_def IsValidVolumeIDFormat_iff retry_eq_run
        split: option.split)
qed

lemma GetVolume_run:
  assumes "IsValidVolumeIDFormat vid"
    and r: "retry (capture (fs_GetFileShare (FileShareService vpcs) vid)) None s = (Ret (err, a), s1)"
  shows "GetVolume X vpcs vid s =
    (Ret (case err of None \<Rightarrow> (FromProviderToLibVolume a, None)
          | Some e \<Rightarrow> (None, Some (GetUserError X (MessagesEn s) ''StorageFindFailedWithVolumeId'' (Some e)
               [AStr vid]))), s1)"
  using assms retry_config [OF r]
  by (simp add: GetVolume_def op_run validateVolumeID_def same_config_def split: option.split)

lemma GetVolume_invalid:
  "\<not> IsValidVolumeIDFormat vid \<Longrightarrow> GetVolume X vpcs vid s =
    (Ret (None, Some (GetUserError X (MessagesEn s) ''InvalidVolumeID'' None [AStr vid])), s)"
  by (simp add: GetVolume_def op_run validateVolumeID_def)

lemma preserves_GetVolume [pres_rules]: "preserves same_config (GetVolume X vpcs vid)"
proof (rule preservesI)
  fix s r s'
  assume g: "GetVolume X vpcs vid s = (r, s')"
  obtain err a s1 where r: "retry (capture (fs_GetFileShare (FileShareService vpcs) vid)) None s
      = (Ret (err, a), s1)" by (rule retry_cases)
  show "same_config s s'"
    using g GetVolume_run [OF _ r, of X] GetVolume_invalid [of vid X vpcs s] retry_config [OF r]
    by (cases "IsValidVolumeIDFormat vid") auto
qed

lemma GetVolume_Ret: "\<exists>r s'. GetVolume X vpcs vid s = (Ret r, s')"
proof -
  obtain err a s1 where r: "retry (capture (fs_GetFileShare (FileShareService vpcs) vid)) None s
      = (Ret (err, a), s1)" by (rule retry_cases)
  show ?thesis
    using GetVolume_run [OF _ r, of X] GetVolume_invalid [of vid X vpcs s]
    by (cases "IsValidVolumeIDFormat vid") auto
qed

section \<open>DeleteVolume\<close>

text \<open>C24: A volume that still has access points is not deleted: \<open>DeleteVolume\<close> returns the
  access-point error naming their VPCs, and after the read of the volume it calls nothing.\<close>

theorem DeleteVolume_refuses:
  assumes "IsValidVolumeIDFormat (vol_VolumeID v)"
    and "GetVolume X vpcs (vol_VolumeID v) s = (Ret (Some lv, None), s1)"
    and "vol_VolumeAccessPoints lv = Some aps" and "aps \<noteq> []"
  shows "DeleteVolume X vpcs (Some v) s =
    (Ret (Some (GetUserError X (MessagesEn s) ''VolumeAccessPointExist'' None
       [AStr (vol_VolumeID v), AStrs (access_point_vpcs aps)])), s1)"
  using assms preservesD [OF preserves_GetVolume assms(2)]
  by (simp add: DeleteVolume_def op_run validateVolume_def same_config_def)

text \<open>An attempt of a deletion wait reports no error, and panics only on an error that is not
  a \<^verbatim>\<open>*models.Error\<close>.\<close>

lemma deletion_attempt_run:
  assumes "get (world s) = ((r, err), w)"
  shows "deletion_attempt get s =
    (case err of
       None \<Rightarrow> Ret ((None, False), False)
     | Some (ModelsError e) \<Rightarrow> Ret ((None, skipRetry e), skipRetry e)
     | Some _ \<Rightarrow> Panic BadTypeAssertion, s\<lparr>world := w\<rparr>)"
  using assms
  by (simp add: deletion_attempt_def op_run call_api_run split: option.split goerror.split)

lemma deletion_wait_no_error:
  assumes "flexy_run fr (deletion_attempt get) (None, False) s = (Ret (e, c), s')"
  shows "e = None"
proof -
  have step: "True \<and> (\<forall>e st c. a = Ret ((e, st), c) \<longrightarrow> e = None)"
    if "deletion_attempt get t = (a, t')" for t a t'
  proof -
    obtain r err w where "get (world t) = ((r, err), w)" by (metis prod.exhaust)
    from deletion_attempt_run [of get, OF this] that show ?thesis
      by (auto split: option.splits goerror.splits)
  qed
  from flexy.attempts [OF assms, of "\<lambda>_. True" "\<lambda>a _. \<forall>e st c. a = Ret ((e, st), c) \<longrightarrow> e = None"] step
  show ?thesis by (auto elim!: attempt_out.elims [OF sym])
qed

text \<open>\<open>WaitForVolumeDeletion\<close> never reports an error: whenever it returns, it returns nil, even when
  the attempts are used up and the share is still there.\<close>

lemma WaitForVolumeDeletion_never_fails:
  "fst (WaitForVolumeDeletion vpcs vid s) = Ret None \<or> (\<exists>p. fst (WaitForVolumeDeletion vpcs vid s) = Panic p)"
proof -
  obtain out s' where "flexy_run (vs_APIRetry vpcs)
      (deletion_attempt (fs_GetFileShare (FileShareService vpcs) vid)) (None, False) s = (out, s')"
    by (metis prod.exhaust)
  with deletion_wait_no_error show ?thesis
    by (cases out) (auto simp: WaitForVolumeDeletion_def FlexyRetry_eq_run op_run)
qed

lemma DeleteVolume_refuses_witness:
  "\<exists>s1. DeleteVolume sampleExt
      (fileSession ((refusing (api_error ''internal_error''))
         \<lparr>fs_GetFileShare := \<lambda>_ w. ((Some (sampleShare
             \<lparr>sh_ShareTargets := Some [zeroShareTarget\<lparr>st_VPC := Some \<lparr>lvpc_ID = ''vpc'', lvpc_Href = []\<rparr>\<rparr>]\<rparr>),
             None), w)\<rparr>))
      (Some sampleVolume) (init_gost (0::nat)) =
    (Ret (Some (GetUserError sampleExt Map.empty ''VolumeAccessPointExist'' None
       [AStr sampleVolumeID, AStrs [''vpc'']])), s1)"
proof -
  let ?t = "zeroShareTarget\<lparr>st_VPC := Some \<lparr>lvpc_ID = ''vpc'', lvpc_Href = []\<rparr>\<rparr>"
  let ?sh = "sampleShare\<lparr>sh_ShareTargets := Some [?t]\<rparr>"
  let ?vpcs = "fileSession ((refusing (api_error ''internal_error''))
         \<lparr>fs_GetFileShare := \<lambda>_ w. ((Some ?sh, None), w)\<rparr>) :: nat VPCSession"
  obtain lv where lv: "FromProviderToLibVolume (Some ?sh) = Some lv"
    and aps: "vol_VolumeAccessPoints lv = Some [FromProviderToLibVolumeAccessPoint (Some ?t)]"
    using FromProviderToLibVolume_Some [of ?sh] by auto
  have id: "IsValidVolumeIDFormat (vol_VolumeID sampleVolume)" "vol_VolumeID sampleVolume = sampleVolumeID"
    by (simp_all add: sampleVolume_def sampleVolumeID_def zeroVolume_def IsValidVolumeIDFormat_iff)
  have r: "retry (capture (fs_GetFileShare (FileShareService ?vpcs) (vol_VolumeID sampleVolume))) None
      (init_gost 0) = (Ret (None, Some ?sh), init_gost 0)"
    by (simp add: retry_init capture_def)
  note get = GetVolume_run [OF id(1) r, of sampleExt]
  have "access_point_vpcs [FromProviderToLibVolumeAccessPoint (Some ?t)] = [''vpc'']"
    by (simp add: access_point_vpcs_def FromProviderToLibVolumeAccessPoint_def List.map_filter_simps)
  with DeleteVolume_refuses [OF id(1), of sampleExt ?vpcs "init_gost 0" lv "init_gost 0"] get lv aps id(2)
  show ?thesis by auto
qed

text \<open>C25: Once the backend has accepted the delete call, \<open>DeleteVolume\<close> reports success even if the share
  can still be read in every later poll: a deletion that did not happen within the configured
  attempts is not reported.\<close>

theorem DeleteVolume_unconfirmed:
  assumes id: "IsValidVolumeIDFormat (vol_VolumeID v)"
    and get: "GetVolume X vpcs (vol_VolumeID v) s = (Ret (Some lv, None), s1)"
    and free: "vol_VolumeAccessPoints lv = Some []"
    and accepted: "retry (only_error (fs_DeleteFileShare (FileShareService vpcs) (vol_VolumeID v))) () s1
      = (Ret (None, ()), s2)"
    and there: "\<And>w. snd (fst (fs_GetFileShare (FileShareService vpcs) (vol_VolumeID v) w)) = None"
  shows "\<exists>s3. DeleteVolume X vpcs (Some v) s = (Ret None, s3)"
proof -
  let ?get = "fs_GetFileShare (FileShareService vpcs) (vol_VolumeID v)"
  obtain out s3 where w: "flexy_run (vs_APIRetry vpcs) (deletion_attempt ?get) (None, False) s2 = (out, s3)"
    by (metis prod.exhaust)
  have "True \<and> (\<exists>r. a = Ret r)" if "deletion_attempt ?get t = (a, t')" for t a t'
  proof -
    obtain r err u where g: "?get (world t) = ((r, err), u)" by (metis prod.exhaust)
    with there [of "world t"] have "err = None" by simp
    with deletion_attempt_run [of ?get t, OF g] that have "a = Ret ((None, False), False)" by simp
    then show ?thesis by blast
  qed
  with flexy.no_panic [OF w, of "\<lambda>_. True"] obtain e c where out: "out = Ret (e, c)" by auto
  with deletion_wait_no_error w have "e = None" by blast
  with out w have wait: "WaitForVolumeDeletion vpcs (vol_VolumeID v) s2 = (Ret None, s3)"
    by (simp add: WaitForVolumeDeletion_def FlexyRetry_eq_run op_run)
  show ?thesis
    using id get free accepted wait by (simp add: DeleteVolume_def op_run validateVolume_def)
qed

lemma DeleteVolume_unconfirmed_witness:
  "\<exists>s3. DeleteVolume sampleExt
      (fileSession ((refusing (api_error ''internal_error''))
         \<lparr>fs_GetFileShare := \<lambda>_ w. ((Some sampleShare, None), w), fs_DeleteFileShare := \<lambda>_ w. (None, w)\<rparr>))
      (Some sampleVolume) (init_gost (0::nat)) = (Ret None, s3)"
proof -
  let ?vpcs = "fileSession ((refusing (api_error ''internal_error''))
         \<lparr>fs_GetFileShare := \<lambda>_ w. ((Some sampleShare, None), w), fs_DeleteFileShare := \<lambda>_ w. (None, w)\<rparr>)
      :: nat VPCSession"
  obtain lv where lv: "FromProviderToLibVolume (Some sampleShare) = Some lv"
    and aps: "vol_VolumeAccessPoints lv = Some []"
    using FromProviderToLibVolume_Some [of sampleShare] by (auto simp: sampleShare_def zeroShare_def)
  have id: "IsValidVolumeIDFormat (vol_VolumeID sampleVolume)"
    by (simp add: sampleVolume_def sampleVolumeID_def zeroVolume_def IsValidVolumeIDFormat_iff)
  have r: "retry (capture (fs_GetFileShare (FileShareService ?vpcs) (vol_VolumeID sampleVolume))) None
      (init_gost 0) = (Ret (None, Some sampleShare), init_gost 0)"
    by (simp add: retry_init capture_def)
  show ?thesis
    by (rule DeleteVolume_unconfirmed [OF id, of _ _ _ lv "init_gost 0" "init_gost 0"])
      (simp_all add: GetVolume_run [OF id r] lv aps retry_init only_error_def)
qed

text \<open>C26: The deletion wait panics when the first poll fails with an error that is not a
  \<^verbatim>\<open>*models.Error\<close> (a network or authentication error, say), at least one attempt being
  configured.\<close>

theorem WaitForVolumeDeletion_panics:
  assumes "0 < fr_maxRetryAttempt (vs_APIRetry vpcs)"
    and "fs_GetFileShare (FileShareService vpcs) vid (world s) = ((r, Some err), w)"
    and "\<And>e. err \<noteq> ModelsError e"
  shows "fst (WaitForVolumeDeletion vpcs vid s) = Panic BadTypeAssertion"
proof -
  have a: "deletion_attempt (fs_GetFileShare (FileShareService vpcs) vid) s =
      (Panic BadTypeAssertion, s\<lparr>world := w\<rparr>)"
    using deletion_attempt_run [of "fs_GetFileShare (FileShareService vpcs) vid" s, OF assms(2)] assms(3) by (cases err) auto
  show ?thesis
    using flexy.first_panic [where f = "deletion_attempt (fs_GetFileShare (FileShareService vpcs) vid)",
        OF _ a] assms(1)
    by (simp add: WaitForVolumeDeletion_def FlexyRetry_eq_run op_run)
qed

lemma WaitForVolumeDeletion_panics_witness:
  "fst (WaitForVolumeDeletion (fileSession (refusing (PlainError ''no token''))) ''v'' (init_gost (0::nat)))
     = Panic BadTypeAssertion"
  by (rule WaitForVolumeDeletion_panics [where err = "PlainError ''no token''" and r = None and w = 0])
    (simp_all add: refusing_def)

section \<open>ListVolumes\<close>

lemma hd_splitAcc_prefix: "\<exists>u. hd (splitAcc sep acc t) = rev acc @ u"
  by (induction sep acc t rule: splitAcc.induct) auto

lemma prefix_beyond:
  assumes "prefix p (a @ b)" and "\<not> prefix p a"
  obtains r where "p = a @ r" and "prefix r b"
  using assms unfolding prefix_append by blast

text \<open>The first piece of a split starts with a text that does not hold the separator, if what
  follows it cannot continue the separator.\<close>

lemma hd_splitAcc_append:
  assumes "sep \<noteq> []" and "\<not> Contains tok sep" and "rest = [] \<or> hd rest \<notin> set sep"
  shows "\<exists>u. hd (splitAcc sep acc (tok @ rest)) = rev acc @ tok @ u \<and> (u = [] \<or> hd u = hd rest \<and> rest \<noteq> [])"
  using assms(2)
proof (induction tok arbitrary: acc)
  case Nil
  show ?case
  proof (cases rest)
    case (Cons x xs)
    with assms have "\<not> prefix sep (x # xs)" by (auto simp: prefix_Cons)
    with Cons hd_splitAcc_prefix [of sep "x # acc" xs] show ?thesis by auto
  qed simp
next
  case (Cons c tok)
  have "\<not> prefix sep (c # tok @ rest)"
  proof
    assume "prefix sep (c # tok @ rest)"
    then have "prefix sep ((c # tok) @ rest)" by simp
    then obtain r where "sep = (c # tok) @ r" and "prefix r rest"
      by (rule prefix_beyond) (use Cons.prems in simp)
    moreover from this Cons.prems have "r \<noteq> []" by auto
    ultimately show False using assms(3) by (cases rest) (auto simp: neq_Nil_conv prefix_Cons)
  qed
  with Cons.IH [of "c # acc"] Cons.prems show ?case by auto
qed

lemma splitAcc_append_sep:
  assumes "sep \<noteq> []" and "hd sep \<notin> set (tl sep)" and "\<not> Contains pre sep"
  shows "splitAcc sep acc (pre @ sep @ t) = (rev acc @ pre) # splitAcc sep [] t"
  using assms(3)
proof (induction pre arbitrary: acc)
  case Nil
  then show ?case using assms(1) by (cases sep) auto
next
  case (Cons c pre)
  have "\<not> prefix sep (c # pre @ sep @ t)"
  proof
    assume p: "prefix sep (c # pre @ sep @ t)"
    then have "prefix sep ((c # pre) @ (sep @ t))" by simp
    then obtain r where r: "sep = (c # pre) @ r" and p: "prefix r (sep @ t)"
      by (rule prefix_beyond) (use Cons.prems in simp)
    moreover from this Cons.prems have "r \<noteq> []" by auto
    ultimately have "hd r \<in> set (tl sep)" by simp
    moreover from p \<open>r \<noteq> []\<close> assms(1) have "hd r = hd sep" by (cases r; cases sep) auto
    ultimately show False using assms(2) by simp
  qed
  with Cons.IH [of "c # acc"] Cons.prems show ?case by auto
qed

lemma hd_Split_char: "hd (splitAcc [c] acc s) = rev acc @ takeWhile (\<lambda>x. x \<noteq> c) s"
  by (induction s arbitrary: acc) auto

lemma next_token_split:
  "Contains href ''start='' \<Longrightarrow> Split href ''start='' = p # q # qs \<Longrightarrow>
     next_token href s = (Ret (hd (Split q ''&'')), s)"
  by (simp add: next_token_def op_run)

text \<open>The token of the next page is cut out of the link as it stands: for a link
  \<open>pre start=tok&...\<close>, where \<open>pre\<close> and \<open>tok\<close> do not contain \<open>start=\<close> and \<open>tok\<close> has no \<open>&\<close>,
  it is \<open>tok\<close>; a link without \<open>start=\<close> gives the empty token.\<close>

lemma next_token_link:
  assumes "\<not> Contains pre ''start=''" and "\<not> Contains tok ''start=''" and "CHR ''&'' \<notin> set tok"
    and "rest = [] \<or> hd rest = CHR ''&''"
  shows "next_token (pre @ ''start='' @ tok @ rest) s = (Ret tok, s) \<and> next_token pre s = (Ret [], s)"
proof -
  let ?sep = "''start=''"
  have split: "Split (pre @ ?sep @ tok @ rest) ?sep = pre # splitAcc ?sep [] (tok @ rest)"
    using splitAcc_append_sep [of ?sep pre "[]" "tok @ rest"] assms(1) by (simp add: Split_def)
  have "Contains (pre @ ?sep @ tok @ rest) ?sep" by (rule Contains_append)
  moreover have "hd (Split (hd (splitAcc ?sep [] (tok @ rest))) ''&'') = tok"
  proof -
    have "rest = [] \<or> hd rest \<notin> set ?sep" using assms(4) by auto
    from hd_splitAcc_append [OF _ assms(2) this, of "[]"] obtain u where
      u: "hd (splitAcc ?sep [] (tok @ rest)) = tok @ u" and "u = [] \<or> hd u = hd rest \<and> rest \<noteq> []"
      by auto
    with assms(4) have "u = [] \<or> hd u = CHR ''&''" by auto
    then have "takeWhile (\<lambda>x. x \<noteq> CHR ''&'') (tok @ u) = tok"
      using assms(3) by (cases u) (auto simp: takeWhile_append)
    then show ?thesis by (simp add: u Split_def hd_Split_char)
  qed
  moreover obtain q qs where q: "splitAcc ?sep [] (tok @ rest) = q # qs"
    by (cases "splitAcc ?sep [] (tok @ rest)") simp_all
  ultimately have "next_token (pre @ ?sep @ tok @ rest) s = (Ret tok, s)"
    using next_token_split [OF _ split [unfolded q]] by simp
  then show ?thesis
    using assms(1) by (simp add: next_token_def op_run)
qed

lemma next_token_link_witness:
  "next_token ''https://iaas/v1/shares?start=3e89&limit=1'' (init_gost (0::nat)) = (Ret ''3e89'', init_gost 0)"
  using next_token_link [of "''https://iaas/v1/shares?''" "''3e89''" "''&limit=1''" "init_gost (0::nat)"]
  by simp

text \<open>A negative limit is refused without an API call, and every limit above 100 behaves as 100.\<close>

lemma ListVolumes_limit:
  "ListVolumes X vpcs limit start tags s =
     (if limit < 0
      then (Ret (None, Some (GetUserError X (MessagesEn s) ''InvalidListVolumesLimit'' None [AInt limit])), s)
      else ListVolumes X vpcs (min limit 100) start tags s)"
  by (simp add: ListVolumes_def op_run maxLimit_def Let_def min_def)

text \<open>A successful \<open>ListVolumes\<close> returns the shares of the page the backend answered, each
  converted and in the backend's order.\<close>

lemma ListVolumes_page:
  assumes "ListVolumes X vpcs limit start tags s = (Ret (Some vl, e), s')" and "0 < maxRetryAttempt s"
    and "\<And>l st f w a er w'. fs_ListFileShares (FileShareService vpcs) l st f w = ((a, er), w') \<Longrightarrow>
      (a = None \<longleftrightarrow> er \<noteq> None)"
  shows "\<exists>w page. fs_ListFileShares (FileShareService vpcs) (min limit 100) start
      (Some \<lparr>shf_ResourceGroupID = map_get tags [] ''resource_group.id'', shf_ShareName = map_get tags [] ''name''\<rparr>) w
      = ((Some page, None), world s') \<and>
    vl_Volumes vl = map FromProviderToLibVolume (shl_Shares page) \<and>
    (shl_Next page = None \<longrightarrow> vl_Next vl = [])"
proof -
  have lim: "0 \<le> limit" using assms(1) by (auto simp: ListVolumes_def op_run split: if_splits)
  let ?call = "fs_ListFileShares (FileShareService vpcs) (min limit 100) start
      (Some \<lparr>shf_ResourceGroupID = map_get tags [] ''resource_group.id'', shf_ShareName = map_get tags [] ''name''\<rparr>)"
  obtain err a s1 where r: "retry (capture ?call) None s = (Ret (err, a), s1)" by (rule retry_cases)
  have "fallible_call ?call" by unfold_locales (rule assms(3))
  note res = fallible_call.retried_result [OF this r assms(2)]
  have m: "(if maxLimit < limit then maxLimit else limit) = min limit 100" by (simp add: maxLimit_def)
  note run = assms(1) [unfolded ListVolumes_def Let_def m]
  have "err = None" using run r lim
    by (cases err) (auto simp: op_run split: if_splits)
  with res obtain page where a: "a = Some page" by auto
  note r = r [unfolded \<open>err = None\<close> a]
  from run r lim have s': "s1 = s'"
    by (auto simp: op_run next_token_def Let_def split: option.splits if_splits)
  have "vl_Volumes vl = map FromProviderToLibVolume (shl_Shares page)" "shl_Next page = None \<longrightarrow> vl_Next vl = []"
    using run r lim by (auto simp: op_run next_token_def Let_def split: option.splits if_splits)
  moreover obtain w where "?call w = ((Some page, None), world s')"
    using retry_capture_Some(2) [OF r] s' by blast
  ultimately show ?thesis by (intro exI conjI)
qed

lemma ListVolumes_page_witness:
  "\<exists>vl e s'. ListVolumes sampleExt
      (fileSession ((refusing (api_error ''internal_error''))
         \<lparr>fs_ListFileShares := \<lambda>l st f w. ((Some (zeroShareList\<lparr>shl_Shares := [Some sampleShare]\<rparr>), None), w)\<rparr>))
      5 [] Map.empty (init_gost (0::nat)) = (Ret (Some vl, e), s') \<and>
    vl_Volumes vl = [FromProviderToLibVolume (Some sampleShare)]"
proof -
  let ?vpcs = "fileSession ((refusing (api_error ''internal_error''))
         \<lparr>fs_ListFileShares := \<lambda>l st f w. ((Some (zeroShareList\<lparr>shl_Shares := [Some sampleShare]\<rparr>), None), w)\<rparr>)
      :: nat VPCSession"
  have "\<exists>vl e s'. ListVolumes sampleExt ?vpcs 5 [] Map.empty (init_gost 0) = (Ret (Some vl, e), s')"
    by (simp add: ListVolumes_def op_run retry_init capture_def zeroShareList_def Let_def)
  then obtain vl e s' where run: "ListVolumes sampleExt ?vpcs 5 [] Map.empty (init_gost 0) = (Ret (Some vl, e), s')"
    by blast
  show ?thesis using ListVolumes_page [OF run] run by auto
qed

section \<open>UpdateVolume\<close>

lemma Contains_appendI:
  assumes "Contains a sub"
  shows "Contains (a @ b) sub" and "Contains (b @ a) sub"
proof -
  from assms obtain u v where a: "a = u @ sub @ v" by (auto simp: Contains_iff_sublist sublist_def)
  show "Contains (a @ b) sub" using Contains_append [of u sub "v @ b"] by (simp add: a)
  show "Contains (b @ a) sub" using Contains_append [of "b @ u" sub v] by (simp add: a)
qed

lemma Contains_Join: "x \<in> set xs \<Longrightarrow> Contains (Join xs sep) x"
proof (induction xs)
  case (Cons y ys)
  show ?case
  proof (cases "ys = []")
    case False
    have "Contains y y" using Contains_append [of "[]" y "[]"] by simp
    with Cons False show ?thesis by (auto simp: Join_Cons intro: Contains_appendI)
  qed (use Cons Contains_append [of "[]" y "[]"] in simp)
qed simp

lemma Contains_ToLower: "Contains s sub \<Longrightarrow> Contains (ToLower s) (ToLower sub)"
proof -
  assume "Contains s sub"
  then obtain a b where "s = a @ sub @ b" by (auto simp: Contains_iff_sublist sublist_def)
  then have "ToLower s = ToLower a @ ToLower sub @ ToLower b" by (simp add: ToLower_def)
  then show ?thesis by (simp only: Contains_append)
qed

text \<open>If every requested tag is already a tag of the share, the tags count as equal.\<close>

lemma ifTagsEqual_subset: "set new \<subseteq> set existing \<Longrightarrow> ifTagsEqual existing new"
  by (auto simp: ifTagsEqual_def list_all_iff intro: Contains_ToLower Contains_Join)

lemma ifTagsEqual_subset_witness: "ifTagsEqual [''prod'', ''eu''] [''eu'']"
  by (rule ifTagsEqual_subset) simp

text \<open>The comparison is a case-insensitive substring search in the comma-joined list: a requested tag
  that is only part of an existing tag, or spans two of them, counts as present, and its update
  is skipped.\<close>

lemma ifTagsEqual_substring:
  "ifTagsEqual (pre @ [a @ tag @ b] @ post) [tag]"
proof -
  have "Contains (Join (pre @ [a @ tag @ b] @ post) '','') (a @ tag @ b)"
    by (rule Contains_Join) simp
  then obtain u v where "Join (pre @ [a @ tag @ b] @ post) '','' = u @ (a @ tag @ b) @ v"
    by (auto simp: Contains_iff_sublist sublist_def)
  then have "Contains (Join (pre @ [a @ tag @ b] @ post) '','') tag"
    using Contains_append [of "u @ a" tag "b @ v"] by simp
  then show ?thesis by (simp add: ifTagsEqual_def Contains_ToLower)
qed

lemma minRetries_last_call:
  assumes "retryWithMinRetries f c0 s = (Ret r, s')"
  shows "\<exists>w. f w = (r, world s')"
  using minRetries.answer_invariant [of "\<lambda>_. True" s f "\<lambda>r v. \<exists>w. f w = (r, v)" "(None, c0)"] assms
  by (auto simp: retryWithMinRetries_eq_run minRetryAttempt_def)

lemma updateTags_attempt_None:
  assumes "updateTags_attempt X en vpcs t w = ((None, u), w')"
  shows "\<exists>sh etag w1. fs_GetFileShareEtag (FileShareService vpcs) (vol_VolumeID t) w = ((Some sh, etag, None), w1) \<and>
    sh_Status sh = StatusStable \<and>
    (if ifTagsEqual (sh_UserTags sh) (vol_Tags t) then w' = w1
     else fs_UpdateFileShareWithEtag (FileShareService vpcs) (vol_VolumeID t) etag
        (zeroShare\<lparr>sh_UserTags := sh_UserTags sh @ vol_Tags t\<rparr>) w1 = (None, w'))"
  using assms
  by (auto simp: updateTags_attempt_def dest: only_errorD split: prod.splits option.splits if_splits)

text \<open>When \<open>UpdateVolume\<close> reports success, it read a stable share, and either found the requested
  tags there and wrote nothing more, or the backend accepted, under the etag of that read, the
  share's tags followed by the requested ones.\<close>

lemma UpdateVolume_success:
  assumes "UpdateVolume X vpcs t s = (Ret None, s')"
  shows "\<exists>w sh etag w1. fs_GetFileShareEtag (FileShareService vpcs) (vol_VolumeID t) w = ((Some sh, etag, None), w1) \<and>
    sh_Status sh = StatusStable \<and>
    (if ifTagsEqual (sh_UserTags sh) (vol_Tags t) then world s' = w1
     else fs_UpdateFileShareWithEtag (FileShareService vpcs) (vol_VolumeID t) etag
        (zeroShare\<lparr>sh_UserTags := sh_UserTags sh @ vol_Tags t\<rparr>) w1 = (None, world s'))"
proof -
  obtain err u s1 where r: "retryWithMinRetries (updateTags_attempt X (MessagesEn s) vpcs t) () s
      = (Ret (err, u), s1)" by (metis retryWithMinRetries_eq_run prod.exhaust)
  with assms have "err = None" "s1 = s'"
    by (auto simp: UpdateVolume_def op_run split: option.splits)
  with minRetries_last_call [OF r] updateTags_attempt_None show ?thesis by metis
qed

lemma UpdateVolume_success_witness:
  "\<exists>s'. UpdateVolume sampleExt
      (fileSession ((refusing (api_error ''internal_error''))
         \<lparr>fs_GetFileShareEtag := \<lambda>_ w. ((Some sampleShare, ''e1'', None), w),
          fs_UpdateFileShareWithEtag := \<lambda>_ et sh w. (if et = ''e1'' then None else Some (PlainError []), sh_UserTags sh)\<rparr>))
      (sampleVolume\<lparr>vol_Tags := [''new'']\<rparr>) (init_gost []) = (Ret None, s') \<and> world s' = [''new'']"
proof -
  let ?t = "sampleVolume\<lparr>vol_Tags := [''new'']\<rparr>"
  let ?vpcs = "fileSession ((refusing (api_error ''internal_error''))
         \<lparr>fs_GetFileShareEtag := \<lambda>_ w. ((Some sampleShare, ''e1'', None), w),
          fs_UpdateFileShareWithEtag := \<lambda>_ et sh w. (if et = ''e1'' then None else Some (PlainError []), sh_UserTags sh)\<rparr>)"
  have tags: "\<not> ifTagsEqual [] [''new'']" by (simp add: ifTagsEqual_def ToLower_def)
  have "\<exists>s'. UpdateVolume sampleExt ?vpcs ?t (init_gost []) = (Ret None, s')"
    by (simp add: UpdateVolume_def op_run minRetries_init updateTags_attempt_def sampleShare_def
        StatusStable_def zeroShare_def only_error_def tags Let_def)
  then obtain s' where run: "UpdateVolume sampleExt ?vpcs ?t (init_gost []) = (Ret None, s')" by blast
  with UpdateVolume_success [OF run] tags show ?thesis
    by (auto simp: sampleShare_def zeroShare_def)
qed

section \<open>ExpandVolume\<close>

text \<open>A volume whose capacity is at least the requested number is left alone: \<open>ExpandVolume\<close> answers
  its capacity, and after the read of the volume it calls nothing.  (The capacity counts GiB
  while the request counts bytes.)\<close>

lemma ExpandVolume_large_enough:
  assumes "GetVolume X vpcs (evr_VolumeID req) s = (Ret (Some lv, None), s1)"
    and "vol_Capacity lv = Some c" and "evr_Capacity req \<le> c"
  shows "ExpandVolume X vpcs req s = (Ret (c, None), s1)"
  using assms by (simp add: ExpandVolume_def op_run)

lemma sampleVolumeID_valid: "IsValidVolumeIDFormat sampleVolumeID"
  by (simp add: sampleVolumeID_def IsValidVolumeIDFormat_iff)

lemma GetVolume_sample:
  assumes "fst (fs_GetFileShare (FileShareService vpcs) sampleVolumeID w) = (Some share, None)"
  shows "GetVolume X vpcs sampleVolumeID (init_gost w) =
    (Ret (FromProviderToLibVolume (Some share), None),
     init_gost (snd (fs_GetFileShare (FileShareService vpcs) sampleVolumeID w)))"
proof -
  have c: "capture (fs_GetFileShare (FileShareService vpcs) sampleVolumeID) w =
      ((None, Some share), snd (fs_GetFileShare (FileShareService vpcs) sampleVolumeID w))"
    using assms by (metis capture_run prod.collapse)
  have "retry (capture (fs_GetFileShare (FileShareService vpcs) sampleVolumeID)) None (init_gost w) =
      (Ret (None, Some share), init_gost (snd (fs_GetFileShare (FileShareService vpcs) sampleVolumeID w)))"
    by (simp add: retry_init c)
  from GetVolume_run [OF sampleVolumeID_valid this, of X] show ?thesis by simp
qed

lemma ExpandVolume_large_enough_witness:
  "ExpandVolume sampleExt
      (fileSession ((refusing (api_error ''internal_error''))
         \<lparr>fs_GetFileShare := \<lambda>_ w. ((Some sampleShare, None), w)\<rparr>))
      \<lparr>evr_VolumeID = sampleVolumeID, evr_Capacity = 10\<rparr> (init_gost (0::nat)) = (Ret (10, None), init_gost 0)"
proof -
  let ?vpcs = "fileSession ((refusing (api_error ''internal_error''))
         \<lparr>fs_GetFileShare := \<lambda>_ w. ((Some sampleShare, None), w)\<rparr>) :: nat VPCSession"
  obtain lv where lv: "FromProviderToLibVolume (Some sampleShare) = Some lv"
    and c: "vol_Capacity lv = Some 10"
    using FromProviderToLibVolume_Some [of sampleShare] by (auto simp: sampleShare_def)
  have "GetVolume sampleExt ?vpcs sampleVolumeID (init_gost 0) = (Ret (Some lv, None), init_gost 0)"
    using GetVolume_sample [of ?vpcs 0 sampleShare sampleExt] lv by simp
  then show ?thesis by (intro ExpandVolume_large_enough [OF _ c]) simp_all
qed

lemma ExpandVolume_call:
  assumes "ExpandVolume X vpcs req s = (Ret (sz, None), s')"
    and get: "GetVolume X vpcs (evr_VolumeID req) s = (Ret (Some lv, None), s1)"
    and small: "vol_Capacity lv = Some c" "c < evr_Capacity req"
    and range: "0 \<le> evr_Capacity req" "evr_Capacity req + GiB \<le> max_int64"
    and contract: "\<And>t w a e w'. fs_ExpandVolume (FileShareService vpcs) (evr_VolumeID req) t w = ((a, e), w') \<Longrightarrow>
      (a = None \<longleftrightarrow> e \<noteq> None)"
    and pos: "0 < maxRetryAttempt s"
  obtains n w w' u share v where "sz = evr_Capacity req" "evr_Capacity req \<le> n * GiB" "n * GiB < evr_Capacity req + GiB"
      "fs_ExpandVolume (FileShareService vpcs) (evr_VolumeID req) (zeroShare\<lparr>sh_Size := n\<rparr>) w
         = ((Some share, None), w')"
      "fs_GetFileShare (FileShareService vpcs) (sh_ID share) u = ((Some v, None), world s')"
      "sh_Status v = StatusStable"
proof -
  define n where "n = roundUpSize (evr_Capacity req) GiB"
  let ?call = "fs_ExpandVolume (FileShareService vpcs) (evr_VolumeID req) (zeroShare\<lparr>sh_Size := n\<rparr>)"
  obtain err a s2 where r: "retry (capture ?call) None s1 = (Ret (err, a), s2)" by (rule retry_cases)
  have "0 < maxRetryAttempt s1"
    using preservesD [OF preserves_GetVolume get] pos by (simp add: same_config_def)
  have fc: "fallible_call ?call" by unfold_locales (rule contract)
  note res = fallible_call.retried_result [OF fc r \<open>0 < maxRetryAttempt s1\<close>]
  have run: "ExpandVolume X vpcs req s =
      (case err of Some e \<Rightarrow> (Ret (- 1, Some (GetUserError X (MessagesEn s2) ''FailedToExpandVolume'' (Some e)
          [AStr (evr_VolumeID req)])), s2)
       | None \<Rightarrow> gbind (deref a) (\<lambda>sh. gbind (WaitForValidVolumeState X vpcs (sh_ID sh)) (\<lambda>werr.
                 case werr of
                   Some e \<Rightarrow> gbind (user_error X ''VolumeNotInValidState'' (Some e) [AStr (sh_ID sh)])
                               (\<lambda>ue. gret (- 1, Some ue))
                 | None \<Rightarrow> gret (evr_Capacity req, None))) s2)"
    using get small r [unfolded n_def] by (cases err) (simp_all add: ExpandVolume_def op_run)
  have "err = None" using assms(1) run by (cases err) auto
  with res obtain share where a: "a = Some share" by auto
  obtain werr s3 where w: "WaitForValidVolumeState X vpcs (sh_ID share) s2 = (Ret werr, s3)"
    using Wait_Ret by blast
  have fin: "werr = None" "s3 = s'" "sz = evr_Capacity req"
    using assms(1) run w a \<open>err = None\<close> by (auto simp: op_run split: option.splits)
  have "0 < maxRetryAttempt s2"
    using retry_config [OF r] \<open>0 < maxRetryAttempt s1\<close> by (simp add: same_config_def)
  from Wait_stable [OF w [unfolded fin(1,2)] this] retry_capture_Some(2) [OF r [unfolded a \<open>err = None\<close>]]
    roundUpSize_bounds [OF range(1) GiB_pos range(2)] fin(3)
  show ?thesis using that unfolding n_def by blast
qed


text \<open>A successful expansion answers exactly the requested number of bytes, and unless the volume was
  large enough already, the backend accepted the smallest whole number of GiB that holds them
  and the share it answered was stable in a later read.\<close>

lemma ExpandVolume_success:
  assumes "ExpandVolume X vpcs req s = (Ret (sz, None), s')"
    and "GetVolume X vpcs (evr_VolumeID req) s = (Ret (Some lv, None), s1)"
    and "vol_Capacity lv = Some c" and "c < evr_Capacity req"
    and "0 \<le> evr_Capacity req" and "evr_Capacity req + GiB \<le> max_int64"
    and "\<And>t w a e w'. fs_ExpandVolume (FileShareService vpcs) (evr_VolumeID req) t w = ((a, e), w') \<Longrightarrow>
      (a = None \<longleftrightarrow> e \<noteq> None)"
    and "0 < maxRetryAttempt s"
  shows "sz = evr_Capacity req \<and>
    (\<exists>n w w' u share v. evr_Capacity req \<le> n * GiB \<and> n * GiB < evr_Capacity req + GiB \<and>
       fs_ExpandVolume (FileShareService vpcs) (evr_VolumeID req) (zeroShare\<lparr>sh_Size := n\<rparr>) w
         = ((Some share, None), w') \<and>
       fs_GetFileShare (FileShareService vpcs) (sh_ID share) u = ((Some v, None), world s') \<and>
       sh_Status v = StatusStable)"
  by (rule ExpandVolume_call [OF assms]) blast+

definition expandSession :: "int VPCSession" where
  "expandSession = fileSession ((refusing (api_error ''internal_error''))
     \<lparr>fs_GetFileShare := \<lambda>_ w. ((Some (sampleShare\<lparr>sh_Size := w\<rparr>), None), w),
      fs_ExpandVolume := \<lambda>_ t w. ((Some (sampleShare\<lparr>sh_Size := sh_Size t\<rparr>), None), sh_Size t)\<rparr>)"

lemma expandSession_get:
  "\<exists>lv. GetVolume sampleExt expandSession sampleVolumeID (init_gost w) = (Ret (Some lv, None), init_gost w) \<and>
    vol_Capacity lv = Some w"
  using GetVolume_sample [of expandSession w "sampleShare\<lparr>sh_Size := w\<rparr>" sampleExt]
    FromProviderToLibVolume_Some [of "sampleShare\<lparr>sh_Size := w\<rparr>"]
  by (auto simp: expandSession_def)

lemma expandSession_run:
  assumes "w < b"
  shows "ExpandVolume sampleExt expandSession \<lparr>evr_VolumeID = sampleVolumeID, evr_Capacity = b\<rparr> (init_gost w)
    = (Ret (b, None), init_gost (roundUpSize b GiB))"
proof -
  obtain lv where "GetVolume sampleExt expandSession sampleVolumeID (init_gost w) = (Ret (Some lv, None), init_gost w)"
    "vol_Capacity lv = Some w" using expandSession_get by blast
  with assms show ?thesis
    by (simp add: ExpandVolume_def op_run expandSession_def retry_init capture_def Let_def
        WaitForValidVolumeState_def validState_attempt_def sampleShare_def StatusStable_def zeroShare_def)
qed

lemma ExpandVolume_success_witness:
  "world (snd (ExpandVolume sampleExt expandSession
      \<lparr>evr_VolumeID = sampleVolumeID, evr_Capacity = 20 * GiB + 1\<rparr> (init_gost 10))) = 21 \<and>
   (\<exists>n. 20 * GiB + 1 \<le> n * GiB \<and> n * GiB < 20 * GiB + 1 + GiB)"
proof -
  let ?req = "\<lparr>evr_VolumeID = sampleVolumeID, evr_Capacity = 20 * GiB + 1\<rparr>"
  obtain lv where get: "GetVolume sampleExt expandSession (evr_VolumeID ?req) (init_gost 10)
      = (Ret (Some lv, None), init_gost 10)"
    and c: "vol_Capacity lv = Some 10" using expandSession_get by auto
  have run: "ExpandVolume sampleExt expandSession ?req (init_gost 10)
      = (Ret (20 * GiB + 1, None), init_gost (roundUpSize (20 * GiB + 1) GiB))"
    by (rule expandSession_run) (simp add: GiB_def)
  have "roundUpSize (20 * GiB + 1) GiB = 21"
    by (simp add: roundUpSize_ceiling GiB_def)
  with run ExpandVolume_success [OF run get c] show ?thesis
    by (fastforce simp: expandSession_def GiB_def)
qed

text \<open>C27: Because the capacity in GiB is compared with the request in bytes, a request for less than the
  volume already has is not recognised: for a volume of \<open>c\<close> GiB and a request of more than \<open>c\<close>
  bytes but at most \<open>c - 1\<close> GiB, a successful \<open>ExpandVolume\<close> has asked the backend to resize the
  share to fewer than \<open>c\<close> GiB.\<close>

theorem ExpandVolume_shrinks:
  assumes "ExpandVolume X vpcs req s = (Ret (sz, None), s')"
    and "GetVolume X vpcs (evr_VolumeID req) s = (Ret (Some lv, None), s1)"
    and "vol_Capacity lv = Some c" and "c < evr_Capacity req"
    and "0 \<le> evr_Capacity req" and "evr_Capacity req + GiB \<le> max_int64"
    and "\<And>t w a e w'. fs_ExpandVolume (FileShareService vpcs) (evr_VolumeID req) t w = ((a, e), w') \<Longrightarrow>
      (a = None \<longleftrightarrow> e \<noteq> None)"
    and "0 < maxRetryAttempt s"
    and "evr_Capacity req \<le> (c - 1) * GiB"
  shows "\<exists>n w w' share. n < c \<and>
    fs_ExpandVolume (FileShareService vpcs) (evr_VolumeID req) (zeroShare\<lparr>sh_Size := n\<rparr>) w
      = ((Some share, None), w')"
proof (rule ExpandVolume_call [OF assms(1-8)])
  fix n w w' u share v
  assume "n * GiB < evr_Capacity req + GiB"
    and call: "fs_ExpandVolume (FileShareService vpcs) (evr_VolumeID req) (zeroShare\<lparr>sh_Size := n\<rparr>) w
         = ((Some share, None), w')"
  with assms(9) have "n * GiB < c * GiB" by (simp add: algebra_simps)
  then have "n < c" using GiB_pos by simp
  with call show ?thesis by blast
qed

lemma ExpandVolume_shrinks_witness:
  "world (snd (ExpandVolume sampleExt expandSession
      \<lparr>evr_VolumeID = sampleVolumeID, evr_Capacity = 20 * GiB\<rparr> (init_gost 100))) = 20 \<and>
   (\<exists>n < (100::int). \<exists>w w' share. fs_ExpandVolume (FileShareService expandSession) sampleVolumeID
      (zeroShare\<lparr>sh_Size := n\<rparr>) w = ((Some share, None), w'))"
proof -
  let ?req = "\<lparr>evr_VolumeID = sampleVolumeID, evr_Capacity = 20 * GiB\<rparr>"
  obtain lv where get: "GetVolume sampleExt expandSession (evr_VolumeID ?req) (init_gost 100)
      = (Ret (Some lv, None), init_gost 100)"
    and c: "vol_Capacity lv = Some 100" using expandSession_get by auto
  have run: "ExpandVolume sampleExt expandSession ?req (init_gost 100)
      = (Ret (20 * GiB, None), init_gost (roundUpSize (20 * GiB) GiB))"
    by (rule expandSession_run) (simp add: GiB_def)
  have "roundUpSize (20 * GiB) GiB = 20"
    by (simp add: roundUpSize_ceiling GiB_def)
  with run ExpandVolume_shrinks [OF run get c] show ?thesis
    by (force simp: expandSession_def GiB_def)
qed

end
