(* ===== verification/ProviderLaws.thy ===== *)
theory ProviderLaws
  imports CloudProvider ClientLaws VolumeLaws
begin

text \<open>
  The properties of the providers: what a provider and a session are once they are made, and how the
  dual IKS session and the storage provider behave when a part of them is missing.
\<close>

lemmas prov_run = gbind_def gget_def gret_def gpanic_def gmodify_def deref_def call_api_def Let_def

section \<open>Making a provider\<close>

lemma configure_fields [simp]:
  "vc_MaxRetryAttempt (configure c) = vc_MaxRetryAttempt c" "vc_MaxRetryGap (configure c) = vc_MaxRetryGap c"
  "vc_Enabled (configure c) = vc_Enabled c" "vc_VPCVolumeType (configure c) = vc_VPCVolumeType c"
  "vc_G2APIKey (configure c) = vc_G2APIKey c" "vc_VPCTimeout (configure c) = vc_VPCTimeout c"
  "vc_G2VPCAPIGeneration (configure c) = 2" "vc_VPCBlockProviderType (configure c) = ''g2''"
  "vc_G2ResourceGroupID (configure c) = vc_G2ResourceGroupID c"
  "vc_G2EndpointURL (configure c) =
     (if vc_G2EndpointPrivateURL c = [] then vc_G2EndpointURL c else vc_G2EndpointPrivateURL c)"
  "vc_APIVersion (configure c) = (if vc_G2APIVersion c = [] then vc_APIVersion c else vc_G2APIVersion c)"
  by (simp_all add: configure_def NEXTGenProvider_def VPCNextGen_def Let_def)

text \<open>Configuring again changes nothing, so the providers made from one shared configuration agree on it.\<close>

lemma configure_idem: "configure (configure c) = configure c"
  by (simp add: configure_def Let_def)

lemma providerTimeout_configure [simp]: "providerTimeout (configure c) = providerTimeout c"
  by (simp add: providerTimeout_def)

lemma NewProvider_Inr:
  assumes "NewProvider E fc s = (Ret (fc', Inr p), s')"
  shows "\<exists>conf. fc_VPCConfig fc = Some conf \<and> fc' = fc\<lparr>fc_VPCConfig := Some (configure conf)\<rparr> \<and>
    vp_Config p = fc' \<and> vp_ClientProvider p = None \<and> vp_APIConfig p = apiConfig (configure conf) \<and>
    providerTimeout conf = Inr (vp_timeout p) \<and> MessagesEn s' = messagesEn \<and>
    maxRetryAttempt s' = (if 0 < vc_MaxRetryAttempt conf then vc_MaxRetryAttempt conf else maxRetryAttempt s) \<and>
    maxRetryGap s' = (if 0 < vc_MaxRetryGap conf then vc_MaxRetryGap conf else maxRetryGap s) \<and>
    retryGap s' = retryGap s"
proof -
  obtain conf where c: "fc_VPCConfig fc = Some conf"
    using assms by (cases "fc_VPCConfig fc") (simp_all add: NewProvider_def prov_run)
  show ?thesis
    using assms c
    by (intro exI [of _ conf]) (auto simp: NewProvider_def prov_run SetRetryParameters_def InitMessages_def
      split: option.splits sum.splits prod.splits)
qed

text \<open>A provider that was made has the configuration it needs: the private endpoint if one is given,
  generation 2, the API version of the second generation if one is given; the retry parameters are
  the configured ones where those are positive, and the message catalogue is loaded.\<close>

lemma NewProvider_made:
  assumes "NewProvider E fc s = (Ret (fc', Inr p), s')"
  shows "\<exists>conf. fc_VPCConfig fc = Some conf \<and>
    cfg_BaseURL (vp_APIConfig p) =
      (if vc_G2EndpointPrivateURL conf = [] then vc_G2EndpointURL conf else vc_G2EndpointPrivateURL conf) \<and>
    cfg_APIGeneration (vp_APIConfig p) = 2 \<and>
    cfg_APIVersion (vp_APIConfig p) = (if vc_G2APIVersion conf = [] then vc_APIVersion conf else vc_G2APIVersion conf) \<and>
    cfg_ResourceGroup (vp_APIConfig p) = vc_G2ResourceGroupID conf \<and>
    maxRetryAttempt s' = (if 0 < vc_MaxRetryAttempt conf then vc_MaxRetryAttempt conf else maxRetryAttempt s) \<and>
    maxRetryGap s' = (if 0 < vc_MaxRetryGap conf then vc_MaxRetryGap conf else maxRetryGap s) \<and>
    MessagesEn s' = messagesEn"
proof -
  from NewProvider_Inr [OF assms] obtain conf where c: "fc_VPCConfig fc = Some conf"
    and "vp_APIConfig p = apiConfig (configure conf)" "MessagesEn s' = messagesEn"
    "maxRetryAttempt s' = (if 0 < vc_MaxRetryAttempt conf then vc_MaxRetryAttempt conf else maxRetryAttempt s)"
    "maxRetryGap s' = (if 0 < vc_MaxRetryGap conf then vc_MaxRetryGap conf else maxRetryGap s)"
    by blast
  then show ?thesis by (intro exI [of _ conf]) (simp add: apiConfig_def)
qed

definition sampleTES :: "nat TokenExchangeService" where
  "sampleTES = \<lparr>tes_RefreshTokenForAccessToken = \<lambda>_ w. (Ret (None, None), w),
     tes_IAMAPIKeyForAccessToken = \<lambda>_ w. ((None, None), w), tes_AccessTokenForIMSToken = \<lambda>_ w. ((None, None), w),
     tes_IAMAPIKeyForIMSToken = \<lambda>_ w. ((None, None), w), tes_IAMAccountIDFromAccessToken = \<lambda>_. ([], None)\<rparr>"

definition sampleCreds :: ContextCredentials where
  "sampleCreds = \<lparr>cc_AuthType = IAMAccessToken, cc_Credential = ''tok'', cc_IAMAccountID = ''acct'', cc_UserID = []\<rparr>"

definition sampleEnv :: "nat environment" where
  "sampleEnv =
     \<lparr>env_ext = sampleExt, env_transport = \<lambda>q w. (Inr (answer 204 []), Suc w), env_codec = sampleCodec,
      env_NewContextCredentialsFactory = \<lambda>_ w. (Inr sampleTES, w),
      env_ForIAMAccessToken = \<lambda>_ _ w. ((sampleCreds, None), w),
      env_GeneralCAHttpClient = \<lambda>w. (None, w), env_GeneralCAHttpClientWithTimeout = \<lambda>_ w. (None, w),
      env_NewSecretProvider = \<lambda>w. (Inr (\<lambda>v. ((''tok'', None), v)), w),
      env_RestDo = \<lambda>_ w. (\<lparr>xa_Status = Some 200, xa_Error = None, xa_Token = ''tok'',
         xa_ErrorBody = \<lparr>xe_Code = [], xe_Description = [], xe_Type = [], xe_IncidentID = []\<rparr>\<rparr>, w),
      env_ErrorRetry = \<lambda>m. gbind m (\<lambda>((e, st), c). gret (e, c)),
      env_IsConnectionError = \<lambda>e. False, env_ErrorReasonCode = \<lambda>e. [],
      env_ReasonEndpointNotReachable = ''EndpointNotReachable'', env_ReasonTimeout = ''Timeout''\<rparr>"

definition sampleVPCConfig :: VPCProviderConfig where
  "sampleVPCConfig =
     \<lparr>vc_Enabled = True, vc_VPCVolumeType = ''vpc-share'', vc_G2EndpointURL = ''https://iaas.test'',
      vc_G2EndpointPrivateURL = [], vc_G2VPCAPIGeneration = 0, vc_G2APIVersion = [], vc_APIVersion = ''2026-02-27'',
      vc_VPCBlockProviderType = [], vc_VPCTypeEnabled = [], vc_VPCTimeout = ''30s'', vc_MaxRetryAttempt = 3,
      vc_MaxRetryGap = 20, vc_G2ResourceGroupID = ''rg'', vc_G2APIKey = ''key'', vc_G2TokenExchangeURL = [],
      vc_IamClientID = [], vc_IamClientSecret = [], vc_IKSTokenExchangePrivateURL = []\<rparr>"

definition sampleFileConfig :: VPCFileConfig where
  "sampleFileConfig = \<lparr>fc_VPCConfig = Some sampleVPCConfig, fc_IKSConfig = Some \<lparr>ic_Enabled = True,
     ic_IKSFileProviderName = ''iks-file''\<rparr>, fc_ServerConfig = Some \<lparr>sc_DebugTrace = False\<rparr>\<rparr>"

definition sampleProvider :: "nat VPCFileProvider" where
  "sampleProvider = \<lparr>vp_timeout = 30000000000,
     vp_Config = sampleFileConfig\<lparr>fc_VPCConfig := Some (configure sampleVPCConfig)\<rparr>, vp_ContextCF = sampleTES,
     vp_ClientProvider = None, vp_APIConfig = apiConfig (configure sampleVPCConfig)\<rparr>"

definition madeState :: "nat gost" where
  "madeState = (init_gost 0)\<lparr>maxRetryAttempt := 3, maxRetryGap := 20, MessagesEn := messagesEn\<rparr>"

lemma ParseDuration_30s: "ParseDuration ''30s'' = Inr 30000000000"
  by (simp add: ParseDuration_def parts_loop.simps [of _ _ "''30s''"] parts_loop.simps [of _ _ "[]"]
      duration_part_def is_digit_def digit_val_def is_unit_char_def Let_def)

lemma NewProvider_sample:
  "NewProvider sampleEnv sampleFileConfig (init_gost 0) =
     (Ret (vp_Config sampleProvider, Inr sampleProvider), madeState)"
proof -
  have "vc_IKSTokenExchangePrivateURL (configure sampleVPCConfig) = []"
    by (simp add: configure_def sampleVPCConfig_def Let_def)
  then show ?thesis
    by (simp add: NewProvider_def sampleFileConfig_def prov_run NewVPCContextCredentialsFactory_def sampleEnv_def
        providerTimeout_def sampleVPCConfig_def ParseDuration_30s SetRetryParameters_def sampleProvider_def madeState_def
        InitMessages_def init_gost_def)
qed

lemma NewProvider_made_witness: "cfg_APIGeneration (vp_APIConfig sampleProvider) = 2 \<and> MessagesEn madeState = messagesEn"
  using NewProvider_made [OF NewProvider_sample] by auto

section \<open>Opening a session\<close>

text \<open>The client and the retry parameters of a session that opens.\<close>

definition logged_in :: "Config \<Rightarrow> string \<Rightarrow> Session" where
  "logged_in cfg token = snd (Login token (fst (NewSession cfg)))"

definition retry_configured :: "VPCProviderConfig \<Rightarrow> 'w gost \<Rightarrow> 'w gost" where
  "retry_configured conf s = snd (updateRetryDefaults conf s)"

definition opened_session ::
  "'w environment \<Rightarrow> ContextCredentials \<Rightarrow> 'w VPCFileProvider \<Rightarrow> 'w gost \<Rightarrow> 'w VPCSession" where
  "opened_session E creds p s =
     \<lparr>vs_VPCAccountID = cc_IAMAccountID creds, vs_ContextCredentials = creds,
      vs_VolumeType = ''vpc-share'', vs_Provider = VPC_provider_name,
      vs_Apiclient = ClientAPI E (client_provider_of p) (logged_in (vp_APIConfig p) (cc_Credential creds)),
      vs_APIRetry = NewFlexyRetryDefault s\<rparr>"

lemma NewSession_ok: "(case NewSession c of (client, err) \<Rightarrow> f client err) = f (fst (NewSession c)) None"
  by (simp add: NewSession_def Let_def)

lemma Login_ok: "(case Login token c of (err, client) \<Rightarrow> f err client) = f None (snd (Login token c))"
  by (simp add: Login_def)

lemma updateRetryDefaults_run [simp]: "updateRetryDefaults conf s = (Ret (), retry_configured conf s)"
  by (simp add: retry_configured_def updateRetryDefaults_def gbind_def gmodify_def)

lemma logged_in_client [simp]:
  "ah_authToken (cl_authenHandler (ses_client (logged_in cfg token))) = token"
  "cl_baseURL (ses_client (logged_in cfg token)) = cfg_BaseURL cfg"
  "cl_contextID (ses_client (logged_in cfg token)) = cfg_ContextID cfg"
  by (simp_all add: logged_in_def NewSession_def Login_def WithAuthToken_def newClient_def WithDebug_def Let_def)

lemma prepareClient_fields [simp]:
  "cfg_ContextID (vp_APIConfig (prepareClient server ctx p)) =
     (case ctx of Some rid \<Rightarrow> rid | None \<Rightarrow> cfg_ContextID (vp_APIConfig p))"
  "cfg_BaseURL (vp_APIConfig (prepareClient server ctx p)) = cfg_BaseURL (vp_APIConfig p)"
  "client_provider_of (prepareClient server ctx p) = client_provider_of p"
  "vp_Config (prepareClient server ctx p) = vp_Config p" "vp_ContextCF (prepareClient server ctx p) = vp_ContextCF p"
  by (simp_all add: prepareClient_def client_provider_of_def Let_def split: option.split)

lemma retry_configured_fields [simp]:
  "world (retry_configured conf s) = world s" "retryGap (retry_configured conf s) = retryGap s"
  "MessagesEn (retry_configured conf s) = MessagesEn s"
  "maxRetryAttempt (retry_configured conf s) =
     (if 0 < vc_MaxRetryAttempt conf then vc_MaxRetryAttempt conf else maxRetryAttempt s)"
  "maxRetryGap (retry_configured conf s) =
     (if 0 < vc_MaxRetryGap conf then vc_MaxRetryGap conf else maxRetryGap s)"
  by (simp_all add: retry_configured_def updateRetryDefaults_def gbind_def gmodify_def del: updateRetryDefaults_run)

lemma OpenSession_no_credential:
  "cc_Credential creds = [] \<Longrightarrow> OpenSession E ctx creds p s =
     (Ret (Inl (UtilError ''Error Insufficient Authentication'' ''No authentication credential provided'' []), p), s)"
  by (simp add: OpenSession_def gret_def)

lemma getAccessToken_cases:
  "getAccessToken creds = (if cc_AuthType creds = IAMAccessToken then Inr \<lparr>at_Token = cc_Credential creds\<rparr>
     else Inl (PlainError ''unknown AuthType''))"
  by (simp add: getAccessToken_def split: AuthType.split)

lemma OpenSession_run:
  assumes "cc_Credential creds \<noteq> []"
  shows "OpenSession E ctx creds p s =
    (case fc_ServerConfig (vp_Config p) of
       None \<Rightarrow> (Panic NilDeref, s)
     | Some server \<Rightarrow>
         let q = prepareClient server ctx p in
         if cc_AuthType creds \<noteq> IAMAccessToken then (Ret (Inl (PlainError ''unknown AuthType''), q), s)
         else case fc_VPCConfig (vp_Config p) of
                None \<Rightarrow> (Panic NilDeref, s)
              | Some conf \<Rightarrow> (Ret (Inr (opened_session E creds q (retry_configured conf s)), q), retry_configured conf s))"
  using assms
  by (simp add: OpenSession_def getAccessToken_cases NewSession_ok Login_ok gbind_def gret_def gget_def gpanic_def deref_def Let_def
      opened_session_def logged_in_def split: option.split)

lemma OpenSession_Inr:
  assumes "OpenSession E ctx creds p s = (Ret (Inr vs, p'), s')"
  shows "\<exists>server conf. fc_ServerConfig (vp_Config p) = Some server \<and> fc_VPCConfig (vp_Config p) = Some conf \<and>
    cc_Credential creds \<noteq> [] \<and> cc_AuthType creds = IAMAccessToken \<and> p' = prepareClient server ctx p \<and>
    s' = retry_configured conf s \<and> vs = opened_session E creds p' s'"
proof -
  have "cc_Credential creds \<noteq> []" using assms by (auto simp: OpenSession_no_credential)
  with assms show ?thesis
    by (auto simp: OpenSession_run Let_def split: option.splits if_splits)
qed

text \<open>Without a usable credential no session is opened: an empty credential, or one that is not an IAM
  access token, is an error; no call is made and the retry parameters stay.  Otherwise the session
  is opened, and that alone makes no call either.\<close>

lemma OpenSession_needs_token:
  assumes "OpenSession E ctx creds p s = (Ret (r, p'), s')"
  shows "if cc_Credential creds = [] \<or> cc_AuthType creds \<noteq> IAMAccessToken
    then (\<exists>e. r = Inl e) \<and> s' = s else (\<exists>vs. r = Inr vs) \<and> world s' = world s"
  using assms
  by (cases "cc_Credential creds = []")
    (auto simp: OpenSession_no_credential OpenSession_run Let_def split: option.splits if_splits)

lemma OpenSession_sample:
  "OpenSession sampleEnv ctx sampleCreds sampleProvider madeState =
     (Ret (Inr (opened_session sampleEnv sampleCreds (prepareClient \<lparr>sc_DebugTrace = False\<rparr> ctx sampleProvider) madeState),
           prepareClient \<lparr>sc_DebugTrace = False\<rparr> ctx sampleProvider), madeState)"
proof -
  have "retry_configured (configure sampleVPCConfig) madeState = madeState"
    by (simp add: retry_configured_def updateRetryDefaults_def gbind_def gmodify_def madeState_def sampleVPCConfig_def
        del: updateRetryDefaults_run)
  then show ?thesis
    by (simp add: OpenSession_run sampleCreds_def sampleProvider_def sampleFileConfig_def Let_def)
qed

lemma OpenSession_needs_token_witness: "world madeState = 0"
  using OpenSession_needs_token [OF OpenSession_sample [of None]] by (auto simp: madeState_def sampleCreds_def)

text \<open>C14: Every request of a session carries its token: the session opened in an environment is the session
  opened with any other transport that agrees on the requests with the header
  \<open>Authorization: Bearer\<close> and the credential.  So no operation of a session, whatever it does, sends a
  request without the token it was opened with.\<close>

theorem session_requests_carry_token:
  assumes "OpenSession E ctx creds p s = (Ret (Inr vs, p'), s')"
    and "agree_on_token (cc_Credential creds) (env_transport E) T'"
  shows "OpenSession (E\<lparr>env_transport := T'\<rparr>) ctx creds p s = (Ret (Inr vs, p'), s')"
proof -
  from OpenSession_Inr [OF assms(1)] obtain server conf where
    c: "fc_ServerConfig (vp_Config p) = Some server" "fc_VPCConfig (vp_Config p) = Some conf"
      "cc_Credential creds \<noteq> []" "cc_AuthType creds = IAMAccessToken"
    and p': "p' = prepareClient server ctx p" and s': "s' = retry_configured conf s" and vs: "vs = opened_session E creds p' s'"
    by blast
  let ?client = "ses_client (logged_in (vp_APIConfig p') (cc_Credential creds))"
  have "agree_on_token (ah_authToken (cl_authenHandler ?client)) (env_transport E) T'"
    using assms(2) by simp
  note agree = services_agree [OF this, where C = "env_codec E"]
  have "ClientAPI (E\<lparr>env_transport := T'\<rparr>) cp (logged_in (vp_APIConfig p') (cc_Credential creds)) =
      ClientAPI E cp (logged_in (vp_APIConfig p') (cc_Credential creds))" for cp
    using agree by (simp add: ClientAPI_def SessionAPI_def IKSSessionAPI_def split: client_provider.split)
  then have "opened_session (E\<lparr>env_transport := T'\<rparr>) creds p' s' = vs"
    by (simp add: vs opened_session_def)
  with c p' s' show ?thesis by (simp add: OpenSession_run Let_def)
qed

lemma session_requests_carry_token_witness:
  "OpenSession (sampleEnv\<lparr>env_transport := \<lambda>q. if map_of (hr_Header q) ''Authorization'' = Some [''Bearer tok'']
       then env_transport sampleEnv q else (\<lambda>w. (Inl (PlainError ''unauthorized''), 99))\<rparr>) None sampleCreds sampleProvider madeState =
   OpenSession sampleEnv None sampleCreds sampleProvider madeState"
  unfolding OpenSession_sample
  by (rule session_requests_carry_token [OF OpenSession_sample])
    (simp add: agree_on_token_def sampleCreds_def)

text \<open>C35: The request ID of a session outlives it: once a session was opened with a request ID, the next
  session opened on the provider without one sends its requests under the old ID.\<close>

theorem request_ID_outlives_session:
  assumes "OpenSession E (Some rid) creds p s = (Ret (Inr vs1, p1), s1)"
    and "OpenSession E None creds' p1 s2 = (Ret (Inr vs2, p2), s3)"
  shows "\<exists>client. vs_Apiclient vs2 = ClientAPI E (client_provider_of p1) client \<and> cl_contextID (ses_client client) = rid"
proof -
  have "cfg_ContextID (vp_APIConfig p1) = rid" using OpenSession_Inr [OF assms(1)] by auto
  with OpenSession_Inr [OF assms(2)] show ?thesis by (auto simp: opened_session_def)
qed

lemma request_ID_outlives_session_witness:
  "\<exists>client (vs2 :: nat VPCSession). vs_Apiclient vs2 = ClientAPI sampleEnv DefaultRegionalAPIClientProvider client \<and>
     cl_contextID (ses_client client) = ''req-1''"
proof -
  let ?p1 = "prepareClient \<lparr>sc_DebugTrace = False\<rparr> (Some ''req-1'') sampleProvider"
  have "client_provider_of ?p1 = DefaultRegionalAPIClientProvider"
    using prepareClient_fields(3) [of "\<lparr>sc_DebugTrace = False\<rparr>" "Some ''req-1''" sampleProvider]
    by (simp add: client_provider_of_def sampleProvider_def del: prepareClient_fields)
  moreover have "OpenSession sampleEnv None sampleCreds ?p1 madeState =
      (Ret (Inr (opened_session sampleEnv sampleCreds (prepareClient \<lparr>sc_DebugTrace = False\<rparr> None ?p1)
         (retry_configured (configure sampleVPCConfig) madeState)), prepareClient \<lparr>sc_DebugTrace = False\<rparr> None ?p1),
       retry_configured (configure sampleVPCConfig) madeState)"
    by (simp add: OpenSession_run sampleCreds_def sampleProvider_def sampleFileConfig_def Let_def)
  from request_ID_outlives_session [OF OpenSession_sample this] calculation show ?thesis
    by (simp del: prepareClient_fields) blast
qed

section \<open>The dual session\<close>

lemma SkipRetry_none [simp]: "pointed_service NilSession = gpanic NilDeref"
  "pointed_service (EmptySession e) = gpanic NilDeref" "pointed_service (OpenedSession vs) = gret (FileShareService vs)"
  by (simp_all add: pointed_service_def)

text \<open>A dual session whose IKS part could not be opened panics in \<open>UpdateVolume\<close>: for a nil or an empty
  IKS session, every request that passes the validation dereferences a nil pointer in its first
  attempt, and nothing was called before.\<close>
lemma iks_session_missing:
  assumes "iv_IksSession vpcIks = NilSession \<or> (\<exists>e. iv_IksSession vpcIks = EmptySession e)"
    and "iks_validateVolumeRequest X (MessagesEn s) volume = None"
    and "0 < fr_maxRetryAttempt (vs_APIRetry (iv_VPCSession vpcIks))"
  shows "iks_UpdateVolume X vpcIks volume s = (Panic NilDeref, s)"
proof -
  have "iksUpdate_attempt vpcIks t s = (Panic NilDeref, s)" for t
    using assms(1) by (auto simp: iksUpdate_attempt_def gbind_def gpanic_def)
  then have "FlexyRetry (vs_APIRetry (iv_VPCSession vpcIks)) (iksUpdate_attempt vpcIks t) () s = (Panic NilDeref, s)" for t
    unfolding FlexyRetry_eq_run by (intro flexy.first_panic) (use assms(3) in simp_all)
  then show ?thesis
    using assms(2) by (simp add: iks_UpdateVolume_def gbind_def gget_def Let_def)
qed

definition sampleRecord :: Volume where
  "sampleRecord = zeroVolume\<lparr>vol_VolumeID := sampleVolumeID, vol_Provider := ''g2'', vol_VolumeType := ''vpc-share''\<rparr>"

lemma sampleRecord_valid: "iks_validateVolumeRequest X en sampleRecord = None"
  by (simp add: iks_validateVolumeRequest_def sampleRecord_def sampleVolumeID_def)

text \<open>The dual session needs its VPC part only: once the VPC session is open, \<open>OpenSession\<close> returns a
  dual session with it.  Its IKS part is the empty session when there is no IAM token for IKS, the
  nil pointer when that token is not usable, and an open session otherwise.\<close>

lemma iks_OpenSession_degrades:
  assumes "fc_VPCConfig (vp_Config (ip_iksFileProvider ip)) = Some conf"
    and "fc_ServerConfig (vp_Config (ip_iksFileProvider ip)) = Some server"
    and "env_ForIAMAccessToken E (vp_ContextCF (ip_vpcFileProvider ip)) (vc_G2APIKey conf) (world s) = ((vc, None), w)"
    and "OpenSession E ctx vc (ip_vpcFileProvider ip) (s\<lparr>world := w\<rparr>) = (Ret (Inr vs, p1), s1)"
    and "env_ForIAMAccessToken E (vp_ContextCF (ip_iksFileProvider ip)) (vc_G2APIKey conf) (world s1) = ((ic, err), w2)"
  shows "\<exists>dual ip' s'. iks_OpenSession E ctx creds ip s = (Ret (Inr dual, ip'), s') \<and> iv_VPCSession dual = vs \<and>
    (case err of
       Some e \<Rightarrow> iv_IksSession dual = EmptySession e
     | None \<Rightarrow> if cc_Credential ic = [] \<or> cc_AuthType ic \<noteq> IAMAccessToken then iv_IksSession dual = NilSession
               else (\<exists>vs2. iv_IksSession dual = OpenedSession vs2))"
  using assms
  by (cases "cc_Credential ic = []"; cases "cc_AuthType ic = IAMAccessToken")
    (auto simp: iks_OpenSession_def gbind_def gret_def deref_def call_api_def Let_def OpenSession_no_credential
      OpenSession_run split: option.split)

definition sampleDual :: "nat IksVpcFileProvider" where
  "sampleDual = \<lparr>ip_vpcFileProvider = sampleProvider, ip_iksFileProvider = sampleProvider\<rparr>"

lemma sampleProvider_sel [simp]:
  "fc_VPCConfig (vp_Config sampleProvider) = Some (configure sampleVPCConfig)"
  "fc_ServerConfig (vp_Config sampleProvider) = Some \<lparr>sc_DebugTrace = False\<rparr>"
  by (simp_all add: sampleProvider_def sampleFileConfig_def)

lemma sampleEnv_token [simp]: "env_ForIAMAccessToken sampleEnv c k w = ((sampleCreds, None), w)"
  by (simp add: sampleEnv_def)

lemma iks_OpenSession_degrades_witness:
  "\<exists>dual ip' s'. iks_OpenSession sampleEnv None zeroCredentials sampleDual madeState = (Ret (Inr dual, ip'), s') \<and>
     (\<exists>vs. iv_IksSession dual = OpenedSession vs)"
proof -
  have dual: "ip_vpcFileProvider sampleDual = sampleProvider" "ip_iksFileProvider sampleDual = sampleProvider"
    by (simp_all add: sampleDual_def)
  have "madeState\<lparr>world := world madeState\<rparr> = madeState" by simp
  with OpenSession_sample [of None]
  have "OpenSession sampleEnv None sampleCreds (ip_vpcFileProvider sampleDual) (madeState\<lparr>world := world madeState\<rparr>) =
     (Ret (Inr (opened_session sampleEnv sampleCreds (prepareClient \<lparr>sc_DebugTrace = False\<rparr> None sampleProvider) madeState),
       prepareClient \<lparr>sc_DebugTrace = False\<rparr> None sampleProvider), madeState)"
    by (simp only: dual)
  from iks_OpenSession_degrades [OF _ _ _ this, of "configure sampleVPCConfig" "\<lparr>sc_DebugTrace = False\<rparr>" sampleCreds None
      "world madeState" zeroCredentials]
  show ?thesis by (auto simp: dual sampleCreds_def)
qed

section \<open>The volume record\<close>

lemma parseUintLoop_overflow: "2 ^ 64 - 1 < n \<Longrightarrow> parseUintLoop 0 (showNat n) = (2 ^ 64 - 1, Some ErrRange)"
proof (induction n rule: showNat.induct)
  case (1 n)
  have err: "parseUintLoop m (s @ u) = (v, Some e)" if "parseUintLoop m s = (v, Some e)" for m s u v e
    using that by (induction s arbitrary: m) (auto split: if_splits)
  have n: "showNat n = showNat (n div 10) @ [digit_char (n mod 10)]" "10 * (n div 10) + n mod 10 = n"
    using "1.prems" by (subst showNat.simps, simp_all)
  show ?case
  proof (cases "2 ^ 64 - 1 < n div 10")
    case True
    with 1 show ?thesis by (simp only: n(1)) (intro err, simp)
  next
    case False
    then have "parseUintLoop 0 (showNat (n div 10)) = (n div 10, None)"
      by (intro parseUintLoop_showNat) simp
    with "1.prems" n show ?thesis by (simp add: parseUintLoop_append del: showNat.simps)
  qed
qed

text \<open>An IOPS value that is too large for 64 bits is not replaced by 0, as the code means to, but by the
  largest 64-bit integer; one that fits is kept.\<close>

lemma NewUpdatePVC_iops:
  "upvc_Iops (NewUpdatePVC (volume\<lparr>vol_Iops := Some (showNat n)\<rparr>)) = (if int n \<le> max_int64 then int n else max_int64)"
proof -
  have u: "ParseUint (showNat n) = (if n \<le> 2 ^ 64 - 1 then (n, None) else (2 ^ 64 - 1, Some ErrRange))"
    using parseUintLoop_showNat [of n] parseUintLoop_overflow [of n] by (auto simp: ParseUint_def simp del: showNat.simps)
  have "fst (ParseInt (showNat n)) = (if int n \<le> max_int64 then int n else max_int64)"
    using showNat_no_sign [of n] by (auto simp: ParseInt_def u Let_def simp del: showNat.simps)
  then show ?thesis by (simp add: NewUpdatePVC_def)
qed

section \<open>The storage provider\<close>

lemma NewProvider_config:
  "NewProvider E fc s = (Ret (fc', r), s') \<Longrightarrow>
     fc_IKSConfig fc' = fc_IKSConfig fc \<and> fc_ServerConfig fc' = fc_ServerConfig fc \<and>
     fc_VPCConfig fc' = map_option configure (fc_VPCConfig fc)"
  by (cases "fc_VPCConfig fc")
    (auto simp: NewProvider_def gbind_def gret_def call_api_def SetRetryParameters_def gmodify_def Let_def
      split: sum.splits option.splits prod.splits)

lemma iks_NewProvider_config:
  assumes "iks_NewProvider E fc s = (Ret (fc', r), s')"
  shows "fc_IKSConfig fc' = fc_IKSConfig fc \<and> fc_ServerConfig fc' = fc_ServerConfig fc \<and>
     fc_VPCConfig fc' = map_option configure (fc_VPCConfig fc)"
proof -
  have idem: "map_option configure (map_option configure c) = map_option configure c" for c
    by (cases c) (simp_all add: configure_idem)
  obtain fc1 r1 s1 where 1: "NewProvider E fc s = (Ret (fc1, r1), s1)"
    using assms by (auto simp: iks_NewProvider_def gbind_def split: prod.splits outcome.splits)
  note c1 = NewProvider_config [OF 1]
  show ?thesis
  proof (cases r1)
    case (Inl e)
    with assms 1 c1 show ?thesis by (simp add: iks_NewProvider_def gbind_def gret_def)
  next
    case (Inr p)
    obtain fc2 r2 s2 where 2: "NewProvider E fc1 s1 = (Ret (fc2, r2), s2)"
      using assms 1 Inr by (auto simp: iks_NewProvider_def gbind_def split: prod.splits outcome.splits)
    note c2 = NewProvider_config [OF 2]
    have "fc' = fc2"
      using assms 1 2 Inr
      by (cases r2; cases "fc_VPCConfig fc2")
        (auto simp: iks_NewProvider_def gbind_def gret_def gpanic_def deref_def call_api_def Let_def
          split: sum.splits prod.splits)
    with c1 c2 show ?thesis by (simp add: idem)
  qed
qed

lemma register_provider_get:
  "RegistryGet (register_provider k p r) k = (Some p, None)"
  "RegistryGet r k' = (Some q, None) \<Longrightarrow> \<exists>p'. RegistryGet (register_provider k p r) k' = (Some p', None)"
proof -
  show "RegistryGet (register_provider k p r) k = (Some p, None)"
    unfolding register_provider_def by (rule registry.fetch_registered)
  assume q: "RegistryGet r k' = (Some q, None)"
  have "fst (RegistryGet (register_provider k p r) k') \<noteq> None"
    using registry.fetch_put [of k "Some p" r k'] q by (auto simp: register_provider_def)
  moreover from this have "snd (RegistryGet (register_provider k p r) k') = None"
    by (simp add: registry.fetch_error)
  ultimately show "\<exists>p'. RegistryGet (register_provider k p r) k' = (Some p', None)"
    by (metis option.exhaust prod.collapse)
qed

lemma init_vpc_Inr:
  assumes "init_vpc E fc s = (Ret (fc', Inr (reg, have)), s')"
  shows "fc_IKSConfig fc' = fc_IKSConfig fc" and "fc_ServerConfig fc' = fc_ServerConfig fc"
    and "fc_VPCConfig fc = Some vc \<Longrightarrow> vc_Enabled vc \<Longrightarrow> \<exists>p. RegistryGet reg (vc_VPCVolumeType vc) = (Some p, None)"
    and "(case fc_VPCConfig fc of None \<Rightarrow> False | Some vc \<Rightarrow> vc_Enabled vc) = have"
  using assms
  by (auto simp: init_vpc_def gbind_def gret_def register_provider_get dest: NewProvider_config
      split: option.splits if_splits prod.splits outcome.splits sum.splits)

lemma init_iks_Inr:
  assumes "init_iks E fc (reg, hv) s = (Ret (fc', Inr (reg', hv')), s')"
  shows "fc_IKSConfig fc' = fc_IKSConfig fc" and "fc_ServerConfig fc' = fc_ServerConfig fc"
    and "fc_IKSConfig fc = Some ic \<Longrightarrow> ic_Enabled ic \<Longrightarrow>
      \<exists>p. RegistryGet reg' (ic_IKSFileProviderName ic) = (Some (IksProv p), None)"
    and "RegistryGet reg k = (Some q, None) \<Longrightarrow> \<exists>p. RegistryGet reg' k = (Some p, None)"
  using assms register_provider_get(2) [where r = reg]
  by (auto simp: init_iks_def gbind_def gret_def register_provider_get(1) dest: iks_NewProvider_config
      split: option.splits if_splits prod.splits outcome.splits sum.splits)

lemma init_vpc_config: "init_vpc E fc s = (Ret (fc', r), s') \<Longrightarrow> fc_IKSConfig fc' = fc_IKSConfig fc"
  by (auto simp: init_vpc_def gbind_def gret_def dest: NewProvider_config
      split: option.splits if_splits prod.splits outcome.splits sum.splits)

lemma InitProviders_Inr:
  assumes "InitProviders E fc s = (Ret (fc', Inr reg), s')"
  shows "fc_IKSConfig fc' = fc_IKSConfig fc" and "fc_ServerConfig fc' = fc_ServerConfig fc"
    and "fc_IKSConfig fc = Some ic \<Longrightarrow> ic_Enabled ic \<Longrightarrow>
       \<exists>p. RegistryGet reg (ic_IKSFileProviderName ic) = (Some (IksProv p), None)"
    and "fc_VPCConfig fc = Some vc \<Longrightarrow> vc_Enabled vc \<Longrightarrow> \<exists>p. RegistryGet reg (vc_VPCVolumeType vc) = (Some p, None)"
proof -
  obtain fc1 r1 s1 where v: "init_vpc E fc s = (Ret (fc1, r1), s1)"
    using assms by (auto simp: InitProviders_def gbind_def split: prod.splits outcome.splits)
  obtain reg1 h1 where r1: "r1 = Inr (reg1, h1)"
    using assms v by (cases r1) (auto simp: InitProviders_def gbind_def gret_def)
  note v = v [unfolded r1]
  obtain h2 where i: "init_iks E fc1 (reg1, h1) s1 = (Ret (fc', Inr (reg, h2)), s')"
    using assms v by (auto simp: InitProviders_def gbind_def gret_def
        split: prod.splits outcome.splits sum.splits if_splits)
  show "fc_IKSConfig fc' = fc_IKSConfig fc" "fc_ServerConfig fc' = fc_ServerConfig fc"
    using init_vpc_Inr(1,2) [OF v] init_iks_Inr(1,2) [OF i] by simp_all
  show "fc_IKSConfig fc = Some ic \<Longrightarrow> ic_Enabled ic \<Longrightarrow>
       \<exists>p. RegistryGet reg (ic_IKSFileProviderName ic) = (Some (IksProv p), None)"
    using init_vpc_Inr(1) [OF v] init_iks_Inr(3) [OF i] by simp
  show "fc_VPCConfig fc = Some vc \<Longrightarrow> vc_Enabled vc \<Longrightarrow> \<exists>p. RegistryGet reg (vc_VPCVolumeType vc) = (Some p, None)"
    using init_vpc_Inr(3) [OF v] init_iks_Inr(4) [OF i] by blast
qed

text \<open>The configuration from which the providers are built.\<close>

definition normalized :: "LibConfig \<Rightarrow> VPCProviderConfig \<Rightarrow> LibConfig" where
  "normalized conf vc = conf\<lparr>lc_VPC := Some (vc\<lparr>vc_APIVersion := normalizeAPIVersion (vc_APIVersion vc)\<rparr>)\<rparr>"

lemma NewIBMCloudStorageProvider_Inr:
  assumes "NewIBMCloudStorageProvider CE s = (Ret (Inr icp), s')"
  shows "\<exists>conf vc w s1 fc ic vc'. ce_ReadConfig CE (world s) = (Inr conf, w) \<and> lc_VPC conf = Some vc \<and>
    InitProviders (ce_env CE) (file_config (normalized conf vc)) s1 = (Ret (fc, Inr (icp_Registry icp)), s') \<and>
    lc_IKS conf = Some ic \<and> fc_VPCConfig fc = Some vc' \<and>
    icp_ProviderName icp = (if ic_Enabled ic then ic_IKSFileProviderName ic
       else if vc_Enabled vc' then vc_VPCVolumeType vc' else [])"
  using assms
  by (auto simp: NewIBMCloudStorageProvider_def gbind_def gret_def gpanic_def deref_def call_api_def Let_def normalized_def
      split: prod.splits outcome.splits sum.splits option.splits if_splits) blast+

text \<open>A VPC section keeps its name and its switch.\<close>

lemma init_vpc_vpc:
  assumes "init_vpc E fc s = (Ret (fc', r), s')" and "fc_VPCConfig fc' = Some vc'"
  shows "\<exists>vc. fc_VPCConfig fc = Some vc \<and> vc_Enabled vc' = vc_Enabled vc \<and> vc_VPCVolumeType vc' = vc_VPCVolumeType vc"
  using assms
  by (auto simp: init_vpc_def gbind_def gret_def dest!: NewProvider_config
      split: option.splits if_splits prod.splits outcome.splits sum.splits)

lemma init_iks_vpc:
  assumes "init_iks E fc reg s = (Ret (fc', r), s')" and "fc_VPCConfig fc' = Some vc'"
  shows "\<exists>vc. fc_VPCConfig fc = Some vc \<and> vc_Enabled vc' = vc_Enabled vc \<and> vc_VPCVolumeType vc' = vc_VPCVolumeType vc"
  using assms
  by (auto simp: init_iks_def gbind_def gret_def dest!: iks_NewProvider_config
      split: option.splits if_splits prod.splits outcome.splits sum.splits)

lemma InitProviders_vpc:
  assumes "InitProviders E fc s = (Ret (fc', Inr reg), s')" and "fc_VPCConfig fc' = Some vc'"
  shows "\<exists>vc. fc_VPCConfig fc = Some vc \<and> vc_Enabled vc' = vc_Enabled vc \<and> vc_VPCVolumeType vc' = vc_VPCVolumeType vc \<and>
    (vc_Enabled vc \<or> (\<exists>ic. fc_IKSConfig fc = Some ic \<and> ic_Enabled ic))"
proof -
  obtain fc1 r1 s1 where v: "init_vpc E fc s = (Ret (fc1, r1), s1)"
    using assms by (auto simp: InitProviders_def gbind_def split: prod.splits outcome.splits)
  obtain reg1 h1 where r1: "r1 = Inr (reg1, h1)"
    using assms v by (cases r1) (auto simp: InitProviders_def gbind_def gret_def)
  note v = v [unfolded r1]
  have i: "init_iks E fc1 (reg1, h1) s1 = (Ret (fc', Inr (reg, True)), s')"
    using assms v by (auto simp: InitProviders_def gbind_def gret_def
        split: prod.splits outcome.splits sum.splits if_splits)
  obtain vc1 where "fc_VPCConfig fc1 = Some vc1" "vc_Enabled vc' = vc_Enabled vc1" "vc_VPCVolumeType vc' = vc_VPCVolumeType vc1"
    using init_iks_vpc [OF i assms(2)] by blast
  moreover obtain vc where vc: "fc_VPCConfig fc = Some vc" "vc_Enabled vc1 = vc_Enabled vc" "vc_VPCVolumeType vc1 = vc_VPCVolumeType vc"
    using init_vpc_vpc [OF v calculation(1)] by blast
  moreover have "vc_Enabled vc \<or> (\<exists>ic. fc_IKSConfig fc = Some ic \<and> ic_Enabled ic)"
    using init_vpc_Inr(1,4) [OF v] vc i
    by (auto simp: init_iks_def gret_def split: option.splits if_splits)
  ultimately show ?thesis by metis
qed

text \<open>The provider that the storage provider names is registered: when \<open>NewIBMCloudStorageProvider\<close>
  succeeds, the lookup of its provider name answers a provider, so \<open>GetProviderSession\<close> never
  fails for an unknown provider.\<close>

lemma storage_provider_registered:
  assumes "NewIBMCloudStorageProvider CE s = (Ret (Inr icp), s')"
  shows "\<exists>p. RegistryGet (icp_Registry icp) (icp_ProviderName icp) = (Some p, None)"
proof -
  from NewIBMCloudStorageProvider_Inr [OF assms] obtain conf vc w s1 fc ic vc' where
    i: "InitProviders (ce_env CE) (file_config (normalized conf vc)) s1 = (Ret (fc, Inr (icp_Registry icp)), s')"
    and ic: "lc_IKS conf = Some ic" and vc': "fc_VPCConfig fc = Some vc'"
    and name: "icp_ProviderName icp = (if ic_Enabled ic then ic_IKSFileProviderName ic
       else if vc_Enabled vc' then vc_VPCVolumeType vc' else [])"
    by blast
  have ic': "fc_IKSConfig (file_config (normalized conf vc)) = Some ic"
    using ic by (simp add: file_config_def normalized_def)
  obtain v0 where "fc_VPCConfig (file_config (normalized conf vc)) = Some v0" "vc_Enabled vc' = vc_Enabled v0"
      "vc_VPCVolumeType vc' = vc_VPCVolumeType v0" "vc_Enabled v0 \<or> ic_Enabled ic"
    using InitProviders_vpc [OF i vc'] ic' by auto
  with InitProviders_Inr(3) [OF i ic'] InitProviders_Inr(4) [OF i, of v0] name show ?thesis
    by auto
qed

text \<open>A configuration without an IKS section cannot be used: the section is checked before the cluster
  information is read, but dereferenced without a check after the providers were registered.\<close>

lemma storage_provider_needs_iks_section:
  assumes "ce_ReadConfig CE (world s) = (Inr conf, w)" and "lc_IKS conf = None" and "lc_VPC conf = Some vc"
    and "ce_IKS_ENABLED CE \<noteq> ''True''"
    and "InitProviders (ce_env CE) (file_config (normalized conf vc)) (s\<lparr>world := w\<rparr>) = (Ret (fc, Inr reg), s')"
  shows "NewIBMCloudStorageProvider CE s = (Panic NilDeref, s')"
  using assms
  by (simp add: NewIBMCloudStorageProvider_def gbind_def gret_def gpanic_def deref_def call_api_def Let_def
      normalized_def wants_cluster_info_def)

definition sampleCloud :: "IKSConfig option \<Rightarrow> nat cloud_environment" where
  "sampleCloud iks = \<lparr>ce_env = sampleEnv,
     ce_ReadConfig = \<lambda>w. (Inr \<lparr>lc_VPC = Some sampleVPCConfig, lc_IKS = iks,
        lc_Server = Some \<lparr>sc_DebugTrace = False\<rparr>\<rparr>, w),
     ce_GetClusterInfo = \<lambda>w. (Inr ''cluster-1'', w), ce_IKS_ENABLED = []\<rparr>"

definition sampleLib :: "IKSConfig option \<Rightarrow> LibConfig" where
  "sampleLib iks = \<lparr>lc_VPC = Some sampleVPCConfig, lc_IKS = iks, lc_Server = Some \<lparr>sc_DebugTrace = False\<rparr>\<rparr>"

lemma normalized_sample: "normalized (sampleLib iks) sampleVPCConfig = sampleLib iks"
proof -
  have "normalizeAPIVersion ''2026-02-27'' = ''2026-02-27''" by code_simp
  then show ?thesis by (simp add: normalized_def sampleLib_def sampleVPCConfig_def)
qed

lemma NewProvider_sampleLib:
  "\<exists>p. NewProvider sampleEnv (file_config (sampleLib iks)) (init_gost 0) =
     (Ret ((file_config (sampleLib iks))\<lparr>fc_VPCConfig := Some (configure sampleVPCConfig)\<rparr>, Inr p), madeState)"
proof -
  have "vc_IKSTokenExchangePrivateURL (configure sampleVPCConfig) = []"
    by (simp add: configure_def sampleVPCConfig_def Let_def)
  then show ?thesis
    by (simp add: NewProvider_def sampleLib_def file_config_def prov_run NewVPCContextCredentialsFactory_def sampleEnv_def
        providerTimeout_def sampleVPCConfig_def ParseDuration_30s SetRetryParameters_def madeState_def
        InitMessages_def init_gost_def)
qed

lemma InitProviders_sample:
  assumes "case iks of None \<Rightarrow> True | Some ic \<Rightarrow> \<not> ic_Enabled ic"
  shows "\<exists>fc reg. InitProviders sampleEnv (file_config (sampleLib iks)) (init_gost 0) = (Ret (fc, Inr reg), madeState)
     \<and> fc_VPCConfig fc = Some (configure sampleVPCConfig)"
proof -
  obtain p where p: "NewProvider sampleEnv (file_config (sampleLib iks)) (init_gost 0) =
     (Ret ((file_config (sampleLib iks))\<lparr>fc_VPCConfig := Some (configure sampleVPCConfig)\<rparr>, Inr p), madeState)"
    using NewProvider_sampleLib by blast
  have en: "fc_VPCConfig (file_config (sampleLib iks)) = Some sampleVPCConfig" "vc_Enabled sampleVPCConfig"
    "fc_IKSConfig (file_config (sampleLib iks)) = iks"
    by (simp_all add: file_config_def sampleLib_def sampleVPCConfig_def)
  show ?thesis
    using assms p en
    by (auto simp: InitProviders_def init_vpc_def init_iks_def gbind_def gret_def split: option.split)
qed

lemma storage_provider_needs_iks_section_witness:
  "NewIBMCloudStorageProvider (sampleCloud None) (init_gost 0) = (Panic NilDeref, madeState)"
proof -
  obtain fc reg where i: "InitProviders sampleEnv (file_config (sampleLib None)) (init_gost 0) = (Ret (fc, Inr reg), madeState)"
    using InitProviders_sample [of None] by auto
  show ?thesis
    by (rule storage_provider_needs_iks_section [where conf = "sampleLib None" and w = 0 and vc = sampleVPCConfig])
      (use i in \<open>simp_all add: sampleCloud_def normalized_sample, simp_all add: sampleLib_def\<close>)
qed

lemma storage_provider_registered_witness:
  "\<exists>icp s' p. NewIBMCloudStorageProvider (sampleCloud (Some \<lparr>ic_Enabled = False, ic_IKSFileProviderName = []\<rparr>)) (init_gost 0) =
     (Ret (Inr icp), s') \<and> RegistryGet (icp_Registry icp) (icp_ProviderName icp) = (Some p, None)"
proof -
  let ?iks = "Some \<lparr>ic_Enabled = False, ic_IKSFileProviderName = []\<rparr>"
  obtain fc reg where i: "InitProviders sampleEnv (file_config (sampleLib ?iks)) (init_gost 0) = (Ret (fc, Inr reg), madeState)"
      "fc_VPCConfig fc = Some (configure sampleVPCConfig)"
    using InitProviders_sample [of ?iks] by auto
  have "\<exists>icp. NewIBMCloudStorageProvider (sampleCloud ?iks) (init_gost 0) = (Ret (Inr icp), madeState)"
    using i normalized_sample [of ?iks]
    by (simp add: NewIBMCloudStorageProvider_def sampleCloud_def gbind_def gret_def deref_def call_api_def Let_def
        wants_cluster_info_def normalized_def sampleLib_def)
  then obtain icp where "NewIBMCloudStorageProvider (sampleCloud ?iks) (init_gost 0) = (Ret (Inr icp), madeState)" by blast
  with storage_provider_registered [OF this] show ?thesis by blast
qed

end
