(* ===== verification/Service.thy ===== *)
theory Service
  imports SessionState ProviderLaws
begin

text \<open>
  The service that a driver runs on this library: a provider, the sessions it has opened, and
  the package variables they share.  A step opens a session, serves one request of one open
  session, or is a change of the world that comes from elsewhere; a panic of an operation ends
  the request, not the service.  Requests are whole steps; the data races of concurrent
  requests on the package variables are in Concurrent.
\<close>

section \<open>Requests\<close>

text \<open>The operations of the session interface, the page lookups with the rounds they may take.\<close>

datatype request =
  CreateVolumeReq Volume
| GetVolumeReq string
| GetVolumeByNameReq string
| DeleteVolumeReq "Volume option"
| ListVolumesReq int string "string \<Rightarrow> string option"
| UpdateVolumeReq Volume
| ExpandVolumeReq ExpandVolumeRequest
| GetVolumeProfileReq string
| CreateVolumeAccessPointReq VolumeAccessPointRequest
| GetVolumeAccessPointReq VolumeAccessPointRequest
| DeleteVolumeAccessPointReq VolumeAccessPointRequest
| WaitForCreateReq VolumeAccessPointRequest
| WaitForDeleteReq VolumeAccessPointRequest
| SubnetReq nat SubnetRequest
| SecurityGroupReq nat SecurityGroupRequest
| CreateSnapshotReq string SnapshotParameters
| GetSnapshotReq string "string list"
| GetSnapshotByNameReq string "string list"
| DeleteSnapshotReq "LibSnapshot option"
| ListSnapshotsReq int string "string \<Rightarrow> string option"

text \<open>A request is served: \<open>Some ()\<close> when its operation returned, \<open>None\<close> when it is a page lookup whose loop has
  not ended in its rounds.\<close>

definition run_only :: "('s, 'a) go \<Rightarrow> ('s, unit option) go" where
  "run_only m = gbind m (\<lambda>_. gret (Some ()))"

definition run_lookup :: "('s, 'a option) go \<Rightarrow> ('s, unit option) go" where
  "run_lookup m = gbind m (\<lambda>r. gret (map_option (\<lambda>_. ()) r))"

fun serve :: "ext \<Rightarrow> 'w VPCSession \<Rightarrow> request \<Rightarrow> ('w gost, unit option) go" where
  "serve X vpcs (CreateVolumeReq q) = run_only (CreateVolume X vpcs q)"
| "serve X vpcs (GetVolumeReq vid) = run_only (GetVolume X vpcs vid)"
| "serve X vpcs (GetVolumeByNameReq n) = run_only (GetVolumeByName X vpcs n)"
| "serve X vpcs (DeleteVolumeReq v) = run_only (DeleteVolume X vpcs v)"
| "serve X vpcs (ListVolumesReq limit start tags) = run_only (ListVolumes X vpcs limit start tags)"
| "serve X vpcs (UpdateVolumeReq v) = run_only (UpdateVolume X vpcs v)"
| "serve X vpcs (ExpandVolumeReq q) = run_only (ExpandVolume X vpcs q)"
| "serve X vpcs (GetVolumeProfileReq n) = run_only (GetVolumeProfileByName vpcs n)"
| "serve X vpcs (CreateVolumeAccessPointReq q) = run_only (CreateVolumeAccessPoint X vpcs q)"
| "serve X vpcs (GetVolumeAccessPointReq q) = run_only (GetVolumeAccessPoint X vpcs q)"
| "serve X vpcs (DeleteVolumeAccessPointReq q) = run_only (DeleteVolumeAccessPoint X vpcs q)"
| "serve X vpcs (WaitForCreateReq q) = run_only (WaitForCreateVolumeAccessPoint X vpcs q)"
| "serve X vpcs (WaitForDeleteReq q) = run_only (WaitForDeleteVolumeAccessPoint X vpcs q)"
| "serve X vpcs (SubnetReq n q) = run_lookup (GetSubnetForVolumeAccessPoint n X vpcs q)"
| "serve X vpcs (SecurityGroupReq n q) = run_lookup (GetSecurityGroupForVolumeAccessPoint n X vpcs q)"
| "serve X vpcs (CreateSnapshotReq vid ps) = run_only (CreateSnapshot X vpcs vid ps)"
| "serve X vpcs (GetSnapshotReq sid vids) = run_only (GetSnapshot X vpcs sid vids)"
| "serve X vpcs (GetSnapshotByNameReq n vids) = run_only (GetSnapshotByName X vpcs n vids)"
| "serve X vpcs (DeleteSnapshotReq sn) = run_only (DeleteSnapshot X vpcs sn)"
| "serve X vpcs (ListSnapshotsReq limit start fs) = run_only (ListSnapshots X vpcs limit start fs)"

section \<open>Steps\<close>

text \<open>A lookup that has not ended is a step too, with the reads it has made so far.\<close>

record 'w service =
  svc_provider :: "'w VPCFileProvider"
  svc_state :: "'w gost"
  svc_sessions :: "'w VPCSession list"

inductive service_step :: "'w environment \<Rightarrow> 'w service \<Rightarrow> 'w service \<Rightarrow> bool" for E where
  open_session:
    "OpenSession E ctx creds (svc_provider v) (svc_state v) = (Ret (r, p), s) \<Longrightarrow>
       service_step E v \<lparr>svc_provider = p, svc_state = s,
         svc_sessions = (case r of Inl e \<Rightarrow> svc_sessions v | Inr vs \<Rightarrow> vs # svc_sessions v)\<rparr>"
| serve_request:
    "vs \<in> set (svc_sessions v) \<Longrightarrow> serve (env_ext E) vs q (svc_state v) = (r, s) \<Longrightarrow>
       service_step E v (v\<lparr>svc_state := s\<rparr>)"
| elsewhere:
    "service_step E v (v\<lparr>svc_state := (svc_state v)\<lparr>world := w\<rparr>\<rparr>)"

inductive running :: "'w environment \<Rightarrow> VPCFileConfig \<Rightarrow> 'w service \<Rightarrow> bool" for E fc where
  started:
    "NewProvider E fc (init_gost w) = (Ret (fc', Inr p), s) \<Longrightarrow>
       running E fc \<lparr>svc_provider = p, svc_state = s, svc_sessions = []\<rparr>"
| stepped: "running E fc v \<Longrightarrow> service_step E v v' \<Longrightarrow> running E fc v'"

section \<open>What every request keeps\<close>

context state_relation begin

lemma run_only_keeps: "preserves R m \<Longrightarrow> preserves R (run_only m)"
  unfolding run_only_def by (intro pres_rules refl trans)

lemma run_lookup_keeps: "preserves R m \<Longrightarrow> preserves R (run_lookup m)"
  unfolding run_lookup_def by (intro pres_rules refl trans)

lemma serve_keeps: "ok (vs_APIRetry vpcs) \<Longrightarrow> preserves R (serve X vpcs q)"
  by (cases q)
    (simp_all add: run_only_keeps run_lookup_keeps CreateVolume GetVolume GetVolumeByName DeleteVolume ListVolumes UpdateVolume
      ExpandVolume GetVolumeProfileByName CreateVolumeAccessPoint GetVolumeAccessPoint DeleteVolumeAccessPoint
      WaitForCreateVolumeAccessPoint WaitForDeleteVolumeAccessPoint lookups CreateSnapshot GetSnapshot
      GetSnapshotByName DeleteSnapshot ListSnapshots)

end

lemma serve_config: "serve X vpcs q s = (r, s') \<Longrightarrow> same_config s s'"
  by (rule preservesD [OF config_state.serve_keeps]) simp_all

lemma serve_gap:
  "10 \<le> B \<Longrightarrow> B \<le> 2 ^ 33 \<Longrightarrow> retry_in B (vs_APIRetry vpcs) \<Longrightarrow> serve X vpcs q s = (r, s') \<Longrightarrow> gap_step B s s'"
  by (rule preservesD [OF state_relation.serve_keeps [OF gap_step_state]])

section \<open>The invariant\<close>

text \<open>What a configuration asks for.\<close>

definition attempts_of :: "VPCProviderConfig \<Rightarrow> int" where
  "attempts_of conf = (if 0 < vc_MaxRetryAttempt conf then vc_MaxRetryAttempt conf else 10)"

definition gap_of :: "VPCProviderConfig \<Rightarrow> int" where
  "gap_of conf = (if 0 < vc_MaxRetryGap conf then vc_MaxRetryGap conf else 60)"

text \<open>A session that \<open>OpenSession\<close> made: configured retries, and a client that is logged in with the
  session's own credential.\<close>

definition session_ok :: "'w environment \<Rightarrow> VPCProviderConfig \<Rightarrow> 'w VPCSession \<Rightarrow> bool" where
  "session_ok E conf vs \<longleftrightarrow>
     vs_APIRetry vs = \<lparr>fr_maxRetryAttempt = attempts_of conf, fr_maxRetryGap = gap_of conf\<rparr> \<and>
     cc_Credential (vs_ContextCredentials vs) \<noteq> [] \<and>
     (\<exists>client. vs_Apiclient vs = ClientAPI E DefaultRegionalAPIClientProvider client \<and>
        ah_authToken (cl_authenHandler (ses_client client)) = cc_Credential (vs_ContextCredentials vs) \<and>
        cl_baseURL (ses_client client) = vc_G2EndpointURL (configure conf))"

definition service_inv :: "'w environment \<Rightarrow> VPCProviderConfig \<Rightarrow> 'w service \<Rightarrow> bool" where
  "service_inv E conf v \<longleftrightarrow>
     maxRetryAttempt (svc_state v) = attempts_of conf \<and> maxRetryGap (svc_state v) = gap_of conf \<and>
     MessagesEn (svc_state v) = messagesEn \<and>
     list_all (session_ok E conf) (svc_sessions v) \<and>
     fc_VPCConfig (vp_Config (svc_provider v)) = Some (configure conf) \<and>
     client_provider_of (svc_provider v) = DefaultRegionalAPIClientProvider \<and>
     cfg_BaseURL (vp_APIConfig (svc_provider v)) = vc_G2EndpointURL (configure conf)"

definition naps_inv :: "int \<Rightarrow> 'w service \<Rightarrow> bool" where
  "naps_inv B v \<longleftrightarrow> gap_in B (svc_state v) \<and> naps_in B (slept (svc_state v))"

lemma gap_of_pos: "0 < gap_of conf"
  by (simp add: gap_of_def)

lemma attempts_of_pos: "0 < attempts_of conf"
  by (simp add: attempts_of_def)

lemma NewProvider_slept: "NewProvider E fc s = (Ret r, s') \<Longrightarrow> slept s' = slept s"
  by (auto simp: NewProvider_def prov_run SetRetryParameters_def InitMessages_def
      split: option.splits sum.splits prod.splits)

lemma service_start:
  assumes "NewProvider E fc (init_gost w) = (Ret (fc', Inr p), s)" and "fc_VPCConfig fc = Some conf"
  shows "service_inv E conf \<lparr>svc_provider = p, svc_state = s, svc_sessions = []\<rparr>"
    and "10 \<le> B \<Longrightarrow> gap_of conf \<le> B \<Longrightarrow> naps_inv B \<lparr>svc_provider = p, svc_state = s, svc_sessions = []\<rparr>"
proof -
  from NewProvider_Inr [OF assms(1)] assms(2)
  have made: "maxRetryAttempt s = attempts_of conf" "maxRetryGap s = gap_of conf" "retryGap s = 10" "MessagesEn s = messagesEn"
    "fc_VPCConfig (vp_Config p) = Some (configure conf)" "vp_ClientProvider p = None"
    "vp_APIConfig p = apiConfig (configure conf)"
    by (auto simp: init_gost_def attempts_of_def gap_of_def)
  then show "service_inv E conf \<lparr>svc_provider = p, svc_state = s, svc_sessions = []\<rparr>"
    by (simp add: service_inv_def client_provider_of_def apiConfig_def)
  have "slept s = []"
    using NewProvider_slept [OF assms(1)] by (simp add: init_gost_def)
  with made show "10 \<le> B \<Longrightarrow> gap_of conf \<le> B \<Longrightarrow> naps_inv B \<lparr>svc_provider = p, svc_state = s, svc_sessions = []\<rparr>"
    using gap_of_pos [of conf] by (simp add: naps_inv_def gap_in_def naps_in_def)
qed

lemma opened_session_ok:
  assumes "cc_Credential creds \<noteq> []" and "client_provider_of q = DefaultRegionalAPIClientProvider"
    and "cfg_BaseURL (vp_APIConfig q) = vc_G2EndpointURL (configure conf)"
    and "maxRetryAttempt s = attempts_of conf" and "maxRetryGap s = gap_of conf"
  shows "session_ok E conf (opened_session E creds q s)"
  using assms
  by (auto simp: session_ok_def opened_session_def NewFlexyRetryDefault_def
      intro: exI [of _ "logged_in (vp_APIConfig q) (cc_Credential creds)"])

text \<open>Opening a session changes nothing of the package state, because the provider has configured it already.\<close>

lemma service_open:
  assumes "service_inv E conf v" and "OpenSession E ctx creds (svc_provider v) (svc_state v) = (Ret (r, p), s)"
  shows "service_inv E conf \<lparr>svc_provider = p, svc_state = s,
         svc_sessions = (case r of Inl e \<Rightarrow> svc_sessions v | Inr vs \<Rightarrow> vs # svc_sessions v)\<rparr>"
    and "s = svc_state v"
proof -
  note inv = assms(1) [unfolded service_inv_def]
  have cfg: "retry_configured (configure conf) (svc_state v) = svc_state v"
    using inv by (simp add: retry_configured_def updateRetryDefaults_def gbind_def gmodify_def attempts_of_def gap_of_def
        del: updateRetryDefaults_run)
  show "s = svc_state v"
    using assms(2) inv cfg
    by (cases "cc_Credential creds = []")
      (auto simp: OpenSession_no_credential OpenSession_run Let_def split: option.splits if_splits)
  show "service_inv E conf \<lparr>svc_provider = p, svc_state = s,
         svc_sessions = (case r of Inl e \<Rightarrow> svc_sessions v | Inr vs \<Rightarrow> vs # svc_sessions v)\<rparr>"
    using assms(2) inv cfg
    by (cases "cc_Credential creds = []")
      (auto simp: OpenSession_no_credential OpenSession_run Let_def service_inv_def opened_session_ok
        split: option.splits if_splits)
qed

lemma service_inv_step:
  assumes "service_inv E conf v" and "service_step E v v'"
  shows "service_inv E conf v'"
  using assms(2)
proof (cases rule: service_step.cases)
  case (serve_request vs q r s)
  have "same_config (svc_state v) s" by (rule serve_config [OF serve_request(3)])
  then show ?thesis
    using assms(1) serve_request(1) by (simp add: service_inv_def same_config_def)
next
  case (open_session ctx creds r p s)
  then show ?thesis using service_open(1) [OF assms(1)] by simp
next
  case (elsewhere w)
  then show ?thesis using assms(1) by (simp add: service_inv_def)
qed

lemma naps_inv_step:
  assumes "naps_inv B v" and "service_inv E conf v" and "service_step E v v'" and B: "10 \<le> B" "B \<le> 2 ^ 33" "gap_of conf \<le> B"
  shows "naps_inv B v'"
  using assms(3)
proof (cases rule: service_step.cases)
  case (serve_request vs q r s)
  have "session_ok E conf vs" using assms(2) serve_request(2) by (simp add: service_inv_def list_all_iff)
  then have "retry_in B (vs_APIRetry vs)" using B gap_of_pos [of conf] by (simp add: session_ok_def retry_in_def)
  then have "gap_step B (svc_state v) s" by (rule serve_gap [OF B(1,2) _ serve_request(3)])
  then show ?thesis
    using assms(1) serve_request(1) by (auto simp: naps_inv_def gap_step_def naps_in_def)
next
  case (open_session ctx creds r p s)
  with service_open(2) [OF assms(2) open_session(2)] show ?thesis using assms(1) by (simp add: naps_inv_def)
next
  case (elsewhere w)
  then show ?thesis using assms(1) by (simp add: naps_inv_def gap_in_def)
qed

lemma running_inv:
  assumes "running E fc v" and "fc_VPCConfig fc = Some conf"
  shows "service_inv E conf v"
  using assms(1) by (induction rule: running.induct) (blast intro: service_start [OF _ assms(2)] service_inv_step)+

lemma running_naps:
  assumes "running E fc v" and c: "fc_VPCConfig fc = Some conf" and B: "10 \<le> B" "gap_of conf \<le> B" "B \<le> 2 ^ 33"
  shows "naps_inv B v"
  using assms(1)
proof (induction rule: running.induct)
  case (started w fc' p s)
  then show ?case by (rule service_start(2) [OF _ c B(1,2)])
next
  case (stepped v v')
  then show ?case using naps_inv_step [OF _ running_inv [OF stepped(1) c] _ B(1,3,2)] by blast
qed

section \<open>Requests that cannot panic\<close>

text \<open>\<open>returns Q m\<close>: with at least one attempt configured, \<open>m\<close> returns a result with \<open>Q\<close>, and an attempt
  is still configured.\<close>

definition returns :: "('a \<Rightarrow> bool) \<Rightarrow> ('w gost, 'a) go \<Rightarrow> bool" where
  "returns Q m \<longleftrightarrow> hoare (\<lambda>s. 0 < maxRetryAttempt s) m
     (\<lambda>r s. 0 < maxRetryAttempt s \<and> (case r of Ret a \<Rightarrow> Q a | Panic p \<Rightarrow> False))"

lemma returnsI:
  "(\<And>s. 0 < maxRetryAttempt s \<Longrightarrow> \<exists>a s'. m s = (Ret a, s') \<and> 0 < maxRetryAttempt s' \<and> Q a) \<Longrightarrow> returns Q m"
  by (fastforce simp: returns_def hoare_def)

lemma returnsD:
  assumes "returns Q m" and "0 < maxRetryAttempt s"
  obtains a s' where "m s = (Ret a, s')" and "0 < maxRetryAttempt s'" and "Q a"
  using assms by (cases "m s"; cases "fst (m s)") (auto simp: returns_def hoare_def)

lemma returns_run:
  "returns Q m \<Longrightarrow> 0 < maxRetryAttempt s \<Longrightarrow> m s = (r, s') \<Longrightarrow>
     0 < maxRetryAttempt s' \<and> (\<exists>a. r = Ret a \<and> Q a)"
  by (erule (1) returnsD) auto

named_theorems returns_rules

lemma returns_gret [returns_rules]: "Q a \<Longrightarrow> returns Q (gret a)"
  by (rule returnsI) (simp add: gret_def)

lemma returns_gbind:
  fixes m :: "('w gost, 'a) go"
  assumes "returns P m" and "\<And>a. P a \<Longrightarrow> returns Q (f a)"
  shows "returns Q (gbind m f)"
proof (rule returnsI)
  fix s :: "'w gost" assume "0 < maxRetryAttempt s"
  from returnsD [OF assms(1) this] obtain a s1 where 1: "m s = (Ret a, s1)" "0 < maxRetryAttempt s1" "P a" .
  from returnsD [OF assms(2) [OF 1(3)] 1(2)] obtain b s2 where "f a s1 = (Ret b, s2)" "0 < maxRetryAttempt s2" "Q b" .
  with 1(1) show "\<exists>a s'. gbind m f s = (Ret a, s') \<and> 0 < maxRetryAttempt s' \<and> Q a"
    by (simp add: gbind_def)
qed

text \<open>Where nothing need be known of the first result.\<close>

abbreviation anything :: "'a \<Rightarrow> bool" where "anything \<equiv> \<lambda>_. True"

lemma returns_seq [returns_rules]:
  "returns anything m \<Longrightarrow> (\<And>a. returns Q (f a)) \<Longrightarrow> returns Q (gbind m f)"
  by (rule returns_gbind)

lemma returns_anything: "returns Q m \<Longrightarrow> returns anything m"
  by (rule returnsI) (metis returnsD)

lemma returns_gget [returns_rules]: "returns anything gget"
  by (rule returnsI) (simp add: gget_def)

lemma returns_deref: "p \<noteq> None \<Longrightarrow> returns anything (deref p)"
  by (rule returnsI) (auto simp: deref_def gret_def)

lemma returns_user_error [returns_rules]: "returns anything (user_error X code err args)"
  by (rule returnsI) (simp add: user_error_run)

lemma same_attempts: "0 < maxRetryAttempt s \<Longrightarrow> same_config s s' \<Longrightarrow> 0 < maxRetryAttempt s'"
  by (simp add: same_config_def)

lemma returns_retry [returns_rules]: "returns anything (retry f c0)"
  by (rule returnsI) (metis retry_returns prod.exhaust retry_config same_attempts)

text \<open>After a call that answers a result or an error, the retried call does.\<close>

lemma returns_retried_call:
  fixes m :: "('w, 'a result) api"
  assumes "fallible_call m"
  shows "returns (\<lambda>(e, a). a = None \<longleftrightarrow> e \<noteq> None) (retry (capture m) None)"
proof (rule returnsI)
  fix s :: "'w gost" assume pos: "0 < maxRetryAttempt s"
  obtain e a s' where r: "retry (capture m) None s = (Ret (e, a), s')" by (rule retry_cases)
  from fallible_call.retried_result [OF assms r pos] retry_config [OF r] pos r
  show "\<exists>r s'. retry (capture m) None s = (Ret r, s') \<and> 0 < maxRetryAttempt s' \<and>
      (case r of (e, a) \<Rightarrow> (a = None) = (e \<noteq> None))"
    by (auto intro: same_attempts)
qed

lemma returns_minRetries [returns_rules]:
  fixes f :: "'w \<Rightarrow> (goerror option \<times> 'c) \<times> 'w"
  shows "returns anything (retryWithMinRetries f c0)"
proof (rule returnsI)
  fix s :: "'w gost" assume pos: "0 < maxRetryAttempt s"
  obtain a s' where r: "retryWithMinRetries f c0 s = (Ret a, s')"
    by (simp add: retryWithMinRetries_eq_run)
  with preservesD [OF preserves_retryWithMinRetries r] pos
  show "\<exists>a s'. retryWithMinRetries f c0 s = (Ret a, s') \<and> 0 < maxRetryAttempt s' \<and> True"
    by (auto intro: same_attempts)
qed

lemma returns_Wait [returns_rules]: "returns anything (WaitForValidVolumeState X vpcs vid)"
  by (rule returnsI) (metis Wait_Ret preservesD [OF preserves_Wait] same_attempts)

lemma returns_split [returns_rules]:
  "(\<And>a. x = Some a \<Longrightarrow> returns Q (f a)) \<Longrightarrow> (x = None \<Longrightarrow> returns Q m) \<Longrightarrow>
     returns Q (case x of Some a \<Rightarrow> f a | None \<Rightarrow> m)"
  "(\<And>a b. y = (a, b) \<Longrightarrow> returns Q (g a b)) \<Longrightarrow> returns Q (case y of (a, b) \<Rightarrow> g a b)"
  "(c \<Longrightarrow> returns Q k) \<Longrightarrow> (\<not> c \<Longrightarrow> returns Q l) \<Longrightarrow> returns Q (if c then k else l)"
  by (auto split: option.split prod.split)

lemma FromProviderToLibVolume_eq_None [simp]: "FromProviderToLibVolume a = None \<longleftrightarrow> a = None"
proof (cases a)
  case None
  then show ?thesis by (simp add: FromProviderToLibVolume_def)
next
  case (Some x)
  then show ?thesis using FromProviderToLibVolume_Some [of x] by auto
qed

lemma GetVolume_returns:
  assumes "fallible_call (fs_GetFileShare (FileShareService vpcs) vid)"
  shows "returns (\<lambda>(v, e). v = None \<longleftrightarrow> e \<noteq> None) (GetVolume X vpcs vid)"
  unfolding GetVolume_def
  by (intro returns_seq [OF returns_gget] returns_split returns_gret
      returns_gbind [OF returns_retried_call [OF assms]] returns_seq [OF returns_user_error]) auto

lemma ExpandVolume_returns:
  assumes "fallible_call (fs_GetFileShare (FileShareService vpcs) (evr_VolumeID q))"
    and "\<And>t. fallible_call (fs_ExpandVolume (FileShareService vpcs) (evr_VolumeID q) t)"
  shows "returns anything (ExpandVolume X vpcs q)"
  unfolding ExpandVolume_def Let_def
  by (intro returns_gbind [OF GetVolume_returns [OF assms(1)]] returns_gbind [OF returns_retried_call [OF assms(2)]]
      returns_seq [OF returns_deref] returns_rules) auto

lemma splitAcc_Contains: "Contains s sep \<Longrightarrow> sep \<noteq> [] \<Longrightarrow> 1 < length (splitAcc sep acc s)"
proof (induction sep acc s rule: splitAcc.induct)
  case (2 sep acc c cs)
  then show ?case by (cases "prefix sep (c # cs)") (auto simp: length_greater_0_conv)
qed simp

lemma next_token_returns [returns_rules]: "returns anything (next_token href)"
  using splitAcc_Contains [of href "''start=''" "[]"]
  by (intro returnsI) (simp add: next_token_def op_run Split_def)

lemma ListVolumes_returns [returns_rules]: "returns anything (ListVolumes X vpcs limit start tags)"
  unfolding ListVolumes_def Let_def by (intro returns_rules TrueI)

lemma ListSnapshots_returns [returns_rules]: "returns anything (ListSnapshots X vpcs limit start tags)"
  unfolding ListSnapshots_def Let_def by (intro returns_rules TrueI)

lemma simple_returns [returns_rules]:
  "returns anything (UpdateVolume X vpcs v)" "returns anything (GetVolumeByName X vpcs name)"
  "returns anything (CreateSnapshot X vpcs vid ps)"
  unfolding UpdateVolume_def GetVolumeByName_def CreateSnapshot_def Let_def by (intro returns_rules TrueI)+

lemma GetSnapshot_returns [returns_rules]: "returns anything (GetSnapshot X vpcs sid vids)"
  "returns anything (GetSnapshotByName X vpcs sid vids)"
  by (cases vids; auto simp: GetSnapshot_def GetSnapshotByName_def intro!: returns_rules)+

lemma CreateVolume_returns:
  assumes "\<And>t. fallible_call (fs_CreateFileShare (FileShareService vpcs) t)"
  shows "returns anything (CreateVolume X vpcs q)"
proof (rule returnsI)
  fix s :: "'a gost" assume pos: "0 < maxRetryAttempt s"
  obtain r s' where run: "CreateVolume X vpcs q s = (r, s')" by (cases "CreateVolume X vpcs q s")
  have "\<exists>r. fst (CreateVolume X vpcs q s) = Ret r"
    using CreateVolume_no_panic [of vpcs s X q] pos fallible_call.result_or_error [OF assms] by blast
  with run preservesD [OF config_state.CreateVolume run] pos
  show "\<exists>a s'. CreateVolume X vpcs q s = (Ret a, s') \<and> 0 < maxRetryAttempt s' \<and> True"
    by (auto intro: same_attempts)
qed

lemma GetVolumeProfile_returns [returns_rules]: "returns anything (GetVolumeProfileByName vpcs n)"
  by (rule returnsI) (auto simp: GetVolumeProfileByName_def op_run call_api_def split: prod.split)

section \<open>Access points named by their ID\<close>

lemma gap_blind_attempts: "gap_blind (\<lambda>s. 0 < maxRetryAttempt s)"
  by (simp add: gap_blind_def sleep_seconds_def)

lemma returns_FlexyRetry:
  fixes f :: "('w gost, (goerror option \<times> bool) \<times> 'c) go"
  assumes f: "returns (\<lambda>((e, st), c). Q (e, c)) f" and pos: "0 < fr_maxRetryAttempt fr"
  shows "returns Q (FlexyRetry fr f c0)"
proof (rule returnsI)
  fix s :: "'w gost" assume s: "0 < maxRetryAttempt s"
  obtain out s' where run: "flexy_run fr f (None, c0) s = (out, s')" by (cases "flexy_run fr f (None, c0) s")
  have each: "0 < maxRetryAttempt t' \<and> (\<exists>e st c. a = Ret ((e, st), c) \<and> Q (e, c))"
    if "0 < maxRetryAttempt t" "f t = (a, t')" for t a t'
    using returns_run [OF f that] by auto
  from flexy.attempts [OF run s gap_blind_attempts, where J = "\<lambda>a _. \<exists>e st c. a = Ret ((e, st), c) \<and> Q (e, c)"] each pos
  have "0 < maxRetryAttempt s' \<and> (\<exists>r. out = Ret r \<and> Q r)" by fastforce
  with run show "\<exists>a s'. FlexyRetry fr f c0 s = (Ret a, s') \<and> 0 < maxRetryAttempt s' \<and> Q a"
    by (auto simp: FlexyRetry_eq_run)
qed

lemma returns_ConstGap:
  fixes f :: "('w gost, (goerror option \<times> bool) \<times> 'c) go"
  assumes f: "returns anything f"
  shows "returns anything (FlexyRetryWithConstGap fr f c0)"
proof (rule returnsI)
  fix s :: "'w gost" assume s: "0 < maxRetryAttempt s"
  obtain out s' where run: "constGap_run fr f (None, c0) s = (out, s')" by (cases "constGap_run fr f (None, c0) s")
  have each: "0 < maxRetryAttempt t' \<and> (\<exists>e st c. a = Ret ((e, st), c))"
    if "0 < maxRetryAttempt t" "f t = (a, t')" for t a t'
    using returns_run [OF f that] by auto
  from constGap.attempts [OF run s gap_blind_attempts, where J = "\<lambda>a _. \<exists>e st c. a = Ret ((e, st), c)"] each
  have "0 < maxRetryAttempt s' \<and> (\<exists>r. out = Ret r)" by fastforce
  with run show "\<exists>a s'. FlexyRetryWithConstGap fr f c0 s = (Ret a, s') \<and> 0 < maxRetryAttempt s' \<and> True"
    by (auto simp: FlexyRetryWithConstGap_eq_run)
qed

lemma returns_call:
  "fallible_call m \<Longrightarrow> returns (\<lambda>(a, e). a = None \<longleftrightarrow> e \<noteq> None) (call_api m)"
  by (rule returnsI) (auto simp: call_api_def dest: fallible_call.result_or_error split: prod.splits)

lemma returns_flexy_call:
  "fallible_call m \<Longrightarrow> returns (\<lambda>((e, st), a). a = None \<longleftrightarrow> e \<noteq> None) (flexy_call m stop)"
  unfolding flexy_call_def by (intro returns_gbind [OF returns_call]) (auto intro: returns_gret)

lemma returns_any_call [returns_rules]: "returns anything (call_api m)"
  by (rule returnsI) (simp add: call_api_def split: prod.split)

text \<open>A session whose calls for share targets keep their contract.\<close>

definition target_calls :: "'w VPCSession \<Rightarrow> bool" where
  "target_calls vs \<longleftrightarrow> 0 < fr_maxRetryAttempt (vs_APIRetry vs) \<and>
     (\<forall>vid t. fallible_call (fs_GetFileShareTarget (FileShareService vs) vid t)) \<and>
     (\<forall>t. fallible_call (fs_CreateFileShareTarget (FileShareService vs) t))"

lemma NewShareTarget_ID [simp]: "st_ID (NewShareTarget q) = vapq_AccessPointID q"
  by (simp add: NewShareTarget_def Let_def)

lemma GetVolumeAccessPoint_returns:
  assumes "target_calls vs" and "vapq_AccessPointID q \<noteq> []"
  shows "returns (\<lambda>(a, e). a = None \<longleftrightarrow> e \<noteq> None) (GetVolumeAccessPoint X vs q)"
proof -
  have "returns (\<lambda>(e, a). a = None \<longleftrightarrow> e \<noteq> None) (FlexyRetry (vs_APIRetry vs)
      (flexy_call (fs_GetFileShareTarget (FileShareService vs) vid t) get_stop) None)" for vid t
  proof (rule returns_FlexyRetry)
    have "fallible_call (fs_GetFileShareTarget (FileShareService vs) vid t)"
      using assms(1) by (simp add: target_calls_def)
    from returns_flexy_call [OF this]
    show "returns (\<lambda>((e, st), a). case (e, a) of (e, a) \<Rightarrow> (a = None) = (e \<noteq> None))
      (flexy_call (fs_GetFileShareTarget (FileShareService vs) vid t) get_stop)" by simp
  qed (use assms(1) in \<open>simp add: target_calls_def\<close>)
  note get = returns_gbind [OF this]
  show ?thesis
    using assms(2)
    unfolding GetVolumeAccessPoint_def getVolumeAccessPointByID_def Let_def
    by (intro returns_seq [OF returns_gget] returns_split get returns_gret returns_seq [OF returns_user_error]
        returns_seq [OF returns_deref]) auto
qed

lemma access_point_returns:
  assumes "target_calls vs" and "vapq_AccessPointID q \<noteq> []"
  shows "returns anything (CreateVolumeAccessPoint X vs q)" and "returns anything (DeleteVolumeAccessPoint X vs q)"
    and "returns anything (WaitForCreateVolumeAccessPoint X vs q)"
    and "returns anything (WaitForDeleteVolumeAccessPoint X vs q)"
proof -
  note get = GetVolumeAccessPoint_returns [OF assms]
  note pos = assms(1) [unfolded target_calls_def, THEN conjunct1]
  have "returns (\<lambda>((e, st), a). a = None \<longrightarrow> e \<noteq> None) (createAccessPoint_attempt X vs q)"
    unfolding createAccessPoint_attempt_def
    by (intro returns_gbind [OF get] returns_gbind [OF returns_call] returns_split returns_gret
        returns_seq [OF returns_deref]) (use assms(1) in \<open>auto simp: target_calls_def\<close>)
  from returns_FlexyRetry [where Q = "\<lambda>(e, a). a = None \<longrightarrow> e \<noteq> None", OF _ pos] this
  have "returns (\<lambda>(e, a). a = None \<longrightarrow> e \<noteq> None) (FlexyRetry (vs_APIRetry vs) (createAccessPoint_attempt X vs q) None)"
    by simp
  note create = returns_gbind [OF this]
  show "returns anything (CreateVolumeAccessPoint X vs q)"
    unfolding CreateVolumeAccessPoint_def
    by (intro returns_seq [OF returns_gget] returns_split create returns_gret returns_seq [OF returns_user_error]
        returns_seq [OF returns_deref]) auto
  have "returns anything (deleteAccessPoint_attempt X vs q)"
    unfolding deleteAccessPoint_attempt_def
    by (intro returns_seq [OF returns_anything [OF get]] returns_rules TrueI)
  then have "returns anything (FlexyRetry (vs_APIRetry vs) (deleteAccessPoint_attempt X vs q) None)"
    by (intro returns_FlexyRetry pos) (simp add: case_prod_unfold)
  then show "returns anything (DeleteVolumeAccessPoint X vs q)"
    unfolding DeleteVolumeAccessPoint_def by (intro returns_seq returns_rules TrueI)
  have waits: "returns anything (waitCreate_attempt X vs q)" "returns anything (waitDelete_attempt X vs q)"
    unfolding waitCreate_attempt_def waitDelete_attempt_def
    by (intro returns_seq [OF returns_anything [OF get]] returns_rules TrueI)+
  note waits = waits [THEN returns_ConstGap, THEN returns_seq]
  show "returns anything (WaitForCreateVolumeAccessPoint X vs q)"
    "returns anything (WaitForDeleteVolumeAccessPoint X vs q)"
    unfolding WaitForCreateVolumeAccessPoint_def WaitForDeleteVolumeAccessPoint_def
    by (intro waits returns_rules TrueI)+
qed

text \<open>The calls of an open session answer a result or an error, whatever the transport does.\<close>

lemma session_calls:
  assumes "session_ok E conf vs"
  shows "fallible_call (fs_CreateFileShare (FileShareService vs) t)"
    and "fallible_call (fs_GetFileShare (FileShareService vs) vid)"
    and "fallible_call (fs_ExpandVolume (FileShareService vs) vid t)"
proof -
  obtain client where c: "vs_Apiclient vs = ClientAPI E DefaultRegionalAPIClientProvider client"
    using assms by (auto simp: session_ok_def)
  show "fallible_call (fs_CreateFileShare (FileShareService vs) t)"
    "fallible_call (fs_GetFileShare (FileShareService vs) vid)"
    "fallible_call (fs_ExpandVolume (FileShareService vs) vid t)"
    by (simp_all add: c ClientAPI_def SessionAPI_def NewFileShareService_def create_share.fallible_call_axioms
        get_share.fallible_call_axioms expand_share.fallible_call_axioms)
qed

lemma session_target_calls: "session_ok E conf vs \<Longrightarrow> target_calls vs"
  by (auto simp: session_ok_def target_calls_def attempts_of_pos ClientAPI_def SessionAPI_def NewFileShareService_def
      create_target.fallible_call_axioms get_target.fallible_call_axioms)

text \<open>The requests that meet no panic, whatever the backend answers.  The deletion waits assert the type of an error,
  the lookup of an access point by its VPC dereferences the items of a list, and the page lookups
  dereference the resource group of the request.\<close>

fun panic_free :: "request \<Rightarrow> bool" where
  "panic_free (DeleteVolumeReq v) = False"
| "panic_free (DeleteSnapshotReq sn) = False"
| "panic_free (CreateVolumeAccessPointReq q) = (vapq_AccessPointID q \<noteq> [])"
| "panic_free (GetVolumeAccessPointReq q) = (vapq_AccessPointID q \<noteq> [])"
| "panic_free (DeleteVolumeAccessPointReq q) = (vapq_AccessPointID q \<noteq> [])"
| "panic_free (WaitForCreateReq q) = (vapq_AccessPointID q \<noteq> [])"
| "panic_free (WaitForDeleteReq q) = (vapq_AccessPointID q \<noteq> [])"
| "panic_free (SubnetReq n q) = (snq_ResourceGroup q \<noteq> None)"
| "panic_free (SecurityGroupReq n q) = (sgq_ResourceGroup q \<noteq> None)"
| "panic_free _ = True"

text \<open>The requests that come to an end: a page lookup, if the links of its listing lead forward and it may take a
  round for each page.  Nothing in the code bounds its rounds otherwise.\<close>

fun ends :: "'w VPCSession \<Rightarrow> request \<Rightarrow> bool" where
  "ends vs (SubnetReq n q) =
     (\<forall>rg. snq_ResourceGroup q = Some rg \<longrightarrow> (\<exists>rank. leads_forward (subnet_pages vs q rg) subl_Next rank \<and> rank [] < n))"
| "ends vs (SecurityGroupReq n q) =
     (\<forall>rg. sgq_ResourceGroup q = Some rg \<longrightarrow> (\<exists>rank. leads_forward (group_pages vs q rg) sgl_Next rank \<and> rank [] < n))"
| "ends vs _ = True"

lemma lookups_return:
  "snq_ResourceGroup q \<noteq> None \<Longrightarrow> ends vpcs (SubnetReq n q) \<Longrightarrow>
     returns (\<lambda>r. r \<noteq> None) (GetSubnetForVolumeAccessPoint n X vpcs q)"
  "sgq_ResourceGroup g \<noteq> None \<Longrightarrow> ends vpcs (SecurityGroupReq n g) \<Longrightarrow>
     returns (\<lambda>r. r \<noteq> None) (GetSecurityGroupForVolumeAccessPoint n X vpcs g)"
proof -
  assume "snq_ResourceGroup q \<noteq> None" and "ends vpcs (SubnetReq n q)"
  then obtain rg rank where rg: "snq_ResourceGroup q = Some rg"
    and fwd: "leads_forward (subnet_pages vpcs q rg) subl_Next rank" "rank [] < n" by auto
  show "returns (\<lambda>r. r \<noteq> None) (GetSubnetForVolumeAccessPoint n X vpcs q)"
    using subnet_lookup_ends [OF rg fwd, of X] by (intro returnsI) fastforce
next
  assume "sgq_ResourceGroup g \<noteq> None" and "ends vpcs (SecurityGroupReq n g)"
  then obtain rg rank where rg: "sgq_ResourceGroup g = Some rg"
    and fwd: "leads_forward (group_pages vpcs g rg) sgl_Next rank" "rank [] < n" by auto
  show "returns (\<lambda>r. r \<noteq> None) (GetSecurityGroupForVolumeAccessPoint n X vpcs g)"
    using security_group_lookup_terminates [OF rg fwd, of X] by (intro returnsI) fastforce
qed

lemma serve_returns:
  assumes "session_ok E conf vs" and "panic_free q" and "ends vs q"
  shows "returns (\<lambda>r. r = Some ()) (serve X vs q)"
proof -
  note calls = session_calls [OF assms(1)]
  note targets = session_target_calls [OF assms(1)]
  have run: "returns (\<lambda>r. r = Some ()) (run_only m)" if "returns anything m" for m :: "('a gost, 'b) go"
    unfolding run_only_def by (intro returns_seq [OF that] returns_gret refl)
  have lookup: "returns (\<lambda>r. r = Some ()) (run_lookup m)" if "returns (\<lambda>r. r \<noteq> None) m" for m :: "('a gost, 'b option) go"
    unfolding run_lookup_def by (rule returns_gbind [OF that]) (auto intro: returns_gret)
  show ?thesis
    using assms(2,3)
    by (cases q) (auto simp del: ends.simps(1,2) intro!: run lookup returns_rules CreateVolume_returns
        returns_anything [OF GetVolume_returns] ExpandVolume_returns calls lookups_return
        returns_anything [OF GetVolumeAccessPoint_returns [OF targets]] access_point_returns [OF targets])
qed

section \<open>The running service\<close>

text \<open>C1: In every state a service can reach, whatever sessions were opened, whatever requests were served
  (panics included) and whatever else happened to the backend: the retry parameters are the
  configured ones, the catalogue is loaded, the shared gap and every sleep are positive and at
  most \<open>B\<close> seconds, where \<open>B\<close> is any bound on the configured gap and the initial 10 seconds; and every open
  session retries as configured and is logged in with its own credential.\<close>

theorem service_invariant:
  assumes "running E fc v" and "fc_VPCConfig fc = Some conf"
    and "10 \<le> B" and "gap_of conf \<le> B" and "B \<le> 2 ^ 33"
  shows "maxRetryAttempt (svc_state v) = attempts_of conf \<and> maxRetryGap (svc_state v) = gap_of conf \<and>
    MessagesEn (svc_state v) = messagesEn \<and>
    0 < retryGap (svc_state v) \<and> retryGap (svc_state v) \<le> B \<and>
    list_all (\<lambda>d. 0 < d \<and> d \<le> B * 1000000000) (slept (svc_state v)) \<and>
    list_all (\<lambda>vs. vs_APIRetry vs = \<lparr>fr_maxRetryAttempt = attempts_of conf, fr_maxRetryGap = gap_of conf\<rparr> \<and>
      (\<exists>client. vs_Apiclient vs = ClientAPI E DefaultRegionalAPIClientProvider client \<and>
         ah_authToken (cl_authenHandler (ses_client client)) = cc_Credential (vs_ContextCredentials vs)))
      (svc_sessions v)"
  using running_inv [OF assms(1,2)] running_naps [OF assms]
  by (auto simp: service_inv_def naps_inv_def gap_in_def naps_in_def session_ok_def list_all_iff)

text \<open>C2: Requests come back: in every state a service can reach, every request of an open session returns,
  without a panic, for any answers of the backend, except those that \<open>panic_free\<close> excludes; the two page
  lookups, whose loops have no bound of their own, if the links of the listing lead forward (\<open>ends\<close>).\<close>

theorem requests_return:
  assumes "running E fc v" and "fc_VPCConfig fc = Some conf"
    and "vs \<in> set (svc_sessions v)" and "panic_free q" and "ends vs q"
  shows "\<exists>s. serve X vs q (svc_state v) = (Ret (Some ()), s)"
proof -
  note inv = running_inv [OF assms(1,2), unfolded service_inv_def]
  then have "session_ok E conf vs" using assms(3) by (simp add: list_all_iff)
  from serve_returns [OF this assms(4,5), of X] show ?thesis
    by (rule returnsD) (use inv attempts_of_pos in auto)
qed

text \<open>A service with one session.\<close>

definition sampleService :: "nat service" where
  "sampleService = \<lparr>svc_provider = prepareClient \<lparr>sc_DebugTrace = False\<rparr> None sampleProvider, svc_state = madeState,
     svc_sessions = [opened_session sampleEnv sampleCreds (prepareClient \<lparr>sc_DebugTrace = False\<rparr> None sampleProvider) madeState]\<rparr>"

lemma sampleService_running: "running sampleEnv sampleFileConfig sampleService"
  using service_step.open_session [of sampleEnv None sampleCreds
      "\<lparr>svc_provider = sampleProvider, svc_state = madeState, svc_sessions = []\<rparr>"]
    running.started [OF NewProvider_sample]
  by (auto simp: OpenSession_sample sampleService_def intro: running.stepped)

lemma sampleFileConfig_VPC: "fc_VPCConfig sampleFileConfig = Some sampleVPCConfig"
  by (simp add: sampleFileConfig_def)

lemma service_invariant_witness:
  "retryGap (svc_state sampleService) \<le> 20 \<and> maxRetryAttempt (svc_state sampleService) = 3"
  using service_invariant [OF sampleService_running sampleFileConfig_VPC, of 20]
  by (simp add: gap_of_def attempts_of_def sampleVPCConfig_def)

text \<open>Its backend answers every request with an empty page.\<close>

lemma sampleEnv_receives:
  assumes "Invoke (env_transport sampleEnv) C success receiver errs r w = (iv, w')"
  shows "iv_Success iv = receiver"
  using assms unfolding Invoke_def Let_def
  by (simp add: sampleEnv_def receive_def answer_def split: prod.splits option.splits sum.splits) auto

lemma sampleEnv_lists:
  assumes "ListSubnets (env_transport sampleEnv) C client l start f w = ((Some page, None), w')"
  shows "subl_Next page = None"
proof -
  obtain r where "pointer_or_error (Invoke (env_transport sampleEnv) C (Some (dec_SubnetList C)) zeroSubnetList (Some apiErr) r) w
      = ((Some page, None), w')"
    using assms unfolding ListSubnets_def Let_def by blast
  then have "page = zeroSubnetList"
    by (auto simp: pointer_or_error_def dest: sampleEnv_receives split: prod.splits option.splits)
  then show ?thesis by (simp add: zeroSubnetList_def)
qed

lemma requests_return_witness:
  "\<exists>s. serve sampleExt (hd (svc_sessions sampleService)) (SubnetReq 1 sampleSubnetRequest) (svc_state sampleService) = (Ret (Some ()), s)"
proof (rule requests_return [OF sampleService_running sampleFileConfig_VPC])
  let ?vs = "hd (svc_sessions sampleService)"
  have "session_ok sampleEnv sampleVPCConfig ?vs"
    using running_inv [OF sampleService_running sampleFileConfig_VPC] by (simp add: service_inv_def sampleService_def)
  then obtain client where "vs_Apiclient ?vs = ClientAPI sampleEnv DefaultRegionalAPIClientProvider client"
    by (auto simp: session_ok_def)
  then have "fs_ListSubnets (FileShareService ?vs) = ListSubnets (env_transport sampleEnv) (env_codec sampleEnv) (ses_client client)"
    by (simp add: ClientAPI_def SessionAPI_def NewFileShareService_def)
  then have "leads_forward (subnet_pages ?vs sampleSubnetRequest rg) subl_Next (\<lambda>_. 0)" for rg
    unfolding leads_forward_def by (auto dest: sampleEnv_lists)
  then have "\<exists>rank. leads_forward (subnet_pages ?vs sampleSubnetRequest rg) subl_Next rank \<and> rank [] < 1" for rg
    by (intro exI [of _ "\<lambda>_. 0"]) simp
  then show "ends ?vs (SubnetReq 1 sampleSubnetRequest)" by (simp only: ends.simps) blast
qed (simp_all add: sampleService_def)

end
