(* ===== verification/AccessPointLaws.thy ===== *)
theory AccessPointLaws
  imports AccessPoints Samples
begin

text \<open>
  The properties of the access point operations.
\<close>

lemmas ap_run = gbind_def gget_def gret_def gpanic_def deref_def user_error_run

section \<open>Retried API calls\<close>

lemma flexy_call_eq: "flexy_call m stop s =
    (case m (world s) of ((a, e), w) \<Rightarrow> (Ret ((e, stop a e), a), s\<lparr>world := w\<rparr>))"
  by (simp add: flexy_call_def ap_run call_api_def split: prod.split)

lemma preserves_flexy_call [pres_rules]: "preserves same_config (flexy_call m stop)"
  by (rule preservesI) (auto simp: flexy_call_eq split: prod.splits)

lemma flexy_call_last:
  assumes "FlexyRetry fr (flexy_call m stop) None s = (out, s')" and "0 < fr_maxRetryAttempt fr"
  obtains e a w where "out = Ret (e, a)" and "m w = ((a, e), world s')"
proof -
  let ?J = "\<lambda>r w'. \<exists>a e w. r = Ret ((e, stop a e), a) \<and> m w = ((a, e), w')"
  have "True \<and> ?J r (world t')" if "flexy_call m stop t = (r, t')" for r t t'
    using that by (auto simp: flexy_call_eq split: prod.splits)
  note step = this
  from assms(1) have run: "flexy_run fr (flexy_call m stop) (None, None) s = (out, s')"
    by (simp add: FlexyRetry_eq_run)
  obtain r where "?J r (world s')" and "out = attempt_out r"
    by (rule flexy.outcome_from_attempt [of fr, OF _ run, of "\<lambda>_. True" ?J])
      (use assms(2) step in auto)
  with that show ?thesis by auto
qed

lemma flexy_call_first:
  assumes "m (world s) = ((a, e), w)" and "stop a e" and "0 < fr_maxRetryAttempt fr"
  shows "FlexyRetry fr (flexy_call m stop) None s = (Ret (e, a), s\<lparr>world := w\<rparr>)"
proof -
  have "flexy_call m stop s = (Ret ((e, True), a), s\<lparr>world := w\<rparr>)"
    using assms(1,2) by (simp add: flexy_call_eq)
  with flexy.first_stop [of fr "flexy_call m stop" s] assms(3) show ?thesis
    by (simp add: FlexyRetry_eq_run)
qed

section \<open>What the operations keep of the state\<close>

lemma find_vpc_target_run:
  "find_vpc_target vid items s =
    (if list_all (\<lambda>i. i \<noteq> None) (takeWhile (\<lambda>i. case i of None \<Rightarrow> True | Some t \<Rightarrow>
        \<not> (case st_VPC t of None \<Rightarrow> False | Some v \<Rightarrow> lvpc_ID v = vid)) items)
     then Ret (List.find (\<lambda>t. case st_VPC t of None \<Rightarrow> False | Some v \<Rightarrow> lvpc_ID v = vid)
        (List.map_filter id items))
     else Panic NilDeref, s)"
  by (induction vid items rule: find_vpc_target.induct)
    (auto simp: ap_run List.map_filter_simps split: option.splits)

lemma preserves_find_vpc_target [pres_rules]: "preserves same_config (find_vpc_target vid items)"
  by (rule preservesI) (simp add: find_vpc_target_run split: if_splits)

lemma preserves_ByID [pres_rules]: "preserves same_config (getVolumeAccessPointByID X vpcs q)"
  unfolding getVolumeAccessPointByID_def by (intro pres_rules) simp_all

lemma preserves_ByVPCID [pres_rules]: "preserves same_config (getVolumeAccessPointByVPCID X vpcs q)"
  unfolding getVolumeAccessPointByVPCID_def by (intro pres_rules) simp_all

lemma preserves_GetVolumeAccessPoint [pres_rules]: "preserves same_config (GetVolumeAccessPoint X vpcs q)"
  unfolding GetVolumeAccessPoint_def Let_def by (intro pres_rules) simp_all

section \<open>Creation\<close>

lemma validate_ok_iff:
  "validateVolumeAccessPointRequest X en q = None \<longleftrightarrow>
     vapq_VolumeID q \<noteq> [] \<and> (vapq_VPCID q \<noteq> [] \<or> vapq_SubnetID q \<noteq> [] \<or> vapq_AccessPointID q \<noteq> [])"
  by (simp add: validateVolumeAccessPointRequest_def)

text \<open>C23: Creating an access point is idempotent: when the volume already has the requested access point
  (its lookup succeeds), \<open>CreateVolumeAccessPoint\<close> returns that one, under the requested volume
  ID, and after the lookup it calls nothing, so no second target is created.\<close>

theorem CreateVolumeAccessPoint_idempotent:
  assumes "validateVolumeAccessPointRequest X (MessagesEn s) q = None"
    and "0 < fr_maxRetryAttempt (vs_APIRetry vpcs)"
    and "GetVolumeAccessPoint X vpcs q s = (Ret (Some r, None), s1)"
  shows "CreateVolumeAccessPoint X vpcs q s =
    (Ret (Some (r\<lparr>vapr_VolumeID := vapq_VolumeID q\<rparr>), None), s1)"
proof -
  have "createAccessPoint_attempt X vpcs q s = (Ret ((None, True), Some r), s1)"
    using assms(3) by (simp add: createAccessPoint_attempt_def ap_run)
  from flexy.first_stop [where f = "createAccessPoint_attempt X vpcs q", OF _ this] assms(1,2)
  show ?thesis by (simp add: CreateVolumeAccessPoint_def FlexyRetry_eq_run ap_run)
qed

definition sampleAccessRequest :: VolumeAccessPointRequest where
  "sampleAccessRequest =
     \<lparr>vapq_AccessPointName = ''ap'', vapq_VolumeID = ''v1'', vapq_AccessPointID = [], vapq_VPCID = ''vpc1'',
      vapq_SubnetID = [], vapq_AccessControlMode = [], vapq_SecurityGroups = None, vapq_PrimaryIP = None,
      vapq_ResourceGroup = None\<rparr>"

definition sampleTarget :: ShareTarget where
  "sampleTarget = zeroShareTarget\<lparr>st_ID := ''t1'', st_Status := ''stable'',
     st_VPC := Some \<lparr>lvpc_ID = ''vpc1'', lvpc_Href = []\<rparr>\<rparr>"

lemma sample_sel [simp]:
  "vapq_VolumeID sampleAccessRequest = ''v1''" "vapq_AccessPointID sampleAccessRequest = []"
  "vapq_VPCID sampleAccessRequest = ''vpc1''" "st_VPC sampleTarget = Some \<lparr>lvpc_ID = ''vpc1'', lvpc_Href = []\<rparr>"
  by (simp_all add: sampleAccessRequest_def sampleTarget_def)

definition listingSession :: "'w VPCSession" where
  "listingSession = fileSession ((refusing (api_error ''internal_error''))
     \<lparr>fs_ListFileShareTargets := \<lambda>_ _ w.
        ((Some (zeroShareTargetList\<lparr>stl_ShareTargets := [Some sampleTarget]\<rparr>), None), w)\<rparr>)"

lemma listingSession_retry [simp]: "vs_APIRetry listingSession = \<lparr>fr_maxRetryAttempt = 2, fr_maxRetryGap = 60\<rparr>"
  by (simp add: listingSession_def)

lemma sampleAccessRequest_ok: "validateVolumeAccessPointRequest X en sampleAccessRequest = None"
  by (simp add: validate_ok_iff sampleAccessRequest_def)

lemma listingSession_get:
  "GetVolumeAccessPoint X listingSession sampleAccessRequest s =
    (Ret (Some ((ToVolumeAccessPointResponse sampleTarget)\<lparr>vapr_VolumeID := ''v1''\<rparr>), None), s)"
proof -
  let ?l = "zeroShareTargetList\<lparr>stl_ShareTargets := [Some sampleTarget]\<rparr>"
  have "FlexyRetry (vs_APIRetry listingSession)
      (flexy_call (fs_ListFileShareTargets (FileShareService listingSession) ''v1'' None) list_stop) None s
    = (Ret (None, Some ?l), s)"
    by (subst flexy_call_first [where a = "Some ?l" and e = None and w = "world s"])
      (simp_all add: listingSession_def list_stop_def)
  then show ?thesis
    by (simp add: GetVolumeAccessPoint_def getVolumeAccessPointByVPCID_def ap_run Let_def sampleAccessRequest_ok)
qed

lemma CreateVolumeAccessPoint_idempotent_witness:
  "CreateVolumeAccessPoint sampleExt listingSession sampleAccessRequest (init_gost (0::nat)) =
    (Ret (Some ((ToVolumeAccessPointResponse sampleTarget)\<lparr>vapr_VolumeID := ''v1''\<rparr>), None), init_gost 0)"
  using CreateVolumeAccessPoint_idempotent [OF sampleAccessRequest_ok _ listingSession_get,
      of sampleExt "init_gost (0::nat)"]
  by (simp add: listingSession_retry sampleAccessRequest_def)

text \<open>The target sent to the backend names either the VPC or a network interface, never both: in
  security-group mode it has an interface with the requested subnet, groups and primary IP and no
  VPC, in any other mode the requested VPC and no interface.\<close>

lemma accessPointTemplate_vpc_or_vni:
  "if vapq_AccessControlMode q = SecurityGroupMode
   then st_VPC (accessPointTemplate q) = None \<and>
     (\<exists>vni. st_VirtualNetworkInterface (accessPointTemplate q) = Some vni \<and>
        vni_SecurityGroups vni = vapq_SecurityGroups q \<and> vni_PrimaryIP vni = vapq_PrimaryIP q \<and>
        map_option sr_ID (vni_Subnet vni) = (if vapq_SubnetID q = [] then None else Some (vapq_SubnetID q)))
   else st_VirtualNetworkInterface (accessPointTemplate q) = None \<and>
     st_VPC (accessPointTemplate q) = Some \<lparr>lvpc_ID = vapq_VPCID q, lvpc_Href = []\<rparr>"
  by (auto simp: accessPointTemplate_def Let_def zeroVNI_def split: option.split)

section \<open>Deletion\<close>

lemma DeleteVolumeAccessPoint_first:
  assumes "validateVolumeAccessPointRequest X (MessagesEn s) q = None"
    and "0 < fr_maxRetryAttempt (vs_APIRetry vpcs)"
    and "deleteAccessPoint_attempt X vpcs q s = (Ret ((None, True), c), s1)"
  shows "DeleteVolumeAccessPoint X vpcs q s = (Ret (c, None), s1)"
  using flexy.first_stop [where f = "deleteAccessPoint_attempt X vpcs q", OF _ assms(3)] assms(1,2)
  by (simp add: DeleteVolumeAccessPoint_def FlexyRetry_eq_run ap_run)

text \<open>Deleting an access point that is gone or going is a success without a delete call: when its
  lookup fails, or finds it deleting or deleted, \<open>DeleteVolumeAccessPoint\<close> answers 200 in the
  state after the lookup.\<close>

lemma DeleteVolumeAccessPoint_gone:
  assumes "validateVolumeAccessPointRequest X (MessagesEn s) q = None"
    and "0 < fr_maxRetryAttempt (vs_APIRetry vpcs)"
    and "GetVolumeAccessPoint X vpcs q s = (Ret (r, e), s1)"
    and "e \<noteq> None \<or> r = None \<or> vapr_Status (the r) \<in> {StatusDeleting, StatusDeleted}"
  shows "DeleteVolumeAccessPoint X vpcs q s = (Ret (Some okResponse, None), s1)"
  by (rule DeleteVolumeAccessPoint_first [OF assms(1,2)])
    (use assms(3,4) in \<open>auto simp: deleteAccessPoint_attempt_def ap_run split: option.split\<close>)

definition vanishedSession :: "'w VPCSession" where
  "vanishedSession = fileSession (refusing (api_error ''shares_target_not_found''))"

lemma vanishedSession_retry [simp]: "vs_APIRetry vanishedSession = \<lparr>fr_maxRetryAttempt = 2, fr_maxRetryGap = 60\<rparr>"
  by (simp add: vanishedSession_def)

lemma vanishedSession_get:
  "\<exists>e. GetVolumeAccessPoint X vanishedSession sampleAccessRequest s = (Ret (None, Some e), s)"
proof -
  have "FlexyRetry (vs_APIRetry vanishedSession)
      (flexy_call (fs_ListFileShareTargets (FileShareService vanishedSession) ''v1'' None) list_stop) None s
    = (Ret (Some (api_error ''shares_target_not_found''), None), s)"
    by (subst flexy_call_first [where a = None and e = "Some (api_error ''shares_target_not_found'')" and w = "world s"])
      (simp_all add: vanishedSession_def refusing_def list_stop_def skipRetryForObviousErrors_def api_error_def
        skipRetry_api_error skipErrorCodes_listed)
  then show ?thesis
    by (simp add: GetVolumeAccessPoint_def getVolumeAccessPointByVPCID_def ap_run Let_def sampleAccessRequest_ok)
qed

lemma DeleteVolumeAccessPoint_gone_witness:
  "DeleteVolumeAccessPoint sampleExt vanishedSession sampleAccessRequest (init_gost (0::nat)) =
    (Ret (Some okResponse, None), init_gost 0)"
proof -
  obtain e where "GetVolumeAccessPoint sampleExt vanishedSession sampleAccessRequest (init_gost (0::nat))
      = (Ret (None, Some e), init_gost 0)" using vanishedSession_get by blast
  from DeleteVolumeAccessPoint_gone [OF sampleAccessRequest_ok _ this] show ?thesis
    by (simp add: vanishedSession_retry)
qed

text \<open>A successful \<open>DeleteVolumeAccessPoint\<close> always answers with the response it makes itself, status
  200 and no body; the backend's response is returned only beside an error.\<close>

lemma DeleteVolumeAccessPoint_response:
  assumes "DeleteVolumeAccessPoint X vpcs q s = (Ret (response, None), s')"
    and "0 < fr_maxRetryAttempt (vs_APIRetry vpcs)"
  shows "response = Some okResponse"
proof -
  let ?f = "deleteAccessPoint_attempt X vpcs q"
  let ?J = "\<lambda>r (w :: 'a). \<forall>st c. r = Ret ((None, st), c) \<longrightarrow> c = Some okResponse"
  have step: "True \<and> ?J r (world t')" if "?f t = (r, t')" for r t t'
    using that by (auto simp: deleteAccessPoint_attempt_def ap_run split: outcome.splits prod.splits
        option.splits if_splits)
  obtain out s1 where run: "flexy_run (vs_APIRetry vpcs) ?f (None, None) s = (out, s1)"
    by (metis prod.exhaust)
  obtain r where "?J r (world s1)" and "out = attempt_out r"
    by (rule flexy.outcome_from_attempt [OF _ run, of "\<lambda>_. True" ?J]) (use assms(2) step in auto)
  with assms(1) run show ?thesis
    by (cases r) (auto simp: DeleteVolumeAccessPoint_def FlexyRetry_eq_run ap_run
        split: option.splits)
qed

section \<open>Waiting\<close>

text \<open>\<open>WaitForCreateVolumeAccessPoint\<close> returns an access point only if it is stable, and each failure
  after validation (the error of the lookup included) becomes the timed-out error, without the
  backend's error.\<close>

lemma WaitForCreate_stable_or_timeout:
  assumes "WaitForCreateVolumeAccessPoint X vpcs q s = (Ret (r, e), s')"
    and "validateVolumeAccessPointRequest X (MessagesEn s) q = None"
  shows "(e = None \<and> isStable r) \<or>
    (r = None \<and> e = Some (GetUserError X (MessagesEn s) CreateVolumeAccessPointTimedOut None
        [AStr (vapq_VolumeID q), AStr (vapq_AccessPointID q)]))"
proof -
  have pres: "preserves same_config (FlexyRetryWithConstGap (vs_APIRetry vpcs) (waitCreate_attempt X vpcs q) None)"
    unfolding waitCreate_attempt_def by (intro pres_rules) simp_all
  obtain out s1 where run: "FlexyRetryWithConstGap (vs_APIRetry vpcs) (waitCreate_attempt X vpcs q) None s = (out, s1)"
    by (metis prod.exhaust)
  have "MessagesEn s1 = MessagesEn s" using preservesD [OF pres run] by (simp add: same_config_def)
  with assms run show ?thesis
    by (cases out) (auto simp: WaitForCreateVolumeAccessPoint_def ap_run split: if_splits)
qed

lemma WaitForCreate_stable_or_timeout_witness:
  "\<exists>r e s'. WaitForCreateVolumeAccessPoint sampleExt listingSession sampleAccessRequest (init_gost (0::nat))
      = (Ret (r, e), s') \<and> (e = None \<longrightarrow> isStable r)"
proof -
  let ?s = "init_gost (0::nat)"
  let ?r = "(ToVolumeAccessPointResponse sampleTarget)\<lparr>vapr_VolumeID := ''v1''\<rparr>"
  have "isStable (Some ?r)"
    by (simp add: isStable_def StatusStable_def sampleTarget_def ToVolumeAccessPointResponse_def)
  then have "waitCreate_attempt sampleExt listingSession sampleAccessRequest ?s = (Ret ((None, True), Some ?r), ?s)"
    by (simp add: waitCreate_attempt_def listingSession_get ap_run)
  from constGap.first_stop [where f = "waitCreate_attempt sampleExt listingSession sampleAccessRequest",
      OF _ this, of "vs_APIRetry listingSession" "(None, None)"] \<open>isStable (Some ?r)\<close>
  have "WaitForCreateVolumeAccessPoint sampleExt listingSession sampleAccessRequest ?s = (Ret (Some ?r, None), ?s)"
    by (simp add: WaitForCreateVolumeAccessPoint_def FlexyRetryWithConstGap_eq_run ap_run
        sampleAccessRequest_ok listingSession_retry totalAttempt_def wrap64_id in_int64_def)
  with WaitForCreate_stable_or_timeout [OF this sampleAccessRequest_ok] show ?thesis by blast
qed

lemma DeleteVolumeAccessPoint_response_witness:
  "\<exists>response s'. DeleteVolumeAccessPoint sampleExt vanishedSession sampleAccessRequest (init_gost (0::nat))
      = (Ret (response, None), s') \<and> response = Some okResponse"
proof -
  let ?s = "init_gost (0::nat)"
  obtain e where get: "GetVolumeAccessPoint sampleExt vanishedSession sampleAccessRequest ?s
      = (Ret (None, Some e), ?s)" using vanishedSession_get by blast
  have "DeleteVolumeAccessPoint sampleExt vanishedSession sampleAccessRequest ?s = (Ret (Some okResponse, None), ?s)"
    by (rule DeleteVolumeAccessPoint_first [OF sampleAccessRequest_ok])
      (simp_all add: vanishedSession_retry deleteAccessPoint_attempt_def ap_run get)
  with DeleteVolumeAccessPoint_response [OF this] show ?thesis by (simp add: vanishedSession_retry)
qed

text \<open>The codes of the lookup errors.\<close>

lemma ByVPCID_error_code:
  assumes "getVolumeAccessPointByVPCID X vpcs q s = (Ret (r, Some e), s')"
  shows "error_code e = msg_Code (map_get (MessagesEn s) zeroMessage AccessPointWithVPCIDFindFailed)"
proof -
  let ?m = "flexy_call (fs_ListFileShareTargets (FileShareService vpcs) (st_ShareID q) None) list_stop"
  obtain out s1 where run: "FlexyRetry (vs_APIRetry vpcs) ?m None s = (out, s1)" by (metis prod.exhaust)
  have pres: "preserves same_config (FlexyRetry (vs_APIRetry vpcs) ?m None)" by (intro pres_rules)
  have "MessagesEn s1 = MessagesEn s" using preservesD [OF pres run] by (simp add: same_config_def)
  with assms run show ?thesis
    by (auto simp: getVolumeAccessPointByVPCID_def ap_run find_vpc_target_run
        split: outcome.splits prod.splits option.splits if_splits)
qed

lemma ByID_error_code:
  assumes "getVolumeAccessPointByID X vpcs q s = (Ret (r, Some e), s')"
  shows "error_code e = msg_Code (map_get (MessagesEn s) zeroMessage AccessPointWithAPIDFindFailed) \<and>
    (\<exists>m. e = UserMessage m)"
proof -
  let ?m = "flexy_call (fs_GetFileShareTarget (FileShareService vpcs) (st_ShareID q) (st_ID q)) get_stop"
  obtain out s1 where run: "FlexyRetry (vs_APIRetry vpcs) ?m None s = (out, s1)" by (metis prod.exhaust)
  have pres: "preserves same_config (FlexyRetry (vs_APIRetry vpcs) ?m None)" by (intro pres_rules)
  have "MessagesEn s1 = MessagesEn s" using preservesD [OF pres run] by (simp add: same_config_def)
  with assms run show ?thesis
    by (auto simp: getVolumeAccessPointByID_def ap_run GetUserError_def split: outcome.splits prod.splits option.splits)
qed

lemma code_listed:
  "msg_Code (map_get messagesEn zeroMessage AccessPointWithVPCIDFindFailed) = AccessPointWithVPCIDFindFailed"
  "msg_Code (map_get messagesEn zeroMessage AccessPointWithAPIDFindFailed) = AccessPointWithAPIDFindFailed"
  by (rule known_code, simp add: messagesEn_entries_def AccessPointWithVPCIDFindFailed_def
      AccessPointWithAPIDFindFailed_def)+

text \<open>C28: Waiting for the deletion of an access point that is named by its VPC alone never succeeds once
  the messages are loaded: the lookup by VPC reports a missing access point with a code the wait
  does not accept.\<close>

theorem WaitForDelete_by_vpc_never_succeeds:
  assumes "MessagesEn s = messagesEn" and "vapq_AccessPointID q = []"
  shows "fst (WaitForDeleteVolumeAccessPoint X vpcs q s) \<noteq> Ret None"
proof (cases "validateVolumeAccessPointRequest X (MessagesEn s) q")
  case None
  let ?f = "waitDelete_attempt X vpcs q"
  let ?bad = "\<lambda>err. \<forall>m. err = Some (UserMessage m) \<longrightarrow> msg_Code m \<noteq> AccessPointWithAPIDFindFailed"
  let ?J = "\<lambda>r (w :: 'a). \<forall>err st c. r = Ret ((err, st), c) \<longrightarrow> ?bad err"
  have step: "same_config s t' \<and> ?J r (world t')" if "same_config s t" and ft: "?f t = (r, t')" for r t t'
  proof
    have "preserves same_config ?f" unfolding waitDelete_attempt_def by (intro pres_rules) simp_all
    from preservesD [OF this that(2)] that(1) show "same_config s t'" by (rule same_config_trans [rotated])
    have ok: "validateVolumeAccessPointRequest X (MessagesEn t) q = None" "MessagesEn t = messagesEn"
      using None that(1) assms(1) by (simp_all add: same_config_def)
    show "?J r (world t')"
    proof (intro allI impI)
      fix err st c m
      assume r: "r = Ret ((err, st), c)" and err: "err = Some (UserMessage m)"
      obtain a where "getVolumeAccessPointByVPCID X vpcs (NewShareTarget q) t = (Ret (a, Some (UserMessage m)), t')"
        using ft ok assms(2) r err
        by (auto simp: waitDelete_attempt_def GetVolumeAccessPoint_def ap_run Let_def split: prod.splits outcome.splits)
      from ByVPCID_error_code [OF this] ok(2) have "msg_Code m = AccessPointWithVPCIDFindFailed"
        by (simp add: code_listed)
      then show "msg_Code m \<noteq> AccessPointWithAPIDFindFailed"
        by (simp add: AccessPointWithAPIDFindFailed_def AccessPointWithVPCIDFindFailed_def)
    qed
  qed
  obtain out s1 where run: "constGap_run (vs_APIRetry vpcs) ?f (None, ()) s = (out, s1)" by (metis prod.exhaust)
  have "\<exists>r. ?J r (world s1) \<and> out = attempt_out r" if "0 < nat (totalAttempt (vs_APIRetry vpcs))"
    using constGap.attempts [OF run, of "same_config s" ?J] gap_blind_config step that by auto
  moreover have "out = Ret (None, ())" if "nat (totalAttempt (vs_APIRetry vpcs)) = 0"
    using run constGap.none [OF that, of ?f "(None, ())" s] by simp
  ultimately have "\<forall>err c. out = Ret (err, c) \<longrightarrow> ?bad err"
    by (cases "0 < nat (totalAttempt (vs_APIRetry vpcs))") (auto elim!: attempt_out.elims [OF sym])
  then show ?thesis using run None
    by (auto simp: WaitForDeleteVolumeAccessPoint_def FlexyRetryWithConstGap_eq_run ap_run
        split: outcome.splits prod.splits option.splits goerror.splits if_splits)
qed (simp add: WaitForDeleteVolumeAccessPoint_def ap_run)

lemma WaitForDelete_by_vpc_never_succeeds_witness:
  "fst (WaitForDeleteVolumeAccessPoint sampleExt vanishedSession sampleAccessRequest
      ((init_gost (0::nat))\<lparr>MessagesEn := messagesEn\<rparr>)) \<noteq> Ret None"
  by (rule WaitForDelete_by_vpc_never_succeeds) simp_all

text \<open>Waiting for the deletion of an access point named by its ID succeeds with the first lookup that
  fails, whatever the failure was: once the messages are loaded, any error of the first lookup
  (the backend being unreachable included) is reported as a completed deletion.\<close>

lemma WaitForDelete_any_error:
  assumes "MessagesEn s = messagesEn" and "validateVolumeAccessPointRequest X messagesEn q = None"
    and "vapq_AccessPointID q \<noteq> []" and "0 < totalAttempt (vs_APIRetry vpcs)"
    and "GetVolumeAccessPoint X vpcs q s = (Ret (r, Some e), s1)"
  shows "WaitForDeleteVolumeAccessPoint X vpcs q s = (Ret None, s1)"
proof -
  have "getVolumeAccessPointByID X vpcs (NewShareTarget q) s = (Ret (r, Some e), s1)"
    using assms by (simp add: GetVolumeAccessPoint_def ap_run Let_def)
  from ByID_error_code [OF this] assms(1) obtain m where e: "e = UserMessage m" "msg_Code m = AccessPointWithAPIDFindFailed"
    by (auto simp: code_listed)
  have "waitDelete_attempt X vpcs q s = (Ret ((Some e, True), ()), s1)"
    using assms(5) by (simp add: waitDelete_attempt_def ap_run)
  from constGap.first_stop [where f = "waitDelete_attempt X vpcs q", OF _ this] assms(1,2,4) e
  show ?thesis by (simp add: WaitForDeleteVolumeAccessPoint_def FlexyRetryWithConstGap_eq_run ap_run)
qed

lemma WaitForDelete_any_error_witness:
  "\<exists>s1. WaitForDeleteVolumeAccessPoint sampleExt (fileSession (refusing (PlainError ''connection refused'')))
      (sampleAccessRequest\<lparr>vapq_AccessPointID := ''t1''\<rparr>) ((init_gost (0::nat))\<lparr>MessagesEn := messagesEn\<rparr>)
    = (Ret None, s1)"
proof -
  let ?q = "sampleAccessRequest\<lparr>vapq_AccessPointID := ''t1''\<rparr>"
  let ?s = "(init_gost (0::nat))\<lparr>MessagesEn := messagesEn\<rparr>"
  let ?vpcs = "fileSession (refusing (PlainError ''connection refused'')) :: nat VPCSession"
  have ok: "validateVolumeAccessPointRequest sampleExt messagesEn ?q = None"
    by (simp add: validate_ok_iff)
  obtain out s1 where run: "GetVolumeAccessPoint sampleExt ?vpcs ?q ?s = (out, s1)" by (metis prod.exhaust)
  let ?m = "flexy_call (fs_GetFileShareTarget (FileShareService ?vpcs) ''v1'' ''t1'') get_stop"
  obtain fo fs where fl: "FlexyRetry \<lparr>fr_maxRetryAttempt = 2, fr_maxRetryGap = 60\<rparr> ?m None ?s = (fo, fs)"
    by (metis prod.exhaust)
  then obtain a w where fo: "fo = Ret (Some (PlainError ''connection refused''), a)"
    by (rule flexy_call_last) (auto simp: refusing_def)
  from run fl fo ok have "\<exists>r e. out = Ret (r, Some e)"
    by (auto simp: GetVolumeAccessPoint_def getVolumeAccessPointByID_def ap_run Let_def)
  then obtain r e where "out = Ret (r, Some e)" by blast
  from WaitForDelete_any_error [OF _ ok _ _ run [unfolded this]]
  show ?thesis by (auto simp: totalAttempt_def wrap64_id in_int64_def)
qed

section \<open>Lookup by VPC\<close>

text \<open>The lookup by VPC answers the first listed target of the requested VPC, under the requested
  volume ID, when the listing succeeds at once and has no nil entry.\<close>

lemma ByVPCID_first_match:
  fixes vpcs :: "'w VPCSession" and s :: "'w gost"
  assumes "0 < fr_maxRetryAttempt (vs_APIRetry vpcs)"
    and "fs_ListFileShareTargets (FileShareService vpcs) (vapq_VolumeID q) None (world s) = ((Some l, None), w)"
    and "stl_ShareTargets l = map Some (pre @ t # post)"
    and "\<And>u. u \<in> set pre \<Longrightarrow> map_option lvpc_ID (st_VPC u) \<noteq> Some (vapq_VPCID q)"
    and "map_option lvpc_ID (st_VPC t) = Some (vapq_VPCID q)"
    and "vapq_AccessPointID q = []" and "validateVolumeAccessPointRequest X (MessagesEn s) q = None"
  shows "GetVolumeAccessPoint X vpcs q s =
    (Ret (Some ((ToVolumeAccessPointResponse t)\<lparr>vapr_VolumeID := vapq_VolumeID q\<rparr>), None), s\<lparr>world := w\<rparr>)"
proof -
  have find: "find_vpc_target (vapq_VPCID q) (map Some (pre @ t # post)) s' = (Ret (Some t), s')" for s' :: "'w gost"
    using assms(4,5) by (induction pre) (auto simp: ap_run split: option.splits)
  show ?thesis
    using flexy_call_first [of "fs_ListFileShareTargets (FileShareService vpcs) (vapq_VolumeID q) None" s
        "Some l" None w list_stop "vs_APIRetry vpcs"] assms find
    by (simp add: GetVolumeAccessPoint_def getVolumeAccessPointByVPCID_def ap_run Let_def list_stop_def
        del: map_append list.map)
qed

lemma ByVPCID_first_match_witness:
  "GetVolumeAccessPoint sampleExt listingSession sampleAccessRequest (init_gost (0::nat)) =
    (Ret (Some ((ToVolumeAccessPointResponse sampleTarget)\<lparr>vapr_VolumeID := ''v1''\<rparr>), None), init_gost 0)"
  using ByVPCID_first_match [of listingSession sampleAccessRequest "init_gost (0::nat)"
      "zeroShareTargetList\<lparr>stl_ShareTargets := [Some sampleTarget]\<rparr>" 0 "[]" sampleTarget "[]" sampleExt]
  by (simp add: sampleAccessRequest_ok) (simp add: listingSession_def)

end
