(* ===== verification/SnapshotLaws.thy ===== *)
theory SnapshotLaws
  imports Snapshots VolumeLaws
begin

text \<open>
  The properties of the snapshot operations.
\<close>

text \<open>C32: A created snapshot: when \<open>CreateSnapshot\<close> returns a snapshot, the backend accepted, for the
  requested volume, a template with the requested name and one \<open>key:value\<close> tag for each entry of
  the request, in the order of the iteration, and the result is the answer's conversion, ready
  exactly when the backend reports it stable.\<close>

theorem CreateSnapshot_success:
  assumes "CreateSnapshot X vpcs vid params s = (Ret (Some r, e), s')"
  shows "vid \<noteq> [] \<and> e = None \<and>
    (\<exists>w sn. ss_CreateSnapshot (SnapshotService vpcs) vid
        (zeroSnapshot\<lparr>sn_Name := snp_Name params,
           sn_UserTags := map (\<lambda>(k, v). k @ '':'' @ v) (snp_SnapshotTags params)\<rparr>) w = ((Some sn, None), world s') \<and>
      lsn_SnapshotID r = sn_ID sn \<and> lsn_VolumeID r = vid \<and>
      (lsn_ReadyToUse r \<longleftrightarrow> sn_LifecycleState sn = ''stable''))"
proof -
  have tags: "snapshotTags ts = map (\<lambda>(k, v). k @ '':'' @ v) ts" for ts
    by (auto simp: snapshotTags_def fmt_extra_def)
  let ?call = "ss_CreateSnapshot (SnapshotService vpcs) vid
    (zeroSnapshot\<lparr>sn_Name := snp_Name params, sn_UserTags := snapshotTags (snp_SnapshotTags params)\<rparr>)"
  obtain err a s1 where r: "retry (capture ?call) None s = (Ret (err, a), s1)" by (rule retry_cases)
  have vid: "vid \<noteq> []" using assms
    by (auto simp: CreateSnapshot_def validateSnapshotRequest_def op_run split: if_splits)
  from assms r vid have "err = None" "e = None" "s1 = s'" and conv: "FromProviderToLibSnapshot vid a = Some r"
    by (auto simp: CreateSnapshot_def validateSnapshotRequest_def op_run Let_def split: option.splits)
  from conv obtain sn where a: "a = Some sn" by (cases a) auto
  have fields: "lsn_SnapshotID r = sn_ID sn" "lsn_VolumeID r = vid"
    "lsn_ReadyToUse r \<longleftrightarrow> sn_LifecycleState sn = ''stable''"
    using conv a by (auto simp: FromProviderToLibSnapshot_def snapshotReadyState_def)
  have "\<exists>w. ?call w = ((Some sn, None), world s')"
    using retry_capture_Some(2) [OF r [unfolded \<open>err = None\<close> a]] \<open>s1 = s'\<close> by simp
  with vid \<open>e = None\<close> fields show ?thesis unfolding tags by blast
qed

lemma CreateSnapshot_success_witness:
  "\<exists>r e s'. CreateSnapshot sampleExt
      (snapshotSession ((refusingSnapshots (api_error ''internal_error''))
         \<lparr>ss_CreateSnapshot := \<lambda>_ t w. ((Some (t\<lparr>sn_ID := ''sn1'', sn_LifecycleState := ''stable''\<rparr>), None), w)\<rparr>))
      ''v1'' \<lparr>snp_Name = ''n'', snp_SnapshotTags = [(''k'', ''v'')]\<rparr> (init_gost (0::nat)) = (Ret (Some r, e), s') \<and>
    lsn_VolumeID r = ''v1''"
proof -
  let ?vpcs = "snapshotSession ((refusingSnapshots (api_error ''internal_error''))
         \<lparr>ss_CreateSnapshot := \<lambda>_ t w. ((Some (t\<lparr>sn_ID := ''sn1'', sn_LifecycleState := ''stable''\<rparr>), None), w)\<rparr>)
      :: nat VPCSession"
  let ?p = "\<lparr>snp_Name = ''n'', snp_SnapshotTags = [(''k'', ''v'')]\<rparr>"
  have "\<exists>r e s'. CreateSnapshot sampleExt ?vpcs ''v1'' ?p (init_gost 0) = (Ret (Some r, e), s')"
    by (simp add: CreateSnapshot_def validateSnapshotRequest_def op_run retry_init capture_def
        FromProviderToLibSnapshot_def Let_def)
  then obtain r e s' where run: "CreateSnapshot sampleExt ?vpcs ''v1'' ?p (init_gost 0) = (Ret (Some r, e), s')"
    by blast
  from CreateSnapshot_success [OF run] run show ?thesis by blast
qed

text \<open>Deleting a snapshot that is gone succeeds: when the first answer of the backend is an error whose
  first code says that the snapshot or its share was not found, \<open>DeleteSnapshot\<close> returns nil in
  the state after that call, without waiting.\<close>

lemma DeleteSnapshot_gone:
  assumes "ss_DeleteSnapshot (SnapshotService vpcs) (lsn_VolumeID sn) (lsn_SnapshotID sn) (world s)
      = (Some (ModelsError \<lparr>err_Errors = it # its, err_Trace = t\<rparr>), w)"
    and "ei_Code it \<in> {''shares_snapshot_not_found'', ''shares_not_found''}" and "0 < maxRetryAttempt s"
  shows "DeleteSnapshot X vpcs (Some sn) s = (Ret None, s\<lparr>world := w\<rparr>)"
proof -
  let ?e = "ModelsError \<lparr>err_Errors = it # its, err_Trace = t\<rparr>"
  let ?f = "only_error (ss_DeleteSnapshot (SnapshotService vpcs) (lsn_VolumeID sn) (lsn_SnapshotID sn))"
  have "skipErrorCodes (ei_Code it) = Some True"
    using assms(2) skipErrorCodes_listed(1,2) by (auto simp: SharesNotFound_def SnapshotNotFound_def)
  then have "retry_stop (Some ?e, ())" by (simp add: retry_stop_def skipRetry_def)
  then have "retry ?f () s = (Ret (Some ?e, ()), s\<lparr>world := w\<rparr>)"
    using assms(1,3) by (intro retry_first_stop) (simp_all add: only_error_def)
  moreover have "already_gone ?e"
    using assms(2) by (auto simp: already_gone_def SharesNotFound_def SnapshotNotFound_def)
  ultimately show ?thesis by (simp add: DeleteSnapshot_def op_run)
qed

definition sampleSnapshot :: LibSnapshot where
  "sampleSnapshot = \<lparr>lsn_VolumeID = ''v1'', lsn_SnapshotID = ''sn1'', lsn_SnapshotCRN = [],
     lsn_SnapshotCreationTime = ZeroTime, lsn_SnapshotSize = 0, lsn_VPC = \<lparr>lvpc_ID = [], lvpc_Href = []\<rparr>,
     lsn_ReadyToUse = True\<rparr>"

lemma DeleteSnapshot_gone_witness:
  "DeleteSnapshot sampleExt (snapshotSession (refusingSnapshots (api_error ''shares_not_found'')))
     (Some sampleSnapshot) (init_gost (0::nat)) = (Ret None, init_gost 0)"
  using DeleteSnapshot_gone [of "snapshotSession (refusingSnapshots (api_error ''shares_not_found''))" sampleSnapshot
      "init_gost (0::nat)" "item_of ''shares_not_found''" "[]" "[]" 0 sampleExt]
  by (simp add: refusingSnapshots_def api_error_def item_of_def)

text \<open>Like the deletion of a volume, the deletion of a snapshot is reported as done once the backend
  has accepted it, unless the wait panics: the wait's verdict is never an error.\<close>

lemma DeleteSnapshot_accepted:
  assumes "ss_DeleteSnapshot (SnapshotService vpcs) (lsn_VolumeID sn) (lsn_SnapshotID sn) (world s) = (None, w)"
    and "0 < maxRetryAttempt s"
  shows "fst (DeleteSnapshot X vpcs (Some sn) s) = Ret None \<or> (\<exists>p. fst (DeleteSnapshot X vpcs (Some sn) s) = Panic p)"
proof -
  let ?f = "only_error (ss_DeleteSnapshot (SnapshotService vpcs) (lsn_VolumeID sn) (lsn_SnapshotID sn))"
  let ?get = "ss_GetSnapshot (SnapshotService vpcs) (lsn_VolumeID sn) (lsn_SnapshotID sn)"
  have r: "retry ?f () s = (Ret (None, ()), s\<lparr>world := w\<rparr>)"
    using assms by (intro retry_first_stop) (simp_all add: only_error_def)
  obtain out s' where run: "flexy_run (vs_APIRetry vpcs) (deletion_attempt ?get) (None, False) (s\<lparr>world := w\<rparr>) = (out, s')"
    by (metis prod.exhaust)
  show ?thesis
  proof (cases out)
    case (Ret x)
    with run obtain c where "out = Ret (None, c)" using deletion_wait_no_error by (cases x) blast
    with r run show ?thesis
      by (simp add: DeleteSnapshot_def WaitForSnapshotDeletion_def FlexyRetry_eq_run op_run)
  next
    case (Panic p)
    with r run show ?thesis
      by (simp add: DeleteSnapshot_def WaitForSnapshotDeletion_def FlexyRetry_eq_run op_run)
  qed
qed

lemma DeleteSnapshot_accepted_witness:
  "fst (DeleteSnapshot sampleExt (snapshotSession ((refusingSnapshots (api_error ''shares_not_found''))
      \<lparr>ss_DeleteSnapshot := \<lambda>_ _ w. (None, w)\<rparr>)) (Some sampleSnapshot) (init_gost (0::nat))) = Ret None \<or>
   (\<exists>p. fst (DeleteSnapshot sampleExt (snapshotSession ((refusingSnapshots (api_error ''shares_not_found''))
      \<lparr>ss_DeleteSnapshot := \<lambda>_ _ w. (None, w)\<rparr>)) (Some sampleSnapshot) (init_gost (0::nat))) = Panic p)"
  by (rule DeleteSnapshot_accepted) simp_all

text \<open>\<open>GetSnapshotByName\<close> reports a snapshot that does not exist without an error when the backend
  answers neither a snapshot nor an error: the result is a nil snapshot and a nil error.\<close>

lemma GetSnapshotByName_nil:
  assumes "ss_GetSnapshotByName (SnapshotService vpcs) v name (world s) = ((None, None), w)"
    and "name \<noteq> []" and "0 < maxRetryAttempt s"
  shows "GetSnapshotByName X vpcs name (v # vs) s = (Ret (None, None), s\<lparr>world := w\<rparr>)"
proof -
  have "retry (capture (ss_GetSnapshotByName (SnapshotService vpcs) v name)) None s
      = (Ret (None, None), s\<lparr>world := w\<rparr>)"
    using assms by (intro retry_first_stop) (simp_all add: capture_def)
  with assms(2) show ?thesis by (simp add: GetSnapshotByName_def op_run)
qed

lemma GetSnapshotByName_nil_witness:
  "GetSnapshotByName sampleExt (snapshotSession ((refusingSnapshots (api_error ''internal_error''))
      \<lparr>ss_GetSnapshotByName := \<lambda>_ _ w. ((None, None), w)\<rparr>)) ''n'' [''v1''] (init_gost (0::nat))
    = (Ret (None, None), init_gost 0)"
  using GetSnapshotByName_nil [of "snapshotSession ((refusingSnapshots (api_error ''internal_error''))
      \<lparr>ss_GetSnapshotByName := \<lambda>_ _ w. ((None, None), w)\<rparr>)" "''v1''" "''n''" "init_gost (0::nat)" 0 sampleExt "[]"]
  by simp

end
