(* ===== verification/Watcher.thy ===== *)
theory Watcher
  imports CloudProvider
begin

text \<open>
  The persistent volume watcher of \<^verbatim>\<open>pkg/watcher/pv_watcher.go\<close>: on a change of a volume of its
  provisioner it updates the volume's record in the IKS service and, when the volume becomes bound,
  its tags in VPC.  The state is that of the provider together with the Kubernetes events recorded.
  A volume object that is not a persistent volume is the nil pointer; a panic in the handler is
  recovered and only logged.  The informer and the event broadcaster are not modelled, nor what the handler logs.
\<close>

section \<open>Persistent volumes\<close>

record CSISource =
  csi_Driver :: string
  csi_VolumeHandle :: string
  csi_VolumeAttributes :: "string \<Rightarrow> string option"

record ClaimRef =
  claim_Namespace :: string
  claim_Name :: string

text \<open>The capacity map gives the value of each quantity in bytes.\<close>

record PersistentVolume =
  pv_Name :: string
  pv_CSI :: "CSISource option"
  pv_Capacity :: "string \<Rightarrow> int option"
  pv_ReclaimPolicy :: string
  pv_StorageClassName :: string
  pv_ClaimRef :: "ClaimRef option"
  pv_Phase :: string

definition ResourceStorage :: string where "ResourceStorage = ''storage''"
definition VolumeBound :: string where "VolumeBound = ''Bound''"
definition VolumeReleased :: string where "VolumeReleased = ''Released''"

definition ReclaimPolicyTag :: string where "ReclaimPolicyTag = ''reclaimpolicy:''"
definition NameSpaceTag :: string where "NameSpaceTag = ''namespace:''"
definition StorageClassTag :: string where "StorageClassTag = ''storageclass:''"
definition PVCNameTag :: string where "PVCNameTag = ''pvc:''"
definition PVNameTag :: string where "PVNameTag = ''pv:''"
definition VolumeCRN :: string where "VolumeCRN = ''volumeCRN''"
definition ProvisionerTag :: string where "ProvisionerTag = ''provisioner:''"
definition VolumeStatusCreated :: string where "VolumeStatusCreated = ''created''"
definition VolumeStatusDeleted :: string where "VolumeStatusDeleted = ''deleted''"
definition VolumeUpdateEventReason :: string where "VolumeUpdateEventReason = ''VolumeMetaDataSaved''"
definition VolumeUpdateEventSuccess :: string where "VolumeUpdateEventSuccess = ''Success''"
definition ClusterIDLabel :: string where "ClusterIDLabel = ''clusterID''"
definition IOPSLabel :: string where "IOPSLabel = ''iops''"

datatype event_type = EventTypeNormal | EventTypeWarning

record k8s_event =
  ev_Volume :: string
  ev_Type :: event_type
  ev_Reason :: string
  ev_Message :: string

section \<open>The watcher\<close>

text \<open>The methods of \<^verbatim>\<open>CloudProviderInterface\<close> that the watcher calls.\<close>

record 'w CloudProviderInterface =
  cpi_GetProviderSession :: "('w gost, 'w lib_session option \<times> goerror option) go"
  cpi_GetConfig :: LibConfig

record 'w PVWatcher =
  pvw_config :: LibConfig
  pvw_provisionerName :: string
  pvw_cloudProvider :: "'w CloudProviderInterface"
  pvw_VolumeTypeMap :: "string \<Rightarrow> string option"

type_synonym 'w watch = "'w gost \<times> k8s_event list"

definition on_provider :: "('w gost, 'a) go \<Rightarrow> ('w watch, 'a) go" where
  "on_provider m st = (case m (fst st) of (r, s') \<Rightarrow> (r, (s', snd st)))"

definition record_event :: "PersistentVolume \<Rightarrow> event_type \<Rightarrow> string \<Rightarrow> ('w watch, unit) go" where
  "record_event pv ty msg =
     gmodify (\<lambda>(s, evs). (s, evs @ [\<lparr>ev_Volume = pv_Name pv, ev_Type = ty, ev_Reason = VolumeUpdateEventReason,
       ev_Message = msg\<rparr>]))"

definition BytesToGiB :: "int \<Rightarrow> int" where
  "BytesToGiB volumeSizeBytes = go_div volumeSizeBytes GiB"

definition pv_filter :: "'w PVWatcher \<Rightarrow> PersistentVolume option \<Rightarrow> bool" where
  "pv_filter pvw pv =
     (case pv of
        None \<Rightarrow> False
      | Some v \<Rightarrow> (case pv_CSI v of None \<Rightarrow> False | Some csi \<Rightarrow> csi_Driver csi = pvw_provisionerName pvw))"

definition getTags :: "'w PVWatcher \<Rightarrow> PersistentVolume \<Rightarrow> ('w watch, string \<times> string list) go" where
  "getTags pvw pv =
     gbind (deref (pv_CSI pv)) (\<lambda>csi.
     let volAttributes = map_get (csi_VolumeAttributes csi) [];
         tagstr = TrimSpace (volAttributes ''tags'');
         tags = (if length tagstr > 0 then Split tagstr '','' else []);
         tags = tags @ [ClusterIDLabel @ '':'' @ volAttributes ClusterIDLabel];
         tags = tags @ [ReclaimPolicyTag @ pv_ReclaimPolicy pv];
         tags = tags @ [StorageClassTag @ pv_StorageClassName pv]
     in gbind (deref (pv_ClaimRef pv)) (\<lambda>claim.
        let tags = tags @ [NameSpaceTag @ claim_Namespace claim];
            tags = tags @ [PVCNameTag @ claim_Name claim];
            tags = tags @ [PVNameTag @ pv_Name pv];
            tags = tags @ [ProvisionerTag @ pvw_provisionerName pvw]
        in gret (volAttributes VolumeCRN, tags)))"

definition getVolumeFromPV :: "'w PVWatcher \<Rightarrow> PersistentVolume \<Rightarrow> ('w watch, Volume) go" where
  "getVolumeFromPV pvw pv =
     gbind (getTags pvw pv) (\<lambda>(crn, tags).
     gbind (deref (pv_CSI pv)) (\<lambda>csi.
     gbind (deref (lc_VPC (pvw_config pvw))) (\<lambda>vc.
     let volAttributes = map_get (csi_VolumeAttributes csi) [];
         volume = zeroVolume
           \<lparr>vol_VolumeID := csi_VolumeHandle csi,
            vol_Provider := vc_VPCBlockProviderType vc,
            vol_VolumeType := map_get (pvw_VolumeTypeMap pvw) [] (csi_Driver csi),
            vol_CRN := crn\<rparr>;
         attributes = [ToLower ClusterIDLabel \<mapsto> volAttributes ClusterIDLabel]
     in if pv_Phase pv = VolumeReleased
        then gret (volume\<lparr>vol_Attributes := attributes(VolumeStatus \<mapsto> VolumeStatusDeleted)\<rparr>)
        else gret (volume
               \<lparr>vol_Tags := tags,
                vol_Capacity := Some (BytesToGiB (map_get (pv_Capacity pv) 0 ResourceStorage)),
                vol_Iops := Some (volAttributes IOPSLabel),
                vol_Attributes := attributes(VolumeStatus \<mapsto> VolumeStatusCreated)\<rparr>))))"

text \<open>The statuses and whether nothing changed, when there is an old object.\<close>

definition compare_objects ::
  "PersistentVolume option \<Rightarrow> PersistentVolume option \<Rightarrow> ('w watch, (string \<times> string) \<times> bool) go" where
  "compare_objects oldpv newpv =
     gbind (deref oldpv) (\<lambda>old.
     gbind (deref newpv) (\<lambda>new.
     gbind (deref (pv_CSI new)) (\<lambda>newcsi.
     gbind (deref (pv_CSI old)) (\<lambda>oldcsi.
       gret ((pv_Phase old, pv_Phase new),
         pv_Phase new = pv_Phase old \<and>
         map_get (pv_Capacity old) 0 ResourceStorage = map_get (pv_Capacity new) 0 ResourceStorage \<and>
         map_get (csi_VolumeAttributes oldcsi) [] IOPSLabel = map_get (csi_VolumeAttributes newcsi) [] IOPSLabel)))))"

definition save_volume ::
  "ext \<Rightarrow> 'w PVWatcher \<Rightarrow> string \<times> string \<Rightarrow> PersistentVolume option \<Rightarrow> ('w watch, unit) go" where
  "save_volume X pvw statuses newpv =
     gbind (on_provider (cpi_GetProviderSession (pvw_cloudProvider pvw))) (\<lambda>(session, err).
       case session of
         None \<Rightarrow> gret ()
       | Some (VPCSess vs) \<Rightarrow> gret ()
       | Some (IksSess iksVpc) \<Rightarrow>
           gbind (deref newpv) (\<lambda>new.
           gbind (getVolumeFromPV pvw new) (\<lambda>volume.
           gbind (on_provider (iks_UpdateVolume X iksVpc volume)) (\<lambda>err.
           gbind (case err of
                    None \<Rightarrow> gret ()
                  | Some e \<Rightarrow> record_event new EventTypeWarning (ErrorString X e)) (\<lambda>_.
             if snd statuses \<noteq> fst statuses \<and> snd statuses = VolumeBound
             then gbind (on_provider (UpdateVolume X (iv_VPCSession iksVpc) volume)) (\<lambda>err.
                    case err of
                      Some e \<Rightarrow> record_event new EventTypeWarning (ErrorString X e)
                    | None \<Rightarrow> record_event new EventTypeNormal VolumeUpdateEventSuccess)
             else gret ())))))"

definition recovered :: "('s, unit) go \<Rightarrow> ('s, unit) go" where
  "recovered m s = (case m s of (Panic p, s') \<Rightarrow> (Ret (), s') | (Ret u, s') \<Rightarrow> (Ret u, s'))"

text \<open>The handler: the old object may be the nil interface value.\<close>

definition updateVolume ::
  "ext \<Rightarrow> 'w PVWatcher \<Rightarrow> PersistentVolume option option \<Rightarrow> PersistentVolume option \<Rightarrow> ('w watch, unit) go" where
  "updateVolume X pvw oldobj newpv =
     recovered
       (case oldobj of
          None \<Rightarrow> save_volume X pvw ([], []) newpv
        | Some oldpv \<Rightarrow>
            gbind (compare_objects oldpv newpv) (\<lambda>(statuses, unchanged).
              if unchanged then gret () else save_volume X pvw statuses newpv))"

end
