(* ===== verification/WatcherLaws.thy ===== *)
theory WatcherLaws
  imports Watcher ProviderLaws
begin

text \<open>The properties of the persistent volume watcher.\<close>

lemmas watch_run = gbind_def gret_def gpanic_def deref_def on_provider_def recovered_def

section \<open>Which changes count\<close>

text \<open>The watcher handles the volumes of its provisioner only.\<close>

lemma pv_filter_provisioner:
  "pv_filter pvw pv \<longleftrightarrow> (\<exists>v csi. pv = Some v \<and> pv_CSI v = Some csi \<and> csi_Driver csi = pvw_provisionerName pvw)"
  by (auto simp: pv_filter_def split: option.split)

lemma compare_objects_run:
  assumes "pv_CSI old = Some oc" and "pv_CSI new = Some nc"
  shows "compare_objects (Some old) (Some new) st =
    (Ret ((pv_Phase old, pv_Phase new),
       pv_Phase new = pv_Phase old \<and>
       map_get (pv_Capacity old) 0 ResourceStorage = map_get (pv_Capacity new) 0 ResourceStorage \<and>
       map_get (csi_VolumeAttributes oc) [] IOPSLabel = map_get (csi_VolumeAttributes nc) [] IOPSLabel), st)"
  using assms by (simp add: compare_objects_def watch_run)

text \<open>An update that changes neither the phase nor the capacity nor the IOPS attribute has no effect: no
  session is opened, nothing is called and no event is recorded.\<close>

lemma updateVolume_unchanged:
  assumes "pv_CSI old = Some oc" and "pv_CSI new = Some nc" and "pv_Phase new = pv_Phase old"
    and "map_get (pv_Capacity old) 0 ResourceStorage = map_get (pv_Capacity new) 0 ResourceStorage"
    and "map_get (csi_VolumeAttributes oc) [] IOPSLabel = map_get (csi_VolumeAttributes nc) [] IOPSLabel"
  shows "updateVolume X pvw (Some (Some old)) (Some new) st = (Ret (), st)"
  using assms by (simp add: updateVolume_def watch_run compare_objects_run)

definition sampleCSI :: CSISource where
  "sampleCSI = \<lparr>csi_Driver = ''vpc.file'', csi_VolumeHandle = sampleVolumeID,
     csi_VolumeAttributes = [''clusterID'' \<mapsto> ''c1'', ''iops'' \<mapsto> ''100'', ''tags'' \<mapsto> '' a,b '']\<rparr>"

definition samplePV :: "string \<Rightarrow> PersistentVolume" where
  "samplePV phase = \<lparr>pv_Name = ''pv-1'', pv_CSI = Some sampleCSI, pv_Capacity = [''storage'' \<mapsto> 10 * GiB + 1],
     pv_ReclaimPolicy = ''Delete'', pv_StorageClassName = ''dp2'',
     pv_ClaimRef = Some \<lparr>claim_Namespace = ''ns'', claim_Name = ''pvc-1''\<rparr>, pv_Phase = phase\<rparr>"

definition dualSession :: "'w session_pointer \<Rightarrow> 'w IksVpcSession" where
  "dualSession p = \<lparr>iv_VPCSession = fileSession (refusing (api_error ''bad_field'')), iv_IksSession = p\<rparr>"

definition sampleWatcher :: "'w lib_session \<Rightarrow> 'w PVWatcher" where
  "sampleWatcher session =
     \<lparr>pvw_config = \<lparr>lc_VPC = Some (configure sampleVPCConfig), lc_IKS = None, lc_Server = None\<rparr>,
      pvw_provisionerName = ''vpc.file'',
      pvw_cloudProvider = \<lparr>cpi_GetProviderSession = gret (Some session, None),
        cpi_GetConfig = \<lparr>lc_VPC = None, lc_IKS = None, lc_Server = None\<rparr>\<rparr>,
      pvw_VolumeTypeMap = [''vpc.file'' \<mapsto> ''vpc-share'']\<rparr>"

lemma samplePV_sel [simp]:
  "pv_CSI (samplePV ph) = Some sampleCSI" "pv_Phase (samplePV ph) = ph" "pv_Name (samplePV ph) = ''pv-1''"
  "pv_ClaimRef (samplePV ph) = Some \<lparr>claim_Namespace = ''ns'', claim_Name = ''pvc-1''\<rparr>"
  "pv_Capacity (samplePV ph) = [''storage'' \<mapsto> 10 * GiB + 1]"
  by (simp_all add: samplePV_def)

section \<open>The volume record\<close>

definition defaultTags :: "'w PVWatcher \<Rightarrow> PersistentVolume \<Rightarrow> CSISource \<Rightarrow> ClaimRef \<Rightarrow> string list" where
  "defaultTags pvw pv csi claim =
     [''clusterID:'' @ map_get (csi_VolumeAttributes csi) [] ''clusterID'', ''reclaimpolicy:'' @ pv_ReclaimPolicy pv,
      ''storageclass:'' @ pv_StorageClassName pv, ''namespace:'' @ claim_Namespace claim, ''pvc:'' @ claim_Name claim,
      ''pv:'' @ pv_Name pv, ''provisioner:'' @ pvw_provisionerName pvw]"

lemmas label_defs = ClusterIDLabel_def ReclaimPolicyTag_def StorageClassTag_def NameSpaceTag_def PVCNameTag_def PVNameTag_def
  ProvisionerTag_def VolumeStatus_def VolumeStatusCreated_def VolumeStatusDeleted_def ClusterIDTagName_def

lemma ToLower_cluster: "ToLower ''clusterID'' = ''clusterid''"
  by code_simp

text \<open>What the IKS service is told about a volume: the handle as its ID, the cluster of its attributes, and
  for a released volume only the status \<open>deleted\<close>; for any other volume the status \<open>created\<close>, the
  capacity in whole GiB, and the user's tags followed by the seven default tags.\<close>

lemma record_from_PV:
  assumes "pv_CSI pv = Some csi" and "pv_ClaimRef pv = Some claim" and "lc_VPC (pvw_config pvw) = Some vc"
  shows "\<exists>v. getVolumeFromPV pvw pv st = (Ret v, st) \<and>
    upvc_ID (NewUpdatePVC v) = csi_VolumeHandle csi \<and>
    upvc_Cluster (NewUpdatePVC v) = map_get (csi_VolumeAttributes csi) [] ''clusterID'' \<and>
    upvc_Status (NewUpdatePVC v) = (if pv_Phase pv = VolumeReleased then ''deleted'' else ''created'') \<and>
    upvc_Capacity (NewUpdatePVC v) =
      (if pv_Phase pv = VolumeReleased then 0 else go_div (map_get (pv_Capacity pv) 0 ''storage'') GiB) \<and>
    upvc_Tags (NewUpdatePVC v) =
      (if pv_Phase pv = VolumeReleased then []
       else (let t = TrimSpace (map_get (csi_VolumeAttributes csi) [] ''tags'') in if t = [] then [] else Split t '','') @
         defaultTags pvw pv csi claim)"
  using assms
  by (simp add: getVolumeFromPV_def getTags_def watch_run Let_def NewUpdatePVC_def label_defs defaultTags_def
      BytesToGiB_def ResourceStorage_def ToLower_cluster zeroVolume_def)

lemma record_from_PV_witness:
  "\<exists>v. getVolumeFromPV (sampleWatcher (IksSess (dualSession NilSession))) (samplePV ''Bound'') (init_gost (0::nat), []) =
     (Ret v, (init_gost 0, [])) \<and>
     upvc_Tags (NewUpdatePVC v) = [''a'', ''b'', ''clusterID:c1'', ''reclaimpolicy:Delete'', ''storageclass:dp2'',
       ''namespace:ns'', ''pvc:pvc-1'', ''pv:pv-1'', ''provisioner:vpc.file''] \<and> upvc_Capacity (NewUpdatePVC v) = 10"
proof -
  have t: "TrimSpace '' a,b '' = ''a,b''" "Split ''a,b'' '','' = [''a'', ''b'']" by code_simp+
  have g: "go_div (10 * GiB + 1) GiB = 10" by (simp add: go_div_def GiB_def)
  show ?thesis
    using record_from_PV [of "samplePV ''Bound''" sampleCSI "\<lparr>claim_Namespace = ''ns'', claim_Name = ''pvc-1''\<rparr>"
        "sampleWatcher (IksSess (dualSession NilSession))" "configure sampleVPCConfig" "(init_gost (0::nat), [])"]
    by (auto simp: sampleWatcher_def sampleCSI_def samplePV_def VolumeReleased_def defaultTags_def t g map_get_def)
qed

section \<open>What an update does\<close>

lemma save_volume_run:
  assumes "cpi_GetProviderSession (pvw_cloudProvider pvw) s = (Ret (Some (IksSess dual), err), s1)"
    and "getVolumeFromPV pvw new (s1, evs) = (Ret volume, (s1, evs))"
  shows "save_volume X pvw statuses (Some new) (s, evs) =
    (case iks_UpdateVolume X dual volume s1 of
       (Panic p, s2) \<Rightarrow> (Panic p, (s2, evs))
     | (Ret e1, s2) \<Rightarrow>
         let evs1 = evs @ (case e1 of None \<Rightarrow> [] | Some e \<Rightarrow> [\<lparr>ev_Volume = pv_Name new, ev_Type = EventTypeWarning,
               ev_Reason = VolumeUpdateEventReason, ev_Message = ErrorString X e\<rparr>])
         in if snd statuses \<noteq> fst statuses \<and> snd statuses = VolumeBound
            then (case UpdateVolume X (iv_VPCSession dual) volume s2 of
                    (Panic p, s3) \<Rightarrow> (Panic p, (s3, evs1))
                  | (Ret e2, s3) \<Rightarrow> (Ret (), (s3, evs1 @ [\<lparr>ev_Volume = pv_Name new,
                      ev_Type = (if e2 = None then EventTypeNormal else EventTypeWarning), ev_Reason = VolumeUpdateEventReason,
                      ev_Message = (case e2 of None \<Rightarrow> ''Success'' | Some e \<Rightarrow> ErrorString X e)\<rparr>])))
            else (Ret (), (s2, evs1)))"
  using assms
  by (auto simp: save_volume_def watch_run Let_def record_event_def gmodify_def VolumeUpdateEventSuccess_def
      split: prod.split outcome.split option.split)

text \<open>What an update has to differ in to count: the phase, the capacity or the IOPS of the volume.\<close>

definition counts_as_change :: "PersistentVolume \<Rightarrow> CSISource \<Rightarrow> PersistentVolume \<Rightarrow> CSISource \<Rightarrow> bool" where
  "counts_as_change old oc new nc \<longleftrightarrow>
     pv_Phase new \<noteq> pv_Phase old \<or>
     map_get (pv_Capacity new) 0 ''storage'' \<noteq> map_get (pv_Capacity old) 0 ''storage'' \<or>
     map_get (csi_VolumeAttributes nc) [] ''iops'' \<noteq> map_get (csi_VolumeAttributes oc) [] ''iops''"

definition becomes_bound :: "PersistentVolume \<Rightarrow> PersistentVolume \<Rightarrow> bool" where
  "becomes_bound old new \<longleftrightarrow> pv_Phase old \<noteq> ''Bound'' \<and> pv_Phase new = ''Bound''"

lemma updateVolume_handled:
  assumes "pv_CSI old = Some oc" and "pv_CSI new = Some nc" and "counts_as_change old oc new nc"
  shows "updateVolume X pvw (Some (Some old)) (Some new) st =
    recovered (save_volume X pvw (pv_Phase old, pv_Phase new) (Some new)) st"
proof -
  have "compare_objects (Some old) (Some new) st = (Ret ((pv_Phase old, pv_Phase new), False), st)"
    using assms(3) unfolding compare_objects_run [OF assms(1,2)]
    by (auto simp: counts_as_change_def ResourceStorage_def IOPSLabel_def)
  then show ?thesis by (simp add: updateVolume_def recovered_def gbind_def)
qed

text \<open>C38: An update that counts, in the phase, the capacity or the IOPS, saves the record in the IKS service, and the
  tags in VPC exactly when the volume becomes bound: for any other change, a resize of a bound volume for one,
  the VPC session is not used.  Every failure is recorded as a warning, and a saved set of tags as a success;
  one does not keep the other from being tried.\<close>

theorem updateVolume_effects:
  assumes "pv_CSI old = Some oc" and "pv_CSI new = Some nc" and "counts_as_change old oc new nc"
    and "cpi_GetProviderSession (pvw_cloudProvider pvw) s = (Ret (Some (IksSess dual), err), s1)"
    and "getVolumeFromPV pvw new (s1, evs) = (Ret volume, (s1, evs))"
    and "iks_UpdateVolume X dual volume s1 = (Ret e1, s2)"
    and "becomes_bound old new \<Longrightarrow> UpdateVolume X (iv_VPCSession dual) volume s2 = (Ret e2, s3)"
  shows "updateVolume X pvw (Some (Some old)) (Some new) (s, evs) =
    (Ret (), (if becomes_bound old new then s3 else s2,
       evs @ (case e1 of None \<Rightarrow> [] | Some e \<Rightarrow> [\<lparr>ev_Volume = pv_Name new, ev_Type = EventTypeWarning,
               ev_Reason = VolumeUpdateEventReason, ev_Message = ErrorString X e\<rparr>]) @
       (if becomes_bound old new
        then [\<lparr>ev_Volume = pv_Name new, ev_Type = (if e2 = None then EventTypeNormal else EventTypeWarning),
               ev_Reason = VolumeUpdateEventReason,
               ev_Message = (case e2 of None \<Rightarrow> ''Success'' | Some e \<Rightarrow> ErrorString X e)\<rparr>]
        else [])))"
proof -
  have bound: "pv_Phase new \<noteq> pv_Phase old \<and> pv_Phase new = VolumeBound \<longleftrightarrow> becomes_bound old new"
    by (auto simp: becomes_bound_def VolumeBound_def)
  have save: "save_volume X pvw (pv_Phase old, pv_Phase new) (Some new) (s, evs) =
      (Ret (), (if becomes_bound old new then s3 else s2,
       evs @ (case e1 of None \<Rightarrow> [] | Some e \<Rightarrow> [\<lparr>ev_Volume = pv_Name new, ev_Type = EventTypeWarning,
               ev_Reason = VolumeUpdateEventReason, ev_Message = ErrorString X e\<rparr>]) @
       (if becomes_bound old new
        then [\<lparr>ev_Volume = pv_Name new, ev_Type = (if e2 = None then EventTypeNormal else EventTypeWarning),
               ev_Reason = VolumeUpdateEventReason,
               ev_Message = (case e2 of None \<Rightarrow> ''Success'' | Some e \<Rightarrow> ErrorString X e)\<rparr>]
        else [])))"
    unfolding save_volume_run [OF assms(4,5)] Let_def fst_conv snd_conv bound using assms(6,7) by simp
  show ?thesis unfolding updateVolume_handled [OF assms(1-3)] by (simp only: recovered_def save prod.case outcome.case)
qed

text \<open>C39: A session without its IKS part loses every update that counts without a trace: the IKS call panics before any
  request, the handler recovers, no event is recorded and the tags are never saved in VPC, although
  the VPC session is there.\<close>

theorem updateVolume_without_IKS_session:
  assumes "pv_CSI old = Some oc" and "pv_CSI new = Some nc" and "counts_as_change old oc new nc"
    and "cpi_GetProviderSession (pvw_cloudProvider pvw) s = (Ret (Some (IksSess dual), err), s1)"
    and "getVolumeFromPV pvw new (s1, evs) = (Ret volume, (s1, evs))"
    and "iks_validateVolumeRequest X (MessagesEn s1) volume = None"
    and "iv_IksSession dual = NilSession \<or> (\<exists>e. iv_IksSession dual = EmptySession e)"
    and "0 < fr_maxRetryAttempt (vs_APIRetry (iv_VPCSession dual))"
  shows "updateVolume X pvw (Some (Some old)) (Some new) (s, evs) = (Ret (), (s1, evs))"
  unfolding updateVolume_handled [OF assms(1-3)] recovered_def save_volume_run [OF assms(4,5)]
  using assms(6-8) by (simp add: iks_session_missing)

lemma sampleWatcher_session:
  "cpi_GetProviderSession (pvw_cloudProvider (sampleWatcher session)) s = (Ret (Some session, None), s)"
  by (simp add: sampleWatcher_def gret_def)

definition sampleWatched :: "string \<Rightarrow> Volume" where
  "sampleWatched phase = (case fst (getVolumeFromPV (sampleWatcher (VPCSess (fileSession (refusing (PlainError [])))))
     (samplePV phase) (init_gost (0::nat), [])) of Ret v \<Rightarrow> v | Panic p \<Rightarrow> zeroVolume)"

lemma sampleWatched:
  "getVolumeFromPV (sampleWatcher session) (samplePV phase) st = (Ret (sampleWatched phase), st)"
  by (simp add: sampleWatched_def getVolumeFromPV_def getTags_def watch_run Let_def sampleWatcher_def)

lemma sampleWatched_valid: "iks_validateVolumeRequest X en (sampleWatched phase) = None"
  by (simp add: sampleWatched_def getVolumeFromPV_def getTags_def watch_run Let_def sampleWatcher_def
      iks_validateVolumeRequest_def sampleCSI_def sampleVolumeID_def map_get_def)

lemma updateVolume_without_IKS_session_witness:
  "updateVolume sampleExt (sampleWatcher (IksSess (dualSession (EmptySession (PlainError ''no token'')))))
     (Some (Some (samplePV ''Pending''))) (Some (samplePV ''Bound'')) (init_gost (0::nat), []) = (Ret (), (init_gost 0, []))"
  by (rule updateVolume_without_IKS_session [OF _ _ _ sampleWatcher_session sampleWatched sampleWatched_valid])
    (simp_all add: dualSession_def counts_as_change_def)

text \<open>A volume that becomes bound, and a bound volume that is resized.\<close>

lemma updateVolume_effects_witness:
  "(\<exists>s3 m. updateVolume sampleExt (sampleWatcher (IksSess (dualSession (OpenedSession (fileSession
       ((refusing (api_error ''bad_field''))\<lparr>fs_UpdateVolume := \<lambda>_ w. (None, Suc w)\<rparr>))))))
     (Some (Some (samplePV ''Pending''))) (Some (samplePV ''Bound'')) (init_gost (0::nat), []) =
     (Ret (), (s3, [\<lparr>ev_Volume = ''pv-1'', ev_Type = EventTypeWarning, ev_Reason = VolumeUpdateEventReason, ev_Message = m\<rparr>]))) \<and>
   updateVolume sampleExt (sampleWatcher (IksSess (dualSession (OpenedSession (fileSession
       ((refusing (api_error ''bad_field''))\<lparr>fs_UpdateVolume := \<lambda>_ w. (None, Suc w)\<rparr>))))))
     (Some (Some ((samplePV ''Bound'')\<lparr>pv_Capacity := [''storage'' \<mapsto> GiB]\<rparr>))) (Some (samplePV ''Bound'')) (init_gost (0::nat), []) =
     (Ret (), (init_gost 1, []))"
proof -
  let ?dual = "dualSession (OpenedSession (fileSession ((refusing (api_error ''bad_field''))\<lparr>fs_UpdateVolume := \<lambda>_ w. (None, Suc w)\<rparr>)))"
  let ?v = "sampleWatched ''Bound''"
  have "iksUpdate_attempt ?dual t (init_gost 0) = (Ret ((None, True), ()), init_gost (Suc 0))" for t
    by (simp add: iksUpdate_attempt_def dualSession_def gbind_def gret_def call_api_def)
  then have "FlexyRetry (vs_APIRetry (iv_VPCSession ?dual)) (iksUpdate_attempt ?dual t) () (init_gost 0)
      = (Ret (None, ()), init_gost (Suc 0))" for t
    unfolding FlexyRetry_eq_run by (intro flexy.first_stop) (simp_all add: dualSession_def)
  then have iks: "iks_UpdateVolume sampleExt ?dual ?v (init_gost 0) = (Ret None, init_gost (Suc 0))"
    by (simp add: iks_UpdateVolume_def gbind_def gget_def gret_def sampleWatched_valid Let_def)
  have "\<exists>e s3. UpdateVolume sampleExt (iv_VPCSession ?dual) ?v (init_gost (Suc 0)) = (Ret (Some e), s3)"
    by (simp add: UpdateVolume_def gbind_def gget_def gret_def minRetries_init updateTags_attempt_def dualSession_def
        refusing_def retry_stop_def api_error_def skipRetry_api_error skipErrorCodes_def skipErrorCodes_entries_def
        user_error_run)
  then obtain e s3 where vpc: "UpdateVolume sampleExt (iv_VPCSession ?dual) ?v (init_gost (Suc 0)) = (Ret (Some e), s3)"
    by blast
  have bound: "becomes_bound (samplePV ''Pending'') (samplePV ''Bound'')"
    "\<not> becomes_bound ((samplePV ''Bound'')\<lparr>pv_Capacity := [''storage'' \<mapsto> GiB]\<rparr>) (samplePV ''Bound'')"
    by (simp_all add: becomes_bound_def)
  have changes: "counts_as_change (samplePV ''Pending'') sampleCSI (samplePV ''Bound'') sampleCSI"
    "counts_as_change ((samplePV ''Bound'')\<lparr>pv_Capacity := [''storage'' \<mapsto> GiB]\<rparr>) sampleCSI (samplePV ''Bound'') sampleCSI"
    by (simp_all add: counts_as_change_def map_get_def GiB_def)
  show ?thesis
    using updateVolume_effects [OF _ _ changes(1) sampleWatcher_session sampleWatched iks vpc, where evs = "[]"]
      updateVolume_effects [OF _ _ changes(2) sampleWatcher_session sampleWatched iks, where evs = "[]"] bound by simp
qed

end
