(* ===== verification/WatcherRun.thy ===== *)
theory WatcherRun
  imports WatcherLaws
begin

text \<open>
  Making and running the watcher: \<^verbatim>\<open>New\<close> and \<^verbatim>\<open>Start\<close> of \<^verbatim>\<open>pkg/watcher/pv_watcher.go\<close>.  What the Kubernetes client
  says and how the informer's filtering handler passes a notification on are parameters; \<open>filtering\<close> states the
  documented behaviour of that handler.  The handlers are run one after the other, in the order of the
  notifications, which is one of the orders of their goroutines.
\<close>

section \<open>New\<close>

text \<open>The package variable \<^verbatim>\<open>VolumeTypeMap\<close> is written before the client is made.  \<^verbatim>\<open>logger.Fatal\<close> ends the program with its message.\<close>

definition NewWatcher :: "(string \<Rightarrow> string option) \<Rightarrow> goerror option \<Rightarrow> goerror option \<Rightarrow> string \<Rightarrow> string
    \<Rightarrow> 'w CloudProviderInterface \<Rightarrow> (string \<Rightarrow> string option) \<times> (string + 'w PVWatcher)" where
  "NewWatcher VolumeTypeMap configErr clientErr provisionerName volumeType cloudProvider =
     (let typeMap = VolumeTypeMap(provisionerName \<mapsto> volumeType) in
      (typeMap,
       case configErr of
         Some e \<Rightarrow> Inl ''Failed to create config:''
       | None \<Rightarrow>
           (case clientErr of
              Some e \<Rightarrow> Inl ''Failed to create client:''
            | None \<Rightarrow> Inr \<lparr>pvw_config = cpi_GetConfig cloudProvider, pvw_provisionerName = provisionerName,
                        pvw_cloudProvider = cloudProvider, pvw_VolumeTypeMap = typeMap\<rparr>)))"

section \<open>Start\<close>

text \<open>What the informer reports; an object that is not a persistent volume is the nil pointer.\<close>

datatype notification =
    Added "PersistentVolume option"
  | Updated "PersistentVolume option" "PersistentVolume option"
  | Removed "PersistentVolume option"

text \<open>A filtering handler with a filter and an update function, and no function for additions and removals.\<close>

type_synonym 'w informer =
  "(PersistentVolume option \<Rightarrow> bool) \<Rightarrow> (PersistentVolume option option \<Rightarrow> PersistentVolume option \<Rightarrow> ('w watch, unit) go)
     \<Rightarrow> notification \<Rightarrow> ('w watch, unit) go"

fun Start :: "ext \<Rightarrow> 'w informer \<Rightarrow> 'w PVWatcher \<Rightarrow> notification list \<Rightarrow> ('w watch, unit) go" where
  "Start X handler pvw [] = gret ()"
| "Start X handler pvw (n # ns) =
     gbind (handler (pv_filter pvw) (updateVolume X pvw) n) (\<lambda>_. Start X handler pvw ns)"

text \<open>The documented behaviour: an update is passed on if both objects pass the filter; one that only the new
  (old) object passes counts as an addition (a removal), and additions and removals have no function.\<close>

definition filtering :: "'w informer \<Rightarrow> bool" where
  "filtering handler \<longleftrightarrow>
     (\<forall>f u n. handler f u n =
        (case n of Updated old new \<Rightarrow> if f old \<and> f new then u (Some old) new else gret () | _ \<Rightarrow> gret ()))"

section \<open>Properties\<close>

lemma recovered_returns: "\<exists>s'. recovered m s = (Ret (), s')"
  by (auto simp: recovered_def split: prod.split outcome.split)

lemma updateVolume_returns: "\<exists>s'. updateVolume X pvw old new s = (Ret (), s')"
  unfolding updateVolume_def by (rule recovered_returns)

text \<open>A notification counts if it is the update of a volume of the provisioner in its phase, capacity or IOPS.\<close>

fun counts :: "'w PVWatcher \<Rightarrow> notification \<Rightarrow> bool" where
  "counts pvw (Updated (Some old) (Some new)) =
     (case (pv_CSI old, pv_CSI new) of
        (Some oc, Some nc) \<Rightarrow> csi_Driver oc = pvw_provisionerName pvw \<and> csi_Driver nc = pvw_provisionerName pvw \<and>
          counts_as_change old oc new nc
      | _ \<Rightarrow> False)"
| "counts pvw _ = False"

lemma passed_over:
  assumes "filtering handler" and "\<not> counts pvw n"
  shows "handler (pv_filter pvw) (updateVolume X pvw) n st = (Ret (), st)"
proof (cases n)
  case (Updated old new)
  show ?thesis
  proof (cases "pv_filter pvw old \<and> pv_filter pvw new")
    case True
    then obtain o' oc n' nc where p: "old = Some o'" "pv_CSI o' = Some oc" "new = Some n'" "pv_CSI n' = Some nc"
      by (auto simp: pv_filter_provisioner)
    with True have "csi_Driver oc = pvw_provisionerName pvw" "csi_Driver nc = pvw_provisionerName pvw"
      by (simp_all add: pv_filter_provisioner)
    with assms(2) Updated p have "\<not> counts_as_change o' oc n' nc" by simp
    then have "updateVolume X pvw (Some (Some o')) (Some n') st = (Ret (), st)"
      by (intro updateVolume_unchanged [OF p(2,4)]) (simp_all add: counts_as_change_def ResourceStorage_def IOPSLabel_def)
    with assms(1) True Updated p show ?thesis by (simp add: filtering_def)
  next
    case False
    with assms(1) Updated show ?thesis by (auto simp: filtering_def gret_def)
  qed
qed (use assms(1) in \<open>simp_all add: filtering_def gret_def\<close>)

text \<open>C36: The watcher survives every sequence of notifications, whatever its handlers meet, and what it does is determined by
  the updates of its provisioner's volumes in phase, capacity or IOPS: leaving all other notifications out
  (other provisioners, resyncs, additions, removals) changes nothing.\<close>

theorem Start_handles_changes:
  assumes "filtering handler"
  shows "\<exists>s'. Start X handler pvw ns s = (Ret (), s') \<and> Start X handler pvw (filter (counts pvw) ns) s = (Ret (), s')"
proof (induction ns arbitrary: s)
  case (Cons n ns)
  show ?case
  proof (cases "counts pvw n")
    case True
    have "\<exists>s1. handler (pv_filter pvw) (updateVolume X pvw) n s = (Ret (), s1)"
      using assms updateVolume_returns [of X pvw] by (cases n) (auto simp: filtering_def gret_def)
    with True Cons.IH show ?thesis by (auto simp: gbind_def)
  next
    case False
    with passed_over [OF assms False, of X s] Cons.IH [of s] show ?thesis by (simp add: gbind_def)
  qed
qed (simp add: gret_def)

text \<open>The handler as documented.\<close>

definition filteringHandler :: "'w informer" where
  "filteringHandler f u n = (case n of Updated old new \<Rightarrow> if f old \<and> f new then u (Some old) new else gret () | _ \<Rightarrow> gret ())"

lemma filtering_handler: "filtering filteringHandler"
  by (simp add: filtering_def filteringHandler_def)

lemma Start_handles_changes_witness:
  "\<exists>s'. Start sampleExt filteringHandler (sampleWatcher (IksSess (dualSession NilSession)))
      [Added (Some (samplePV ''Pending'')), Updated (Some (samplePV ''Pending'')) (Some (samplePV ''Pending'')), Updated None None]
      (init_gost (0::nat), []) = (Ret (), s') \<and> s' = (init_gost 0, [])"
proof -
  let ?w = "sampleWatcher (IksSess (dualSession NilSession)) :: nat PVWatcher"
  have "filter (counts ?w) [Added (Some (samplePV ''Pending'')), Updated (Some (samplePV ''Pending'')) (Some (samplePV ''Pending'')),
      Updated None None] = []" by (simp add: counts_as_change_def)
  with Start_handles_changes [OF filtering_handler, of sampleExt ?w "[Added (Some (samplePV ''Pending'')),
      Updated (Some (samplePV ''Pending'')) (Some (samplePV ''Pending'')), Updated None None]" "(init_gost 0, [])"]
  show ?thesis by (simp add: gret_def del: Start.simps(2))
qed

text \<open>A watcher that was made knows the type of its provisioner's volumes.\<close>

lemma NewWatcher_type:
  assumes "NewWatcher tm ce cl prov vt cp = (tm', Inr pvw)"
  shows "map_get (pvw_VolumeTypeMap pvw) [] (pvw_provisionerName pvw) = vt \<and> (\<forall>k. k \<noteq> prov \<longrightarrow> tm' k = tm k) \<and> ce = None \<and> cl = None"
  using assms by (auto simp: NewWatcher_def map_get_def Let_def split: option.splits)

end
