(* ===== verification/RetryProperties.thy ===== *)
theory RetryProperties
  imports RetryLaws Samples Convert
begin

text \<open>
  The properties of the retry loops, the message catalogue and the numeric helpers.
\<close>

section \<open>The retry loops\<close>

text \<open>C17: \<open>retry\<close> implements its specification: it always returns, its answer and the world it leaves are
  those of calling the closure until it succeeds or fails with an error whose codes end the retry,
  at most \<open>maxRetryAttempt\<close> times; between \<open>n\<close> calls it sleeps \<open>n - 1\<close> times; and it leaves the
  configuration as it was.\<close>

theorem retry_refines_spec:
  fixes f :: "'w \<Rightarrow> (goerror option \<times> 'c) \<times> 'w"
  shows "let bound = nat (maxRetryAttempt s);
             (r, w) = attempt_spec f retry_stop bound (None, c0) (world s)
         in \<exists>s'. retry f c0 s = (Ret r, s') \<and> world s' = w \<and> same_config s s' \<and>
            length (slept s') = length (slept s) + (attempt_count f retry_stop bound (world s) - 1)"
  using retry.refines [where f = f and s = s and ?r0.0 = "(None, c0)"]
    retry.config [where f = f and s = s and ?r0.0 = "(None, c0)"]
    retry.sleeps [where f = f and s = s and ?r0.0 = "(None, c0)"]
  by (simp add: retry_eq_run Let_def split: prod.split)

text \<open>\<open>retryWithMinRetries\<close> implements the same specification with the fixed bound of five calls,
  whatever the configuration.\<close>

lemma retryWithMinRetries_refines_spec:
  fixes f :: "'w \<Rightarrow> (goerror option \<times> 'c) \<times> 'w"
  shows "let (r, w) = attempt_spec f retry_stop 5 (None, c0) (world s)
         in \<exists>s'. retryWithMinRetries f c0 s = (Ret r, s') \<and> world s' = w \<and> same_config s s' \<and>
            length (slept s') = length (slept s) + (attempt_count f retry_stop 5 (world s) - 1)"
  using minRetries.refines [where f = f and s = s and ?r0.0 = "(None, c0)"]
    minRetries.config [where f = f and s = s and ?r0.0 = "(None, c0)"]
    minRetries.sleeps [where f = f and s = s and ?r0.0 = "(None, c0)"]
  by (simp add: retryWithMinRetries_eq_run minRetryAttempt_def Let_def split: prod.split)

text \<open>The gap stays usable: with a positive gap and a positive configured maximum, both at most \<open>M\<close>
  seconds (\<open>M\<close> up to \<open>2 ^ 61\<close>), the gap \<open>retry\<close> leaves is again positive and at most \<open>M\<close>: no
  doubling overflows.\<close>

lemma retry_gap_bounds:
  assumes "0 < retryGap s" and "retryGap s \<le> M" and "0 < maxRetryGap s" and "maxRetryGap s \<le> M"
    and "M \<le> 2 ^ 61"
  shows "0 < retryGap (snd (retry f c0 s)) \<and> retryGap (snd (retry f c0 s)) \<le> M"
  using retry_loop_gap [OF assms, of f 0 "nat (maxRetryAttempt s)" "(None, c0)"]
  by (simp add: retry_def gap_ok_def)

lemma retry_gap_bounds_witness:
  "retryGap (snd (retry f () (init_gost (0::nat)))) \<le> 60"
  using retry_gap_bounds [of "init_gost (0::nat)" 60 f "()"] by simp

text \<open>The gap is shared and never reset: it is at least as large after a call of \<open>retry\<close> as before, so
  an operation that meets errors makes the first sleeps of every later operation longer.\<close>

lemma retry_gap_never_shrinks:
  assumes "0 < retryGap s" and "retryGap s \<le> maxRetryGap s" and "maxRetryGap s \<le> 2 ^ 61"
  shows "retryGap s \<le> retryGap (snd (retry f c0 s))"
  using retry_loop_gap_mono [OF assms, of f 0 "nat (maxRetryAttempt s)" "(None, c0)"] by (simp add: retry_def)

lemma retry_gap_never_shrinks_witness: "10 \<le> retryGap (snd (retry f () (init_gost (0::nat))))"
  using retry_gap_never_shrinks [of "init_gost (0::nat)" f "()"] by simp

text \<open>The first item of an error whose code is in the table decides whether the retry ends; an error
  without a listed code is retried.\<close>

lemma skipRetry_first_listed:
  "skipRetry e =
     (case List.find (\<lambda>it. skipErrorCodes (ei_Code it) \<noteq> None) (err_Errors e) of
        None \<Rightarrow> False
      | Some it \<Rightarrow> the (skipErrorCodes (ei_Code it)))"
proof -
  have "skipRetry_items its =
     (case List.find (\<lambda>it. skipErrorCodes (ei_Code it) \<noteq> None) its of
        None \<Rightarrow> False | Some it \<Rightarrow> the (skipErrorCodes (ei_Code it)))" for its
    by (induction its) (auto split: option.split)
  then show ?thesis by (simp add: skipRetry_def)
qed

lemma constGap_exhausted:
  assumes "\<And>t. f t = (Ret ((e, False), c), t\<lparr>world := h (world t)\<rparr>)"
  shows "constGap_loop f i n cur s =
    (Ret (if n = 0 then cur else (e, c)),
     s\<lparr>slept := slept s @ replicate (if i = 0 then n - 1 else n) (wrap64 (ConstantRetryGap * 1000000000)),
       world := (h ^^ n) (world s)\<rparr>)"
proof (induction n arbitrary: i cur s)
  case (Suc n)
  let ?d = "wrap64 (ConstantRetryGap * 1000000000)"
  let ?s1 = "if i > 0 then sleep_seconds ConstantRetryGap s else s"
  have go: "constGap_loop f i (Suc n) cur s = constGap_loop f (Suc i) n (e, c) (?s1\<lparr>world := h (world s)\<rparr>)"
    using assms [of ?s1] by (simp add: Let_def)
  show ?case unfolding go Suc.IH by (cases n) (auto simp: sleep_seconds_def funpow_swap1)
qed simp

text \<open>The constant-gap loop allows four times the configured attempts: a closure that never stops is
  called \<open>4 n\<close> times, with a sleep of ten seconds between two calls, and the loop then returns its
  last error.\<close>

lemma constGap_four_times:
  assumes "\<And>t. f t = (Ret ((e, False), c), t\<lparr>world := h (world t)\<rparr>)"
    and "fr_maxRetryAttempt fr = int n" and "0 < n" and "4 * int n \<le> max_int64"
  shows "FlexyRetryWithConstGap fr f c0 s =
    (Ret (e, c), s\<lparr>slept := slept s @ replicate (4 * n - 1) 10000000000, world := (h ^^ (4 * n)) (world s)\<rparr>)"
proof -
  have "wrap64 (int n * 4) = int (4 * n)" using assms(4) by (subst wrap64_id) (simp_all add: in_int64_def)
  moreover have "nat (4 * int n) = 4 * n" by simp
  moreover have "wrap64 (ConstantRetryGap * 1000000000) = 10000000000"
    by (simp add: ConstantRetryGap_def wrap64_id in_int64_def)
  ultimately show ?thesis
    using assms(2,3) constGap_exhausted [OF assms(1), of 0 "4 * n" "(None, c0)" s]
    by (simp add: FlexyRetryWithConstGap_def totalAttempt_def)
qed

lemma constGap_four_times_witness:
  "FlexyRetryWithConstGap \<lparr>fr_maxRetryAttempt = 2, fr_maxRetryGap = 60\<rparr>
     (\<lambda>t. (Ret ((None, False), ()), t\<lparr>world := Suc (world t)\<rparr>)) () (init_gost (0::nat)) =
   (Ret (None, ()), (init_gost 8)\<lparr>slept := replicate 7 10000000000\<rparr>)"
proof -
  have "(Suc ^^ 8) 0 = 8" by (simp add: eval_nat_numeral)
  then show ?thesis
    using constGap_four_times [of "\<lambda>t. (Ret ((None, False), ()), t\<lparr>world := Suc (world t)\<rparr>)" None "()" Suc
        "\<lparr>fr_maxRetryAttempt = 2, fr_maxRetryGap = 60\<rparr>" 2 "()" "init_gost (0::nat)"]
    by (simp add: init_gost_def)
qed

section \<open>Messages\<close>

text \<open>With the catalogue loaded, a user error built for a listed code carries that code, whatever the
  backend error and the arguments, and no user error ends a retry.\<close>

lemma user_error_code:
  assumes "code \<in> set (map fst messagesEn_entries)"
  shows "error_code (GetUserError X messagesEn code err args) = code \<and>
    \<not> skipRetryForObviousErrors (GetUserError X messagesEn code err args)"
proof -
  have "code \<in> fst ` set messagesEn_entries" using assms by simp
  from known_code [OF this] show ?thesis by (simp add: skipRetryForObviousErrors_def split: goerror.split)
qed

lemma user_error_code_witness:
  "error_code (GetUserError sampleExt messagesEn ''InvalidVolumeID'' None []) = ''InvalidVolumeID''"
  using user_error_code [of "''InvalidVolumeID''" sampleExt None "[]"] by (simp add: messagesEn_entries_def)

text \<open>The code \<open>VolumeProfileEmpty\<close>, which the volume validation reports, is not in the catalogue: its
  user error has an empty code, an empty description and the status 0.\<close>

lemma VolumeProfileEmpty_not_catalogued:
  "GetUserError X messagesEn ''VolumeProfileEmpty'' None [] = UserMessage zeroMessage"
proof -
  have "messagesEn ''VolumeProfileEmpty'' = None"
    by (simp add: messagesEn_def messagesEn_entries_def)
  then show ?thesis by (simp add: GetUserError_def GetUserMsg_def map_get_def)
qed

lemma Sprintf_FailedToDeleteVolume:
  "Sprintf ''The file share ID '%d' could not be deleted from your VPC.'' [AStr v] =
     ''The file share ID '%!d(string='' @ v @ '')' could not be deleted from your VPC.''"
  by (simp add: fmt_extra_def bad_verb_def)

text \<open>The delete failure's description formats the share ID, a string, with \<open>%d\<close>: the user reads
  \<open>%!d(string=...)\<close> in place of the ID.\<close>

lemma FailedToDeleteVolume_bad_verb:
  "msg_Description (GetUserMsg messagesEn ''FailedToDeleteVolume'' [AStr v]) =
     ''The file share ID '%!d(string='' @ v @ '')' could not be deleted from your VPC.''"
proof -
  have "messagesEn ''FailedToDeleteVolume'' = Some msg_of_FailedToDeleteVolume"
    by (simp add: messagesEn_def messagesEn_entries_def)
  then show ?thesis
    by (simp add: GetUserMsg_def map_get_def msg_of_FailedToDeleteVolume_def Sprintf_FailedToDeleteVolume Let_def
        del: Sprintf.simps)
qed

section \<open>Numbers\<close>

text \<open>In the range where it does not overflow, \<open>roundUpSize\<close> is division rounded up: the smallest number
  of allocation units that hold the volume.\<close>

lemma roundUpSize_least:
  assumes "0 \<le> v" and "0 < u" and "v + u \<le> max_int64"
  shows "v \<le> roundUpSize v u * u \<and> (\<forall>n. v \<le> n * u \<longrightarrow> roundUpSize v u \<le> n)"
proof
  show "v \<le> roundUpSize v u * u" by (rule roundUpSize_bounds [OF assms])
  show "\<forall>n. v \<le> n * u \<longrightarrow> roundUpSize v u \<le> n"
  proof (intro allI impI)
    fix n assume "v \<le> n * u"
    with roundUpSize_bounds(2) [OF assms] have "roundUpSize v u * u < (n + 1) * u" by (simp add: algebra_simps)
    then have "roundUpSize v u < n + 1" using assms(2) by (rule mult_right_less_imp_less [OF _ less_imp_le])
    then show "roundUpSize v u \<le> n" by simp
  qed
qed

lemma roundUpSize_least_witness: "roundUpSize (GiB + 1) GiB \<le> 2"
  using roundUpSize_least [of "GiB + 1" GiB] by (simp add: GiB_def)

end
