(* ===== verification/NodeMeta.thy ===== *)
theory NodeMeta
  imports Models
begin

text \<open>
  The node metadata of \<^verbatim>\<open>pkg/metadata/metadata.go\<close>: zone, region and worker ID read from the
  labels and the provider ID of the Kubernetes node.  The Kubernetes client is a
  parameter: the cluster configuration, the client set and the node, or an error.
\<close>

definition NodeZoneLabel :: string where "NodeZoneLabel = ''failure-domain.beta.kubernetes.io/zone''"
definition NodeRegionLabel :: string where "NodeRegionLabel = ''failure-domain.beta.kubernetes.io/region''"
definition NodeInstanceIDLabel :: string where "NodeInstanceIDLabel = ''ibm-cloud.kubernetes.io/vpc-instance-id''"
definition MachineTypeLabel :: string where "MachineTypeLabel = ''ibm-cloud.kubernetes.io/machine-type''"
definition UPI :: string where "UPI = ''upi''"

record nodeMetadataManager =
  nm_zone :: string
  nm_region :: string
  nm_workerID :: string

record NodeInfoManager =
  nim_NodeName :: string

record k8s_node =
  node_Labels :: "string \<Rightarrow> string option"
  node_ProviderID :: string

record k8s =
  k8s_InClusterConfig :: "goerror option"
  k8s_NewForConfig :: "goerror option"
  k8s_GetNode :: "string \<Rightarrow> goerror + k8s_node"
  k8s_LabelsText :: "(string \<Rightarrow> string option) \<Rightarrow> string"

definition fetchInstanceID :: "string \<Rightarrow> string" where
  "fetchInstanceID providerID =
     (let s = Split providerID ''/'' in if length s \<noteq> 7 then [] else s ! 6)"

definition NewNodeMetadata :: "k8s \<Rightarrow> NodeInfoManager \<Rightarrow> goerror + nodeMetadataManager" where
  "NewNodeMetadata K nodeManager =
     (case k8s_InClusterConfig K of
        Some e \<Rightarrow> Inl e
      | None \<Rightarrow>
          (case k8s_NewForConfig K of
             Some e \<Rightarrow> Inl e
           | None \<Rightarrow>
               (case k8s_GetNode K (nim_NodeName nodeManager) of
                  Inl e \<Rightarrow> Inl e
                | Inr node \<Rightarrow>
                    let nodeLabels = map_get (node_Labels node) [] in
                    if nodeLabels NodeRegionLabel = [] \<or> nodeLabels NodeZoneLabel = []
                    then Inl (PlainError (''One or few required node label(s) is/are missing ['' @ NodeRegionLabel @
                      '', '' @ NodeZoneLabel @ '']. Node Labels Found = [#'' @ k8s_LabelsText K (node_Labels node) @ '']''))
                    else
                      let manager = (\<lambda>workerID. Inr \<lparr>nm_zone = nodeLabels NodeZoneLabel,
                                        nm_region = nodeLabels NodeRegionLabel, nm_workerID = workerID\<rparr>) in
                      if nodeLabels MachineTypeLabel = UPI then manager (nodeLabels NodeInstanceIDLabel)
                      else let workerID = fetchInstanceID (node_ProviderID node) in
                           if workerID = []
                           then Inl (PlainError (''Unable to fetch instance ID from node provider ID - '' @ node_ProviderID node))
                           else manager workerID)))"

definition GetZone :: "nodeMetadataManager \<Rightarrow> string" where "GetZone manager = nm_zone manager"
definition GetRegion :: "nodeMetadataManager \<Rightarrow> string" where "GetRegion manager = nm_region manager"
definition GetWorkerID :: "nodeMetadataManager \<Rightarrow> string" where "GetWorkerID manager = nm_workerID manager"

section \<open>Properties\<close>

lemma fetchInstanceID_slashes:
  "fetchInstanceID pid = (if count_list pid CHR ''/'' = 6 then last (Split pid ''/'') else [])"
proof -
  have "length (Split pid ''/'') = Suc (count_list pid CHR ''/'')" by (rule Split_char_length)
  then show ?thesis by (auto simp: fetchInstanceID_def Let_def last_conv_nth Split_nonempty)
qed

text \<open>A provider ID made of seven parts gives its last part back.\<close>

lemma fetchInstanceID_parts:
  assumes "length parts = 7" and "list_all (\<lambda>p. CHR ''/'' \<notin> set p) parts"
  shows "fetchInstanceID (Join parts ''/'') = last parts"
proof -
  have "parts \<noteq> []" using assms(1) by auto
  then have "Split (Join parts ''/'') ''/'' = parts"
    using assms(2) by (intro Split_Join_char) (auto simp: list_all_iff)
  with assms(1) \<open>parts \<noteq> []\<close> show ?thesis by (simp add: fetchInstanceID_def Let_def last_conv_nth)
qed

text \<open>C40: A node's metadata is complete: when \<open>NewNodeMetadata\<close> succeeds, zone and region are the node's
  labels and not empty, and the worker ID is the instance label of a UPI machine or, for any other
  machine, the non-empty text after the sixth and last slash of the provider ID.\<close>

theorem NewNodeMetadata_complete:
  assumes "NewNodeMetadata K mgr = Inr m" and "k8s_GetNode K (nim_NodeName mgr) = Inr node"
  shows "Some (GetZone m) = node_Labels node NodeZoneLabel \<and> GetZone m \<noteq> [] \<and>
    Some (GetRegion m) = node_Labels node NodeRegionLabel \<and> GetRegion m \<noteq> [] \<and>
    (if node_Labels node MachineTypeLabel = Some UPI
     then GetWorkerID m = map_get (node_Labels node) [] NodeInstanceIDLabel
     else GetWorkerID m \<noteq> [] \<and> count_list (node_ProviderID node) CHR ''/'' = 6 \<and>
       GetWorkerID m = last (Split (node_ProviderID node) ''/''))"
proof -
  have "node_Labels node MachineTypeLabel = Some UPI \<longleftrightarrow> map_get (node_Labels node) [] MachineTypeLabel = UPI"
    by (auto simp: map_get_def UPI_def split: option.split)
  with assms show ?thesis
    by (auto simp: NewNodeMetadata_def map_get_def GetZone_def GetRegion_def GetWorkerID_def Let_def
        fetchInstanceID_slashes split: option.splits if_splits)
qed

definition sampleNode :: k8s_node where
  "sampleNode = \<lparr>node_Labels = [NodeZoneLabel \<mapsto> ''us-south-1'', NodeRegionLabel \<mapsto> ''us-south''],
     node_ProviderID = ''ibm://account///cluster/instance''\<rparr>"

lemma NewNodeMetadata_complete_witness:
  "\<exists>m. NewNodeMetadata \<lparr>k8s_InClusterConfig = None, k8s_NewForConfig = None, k8s_GetNode = \<lambda>_. Inr sampleNode,
      k8s_LabelsText = \<lambda>_. []\<rparr> \<lparr>nim_NodeName = ''node''\<rparr> = Inr m \<and>
    GetZone m = ''us-south-1'' \<and> GetRegion m = ''us-south'' \<and>
    GetWorkerID m = last (Split ''ibm://account///cluster/instance'' ''/'')"
proof -
  let ?K = "\<lparr>k8s_InClusterConfig = None, k8s_NewForConfig = None, k8s_GetNode = \<lambda>_. Inr sampleNode,
    k8s_LabelsText = \<lambda>_. []\<rparr>"
  have run: "NewNodeMetadata ?K \<lparr>nim_NodeName = ''node''\<rparr> =
      Inr \<lparr>nm_zone = ''us-south-1'', nm_region = ''us-south'', nm_workerID = ''instance''\<rparr>"
    by code_simp
  from NewNodeMetadata_complete [OF run, of sampleNode] run show ?thesis
    by (simp add: sampleNode_def NodeZoneLabel_def NodeRegionLabel_def MachineTypeLabel_def)
qed

end
