(* ===== verification/GoFold.thy ===== *)
theory GoFold
  imports GoStrings
begin

text \<open>
  Matching up to case, as \<^verbatim>\<open>regexp\<close> does it under \<^verbatim>\<open>(?i)\<close> and \<^verbatim>\<open>encoding/json\<close> for the names of members.
\<close>

text \<open>One character of a pattern.  Besides the ASCII letters, Go folds the
  Kelvin sign with \<^verbatim>\<open>k\<close> and the long s with \<^verbatim>\<open>s\<close>; both are given by their UTF-8 bytes.\<close>

fun fold_char :: "char \<Rightarrow> string \<Rightarrow> string option" where
  "fold_char p [] = None"
| "fold_char p (c # cs) =
     (if lower_char c = lower_char p then Some cs
      else if lower_char p = CHR ''k'' \<and> prefix [CHR 0xE2, CHR 0x84, CHR 0xAA] (c # cs) then Some (drop 2 cs)
      else if lower_char p = CHR ''s'' \<and> prefix [CHR 0xC5, CHR 0xBF] (c # cs) then Some (drop 1 cs)
      else None)"

text \<open>What is left after the pattern, when it matches at the start.\<close>

fun fold_prefix :: "string \<Rightarrow> string \<Rightarrow> string option" where
  "fold_prefix [] s = Some s"
| "fold_prefix (p # ps) s = (case fold_char p s of None \<Rightarrow> None | Some rest \<Rightarrow> fold_prefix ps rest)"

lemma fold_char_self [simp]: "fold_char p (p # cs) = Some cs"
  by simp

lemma fold_prefix_self [simp]: "fold_prefix p (p @ s) = Some s"
  by (induction p) simp_all

end
