(* ===== verification/DebugLog.thy ===== *)
theory DebugLog
  imports Client GoFold
begin

text \<open>
  The debug output of the REST client (\<^verbatim>\<open>common/vpcclient/client/request.go\<close>): \<open>debugRequest\<close> and
  \<open>debugResponse\<close> with the redaction \<open>sanitize\<close>, and what they use of \<^verbatim>\<open>net/http/httputil\<close> and
  \<^verbatim>\<open>regexp\<close>.  The debug writer is the text that is written to it.  The time stamps and the dump of
  a response are arguments.
\<close>

section \<open>Searching\<close>

fun fold_contains :: "string \<Rightarrow> string \<Rightarrow> bool" where
  "fold_contains pat [] = (fold_prefix pat [] \<noteq> None)"
| "fold_contains pat (c # cs) = (fold_prefix pat (c # cs) \<noteq> None \<or> fold_contains pat cs)"

section \<open>Redaction\<close>

definition LF :: char where "LF = CHR 0x0A"
definition CRLF :: string where "CRLF = [CHR 0x0D, CHR 0x0A]"

definition RedactedFillin :: string where "RedactedFillin = ''[REDACTED]''"

text \<open>\<^verbatim>\<open>ReplaceAllString\<close> of \<^verbatim>\<open>(?mi)^NAME: .*\<close>: a match is a whole line, as the dot stops at a line feed.\<close>

definition redact_line :: "string \<Rightarrow> string \<Rightarrow> string" where
  "redact_line name line =
     (if fold_prefix (name @ '': '') line = None then line else name @ '': '' @ RedactedFillin)"

definition redact_header :: "string \<Rightarrow> string \<Rightarrow> string" where
  "redact_header name text = Join (map (redact_line name) (Split text [LF])) [LF]"

definition is_re_space :: "char \<Rightarrow> bool" where
  "is_re_space c \<longleftrightarrow> c \<in> {CHR 0x09, CHR 0x0A, CHR 0x0C, CHR 0x0D, CHR 0x20}"

text \<open>What is left after \<^verbatim>\<open>"[^\,]*"\<close> at the start: the pattern is greedy and ends at the last quote
  before the next comma.\<close>

definition value_match :: "string \<Rightarrow> string option" where
  "value_match s =
     (case s of
        [] \<Rightarrow> None
      | q # rest \<Rightarrow>
          let run = takeWhile (\<lambda>c. c \<noteq> CHR '','') rest
          in if q = CHR 0x22 \<and> CHR 0x22 \<in> set run
             then Some (rev (takeWhile (\<lambda>c. c \<noteq> CHR 0x22) (rev run)) @ dropWhile (\<lambda>c. c \<noteq> CHR '','') rest)
             else None)"

text \<open>A match of \<^verbatim>\<open>(?i)"([^"]*PROP[^"]*)":\s*"[^\,]*"\<close> at the start: the group and what is left.\<close>

definition json_match :: "string \<Rightarrow> string \<Rightarrow> (string \<times> string) option" where
  "json_match prop s =
     (case s of
        [] \<Rightarrow> None
      | q # rest \<Rightarrow>
          let name = takeWhile (\<lambda>c. c \<noteq> CHR 0x22) rest
          in case dropWhile (\<lambda>c. c \<noteq> CHR 0x22) rest of
               q' # colon # val \<Rightarrow>
                 if q = CHR 0x22 \<and> colon = CHR '':'' \<and> fold_contains prop name
                 then map_option (\<lambda>r. (name, r)) (value_match (dropWhile is_re_space val)) else None
             | _ \<Rightarrow> None)"

lemma value_match_shorter: "value_match s = Some r \<Longrightarrow> length r \<le> length s"
proof -
  assume "value_match s = Some r"
  then obtain q rest where s: "s = q # rest"
    and r: "r = rev (takeWhile (\<lambda>c. c \<noteq> CHR 0x22) (rev (takeWhile (\<lambda>c. c \<noteq> CHR '','') rest))) @
      dropWhile (\<lambda>c. c \<noteq> CHR '','') rest"
    by (auto simp: value_match_def Let_def split: list.splits if_splits)
  have "length (takeWhile (\<lambda>c. c \<noteq> CHR 0x22) (rev (takeWhile (\<lambda>c. c \<noteq> CHR '','') rest)))
      \<le> length (takeWhile (\<lambda>c. c \<noteq> CHR '','') rest)"
    using length_takeWhile_le [of _ "rev (takeWhile (\<lambda>c. c \<noteq> CHR '','') rest)"] by simp
  moreover have "length (takeWhile (\<lambda>c. c \<noteq> CHR '','') rest) + length (dropWhile (\<lambda>c. c \<noteq> CHR '','') rest) = length rest"
    by (metis length_append takeWhile_dropWhile_id)
  ultimately show ?thesis by (simp add: s r)
qed

lemma json_match_shorter: "json_match prop (c # cs) = Some (g, rest) \<Longrightarrow> length rest \<le> length cs"
proof -
  assume "json_match prop (c # cs) = Some (g, rest)"
  then obtain q colon val where d: "dropWhile (\<lambda>c. c \<noteq> CHR 0x22) cs = q # colon # val"
    and v: "value_match (dropWhile is_re_space val) = Some rest"
    by (auto simp: json_match_def Let_def split: list.splits if_splits)
  have "length rest \<le> length (dropWhile is_re_space val)" using v by (rule value_match_shorter)
  also have "\<dots> \<le> length val" by (rule length_dropWhile_le)
  also have "\<dots> \<le> length cs" using length_dropWhile_le [of "\<lambda>c. c \<noteq> CHR 0x22" cs] by (simp add: d)
  finally show ?thesis .
qed

text \<open>\<^verbatim>\<open>ReplaceAllString\<close>: the leftmost matches, one after the other, each by the template.\<close>

function redact_json :: "string \<Rightarrow> string \<Rightarrow> string" where
  "redact_json prop [] = []"
| "redact_json prop (c # cs) =
     (case json_match prop (c # cs) of
        None \<Rightarrow> c # redact_json prop cs
      | Some (g, rest) \<Rightarrow> [CHR 0x22] @ g @ [CHR 0x22] @ '':'' @ [CHR 0x22] @ RedactedFillin @ [CHR 0x22] @ redact_json prop rest)"
  by pat_completeness auto
termination
  by (relation "measure (\<lambda>(prop, s). length s)") (auto dest: json_match_shorter)

definition sanitizeJSON :: "string \<Rightarrow> string \<Rightarrow> string" where
  "sanitizeJSON propertySubstring json = redact_json propertySubstring json"

definition sanitize :: "string \<Rightarrow> string" where
  "sanitize input =
     (let sanitized = redact_header ''Authorization'' input;
          sanitized = redact_header ''X-Auth-Token'' sanitized;
          sanitized = redact_header ''APIKey'' sanitized;
          sanitized = sanitizeJSON ''key'' sanitized;
          sanitized = sanitizeJSON ''password'' sanitized
      in sanitizeJSON ''passphrase'' sanitized)"

section \<open>Dumping a request\<close>

text \<open>\<^verbatim>\<open>URL.RequestURI\<close>\<close>

definition RequestURI :: "URL \<Rightarrow> string" where
  "RequestURI u =
     (let path = EscapedPath u;
          result = (if u_Opaque u = [] then (if path = [] then ''/'' else path)
                    else if HasPrefix (u_Opaque u) ''//'' then u_Scheme u @ '':'' @ u_Opaque u else u_Opaque u)
      in if u_ForceQuery u \<or> u_RawQuery u \<noteq> [] then result @ ''?'' @ u_RawQuery u else result)"

definition is_token_char :: "char \<Rightarrow> bool" where
  "is_token_char c \<longleftrightarrow> is_letter c \<or> is_digit c \<or> c \<in> set (''!#$%&*+-.^_`|~'' @ [CHR 0x27])"

definition is_trim :: "char \<Rightarrow> bool" where
  "is_trim c \<longleftrightarrow> c \<in> {CHR 0x20, CHR 0x09, CHR 0x0A, CHR 0x0D}"

text \<open>A header value as it is written: line breaks become spaces, and the ends are trimmed.\<close>

definition header_value :: "string \<Rightarrow> string" where
  "header_value v =
     (let v = map (\<lambda>c. if c = CHR 0x0A \<or> c = CHR 0x0D then CHR 0x20 else c) v
      in rev (dropWhile is_trim (rev (dropWhile is_trim v))))"

definition dump_header :: "string \<times> string list \<Rightarrow> string" where
  "dump_header kvs =
     (case kvs of (k, vs) \<Rightarrow>
        if k \<noteq> [] \<and> list_all is_token_char k \<and> k \<notin> {''Host'', ''Transfer-Encoding'', ''Trailer''}
        then concat (map (\<lambda>v. k @ '': '' @ header_value v @ CRLF) vs) else [])"

text \<open>\<^verbatim>\<open>httputil.DumpRequest\<close> of a request made by \<^verbatim>\<open>http.NewRequest\<close>: HTTP/1.1, no transfer encoding;
  the host without an empty port.  Reading the body back from memory does not fail.\<close>

definition DumpRequest :: "string \<Rightarrow> URL \<Rightarrow> url_values \<Rightarrow> string option \<Rightarrow> string" where
  "DumpRequest method u headers content =
     (let host = (if HasSuffix (u_Host u) '':'' then butlast (u_Host u) else u_Host u)
      in (if method = [] then ''GET'' else method) @ '' '' @ RequestURI u @ '' HTTP/1.1'' @ CRLF @
         (if host = [] then [] else ''Host: '' @ host @ CRLF) @
         concat (map dump_header (sort_keys headers)) @ CRLF @
         (case content of None \<Rightarrow> [] | Some b \<Rightarrow> b))"

section \<open>The debug output\<close>

definition debugRequest :: "string \<Rightarrow> Request \<Rightarrow> URL \<Rightarrow> string option \<Rightarrow> string" where
  "debugRequest now r u content =
     (if \<not> rq_debug r then []
      else let multipart = Contains (header_get (map_of (rq_headers r)) ''Content-Type'') ''multipart/form-data'';
               dumped = DumpRequest (op_Method (rq_operation r)) u (rq_headers r) (if multipart then None else content)
           in [LF] @ ''REQUEST: ['' @ now @ '']'' @ [LF] @ sanitize dumped @ [LF] @
              (if multipart then ''[MULTIPART/FORM-DATA CONTENT HIDDEN]'' @ [LF] else []))"

text \<open>\<open>dumped\<close> is the answer of \<^verbatim>\<open>httputil.DumpResponse\<close>: the text of an error, or the dump.\<close>

definition debugResponse :: "string \<Rightarrow> bool \<Rightarrow> string + string \<Rightarrow> string" where
  "debugResponse now debug dumped =
     (if \<not> debug then []
      else case dumped of
             Inl e \<Rightarrow> ''Error dumping response'' @ [LF] @ e @ [LF]
           | Inr text \<Rightarrow> [LF] @ ''RESPONSE: ['' @ now @ '']'' @ [LF] @ sanitize text @ [LF])"

text \<open>What \<open>Invoke\<close> writes before it sends the request.\<close>

definition request_log :: "codec \<Rightarrow> string \<Rightarrow> Request \<Rightarrow> string" where
  "request_log C now r =
     (case Before (rq_authenHandler r) r of
        (Some e, _) \<Rightarrow> []
      | (None, r1) \<Rightarrow>
          (case encode_body C r1 of
             Inl e \<Rightarrow> []
           | Inr (text, r2) \<Rightarrow>
               (case Parse (URLof r2) of Inl e \<Rightarrow> [] | Inr u \<Rightarrow> debugRequest now r2 u text)))"

end
