(* ===== verification/DebugLaws.thy ===== *)
theory DebugLaws
  imports ClientLaws DebugLog
begin

text \<open>
  The properties of the debug output: which secrets it hides, and which it does not.
\<close>

section \<open>Redacted headers\<close>

lemma redact_header_line: "LF \<notin> set x \<Longrightarrow> redact_header name (x @ LF # y) = redact_line name x @ LF # redact_header name y"
  by (simp add: redact_header_def Split_append_char Join_Cons Split_nonempty)

lemma redact_header_last: "LF \<notin> set x \<Longrightarrow> redact_header name x = redact_line name x"
  by (simp add: redact_header_def Split_no_char)

text \<open>Redaction works line by line.\<close>

lemma redact_header_append: "redact_header name (x @ LF # y) = redact_header name x @ LF # redact_header name y"
proof (induction x rule: length_induct)
  case (1 x)
  show ?case
  proof (cases "LF \<in> set x")
    case False
    then show ?thesis by (simp add: redact_header_line redact_header_last)
  next
    case True
    then obtain a b where x: "x = a @ LF # b" and a: "LF \<notin> set a" using split_list_first by metis
    with 1 have "redact_header name (b @ LF # y) = redact_header name b @ LF # redact_header name y" by simp
    with x a show ?thesis by (simp add: redact_header_line)
  qed
qed

lemma redact_header_cong:
  "redact_header name y = redact_header name y' \<Longrightarrow> redact_header name (x @ LF # y) = redact_header name (x @ LF # y')"
  by (simp add: redact_header_append)

lemma redact_line_named: "redact_line name (name @ '': '' @ v) = name @ '': '' @ RedactedFillin"
proof -
  have "fold_prefix (name @ '': '') ((name @ '': '') @ v) = Some v" by (rule fold_prefix_self)
  then show ?thesis by (simp add: redact_line_def)
qed

lemma header_value_no_LF [simp]: "LF \<notin> set (header_value v)"
  by (auto simp: header_value_def LF_def Let_def dest!: set_dropWhileD split: if_splits)

text \<open>Two header lists that differ in the value of one header only.\<close>

definition same_but :: "string \<Rightarrow> string \<times> string list \<Rightarrow> string \<times> string list \<Rightarrow> bool" where
  "same_but k p q \<longleftrightarrow> fst p = fst q \<and> (snd p = snd q \<or> fst p = k \<and> length (snd p) = 1 \<and> length (snd q) = 1)"

lemma same_but_refl [simp]: "same_but k p p"
  by (simp add: same_but_def)

lemma same_but_fst: "same_but k p q \<Longrightarrow> fst p = fst q"
  by (simp add: same_but_def)

lemma values_set_same_but:
  "list_all2 (same_but k) h h' \<Longrightarrow> list_all2 (same_but k) (values_set k a h) (values_set k b h')"
proof (induction h h' rule: list_all2_induct)
  case Nil
  then show ?case by (simp add: same_but_def)
next
  case (Cons p ps q qs)
  then show ?case by (cases p; cases q) (auto simp: same_but_def)
qed

lemma values_set_other_same_but:
  "list_all2 (same_but k) h h' \<Longrightarrow> list_all2 (same_but k) (values_set c v h) (values_set c v h')"
proof (induction h h' rule: list_all2_induct)
  case Nil
  then show ?case by simp
next
  case (Cons p ps q qs)
  then show ?case by (cases p; cases q) (auto simp: same_but_def)
qed

lemma insert_key_same_but:
  "list_all2 (same_but k) h h' \<Longrightarrow> same_but k p q \<Longrightarrow> list_all2 (same_but k) (insert_key p h) (insert_key q h')"
proof (induction h h' rule: list_all2_induct)
  case (Cons a h b h')
  then have "fst a = fst b" and "fst p = fst q" by (simp_all add: same_but_fst)
  with Cons show ?case by (simp only: insert_key.simps split: if_split) simp
qed simp

lemma sort_keys_same_but: "list_all2 (same_but k) h h' \<Longrightarrow> list_all2 (same_but k) (sort_keys h) (sort_keys h')"
  by (induction h h' rule: list_all2_induct) (auto simp: sort_keys_def intro: insert_key_same_but)

lemma dump_values_cong:
  assumes "redact_header name y = redact_header name y'"
  shows "redact_header name (concat (map (\<lambda>v. k @ '': '' @ header_value v @ CRLF) vs) @ y) =
         redact_header name (concat (map (\<lambda>v. k @ '': '' @ header_value v @ CRLF) vs) @ y')"
proof (induction vs)
  case (Cons v vs)
  let ?r = "concat (map (\<lambda>v. k @ '': '' @ header_value v @ CRLF) vs)"
  from redact_header_cong [OF Cons, of "k @ '': '' @ header_value v @ [CHR 0x0D]"]
  show ?case by (simp add: CRLF_def LF_def)
qed (simp add: assms)

lemma dump_header_same_but:
  assumes "same_but name p q" and "redact_header name y = redact_header name y'" and "LF \<notin> set name"
  shows "redact_header name (dump_header p @ y) = redact_header name (dump_header q @ y')"
proof (cases "snd p = snd q")
  case True
  with assms(1) have "p = q" by (auto simp: same_but_def prod_eq_iff)
  with dump_values_cong [OF assms(2)] show ?thesis
    by (cases q) (simp only: dump_header_def prod.case append_Nil assms(2) split: if_split, simp)
next
  case False
  with assms(1) obtain a b where pq: "p = (name, [a])" "q = (name, [b])"
    by (cases p; cases q) (auto simp: same_but_def length_Suc_conv)
  have line: "redact_header name ((name @ '': '' @ header_value v @ [CHR 0x0D]) @ LF # y) =
     (name @ '': '' @ RedactedFillin) @ LF # redact_header name y" for v y
  proof -
    have "LF \<notin> set (name @ '': '' @ header_value v @ [CHR 0x0D])"
      using assms(3) header_value_no_LF by (auto simp: LF_def)
    from redact_header_line [OF this] show ?thesis by (simp only: redact_line_named)
  qed
  from line [of a y] line [of b y'] assms(2) show ?thesis by (auto simp: pq dump_header_def CRLF_def LF_def)
qed

lemma dump_headers_same_but:
  assumes "list_all2 (same_but name) h h'" and "LF \<notin> set name"
  shows "redact_header name (concat (map dump_header h) @ y) = redact_header name (concat (map dump_header h') @ y)"
  using assms(1)
  by (induction h h' rule: list_all2_induct) (simp_all add: dump_header_same_but assms(2))

lemma redact_CRLF_cong:
  "redact_header name y = redact_header name y' \<Longrightarrow> redact_header name (x @ CRLF @ y) = redact_header name (x @ CRLF @ y')"
  using redact_header_cong [of name y y' "x @ [CHR 0x0D]"] by (simp add: CRLF_def LF_def)

lemma DumpRequest_same_but:
  assumes "list_all2 (same_but ''Authorization'') h h'"
  shows "sanitize (DumpRequest m u h b) = sanitize (DumpRequest m u h' b)"
proof -
  define host where "host = (if HasSuffix (u_Host u) '':'' then butlast (u_Host u) else u_Host u)"
  define line where "line = (if m = [] then ''GET'' else m) @ '' '' @ RequestURI u @ '' HTTP/1.1''"
  define hostline where "hostline = (if host = [] then [] else ''Host: '' @ host @ CRLF)"
  define tail where "tail = CRLF @ (case b of None \<Rightarrow> [] | Some b \<Rightarrow> b)"
  have dump: "DumpRequest m u h b = line @ CRLF @ hostline @ concat (map dump_header (sort_keys h)) @ tail" for h
    unfolding DumpRequest_def Let_def host_def line_def hostline_def tail_def append_assoc by (rule refl)
  have "LF \<notin> set ''Authorization''" by (simp add: LF_def)
  from dump_headers_same_but [OF sort_keys_same_but [OF assms] this]
  have entries: "redact_header ''Authorization'' (concat (map dump_header (sort_keys h)) @ tail) =
    redact_header ''Authorization'' (concat (map dump_header (sort_keys h')) @ tail)" .
  have "hostline = [] \<or> hostline = (''Host: '' @ host) @ CRLF" by (simp add: hostline_def)
  then have "redact_header ''Authorization'' (hostline @ concat (map dump_header (sort_keys h)) @ tail) =
        redact_header ''Authorization'' (hostline @ concat (map dump_header (sort_keys h')) @ tail)"
    using entries redact_CRLF_cong [OF entries, of "''Host: '' @ host"] by (elim disjE) (simp_all only: append_Nil append_assoc)
  from redact_CRLF_cong [OF this, of line]
  have "redact_header ''Authorization'' (DumpRequest m u h b) = redact_header ''Authorization'' (DumpRequest m u h' b)"
    by (simp only: dump)
  then show ?thesis by (simp only: sanitize_def)
qed

lemma header_get_same_but:
  assumes "list_all2 (same_but ''Authorization'') h h'"
  shows "header_get (map_of h) ''Content-Type'' = header_get (map_of h') ''Content-Type''"
proof -
  have "CanonicalHeaderKey ''Content-Type'' = ''Content-Type''" by code_simp
  moreover have "map_of h ''Content-Type'' = map_of h' ''Content-Type''"
    using assms by (induction h h' rule: list_all2_induct) (auto simp: same_but_def)
  ultimately show ?thesis by (simp add: header_get_def)
qed

lemma Before_headers:
  assumes "t \<noteq> []"
  shows "Before \<lparr>ah_authToken = t, ah_resourceGroup = g\<rparr> r =
    (None, r\<lparr>rq_resourceGroup := g, rq_headers := values_set ''Authorization'' (''Bearer '' @ t) (rq_headers r)\<rparr>)"
proof -
  have "CanonicalHeaderKey ''Authorization'' = ''Authorization''" by code_simp
  with assms show ?thesis by (simp add: Before_def SetHeader_def header_set_def Let_def)
qed

text \<open>C15: The debug log does not tell the token: whatever two tokens a request is sent with, the text that
  \<open>Invoke\<close> writes about it, headers and body included, is the same.\<close>

theorem debug_log_hides_token:
  assumes "t1 \<noteq> []" and "t2 \<noteq> []"
  shows "request_log C now (r\<lparr>rq_authenHandler := \<lparr>ah_authToken = t1, ah_resourceGroup = g\<rparr>\<rparr>) =
         request_log C now (r\<lparr>rq_authenHandler := \<lparr>ah_authToken = t2, ah_resourceGroup = g\<rparr>\<rparr>)"
proof -
  define h1 where "h1 = values_set ''Authorization'' (''Bearer '' @ t1) (rq_headers r)"
  define h2 where "h2 = values_set ''Authorization'' (''Bearer '' @ t2) (rq_headers r)"
  have h: "list_all2 (same_but ''Authorization'') h1 h2"
    unfolding h1_def h2_def by (rule values_set_same_but) (simp add: list.rel_refl)
  let ?c = "values_set (CanonicalHeaderKey ''Content-Type'') ''application/json''"
  have hc: "list_all2 (same_but ''Authorization'') (?c h1) (?c h2)"
    by (rule values_set_other_same_but [OF h])
  have body: "debugRequest now (r\<lparr>rq_authenHandler := a1, rq_resourceGroup := g, rq_headers := k1\<rparr>) u content =
      debugRequest now (r\<lparr>rq_authenHandler := a2, rq_resourceGroup := g, rq_headers := k2\<rparr>) u content"
    if "list_all2 (same_but ''Authorization'') k1 k2" for a1 a2 k1 k2 u content
    using that by (simp add: debugRequest_def Let_def DumpRequest_same_but header_get_same_but)
  have url: "URLof (r\<lparr>rq_authenHandler := a, rq_resourceGroup := g, rq_headers := k\<rparr>) = URLof r" for a k
    by (simp add: URLof_def request_path_def Let_def cong: sum.case_cong)
  have "Before \<lparr>ah_authToken = t1, ah_resourceGroup = g\<rparr> (r\<lparr>rq_authenHandler := a\<rparr>) =
      (None, r\<lparr>rq_authenHandler := a, rq_resourceGroup := g, rq_headers := h1\<rparr>)"
    "Before \<lparr>ah_authToken = t2, ah_resourceGroup = g\<rparr> (r\<lparr>rq_authenHandler := a\<rparr>) =
      (None, r\<lparr>rq_authenHandler := a, rq_resourceGroup := g, rq_headers := h2\<rparr>)" for a
    by (simp_all add: Before_headers assms h1_def h2_def)
  then show ?thesis
    by (simp add: request_log_def encode_body_def SetHeader_def header_set_def body [OF h] body [OF hc] url
        split: option.split sum.split)
qed

definition loggingRequest :: Request where
  "loggingRequest = NewRequest (WithDebug tokenClient) \<lparr>op_Name = ''GetFileShare'', op_Method = ''GET'', op_PathPattern = sharesPath\<rparr>"

lemma debug_log_hides_token_witness:
  "request_log sampleCodec [] (loggingRequest\<lparr>rq_authenHandler := \<lparr>ah_authToken = ''one'', ah_resourceGroup = []\<rparr>\<rparr>) =
   request_log sampleCodec [] (loggingRequest\<lparr>rq_authenHandler := \<lparr>ah_authToken = ''two'', ah_resourceGroup = []\<rparr>\<rparr>)"
  by (rule debug_log_hides_token) simp_all

section \<open>Redacted JSON\<close>

abbreviation Q :: char where "Q \<equiv> CHR 0x22"

definition json_field :: "string \<times> string \<Rightarrow> string" where
  "json_field kv = [Q] @ fst kv @ [Q] @ '':'' @ [Q] @ snd kv @ [Q]"

definition json_object :: "(string \<times> string) list \<Rightarrow> string" where
  "json_object fs = ''{'' @ Join (map json_field fs) '','' @ ''}''"

text \<open>What one pass makes of a field, and what \<open>sanitize\<close> does.\<close>

definition redact_field :: "(string \<Rightarrow> bool) \<Rightarrow> string \<times> string \<Rightarrow> string \<times> string" where
  "redact_field hit kv = (fst kv, if hit (fst kv) \<and> CHR '','' \<notin> set (snd kv) then RedactedFillin else snd kv)"

definition secret_name :: "string \<Rightarrow> bool" where
  "secret_name k \<longleftrightarrow> fold_contains ''key'' k \<or> fold_contains ''password'' k \<or> fold_contains ''passphrase'' k"

definition clean :: "string \<Rightarrow> bool" where
  "clean s \<longleftrightarrow> Q \<notin> set s \<and> LF \<notin> set s"

lemma json_match_unquoted: "c \<noteq> Q \<Longrightarrow> json_match prop (c # s) = None"
  by (auto simp: json_match_def Let_def split: list.split)

lemma redact_json_skip: "Q \<notin> set x \<Longrightarrow> redact_json prop (x @ s) = x @ redact_json prop s"
  by (induction x) (auto simp: json_match_unquoted)

lemma takeWhile_upto [simp]: "c \<notin> set x \<Longrightarrow> takeWhile (\<lambda>d. d \<noteq> c) (x @ c # s) = x"
  by (induction x) auto

lemma dropWhile_upto [simp]: "c \<notin> set x \<Longrightarrow> dropWhile (\<lambda>d. d \<noteq> c) (x @ c # s) = c # s"
  by (induction x) auto

lemma json_match_quoted:
  assumes "Q \<notin> set x"
  shows "json_match prop (Q # x @ Q # s) =
    (case s of c # val \<Rightarrow> if c = CHR '':'' \<and> fold_contains prop x
       then map_option (\<lambda>r. (x, r)) (value_match (dropWhile is_re_space val)) else None | [] \<Rightarrow> None)"
  using assms by (simp add: json_match_def Let_def split: list.split)

text \<open>What follows a field in an object.\<close>

inductive field_tail :: "string \<Rightarrow> bool" where
  "field_tail ''}''"
| "field_tail (CHR '','' # Q # t)"

inductive_simps field_tail_simps [simp]: "field_tail (c # cs)"

lemma value_match_field:
  assumes "Q \<notin> set v" and "field_tail t"
  shows "value_match (Q # v @ Q # t) = (if CHR '','' \<in> set v then None else Some t)"
proof (cases "CHR '','' \<in> set v")
  case True
  then obtain a b where v: "v = a @ CHR '','' # b" and "CHR '','' \<notin> set a" using split_list_first by metis
  then have "takeWhile (\<lambda>c. c \<noteq> CHR '','') (v @ Q # t) = a" by simp
  with True assms(1) show ?thesis by (simp add: value_match_def Let_def v)
next
  case False
  then have run: "takeWhile (\<lambda>c. c \<noteq> CHR '','') (v @ Q # t) = v @ Q # takeWhile (\<lambda>c. c \<noteq> CHR '','') t"
    "dropWhile (\<lambda>c. c \<noteq> CHR '','') (v @ Q # t) = dropWhile (\<lambda>c. c \<noteq> CHR '','') t" for t
    by (induction v) auto
  from assms(2) False show ?thesis by cases (simp_all add: value_match_def Let_def run)
qed

lemma json_field_skip:
  assumes "Q \<notin> set k" and "Q \<notin> set v" and "field_tail t"
    and "\<not> (fold_contains prop k \<and> CHR '','' \<notin> set v)"
    and "\<not> fold_contains prop '':''" and "\<not> fold_contains prop '',''"
  shows "redact_json prop (json_field (k, v) @ t) = json_field (k, v) @ redact_json prop t"
proof -
  have step: "redact_json prop (Q # x @ s) = Q # x @ redact_json prop s"
    if "json_match prop (Q # x @ s) = None" and "Q \<notin> set x" for x s
    using that by (simp add: redact_json_skip)
  have m1: "json_match prop (Q # k @ Q # CHR '':'' # Q # v @ Q # t) = None"
    using assms by (auto simp: json_match_quoted value_match_field is_re_space_def)
  have m2: "json_match prop (Q # [CHR '':''] @ Q # v @ Q # t) = None"
    by (subst json_match_quoted) (use assms in \<open>auto split: list.split\<close>)
  have m3: "json_match prop (Q # v @ Q # t) = None"
    using assms by (auto simp: json_match_quoted elim: field_tail.cases)
  have m4: "json_match prop (Q # [] @ t) = None"
    using assms(3)
  proof cases
    case 1
    then show ?thesis by (simp add: json_match_def Let_def)
  next
    case (2 t')
    have "json_match prop (Q # [CHR '',''] @ Q # t') = None"
      by (subst json_match_quoted) (use assms in \<open>auto split: list.split\<close>)
    with 2 show ?thesis by simp
  qed
  have "redact_json prop (Q # k @ Q # [CHR '':''] @ Q # v @ Q # [] @ t) =
      Q # k @ Q # [CHR '':''] @ Q # v @ Q # [] @ redact_json prop t"
    using step [OF m4] step [OF m3 assms(2)] step [OF m2] step [of k "Q # [CHR '':''] @ Q # v @ Q # t"] m1 assms(1)
    by (simp del: redact_json.simps)
  then show ?thesis by (simp add: json_field_def del: redact_json.simps)
qed

lemma json_field_hit:
  assumes "Q \<notin> set k" and "Q \<notin> set v" and "field_tail t" and "fold_contains prop k" and "CHR '','' \<notin> set v"
  shows "redact_json prop (json_field (k, v) @ t) = json_field (k, RedactedFillin) @ redact_json prop t"
proof -
  have "json_match prop (Q # k @ Q # CHR '':'' # Q # v @ Q # t) = Some (k, t)"
    using assms by (simp add: json_match_quoted value_match_field is_re_space_def)
  then show ?thesis by (simp add: json_field_def)
qed

lemma redact_json_fields:
  assumes "list_all (\<lambda>(k, v). Q \<notin> set k \<and> Q \<notin> set v) fs"
    and "\<not> fold_contains prop '':''" and "\<not> fold_contains prop '',''" and "\<not> fold_contains prop ''}''"
  shows "redact_json prop (Join (map json_field fs) '','' @ ''}'') =
    Join (map (json_field \<circ> redact_field (fold_contains prop)) fs) '','' @ ''}''"
  using assms(1)
proof (induction fs)
  case Nil
  show ?case by (simp add: json_match_unquoted)
next
  case (Cons kv fs)
  obtain k v where kv: "kv = (k, v)" by (cases kv)
  define t where "t = (if fs = [] then ''}'' else CHR '','' # Join (map json_field fs) '','' @ ''}'')"
  have tail: "field_tail t"
    by (cases fs; cases "tl fs") (auto simp: t_def json_field_def)
  have rest: "redact_json prop t =
      (if fs = [] then ''}'' else CHR '','' # Join (map (json_field \<circ> redact_field (fold_contains prop)) fs) '','' @ ''}'')"
    using Cons by (simp add: t_def json_match_unquoted comp_def)
  have "redact_json prop (json_field kv @ t) = json_field (redact_field (fold_contains prop) kv) @ redact_json prop t"
    using json_field_hit [OF _ _ tail] json_field_skip [OF _ _ tail _ assms(2,3)] Cons.prems
    by (cases "fold_contains prop k \<and> CHR '','' \<notin> set v") (auto simp: kv redact_field_def)
  with rest show ?case by (cases fs) (simp_all add: t_def comp_def)
qed

lemma redact_header_brace:
  assumes "fold_char c (CHR ''{'' # s) = None" and "LF \<notin> set s"
  shows "redact_header (c # name) (CHR ''{'' # s) = CHR ''{'' # s"
proof -
  have "LF \<notin> set (CHR ''{'' # s)" using assms(2) by (simp add: LF_def)
  then show ?thesis using assms(1) by (simp add: redact_header_last redact_line_def)
qed

lemma clean_fields: "list_all (\<lambda>(k, v). clean k \<and> clean v) fs \<Longrightarrow>
    list_all (\<lambda>(k, v). clean k \<and> clean v) (map (redact_field hit) fs)"
  by (induction fs) (auto simp: redact_field_def clean_def RedactedFillin_def LF_def)

lemma LF_json_fields: "list_all (\<lambda>(k, v). clean k \<and> clean v) fs \<Longrightarrow> LF \<notin> set (Join (map json_field fs) '','' @ ''}'')"
proof (induction fs)
  case (Cons kv fs)
  then show ?case by (cases fs) (auto simp: json_field_def clean_def LF_def)
qed (simp add: LF_def)

lemma sanitizeJSON_object:
  assumes "list_all (\<lambda>(k, v). clean k \<and> clean v) fs"
    and "\<not> fold_contains prop '':''" and "\<not> fold_contains prop '',''" and "\<not> fold_contains prop ''}''"
  shows "sanitizeJSON prop (json_object fs) = json_object (map (redact_field (fold_contains prop)) fs)"
proof -
  have "list_all (\<lambda>(k, v). Q \<notin> set k \<and> Q \<notin> set v) fs"
    using assms(1) by (auto simp: list_all_iff clean_def)
  from redact_json_fields [OF this assms(2-4)] show ?thesis
    by (simp add: sanitizeJSON_def json_object_def json_match_unquoted)
qed

lemma redact_field_twice:
  "redact_field h1 (redact_field h2 kv) = redact_field (\<lambda>k. h2 k \<or> h1 k) kv"
  by (auto simp: redact_field_def RedactedFillin_def)

text \<open>C16: What is hidden in a JSON object of texts (without quotes and line feeds in them): the value of each field
  whose name contains \<open>key\<close>, \<open>password\<close> or \<open>passphrase\<close> in any case, unless the value contains a comma.
  Such a value is logged as it is, like every other field.\<close>

theorem sanitize_object:
  assumes "list_all (\<lambda>(k, v). clean k \<and> clean v) fs"
  shows "sanitize (json_object fs) = json_object (map (redact_field secret_name) fs)"
proof -
  have heads: "redact_header (c # name) (json_object fs) = json_object fs"
    if "lower_char (CHR ''{'') \<noteq> lower_char c" "lower_char c \<noteq> CHR ''k''" "lower_char c \<noteq> CHR ''s''" for c name
    using LF_json_fields [OF assms] that by (simp add: json_object_def redact_header_brace)
  have pass: "sanitizeJSON pp (json_object (map (redact_field hit) fs)) =
      json_object (map (redact_field (\<lambda>k. hit k \<or> fold_contains pp k)) fs)"
    if "pp \<in> {''key'', ''password'', ''passphrase''}" for pp hit
    using that by (subst sanitizeJSON_object [OF clean_fields [OF assms]])
      (auto simp: lower_char_def redact_field_twice comp_def)
  have first: "map (redact_field (\<lambda>_. False)) fs = fs"
    by (simp add: redact_field_def map_idI)
  from pass [of "''key''" "\<lambda>_. False"] have "sanitizeJSON ''key'' (json_object fs) = json_object (map (redact_field (fold_contains ''key'')) fs)"
    by (simp add: first)
  moreover have "redact_header ''Authorization'' (json_object fs) = json_object fs"
    "redact_header ''X-Auth-Token'' (json_object fs) = json_object fs"
    "redact_header ''APIKey'' (json_object fs) = json_object fs"
    by (rule heads; code_simp)+
  moreover have "secret_name = (\<lambda>k. (fold_contains ''key'' k \<or> fold_contains ''password'' k) \<or> fold_contains ''passphrase'' k)"
    by (rule ext) (simp add: secret_name_def)
  ultimately show ?thesis
    by (simp add: sanitize_def Let_def pass)
qed

text \<open>Two secrets, one of them with a comma.\<close>

lemma sanitize_object_witness:
  "sanitize (json_object [(''name'', ''n''), (''apiKey'', ''s3cret''), (''Password'', ''pass,word'')]) =
   json_object [(''name'', ''n''), (''apiKey'', RedactedFillin), (''Password'', ''pass,word'')]"
proof -
  have "secret_name ''apiKey''" "\<not> secret_name ''name''" by code_simp+
  with sanitize_object [of "[(''name'', ''n''), (''apiKey'', ''s3cret''), (''Password'', ''pass,word'')]"] show ?thesis
    by (simp add: redact_field_def clean_def LF_def)
qed

end
