(* ===== verification/TokenGenerator.thy ===== *)
theory TokenGenerator
  imports FileProvider
begin

text \<open>
  The service tokens of \<^verbatim>\<open>file/provider/token_generator.go\<close>: reading the key, the claims, the
  signature; and the lexical paths of \<^verbatim>\<open>path/filepath\<close> (Unix) it uses.  The file system, the PEM
  parser and the signature are parameters.  A key is of any type \<open>'k\<close>; a time is the number of
  nanoseconds since the epoch.
\<close>

section \<open>Paths\<close>

text \<open>One element of a path, on the stack of the elements before it.\<close>

definition clean_step :: "bool \<Rightarrow> string list \<Rightarrow> string \<Rightarrow> string list" where
  "clean_step rooted st e =
     (if e = [] \<or> e = ''.'' then st
      else if e = ''..''
      then (case st of
              [] \<Rightarrow> if rooted then [] else [''..'']
            | t # ts \<Rightarrow> if t = ''..'' then ''..'' # st else ts)
      else e # st)"

definition filepath_Clean :: "string \<Rightarrow> string" where
  "filepath_Clean p =
     (if p = [] then ''.''
      else let rooted = HasPrefix p ''/'';
               body = Join (rev (foldl (clean_step rooted) [] (Split p ''/''))) ''/''
           in if rooted then ''/'' @ body else if body = [] then ''.'' else body)"

definition filepath_Join :: "string list \<Rightarrow> string" where
  "filepath_Join elems =
     (case dropWhile (\<lambda>e. e = []) elems of [] \<Rightarrow> [] | es \<Rightarrow> filepath_Clean (Join es ''/''))"

definition GetEtcPath :: "string \<Rightarrow> string" where
  "GetEtcPath goPath =
     (let srcPath = filepath_Join [''src'', ''github.com'', ''IBM'', ''ibmcloud-volume-file-vpc'']
      in filepath_Join [goPath, srcPath, ''etc''])"

section \<open>Tokens\<close>

datatype claim = StringClaim string | IntClaim int

record jwt_token =
  jwt_Claims :: "string \<Rightarrow> claim option"
  jwt_Kid :: string

text \<open>The key ID, the times in nanoseconds, and the key once it was read.\<close>

record 'k tokenGenerator =
  tg_tokenKID :: string
  tg_tokenTTL :: int
  tg_tokenBeforeTime :: int
  tg_privateKey :: "'k option"

record ('k, 'w) token_env =
  te_GoPath :: string
  te_ReadFile :: "string \<Rightarrow> ('w, goerror + string) api"
  te_ParseRSAPrivateKeyFromPEM :: "string \<Rightarrow> goerror + 'k"
  te_SignedString :: "'k option \<Rightarrow> jwt_token \<Rightarrow> goerror + string"

definition readConfig ::
  "('k, 'w) token_env \<Rightarrow> 'k tokenGenerator \<Rightarrow> ('w, goerror option \<times> 'k tokenGenerator) api" where
  "readConfig E tg w =
     (if tg_privateKey tg \<noteq> None then ((None, tg), w)
      else let path = filepath_Join [GetEtcPath (te_GoPath E), tg_tokenKID tg]
           in case te_ReadFile E (filepath_Clean path) w of
                (Inl e, w') \<Rightarrow> ((Some e, tg), w')
              | (Inr pem, w') \<Rightarrow>
                  (case te_ParseRSAPrivateKeyFromPEM E pem of
                     Inl e \<Rightarrow> ((Some e, tg), w')
                   | Inr privateKey \<Rightarrow> ((None, tg\<lparr>tg_privateKey := Some privateKey\<rparr>), w')))"

definition Unix :: "int \<Rightarrow> int" where
  "Unix ts = ts div 1000000000"

definition buildToken ::
  "('k, 'w) token_env \<Rightarrow> ContextCredentials \<Rightarrow> int \<Rightarrow> 'k tokenGenerator
     \<Rightarrow> ('w, (goerror + jwt_token) \<times> 'k tokenGenerator) api" where
  "buildToken E creds ts tg w =
     (case readConfig E tg w of
        ((Some e, tg'), w') \<Rightarrow> ((Inl e, tg'), w')
      | ((None, tg'), w') \<Rightarrow>
          let claims = [''iss'' \<mapsto> StringClaim ''armada'',
                        ''exp'' \<mapsto> IntClaim (Unix (ts + tg_tokenTTL tg')),
                        ''nbf'' \<mapsto> IntClaim (Unix (ts + tg_tokenBeforeTime tg')),
                        ''iat'' \<mapsto> IntClaim (Unix ts)]
          in if cc_UserID creds = [] then ((Inl (PlainError ''User ID is not configured''), tg'), w')
             else let claims = (if cc_AuthType creds = IMSToken
                                then claims(''ims_user_id'' \<mapsto> StringClaim (cc_UserID creds))
                                else claims(''ims_username'' \<mapsto> StringClaim (cc_UserID creds)))
                  in ((Inr \<lparr>jwt_Claims = claims, jwt_Kid = tg_tokenKID tg'\<rparr>, tg'), w'))"

text \<open>\<open>now\<close> is the answer of \<^verbatim>\<open>time.Now\<close>.\<close>

definition getServiceToken ::
  "('k, 'w) token_env \<Rightarrow> ContextCredentials \<Rightarrow> int \<Rightarrow> 'k tokenGenerator
     \<Rightarrow> ('w, (goerror + string) \<times> 'k tokenGenerator) api" where
  "getServiceToken E creds now tg w =
     (case buildToken E creds now tg w of
        ((Inl e, tg'), w') \<Rightarrow> ((Inl e, tg'), w')
      | ((Inr token, tg'), w') \<Rightarrow> ((te_SignedString E (tg_privateKey tg') token, tg'), w'))"

text \<open>The generator that \<open>NewProvider\<close> makes.\<close>

definition newTokenGenerator :: "'k tokenGenerator" where
  "newTokenGenerator = \<lparr>tg_tokenKID = [], tg_tokenTTL = 0, tg_tokenBeforeTime = 0, tg_privateKey = None\<rparr>"

section \<open>Properties\<close>

text \<open>A key that was read is kept: later tokens of the generator do not read the file again.\<close>

lemma readConfig_cached: "tg_privateKey tg = Some k \<Longrightarrow> readConfig E tg w = ((None, tg), w)"
  by (simp add: readConfig_def)

lemma readConfig_keeps:
  assumes "readConfig E tg w = ((r, tg'), w')"
  shows "tg_tokenKID tg' = tg_tokenKID tg \<and> tg_tokenTTL tg' = tg_tokenTTL tg \<and>
    tg_tokenBeforeTime tg' = tg_tokenBeforeTime tg \<and> (r = None \<longrightarrow> tg_privateKey tg' \<noteq> None)"
proof (cases "tg_privateKey tg")
  case None
  let ?path = "filepath_Clean (filepath_Join [GetEtcPath (te_GoPath E), tg_tokenKID tg])"
  obtain c u where c: "te_ReadFile E ?path w = (c, u)" by (metis surj_pair)
  show ?thesis
  proof (cases c)
    case (Inr pem)
    with assms None c show ?thesis
      by (cases "te_ParseRSAPrivateKeyFromPEM E pem") (auto simp: readConfig_def)
  qed (use assms None c in \<open>auto simp: readConfig_def\<close>)
qed (use assms in \<open>auto simp: readConfig_cached\<close>)

lemma Unix_add_seconds: "Unix (ts + s * 1000000000) = Unix ts + s"
  by (simp add: Unix_def)

text \<open>C33: What a service token says: a token that \<open>getServiceToken\<close> returns is signed with a key, which the
  generator keeps for the next token; its claims name the issuer and the user, under
  \<open>ims_user_id\<close> exactly for IMS credentials, and it expires the configured seconds after it was
  issued.\<close>

theorem getServiceToken_claims:
  assumes "getServiceToken E creds now tg w = ((Inr signed, tg'), w')"
    and "tg_tokenTTL tg = ttl * 1000000000"
  shows "\<exists>k tok. tg_privateKey tg' = Some k \<and> te_SignedString E (Some k) tok = Inr signed \<and>
    jwt_Kid tok = tg_tokenKID tg \<and> cc_UserID creds \<noteq> [] \<and>
    jwt_Claims tok ''iss'' = Some (StringClaim ''armada'') \<and>
    jwt_Claims tok ''iat'' = Some (IntClaim (Unix now)) \<and>
    jwt_Claims tok ''exp'' = Some (IntClaim (Unix now + ttl)) \<and>
    jwt_Claims tok ''ims_user_id'' = (if cc_AuthType creds = IMSToken then Some (StringClaim (cc_UserID creds)) else None) \<and>
    jwt_Claims tok ''ims_username'' = (if cc_AuthType creds = IMSToken then None else Some (StringClaim (cc_UserID creds))) \<and>
    (\<forall>c n u. getServiceToken E c n tg' u = (fst (getServiceToken E c n tg' w), u))"
proof -
  obtain r tg1 w1 where rc: "readConfig E tg w = ((r, tg1), w1)" by (metis surj_pair)
  have r: "r = None" using assms(1) by (cases r) (simp_all add: getServiceToken_def buildToken_def rc)
  note keeps = readConfig_keeps [OF rc]
  from keeps r obtain k where k: "tg_privateKey tg1 = Some k" by auto
  obtain tok where bt: "buildToken E creds now tg w = ((Inr tok, tg1), w1)" and user: "cc_UserID creds \<noteq> []"
    and claims: "jwt_Kid tok = tg_tokenKID tg" "jwt_Claims tok ''iss'' = Some (StringClaim ''armada'')"
      "jwt_Claims tok ''iat'' = Some (IntClaim (Unix now))" "jwt_Claims tok ''exp'' = Some (IntClaim (Unix now + ttl))"
      "jwt_Claims tok ''ims_user_id'' = (if cc_AuthType creds = IMSToken then Some (StringClaim (cc_UserID creds)) else None)"
      "jwt_Claims tok ''ims_username'' = (if cc_AuthType creds = IMSToken then None else Some (StringClaim (cc_UserID creds)))"
  proof (cases "cc_UserID creds = []")
    case True
    then show ?thesis using assms(1) by (simp add: getServiceToken_def buildToken_def rc r)
  next
    case False
    then show ?thesis
      using keeps by (intro that) (auto simp: buildToken_def rc r Let_def assms(2) Unix_add_seconds)
  qed
  have signed: "te_SignedString E (tg_privateKey tg1) tok = Inr signed" "tg' = tg1"
    using assms(1) by (auto simp: getServiceToken_def bt)
  have "getServiceToken E c n tg1 u = (fst (getServiceToken E c n tg1 w), u)" for c n u
    by (simp add: getServiceToken_def buildToken_def readConfig_cached [OF k] Let_def)
  then show ?thesis using user claims signed k by metis
qed

text \<open>A generator with a key that is signed by naming it.\<close>

definition sampleTokenEnv :: "(string, nat) token_env" where
  "sampleTokenEnv = \<lparr>te_GoPath = ''/go'', te_ReadFile = \<lambda>p w. (Inr p, Suc w),
     te_ParseRSAPrivateKeyFromPEM = Inr, te_SignedString = \<lambda>k tok. Inr (the k)\<rparr>"

definition sampleGenerator :: "string option \<Rightarrow> string tokenGenerator" where
  "sampleGenerator k = \<lparr>tg_tokenKID = ''kid'', tg_tokenTTL = 60000000000, tg_tokenBeforeTime = 0, tg_privateKey = k\<rparr>"

lemma getServiceToken_claims_witness:
  "\<exists>tok. te_SignedString sampleTokenEnv (Some ''/go/src/github.com/IBM/ibmcloud-volume-file-vpc/etc/kid'') tok =
       Inr ''/go/src/github.com/IBM/ibmcloud-volume-file-vpc/etc/kid'' \<and>
     jwt_Claims tok ''exp'' = Some (IntClaim 65) \<and> jwt_Claims tok ''ims_username'' = Some (StringClaim ''user'')"
proof -
  let ?key = "''/go/src/github.com/IBM/ibmcloud-volume-file-vpc/etc/kid''"
  let ?creds = "\<lparr>cc_AuthType = IAMAccessToken, cc_Credential = [], cc_IAMAccountID = [], cc_UserID = ''user''\<rparr>"
  have path: "filepath_Clean (filepath_Join [GetEtcPath ''/go'', ''kid'']) = ?key" by code_simp
  have "getServiceToken sampleTokenEnv ?creds 5000000000 (sampleGenerator None) 0 =
      ((Inr ?key, sampleGenerator (Some ?key)), Suc 0)"
    by (simp add: getServiceToken_def buildToken_def readConfig_def sampleTokenEnv_def sampleGenerator_def path)
  from getServiceToken_claims [OF this, of 60] show ?thesis
    by (auto simp: sampleGenerator_def Unix_def)
qed

end
