(* ===== verification/Concurrent.thy ===== *)
theory Concurrent
  imports RetryLaws
begin

text \<open>
  Concurrent requests: the loop \<open>retry\<close> of \<^verbatim>\<open>file/provider/util.go\<close> statement by statement.  Each
  thread runs the loop for a closure of its own; the threads share the package variables, among
  them \<^verbatim>\<open>retryGap\<close>, which is read and written without a lock, and the world behind the closures.
  A step runs one access to the shared state of one thread.  (The watcher starts a goroutine for
  every event, and a driver serves requests in parallel.)
\<close>

section \<open>One thread\<close>

text \<open>Where a thread is: before the loop condition, the sleep, the call, the load and the store of
  \<^verbatim>\<open>retryGap = 2 * retryGap\<close> (the store with the value that was loaded), the comparison, the assignment
  of the maximum, or behind the loop.\<close>

datatype pc = AtTest | AtSleep | AtCall | AtLoad | AtStore int | AtCompare | AtCap | Finished

record ('w, 'c) thread =
  th_closure :: "'w \<Rightarrow> (goerror option \<times> 'c) \<times> 'w"
  th_pc :: pc
  th_i :: nat
  th_answers :: "(goerror option \<times> 'c) list"

definition new_thread :: "('w \<Rightarrow> (goerror option \<times> 'c) \<times> 'w) \<Rightarrow> ('w, 'c) thread" where
  "new_thread f = \<lparr>th_closure = f, th_pc = AtTest, th_i = 0, th_answers = []\<rparr>"

text \<open>The variable \<^verbatim>\<open>err\<close> and the captured value: those of the last answer.\<close>

definition th_result :: "'c \<Rightarrow> ('w, 'c) thread \<Rightarrow> goerror option \<times> 'c" where
  "th_result c0 t = last ((None, c0) # th_answers t)"

definition next_iteration :: "('w, 'c) thread \<Rightarrow> ('w, 'c) thread" where
  "next_iteration t = t\<lparr>th_pc := AtTest, th_i := Suc (th_i t)\<rparr>"

text \<open>What follows the call, by its error.\<close>

definition after_call :: "goerror option \<Rightarrow> ('w, 'c) thread \<Rightarrow> ('w, 'c) thread" where
  "after_call err t =
     (case err of
        None \<Rightarrow> t\<lparr>th_pc := Finished\<rparr>
      | Some (ModelsError e) \<Rightarrow>
          if skipRetry e then t\<lparr>th_pc := Finished\<rparr>
          else if th_i t \<ge> 1 then t\<lparr>th_pc := AtLoad\<rparr> else next_iteration t
      | Some _ \<Rightarrow> next_iteration t)"

definition thread_step :: "('w, 'c) thread \<Rightarrow> 'w gost \<Rightarrow> (('w, 'c) thread \<times> 'w gost) option" where
  "thread_step t s =
     (case th_pc t of
        AtTest \<Rightarrow>
          Some (t\<lparr>th_pc := (if int (th_i t) < maxRetryAttempt s
                            then if th_i t > 0 then AtSleep else AtCall else Finished)\<rparr>, s)
      | AtSleep \<Rightarrow> Some (t\<lparr>th_pc := AtCall\<rparr>, sleep_seconds (retryGap s) s)
      | AtCall \<Rightarrow>
          (case th_closure t (world s) of
             (r, w) \<Rightarrow> Some (after_call (fst r) (t\<lparr>th_answers := th_answers t @ [r]\<rparr>), s\<lparr>world := w\<rparr>))
      | AtLoad \<Rightarrow> Some (t\<lparr>th_pc := AtStore (retryGap s)\<rparr>, s)
      | AtStore g \<Rightarrow> Some (t\<lparr>th_pc := AtCompare\<rparr>, s\<lparr>retryGap := wrap64 (2 * g)\<rparr>)
      | AtCompare \<Rightarrow>
          Some (if retryGap s > maxRetryGap s then t\<lparr>th_pc := AtCap\<rparr> else next_iteration t, s)
      | AtCap \<Rightarrow> Some (next_iteration t, s\<lparr>retryGap := maxRetryGap s\<rparr>)
      | Finished \<Rightarrow> None)"

section \<open>Many threads\<close>

inductive interleave :: "('w, 'c) thread list \<times> 'w gost \<Rightarrow> ('w, 'c) thread list \<times> 'w gost \<Rightarrow> bool" where
  run: "j < length ts \<Longrightarrow> thread_step (ts ! j) s = Some (t, s') \<Longrightarrow> interleave (ts, s) (ts[j := t], s')"

inductive_cases interleaveE: "interleave (ts, s) c"

end
