(* ===== verification/ConcurrentLaws.thy ===== *)
theory ConcurrentLaws
  imports Concurrent
begin

text \<open>
  The properties of concurrent retry loops.  \<open>thread_ok\<close> is the invariant of one thread, which
  no other thread can break; the shared gap has no such invariant.
\<close>

section \<open>The invariant of a thread\<close>

text \<open>\<open>n\<close> is the number of attempts.\<close>

definition thread_ok :: "nat \<Rightarrow> ('w, 'c) thread \<Rightarrow> bool" where
  "thread_ok n t \<longleftrightarrow>
     (let going = list_all (\<lambda>r. \<not> retry_stop r) in
      case th_pc t of
        AtTest \<Rightarrow> going (th_answers t) \<and> length (th_answers t) = th_i t \<and> th_i t \<le> n
      | AtSleep \<Rightarrow> going (th_answers t) \<and> length (th_answers t) = th_i t \<and> th_i t < n
      | AtCall \<Rightarrow> going (th_answers t) \<and> length (th_answers t) = th_i t \<and> th_i t < n
      | Finished \<Rightarrow> going (butlast (th_answers t)) \<and> length (th_answers t) \<le> n \<and>
          (length (th_answers t) = n \<or> th_answers t \<noteq> [] \<and> retry_stop (last (th_answers t)))
      | _ \<Rightarrow> going (th_answers t) \<and> length (th_answers t) = Suc (th_i t) \<and> th_i t < n)"

lemma new_thread_ok: "thread_ok n (new_thread f)"
  by (simp add: thread_ok_def new_thread_def)

lemma thread_step_config: "thread_step t s = Some (t', s') \<Longrightarrow> same_config s s'"
  by (auto simp: thread_step_def same_config_def sleep_seconds_def split: pc.splits prod.splits)

lemma next_iteration_ok:
  "list_all (\<lambda>r. \<not> retry_stop r) (th_answers t) \<Longrightarrow> length (th_answers t) = Suc (th_i t) \<Longrightarrow> th_i t < n \<Longrightarrow>
     thread_ok n (next_iteration t)"
  by (simp add: thread_ok_def next_iteration_def)

lemma after_call_ok:
  assumes "list_all (\<lambda>r. \<not> retry_stop r) (th_answers t)" and "length (th_answers t) = th_i t" and "th_i t < n"
  shows "thread_ok n (after_call (fst r) (t\<lparr>th_answers := th_answers t @ [r]\<rparr>))"
proof -
  have "retry_stop r = (case fst r of None \<Rightarrow> True | Some (ModelsError e) \<Rightarrow> skipRetry e | Some _ \<Rightarrow> False)"
    by (simp add: retry_stop_def)
  with assms show ?thesis
    by (auto simp: after_call_def thread_ok_def next_iteration_def split: option.split goerror.split)
qed

lemma thread_step_ok:
  assumes "thread_step t s = Some (t', s')" and "thread_ok (nat (maxRetryAttempt s)) t"
  shows "thread_ok (nat (maxRetryAttempt s)) t'"
proof (cases "th_pc t")
  case AtTest
  with assms(2) have ok: "list_all (\<lambda>r. \<not> retry_stop r) (th_answers t)" "length (th_answers t) = th_i t"
    "th_i t \<le> nat (maxRetryAttempt s)" by (simp_all add: thread_ok_def)
  have "th_i t < nat (maxRetryAttempt s)" if "int (th_i t) < maxRetryAttempt s" using that by linarith
  moreover have "th_i t = nat (maxRetryAttempt s)" if "\<not> int (th_i t) < maxRetryAttempt s" using that ok(3) by linarith
  moreover have "list_all (\<lambda>r. \<not> retry_stop r) (butlast (th_answers t))"
    using ok(1) by (auto simp: list_all_iff dest: in_set_butlastD)
  ultimately show ?thesis using assms(1) AtTest ok
    by (cases "int (th_i t) < maxRetryAttempt s") (auto simp: thread_step_def thread_ok_def)
next
  case AtCall
  with assms show ?thesis
    by (auto simp: thread_step_def thread_ok_def intro: after_call_ok [simplified] split: prod.splits)
next
  case AtCompare
  with assms show ?thesis
    by (auto simp: thread_step_def intro: next_iteration_ok) (auto simp: thread_ok_def next_iteration_def)
qed (use assms in \<open>auto simp: thread_step_def thread_ok_def next_iteration_def\<close>)

lemma interleave_config: "interleave (ts, s) (ts', s') \<Longrightarrow> same_config s s'"
  by (auto elim: interleaveE dest: thread_step_config)

lemma interleave_ok:
  assumes "interleave (ts, s) (ts', s')" and "list_all (thread_ok (nat (maxRetryAttempt s))) ts"
  shows "list_all (thread_ok (nat (maxRetryAttempt s))) ts'"
  using assms(1)
proof (rule interleaveE)
  fix j t u assume 1: "(ts', s') = (ts[j := t], u)" "j < length ts" "thread_step (ts ! j) s = Some (t, u)"
  have "thread_ok (nat (maxRetryAttempt s)) (ts ! j)" using assms(2) 1(2) by (simp add: list_all_length)
  with 1(3) have "thread_ok (nat (maxRetryAttempt s)) t" by (rule thread_step_ok)
  with assms(2) 1 show ?thesis by (auto simp: list_all_length nth_list_update)
qed

lemma interleaved_ok:
  assumes "interleave\<^sup>*\<^sup>* (map new_thread fs, s) (ts, s')"
  shows "list_all (thread_ok (nat (maxRetryAttempt s))) ts \<and> maxRetryAttempt s' = maxRetryAttempt s"
  using assms
proof (induction "(ts, s')" arbitrary: ts s' rule: rtranclp_induct)
  case base
  show ?case by (simp add: list_all_length new_thread_ok)
next
  case (step c)
  obtain us u where c: "c = (us, u)" by (cases c)
  from step.hyps(3) [OF c] have "list_all (thread_ok (nat (maxRetryAttempt u))) us" "maxRetryAttempt u = maxRetryAttempt s"
    by simp_all
  with interleave_ok [of us u ts s'] interleave_config [of us u ts s'] step.hyps(2) show ?case
    by (simp add: c same_config_def)
qed

lemma attempt_spec_answers:
  assumes "list_all (\<lambda>r. \<not> stop r) (butlast as)" and "length as \<le> n" and "length as = n \<or> as \<noteq> [] \<and> stop (last as)"
  shows "attempt_spec (\<lambda>as. (hd as, tl as)) stop n cur as = (last (cur # as), [])"
  using assms
proof (induction as arbitrary: n cur)
  case (Cons a as)
  then obtain m where n: "n = Suc m" by (cases n) auto
  show ?case
  proof (cases "as = []")
    case True
    with Cons.prems n show ?thesis by (cases m) auto
  next
    case False
    with Cons.prems n Cons.IH [of m a] show ?thesis by auto
  qed
qed simp

text \<open>C18: Interleaving does not change what a request answers: however the steps of concurrent
  requests are interleaved, a request that is done has called its closure at most \<open>maxRetryAttempt\<close>
  times, and its result is the one that the specification of \<open>retry\<close> gives for the answers it got,
  all of which it used.\<close>

theorem interleaving_refines_spec:
  assumes "interleave\<^sup>*\<^sup>* (map new_thread fs, s) (ts, s')"
  shows "list_all (\<lambda>t. length (th_answers t) \<le> nat (maxRetryAttempt s) \<and>
    (th_pc t = Finished \<longrightarrow>
      attempt_spec (\<lambda>as. (hd as, tl as)) retry_stop (nat (maxRetryAttempt s)) (None, c0) (th_answers t) = (th_result c0 t, []))) ts"
proof -
  have "list_all (thread_ok (nat (maxRetryAttempt s))) ts" using interleaved_ok [OF assms] by simp
  then show ?thesis
  proof (rule list.pred_mono_strong)
    fix t :: "('a, 'b) thread" assume ok: "thread_ok (nat (maxRetryAttempt s)) t"
    then have "length (th_answers t) \<le> nat (maxRetryAttempt s)"
      by (cases "th_pc t") (simp_all add: thread_ok_def)
    with ok show "length (th_answers t) \<le> nat (maxRetryAttempt s) \<and> (th_pc t = Finished \<longrightarrow>
        attempt_spec (\<lambda>as. (hd as, tl as)) retry_stop (nat (maxRetryAttempt s)) (None, c0) (th_answers t) =
          (th_result c0 t, []))"
      by (auto simp: thread_ok_def th_result_def attempt_spec_answers)
  qed
qed

section \<open>One thread alone\<close>

text \<open>The steps of the threads in the order of a schedule.\<close>

fun run_schedule :: "nat list \<Rightarrow> ('w, 'c) thread list \<times> 'w gost \<Rightarrow> (('w, 'c) thread list \<times> 'w gost) option" where
  "run_schedule [] c = Some c"
| "run_schedule (j # js) (ts, s) =
     (if j < length ts
      then case thread_step (ts ! j) s of None \<Rightarrow> None | Some (t, s') \<Rightarrow> run_schedule js (ts[j := t], s')
      else None)"

lemma run_schedule_steps: "run_schedule js c = Some c' \<Longrightarrow> interleave\<^sup>*\<^sup>* c c'"
proof (induction js c rule: run_schedule.induct)
  case (2 j js ts s)
  then obtain t s' where st: "j < length ts" "thread_step (ts ! j) s = Some (t, s')"
    and run: "run_schedule js (ts[j := t], s') = Some c'"
    by (auto split: if_splits option.splits)
  from st have "interleave (ts, s) (ts[j := t], s')" by (rule interleave.run)
  moreover have "interleave\<^sup>*\<^sup>* (ts[j := t], s') c'" using 2 st run by auto
  ultimately show ?case by (rule converse_rtranclp_into_rtranclp)
qed simp

text \<open>One iteration that goes on, and one that does not.\<close>

lemma solo_iteration:
  assumes "th_pc t = AtTest" and "int (th_i t) < maxRetryAttempt s" and "th_closure t (world s) = (r, w)"
  defines "s1 \<equiv> (if th_i t > 0 then sleep_seconds (retryGap s) s else s)\<lparr>world := w\<rparr>"
  shows "interleave\<^sup>*\<^sup>* ([t], s)
    (if retry_stop r then ([t\<lparr>th_pc := Finished, th_answers := th_answers t @ [r]\<rparr>], s1)
     else ([t\<lparr>th_i := Suc (th_i t), th_answers := th_answers t @ [r]\<rparr>],
       s1\<lparr>retryGap := gap_after (th_i t) (fst r) (maxRetryGap s) (retryGap s)\<rparr>))"
proof -
  let ?t = "t\<lparr>th_pc := AtCall, th_answers := th_answers t @ [r]\<rparr>"
  have "run_schedule (if th_i t > 0 then [0, 0, 0] else [0, 0]) ([t], s) = Some ([after_call (fst r) ?t], s1)"
    using assms(1-3) by (simp add: thread_step_def s1_def sleep_seconds_def)
  then have call: "interleave\<^sup>*\<^sup>* ([t], s) ([after_call (fst r) ?t], s1)" by (rule run_schedule_steps)
  show ?thesis
  proof (cases "retry_stop r")
    case True
    then have "after_call (fst r) ?t = t\<lparr>th_pc := Finished, th_answers := th_answers t @ [r]\<rparr>"
      by (auto simp: retry_stop_def after_call_def split: option.splits goerror.splits)
    with True call show ?thesis by simp
  next
    case False
    let ?u = "t\<lparr>th_i := Suc (th_i t), th_answers := th_answers t @ [r]\<rparr>"
    have s1: "retryGap s1 = retryGap s" "maxRetryGap s1 = maxRetryGap s" by (simp_all add: s1_def sleep_seconds_def)
    have "\<exists>js. run_schedule js ([after_call (fst r) ?t], s1) =
        Some ([?u], s1\<lparr>retryGap := gap_after (th_i t) (fst r) (maxRetryGap s) (retryGap s)\<rparr>)"
    proof (cases "after_call (fst r) ?t = ?t\<lparr>th_pc := AtLoad\<rparr>")
      case True
      with False have "gap_after (th_i t) (fst r) (maxRetryGap s) (retryGap s) = next_gap (maxRetryGap s) (retryGap s)"
        by (auto simp: after_call_def gap_after_def next_iteration_def retry_stop_def
            split: option.splits goerror.splits if_splits dest: arg_cong [of _ _ th_pc])
      moreover have "run_schedule (if wrap64 (2 * retryGap s) > maxRetryGap s then [0, 0, 0, 0] else [0, 0, 0])
          ([?t\<lparr>th_pc := AtLoad\<rparr>], s1) = Some ([?u], s1\<lparr>retryGap := next_gap (maxRetryGap s) (retryGap s)\<rparr>)"
        using assms(1) by (simp add: thread_step_def next_iteration_def next_gap_def Let_def s1)
      ultimately show ?thesis using True by metis
    next
      case go: False
      with False have "after_call (fst r) ?t = ?u" "gap_after (th_i t) (fst r) (maxRetryGap s) (retryGap s) = retryGap s"
        using assms(1)
        by (auto simp: after_call_def gap_after_def next_iteration_def retry_stop_def
            split: option.splits goerror.splits if_splits)
      then have "run_schedule [] ([after_call (fst r) ?t], s1) =
          Some ([?u], s1\<lparr>retryGap := gap_after (th_i t) (fst r) (maxRetryGap s) (retryGap s)\<rparr>)"
        using s1 by simp
      then show ?thesis by blast
    qed
    with False call show ?thesis by (auto dest: run_schedule_steps)
  qed
qed

lemma solo_loop:
  assumes "th_pc t = AtTest" and "nat (maxRetryAttempt s) = th_i t + n"
  shows "\<exists>t'. interleave\<^sup>*\<^sup>* ([t], s) ([t'], snd (retry_loop (th_closure t) (th_i t) n (th_result c0 t) s)) \<and>
    th_pc t' = Finished \<and> th_result c0 t' = fst (retry_loop (th_closure t) (th_i t) n (th_result c0 t) s)"
  using assms
proof (induction n arbitrary: t s)
  case 0
  then have "thread_step t s = Some (t\<lparr>th_pc := Finished\<rparr>, s)" by (auto simp: thread_step_def)
  then have "run_schedule [0] ([t], s) = Some ([t\<lparr>th_pc := Finished\<rparr>], s)" by simp
  from run_schedule_steps [OF this] show ?case
    by (intro exI [of _ "t\<lparr>th_pc := Finished\<rparr>"]) (simp add: th_result_def)
next
  case (Suc n)
  obtain r w where f: "th_closure t (world s) = (r, w)" by (cases "th_closure t (world s)")
  have less: "int (th_i t) < maxRetryAttempt s" using Suc.prems(2) by linarith
  note step = solo_iteration [OF Suc.prems(1) less f]
  show ?case
  proof (cases "retry_stop r")
    case True
    with step show ?thesis
      by (intro exI [of _ "t\<lparr>th_pc := Finished, th_answers := th_answers t @ [r]\<rparr>"])
        (simp add: retry_loop_Suc_stop [where f = "th_closure t" and s = s, OF f True] th_result_def del: retry_loop.simps)
  next
    case False
    let ?t = "t\<lparr>th_i := Suc (th_i t), th_answers := th_answers t @ [r]\<rparr>"
    let ?s = "(if th_i t > 0 then sleep_seconds (retryGap s) s else s)
      \<lparr>world := w, retryGap := gap_after (th_i t) (fst r) (maxRetryGap s) (retryGap s)\<rparr>"
    have "th_pc ?t = AtTest" "nat (maxRetryAttempt ?s) = th_i ?t + n"
      using Suc.prems by (simp_all add: sleep_seconds_def)
    from Suc.IH [OF this] have "\<exists>t'. interleave\<^sup>*\<^sup>* ([?t], ?s) ([t'], snd (retry_loop (th_closure t) (Suc (th_i t)) n r ?s)) \<and>
        th_pc t' = Finished \<and> th_result c0 t' = fst (retry_loop (th_closure t) (Suc (th_i t)) n r ?s)"
      by (simp add: th_result_def)
    moreover have "interleave\<^sup>*\<^sup>* ([t], s) ([?t], ?s)" using step False by simp
    ultimately show ?thesis
      unfolding retry_loop_Suc_go [where f = "th_closure t" and s = s, OF f False] by (metis (no_types, lifting) rtranclp_trans)
  qed
qed

text \<open>C19: The statements of a single thread are the sequential loop: without interference a thread runs to its
  end, and leaves the result, the state of the package and the sleeps that \<open>retry\<close> leaves.\<close>

theorem solo_thread_is_retry:
  "\<exists>t s'. interleave\<^sup>*\<^sup>* ([new_thread f], s) ([t], s') \<and> th_pc t = Finished \<and> retry f c0 s = (Ret (th_result c0 t), s')"
proof -
  have "\<exists>t'. interleave\<^sup>*\<^sup>* ([new_thread f], s) ([t'], snd (retry_loop f 0 (nat (maxRetryAttempt s)) (None, c0) s)) \<and>
      th_pc t' = Finished \<and> th_result c0 t' = fst (retry_loop f 0 (nat (maxRetryAttempt s)) (None, c0) s)"
    using solo_loop [of "new_thread f" s "nat (maxRetryAttempt s)" c0] by (simp add: new_thread_def th_result_def)
  then show ?thesis by (auto simp: retry_def map_prod_def split: prod.split)
qed

section \<open>Every interleaving ends\<close>

fun pc_rank :: "pc \<Rightarrow> nat" where
  "pc_rank AtTest = 7"
| "pc_rank AtSleep = 6"
| "pc_rank AtCall = 5"
| "pc_rank AtLoad = 4"
| "pc_rank (AtStore g) = 3"
| "pc_rank AtCompare = 2"
| "pc_rank AtCap = 1"
| "pc_rank Finished = 0"

text \<open>A bound on the steps a thread has left.\<close>

definition steps_left :: "nat \<Rightarrow> ('w, 'c) thread \<Rightarrow> nat" where
  "steps_left n t = (if th_pc t = Finished then 0 else 7 * (n - th_i t) + pc_rank (th_pc t))"

lemma next_iteration_left: "th_i t < n \<Longrightarrow> steps_left n (next_iteration t) = 7 * (n - th_i t)"
  by (simp add: steps_left_def next_iteration_def)

lemma after_call_left: "th_i t < n \<Longrightarrow> steps_left n (after_call e t) \<le> 7 * (n - th_i t) + 4"
  by (auto simp: after_call_def next_iteration_left split: option.split goerror.split)
    (auto simp: steps_left_def)

lemma thread_step_left:
  assumes "thread_step t s = Some (t', s')" and "thread_ok n t"
  shows "steps_left n t' < steps_left n t"
proof (cases "th_pc t")
  case AtCall
  have "steps_left n (after_call e (t\<lparr>th_answers := a\<rparr>)) < steps_left n t" if "th_i t < n" for e a
    using after_call_left [of "t\<lparr>th_answers := a\<rparr>" n e] that AtCall by (simp add: steps_left_def)
  with assms AtCall show ?thesis
    by (auto simp: thread_step_def thread_ok_def split: prod.splits)
next
  case AtCompare
  with assms show ?thesis
    using next_iteration_left [of t n] by (auto simp: thread_step_def thread_ok_def steps_left_def)
next
  case AtCap
  with assms show ?thesis
    using next_iteration_left [of t n] by (auto simp: thread_step_def thread_ok_def steps_left_def)
qed (use assms in \<open>auto simp: thread_step_def steps_left_def\<close>)

lemma interleave_left:
  assumes "interleave (ts, s) (ts', s')" and "list_all (thread_ok n) ts"
  shows "sum_list (map (steps_left n) ts') < sum_list (map (steps_left n) ts)"
  using assms(1)
proof (rule interleaveE)
  fix j t u assume 1: "(ts', s') = (ts[j := t], u)" "j < length ts" "thread_step (ts ! j) s = Some (t, u)"
  have "thread_ok n (ts ! j)" using assms(2) 1(2) by (simp add: list_all_length)
  with 1(3) have less: "steps_left n t < steps_left n (ts ! j)" by (rule thread_step_left)
  have "ts = take j ts @ (ts ! j) # drop (Suc j) ts" using 1(2) by (rule id_take_nth_drop)
  then have "sum_list (map (steps_left n) ts) =
      sum_list (map (steps_left n) (take j ts)) + steps_left n (ts ! j) + sum_list (map (steps_left n) (drop (Suc j) ts))"
    by (metis (no_types, lifting) add.assoc list.simps(9) map_append sum_list.Cons sum_list_append)
  moreover have "ts' = take j ts @ t # drop (Suc j) ts" using 1 by (simp add: upd_conv_take_nth_drop)
  ultimately show ?thesis using less by simp
qed

text \<open>C20: Concurrent requests cannot run for ever, whatever the schedule: \<open>k\<close> requests make at most
  \<open>k (7 n + 7)\<close> steps, where \<open>n\<close> is the number of attempts.\<close>

theorem interleaving_terminates:
  assumes "(interleave ^^ k) (map new_thread fs, s) (ts, s')"
  shows "k \<le> length fs * (7 * nat (maxRetryAttempt s) + 7)"
proof -
  let ?n = "nat (maxRetryAttempt s)"
  have "k + sum_list (map (steps_left ?n) ts) \<le> sum_list (map (steps_left ?n) (map new_thread fs))"
    using assms
  proof (induction k arbitrary: ts s')
    case (Suc k)
    then obtain us u where c: "(interleave ^^ k) (map new_thread fs, s) (us, u)" "interleave (us, u) (ts, s')"
      by (auto elim: relpowp_Suc_E)
    then have "list_all (thread_ok ?n) us" using interleaved_ok [of fs s us u] by (auto dest: relpowp_imp_rtranclp)
    with interleave_left [OF c(2)] Suc.IH [OF c(1)] show ?case by fastforce
  qed simp
  moreover have "sum_list (map (steps_left ?n) (map new_thread fs)) = length fs * (7 * ?n + 7)"
    by (induction fs) (simp_all add: steps_left_def new_thread_def)
  ultimately show ?thesis by linarith
qed

section \<open>The gap under interleaving\<close>

text \<open>A closure that always fails with an error that is retried.\<close>

definition busy :: "'w \<Rightarrow> (goerror option \<times> unit) \<times> 'w" where
  "busy w = ((Some (ModelsError zeroError), ()), w)"

lemma busy_goes_on [simp]: "after_call (fst (fst (busy w))) t = (if th_i t \<ge> 1 then t\<lparr>th_pc := AtLoad\<rparr> else next_iteration t)"
  by (simp add: busy_def after_call_def skipRetry_def zeroError_def)

text \<open>Two threads, the first between its store of the gap \<open>x\<close> and its comparison, the second before its load.\<close>

definition racing :: "int \<Rightarrow> int \<Rightarrow> nat \<Rightarrow> int \<Rightarrow> ('w, unit) thread list \<times> 'w gost \<Rightarrow> bool" where
  "racing n cap i x c \<longleftrightarrow>
     (case c of (ts, s) \<Rightarrow> \<exists>a b. ts = [a, b] \<and> th_closure a = busy \<and> th_closure b = busy \<and>
        th_pc a = AtCompare \<and> th_pc b = AtLoad \<and> th_i a = i \<and> th_i b = i \<and>
        retryGap s = x \<and> maxRetryGap s = cap \<and> maxRetryAttempt s = n)"

lemma race_round:
  assumes "racing n cap i x c" and "cap < x" and "int i + 1 < n" and "4 * x < 2 ^ 63" and "0 < cap"
  shows "\<exists>c'. interleave\<^sup>*\<^sup>* c c' \<and> racing n cap (Suc i) (4 * x) c'"
proof -
  obtain a b s where c: "c = ([a, b], s)" and r: "th_closure a = busy" "th_closure b = busy"
    "th_pc a = AtCompare" "th_pc b = AtLoad" "th_i a = i" "th_i b = i" "retryGap s = x" "maxRetryGap s = cap"
    "maxRetryAttempt s = n"
    using assms(1) by (auto simp: racing_def split: prod.splits)
  have w: "wrap64 (2 * x) = 2 * x" "wrap64 (4 * x) = 4 * x"
    using assms by (simp_all add: wrap64_def)
  have "\<exists>c'. run_schedule [1, 0, 0, 0, 0, 0, 1, 0, 1, 1, 1, 1, 1, 0] c = Some c' \<and> racing n cap (Suc i) (4 * x) c'"
    using assms r w
    by (simp add: c thread_step_def next_iteration_def busy_def after_call_def skipRetry_def zeroError_def
        sleep_seconds_def racing_def)
  then show ?thesis by (blast dest: run_schedule_steps)
qed

lemma race_start:
  assumes "retryGap s = maxRetryGap s" and "1 < maxRetryAttempt s" and "0 < maxRetryGap s" and "2 * maxRetryGap s < 2 ^ 63"
  shows "\<exists>c. interleave\<^sup>*\<^sup>* ([new_thread busy, new_thread busy], s) c \<and>
    racing (maxRetryAttempt s) (maxRetryGap s) 1 (2 * maxRetryGap s) c"
proof -
  have w: "wrap64 (2 * maxRetryGap s) = 2 * maxRetryGap s" using assms by (simp add: wrap64_def)
  have "\<exists>c. run_schedule [0, 0, 0, 0, 0, 1, 1, 1, 1, 1, 0, 0] ([new_thread busy, new_thread busy], s) = Some c \<and>
      racing (maxRetryAttempt s) (maxRetryGap s) 1 (2 * maxRetryGap s) c"
    using assms w
    by (simp add: new_thread_def thread_step_def next_iteration_def busy_def after_call_def skipRetry_def zeroError_def
        sleep_seconds_def racing_def)
  then show ?thesis by (blast dest: run_schedule_steps)
qed

lemma race_end:
  assumes "racing n cap i x c" and "cap < x" and "int i + 1 < n" and "2 * x < 2 ^ 63" and "0 < cap"
  shows "\<exists>ts s'. interleave\<^sup>*\<^sup>* c (ts, s') \<and> last (slept s') = wrap64 (2 * x * 1000000000)"
proof -
  obtain a b s where c: "c = ([a, b], s)" and r: "th_closure a = busy" "th_closure b = busy"
    "th_pc a = AtCompare" "th_pc b = AtLoad" "th_i a = i" "th_i b = i" "retryGap s = x" "maxRetryGap s = cap"
    "maxRetryAttempt s = n"
    using assms(1) by (auto simp: racing_def split: prod.splits)
  have w: "wrap64 (2 * x) = 2 * x" using assms by (simp add: wrap64_def)
  have "\<exists>ts s'. run_schedule [1, 0, 0, 0, 1, 0] c = Some (ts, s') \<and> last (slept s') = wrap64 (2 * x * 1000000000)"
    using assms r w by (simp add: c thread_step_def next_iteration_def sleep_seconds_def)
  then show ?thesis by (blast dest: run_schedule_steps)
qed

text \<open>C21: The maximum does not bound the gap of concurrent requests: as the gap is doubled and capped in separate
  steps, two requests that keep failing can have one of them sleep \<open>4 ^ (k + 1)\<close> times the maximum, for every
  \<open>k\<close> that the attempts and the 64 bits allow.\<close>

theorem concurrent_gap_exceeds_maximum:
  assumes "retryGap s = maxRetryGap s" and "0 < maxRetryGap s"
    and "int k + 2 < maxRetryAttempt s" and "4 ^ (k + 1) * maxRetryGap s < 2 ^ 63"
  shows "\<exists>ts s'. interleave\<^sup>*\<^sup>* ([new_thread busy, new_thread busy], s) (ts, s') \<and>
    last (slept s') = wrap64 (4 ^ (k + 1) * maxRetryGap s * 1000000000)"
proof -
  let ?cap = "maxRetryGap s" and ?n = "maxRetryAttempt s"
  have pow: "2 * ?cap * 4 ^ j \<le> 2 * ?cap * 4 ^ k" "?cap < 2 * ?cap * 4 ^ j" if "j \<le> k" for j
  proof -
    have "(4 :: int) ^ j \<le> 4 ^ k" and "(1 :: int) \<le> 4 ^ j" using that by (simp_all add: power_increasing)
    moreover have "2 * ?cap * 1 \<le> 2 * ?cap * 4 ^ j" using assms(2) calculation by (intro mult_left_mono) simp_all
    ultimately show "2 * ?cap * 4 ^ j \<le> 2 * ?cap * 4 ^ k" and "?cap < 2 * ?cap * 4 ^ j"
      using assms(2) by (simp add: mult_left_mono, linarith)
  qed
  have "\<exists>c. interleave\<^sup>*\<^sup>* ([new_thread busy, new_thread busy], s) c \<and> racing ?n ?cap (Suc j) (2 * ?cap * 4 ^ j) c"
    if "j \<le> k" for j
    using that
  proof (induction j)
    case 0
    have "(4 :: int) \<le> 4 ^ (k + 1)" by simp
    then have "2 * ?cap < 2 ^ 63" using assms(2,4) mult_right_mono [of 4 "4 ^ (k + 1)" ?cap] by linarith
    with race_start [of s] assms show ?case by simp
  next
    case (Suc j)
    then obtain c where c: "interleave\<^sup>*\<^sup>* ([new_thread busy, new_thread busy], s) c" "racing ?n ?cap (Suc j) (2 * ?cap * 4 ^ j) c"
      by auto
    have "4 * (2 * ?cap * 4 ^ j) < 2 ^ 63" using pow(1) [of "Suc j"] Suc.prems assms(4) by simp
    from race_round [OF c(2) pow(2) _ this assms(2)] Suc.prems assms(3) obtain c' where
      "interleave\<^sup>*\<^sup>* c c'" "racing ?n ?cap (Suc (Suc j)) (4 * (2 * ?cap * 4 ^ j)) c'" by auto
    moreover have "4 * (2 * ?cap * 4 ^ j) = 2 * ?cap * 4 ^ Suc j" by simp
    ultimately have "interleave\<^sup>*\<^sup>* ([new_thread busy, new_thread busy], s) c' \<and>
        racing ?n ?cap (Suc (Suc j)) (2 * ?cap * 4 ^ Suc j) c'"
      using rtranclp_trans [OF c(1)] by metis
    then show ?case by blast
  qed
  then obtain c where c: "interleave\<^sup>*\<^sup>* ([new_thread busy, new_thread busy], s) c" "racing ?n ?cap (Suc k) (2 * ?cap * 4 ^ k) c"
    by blast
  have "2 * (2 * ?cap * 4 ^ k) = 4 ^ (k + 1) * ?cap" by simp
  with race_end [OF c(2) pow(2) _ _ assms(2)] assms(3,4) obtain ts s' where
    "interleave\<^sup>*\<^sup>* c (ts, s')" "last (slept s') = wrap64 (4 ^ (k + 1) * ?cap * 1000000000)" by auto
  with c(1) show ?thesis by (meson rtranclp_trans)
qed

text \<open>With the defaults, a sleep of 64 minutes where the maximum is one.\<close>

lemma concurrent_gap_exceeds_maximum_witness:
  "\<exists>ts s'. interleave\<^sup>*\<^sup>* ([new_thread busy, new_thread busy], (init_gost (0 :: nat))\<lparr>retryGap := 60\<rparr>) (ts, s') \<and>
     last (slept s') = 64 * 60 * 1000000000"
  using concurrent_gap_exceeds_maximum [of "(init_gost (0 :: nat))\<lparr>retryGap := 60\<rparr>" 2]
  by (simp add: init_gost_def wrap64_def)

lemma interleaving_refines_spec_witness:
  "\<exists>t :: (nat, unit) thread. th_pc t = Finished \<and> th_answers t = [(None, ())] \<and>
     attempt_spec (\<lambda>as. (hd as, tl as)) retry_stop 10 (None, ()) (th_answers t) = (th_result () t, [])"
proof -
  let ?f = "\<lambda>w. ((None, ()), Suc w)"
  have "\<exists>t s'. run_schedule [0, 0] ([new_thread ?f], init_gost 0) = Some ([t], s') \<and> th_pc t = Finished \<and> th_answers t = [(None, ())]"
    by (simp add: new_thread_def thread_step_def after_call_def init_gost_def)
  then obtain t s' where e: "run_schedule [0, 0] ([new_thread ?f], init_gost 0) = Some ([t], s')"
    and t: "th_pc t = Finished" "th_answers t = [(None, ())]" by blast
  from run_schedule_steps [OF e] have run: "interleave\<^sup>*\<^sup>* (map new_thread [?f], init_gost 0) ([t], s')" by simp
  from interleaving_refines_spec [OF run, of "()"] t show ?thesis
    by (auto simp: init_gost_def intro!: exI [of _ t])
qed

lemma interleaving_terminates_witness:
  "\<not> (\<exists>ts s'. (interleave ^^ 155) (map new_thread [busy, busy], init_gost (0 :: nat)) (ts, s'))"
  using interleaving_terminates [of 155 "[busy, busy]" "init_gost (0 :: nat)"]
  by (auto simp: init_gost_def)

end
