(* ===== verification/Json.thy ===== *)
theory Json
  imports GoUrl
begin

text \<open>
  JSON texts: the values, how \<^verbatim>\<open>encoding/json\<close> prints them (compact, with HTML characters
  escaped, as \<^verbatim>\<open>json.NewEncoder\<close> does), and how its decoder reads the first value of a text.  Numbers
  without a fraction and an exponent are integers; the others, which the program never writes, keep
  their text.  The members of an object are in the order of the text, repeated ones included.
\<close>

section \<open>Values and their texts\<close>

datatype json =
    JNull
  | JBool bool
  | JNum int
  | JFrac string
  | JStr string
  | JArr "json list"
  | JObj "(string \<times> json) list"

definition code :: "char \<Rightarrow> nat" where
  "code c = of_char c"

definition hex_digit :: "nat \<Rightarrow> char" where
  "hex_digit d = (if d < 10 then char_of (48 + d) else char_of (87 + d))"

definition is_cont :: "nat \<Rightarrow> nat \<Rightarrow> char \<Rightarrow> bool" where
  "is_cont lo hi c \<longleftrightarrow> lo \<le> code c \<and> code c \<le> hi"

text \<open>How many bytes follow the first one of a UTF-8 sequence (\<^verbatim>\<open>utf8.DecodeRune\<close>), for a byte that is not
  ASCII; \<open>None\<close> for an invalid encoding.\<close>

definition rune_tail :: "char \<Rightarrow> string \<Rightarrow> nat option" where
  "rune_tail c cs =
     (let n = code c;
          two = (case cs of a # _ \<Rightarrow> is_cont 128 191 a | _ \<Rightarrow> False);
          three = (\<lambda>lo hi. case cs of a # b # _ \<Rightarrow> is_cont lo hi a \<and> is_cont 128 191 b | _ \<Rightarrow> False);
          four = (\<lambda>lo hi. case cs of a # b # d # _ \<Rightarrow> is_cont lo hi a \<and> is_cont 128 191 b \<and> is_cont 128 191 d
                    | _ \<Rightarrow> False)
      in if 194 \<le> n \<and> n \<le> 223 then if two then Some 1 else None
         else if n = 224 then if three 160 191 then Some 2 else None
         else if n = 237 then if three 128 159 then Some 2 else None
         else if 225 \<le> n \<and> n \<le> 239 then if three 128 191 then Some 2 else None
         else if n = 240 then if four 144 191 then Some 3 else None
         else if 241 \<le> n \<and> n \<le> 243 then if four 128 191 then Some 3 else None
         else if n = 244 then if four 128 143 then Some 3 else None
         else None)"

text \<open>One ASCII character of a string literal.\<close>

definition escape_ascii :: "char \<Rightarrow> string" where
  "escape_ascii c =
     (let n = code c; bs = CHR 0x5C in
      if n = 34 \<or> n = 92 then [bs, c]
      else if n = 8 then [bs, CHR ''b''] else if n = 12 then [bs, CHR ''f''] else if n = 10 then [bs, CHR ''n'']
      else if n = 13 then [bs, CHR ''r''] else if n = 9 then [bs, CHR ''t'']
      else if n < 32 \<or> c \<in> {CHR ''<'', CHR ''>'', CHR ''&''}
      then [bs, CHR ''u'', CHR ''0'', CHR ''0'', hex_digit (n div 16), hex_digit (n mod 16)]
      else [c])"

text \<open>An invalid byte is printed as the replacement character, and the two line separators are escaped.\<close>

function json_chars :: "string \<Rightarrow> string" where
  "json_chars [] = []"
| "json_chars (c # cs) =
     (if code c < 128 then escape_ascii c @ json_chars cs
      else case rune_tail c cs of
             None \<Rightarrow> CHR 0x5C # ''ufffd'' @ json_chars cs
           | Some k \<Rightarrow>
               (if c # take k cs = [CHR 0xE2, CHR 0x80, CHR 0xA8] then CHR 0x5C # ''u2028''
                else if c # take k cs = [CHR 0xE2, CHR 0x80, CHR 0xA9] then CHR 0x5C # ''u2029''
                else c # take k cs) @ json_chars (drop k cs))"
  by pat_completeness auto
termination
  by (relation "measure length") auto

definition json_quote :: "string \<Rightarrow> string" where
  "json_quote s = [CHR 0x22] @ json_chars s @ [CHR 0x22]"

fun print_json :: "json \<Rightarrow> string" where
  "print_json JNull = ''null''"
| "print_json (JBool b) = (if b then ''true'' else ''false'')"
| "print_json (JNum i) = Itoa i"
| "print_json (JFrac s) = s"
| "print_json (JStr s) = json_quote s"
| "print_json (JArr js) = ''['' @ Join (map print_json js) '','' @ '']''"
| "print_json (JObj fs) = ''{'' @ Join (map (\<lambda>(k, j). json_quote k @ '':'' @ print_json j) fs) '','' @ ''}''"

section \<open>String literals\<close>

definition utf8_encode :: "nat \<Rightarrow> string" where
  "utf8_encode n =
     (if n < 128 then [char_of n]
      else if n < 2048 then [char_of (192 + n div 64), char_of (128 + n mod 64)]
      else if n < 65536
      then [char_of (224 + n div 4096), char_of (128 + n div 64 mod 64), char_of (128 + n mod 64)]
      else [char_of (240 + n div 262144), char_of (128 + n div 4096 mod 64), char_of (128 + n div 64 mod 64),
            char_of (128 + n mod 64)])"

fun read_hex4 :: "string \<Rightarrow> (nat \<times> string) option" where
  "read_hex4 (a # b # c # d # ds) =
     (if is_hex a \<and> is_hex b \<and> is_hex c \<and> is_hex d
      then Some (((unhex a * 16 + unhex b) * 16 + unhex c) * 16 + unhex d, ds) else None)"
| "read_hex4 _ = None"

text \<open>A \<^verbatim>\<open>\u\<close> escape of a surrogate takes a second escape along if the two form a pair, and is the
  replacement character otherwise.\<close>

definition surrogate :: "nat \<Rightarrow> string \<Rightarrow> nat \<times> string" where
  "surrogate n ds =
     (if n < 0xD800 \<or> 0xE000 \<le> n then (n, ds)
      else case ds of
             b # u # es \<Rightarrow>
               (case (if b = CHR 0x5C \<and> u = CHR ''u'' then read_hex4 es else None) of
                  Some (m, r) \<Rightarrow>
                    if n < 0xDC00 \<and> 0xDC00 \<le> m \<and> m < 0xE000
                    then ((n - 0xD800) * 1024 + (m - 0xDC00) + 0x10000, r) else (0xFFFD, ds)
                | None \<Rightarrow> (0xFFFD, ds))
           | _ \<Rightarrow> (0xFFFD, ds))"

text \<open>One character of a literal that is not the closing quote: the bytes it stands for, and the rest.\<close>

definition escape_tail :: "string \<Rightarrow> (string \<times> string) option" where
  "escape_tail s =
     (case s of
        [] \<Rightarrow> None
      | e # es \<Rightarrow>
          if e = CHR ''u''
          then map_option (\<lambda>(n, ds). case surrogate n ds of (m, r) \<Rightarrow> (utf8_encode m, r)) (read_hex4 es)
          else if e \<in> {CHR 0x22, CHR 0x5C, CHR ''/''} then Some ([e], es)
          else if e = CHR ''b'' then Some ([CHR 0x08], es)
          else if e = CHR ''f'' then Some ([CHR 0x0C], es)
          else if e = CHR ''n'' then Some ([CHR 0x0A], es)
          else if e = CHR ''r'' then Some ([CHR 0x0D], es)
          else if e = CHR ''t'' then Some ([CHR 0x09], es)
          else None)"

definition literal_char :: "char \<Rightarrow> string \<Rightarrow> (string \<times> string) option" where
  "literal_char c cs =
     (if c = CHR 0x5C then escape_tail cs
      else if code c < 32 then None
      else if code c < 128 then Some ([c], cs)
      else case rune_tail c cs of
             None \<Rightarrow> Some (utf8_encode 0xFFFD, cs)
           | Some k \<Rightarrow> Some (c # take k cs, drop k cs))"

lemma read_hex4_length: "read_hex4 es = Some (n, ds) \<Longrightarrow> length ds < length es"
  by (cases es rule: read_hex4.cases) (auto split: if_splits)

lemma surrogate_length: "length (snd (surrogate n ds)) \<le> length ds"
  by (auto simp: surrogate_def dest!: read_hex4_length split: if_splits list.splits option.splits)

lemma escape_tail_length: "escape_tail s = Some (x, r) \<Longrightarrow> length r < length s"
proof (cases s)
  case (Cons e es)
  have "length (snd (surrogate n ds)) < Suc (length es)" if "read_hex4 es = Some (n, ds)" for n ds
    using read_hex4_length [OF that] surrogate_length [of n ds] by simp
  moreover assume "escape_tail s = Some (x, r)"
  ultimately show ?thesis by (auto simp: escape_tail_def Cons case_prod_beta split: if_splits)
qed (simp add: escape_tail_def)

lemma literal_char_length: "literal_char c cs = Some (x, r) \<Longrightarrow> length r \<le> length cs"
  unfolding literal_char_def by (auto split: if_splits option.splits dest: escape_tail_length)

text \<open>The rest of a string literal: its text, and what follows the closing quote.\<close>

function read_string :: "string \<Rightarrow> (string \<times> string) option" where
  "read_string [] = None"
| "read_string (c # cs) =
     (if c = CHR 0x22 then Some ([], cs)
      else case literal_char c cs of
             None \<Rightarrow> None
           | Some (x, r) \<Rightarrow> map_option (\<lambda>(s, r'). (x @ s, r')) (read_string r))"
  by pat_completeness auto
termination
  by (relation "measure length") (auto dest: literal_char_length)

section \<open>Numbers\<close>

definition starts_digit :: "string \<Rightarrow> bool" where
  "starts_digit s \<longleftrightarrow> s \<noteq> [] \<and> is_digit (hd s)"

definition span_digits :: "string \<Rightarrow> string \<times> string" where
  "span_digits s = (takeWhile is_digit s, dropWhile is_digit s)"

definition digits_value :: "string \<Rightarrow> nat" where
  "digits_value ds = foldl (\<lambda>n c. n * 10 + digit_val c) 0 ds"

text \<open>The fraction and the exponent, each possibly absent.\<close>

definition read_frac :: "string \<Rightarrow> (string \<times> string) option" where
  "read_frac s =
     (if prefix ''.'' s
      then if starts_digit (tl s) then Some (map_prod (Cons CHR ''.'') id (span_digits (tl s))) else None
      else Some ([], s))"

definition read_exp :: "string \<Rightarrow> (string \<times> string) option" where
  "read_exp s =
     (if prefix ''e'' s \<or> prefix ''E'' s
      then let (sign, t) = (case tl s of
                              c # t \<Rightarrow> if c \<in> {CHR ''+'', CHR ''-''} then ([c], t) else ([], c # t)
                            | [] \<Rightarrow> ([], []))
           in if starts_digit t then Some (map_prod (\<lambda>ds. hd s # sign @ ds) id (span_digits t)) else None
      else Some ([], s))"

definition read_number :: "string \<Rightarrow> (json \<times> string) option" where
  "read_number s =
     (let (neg, t) = (if prefix ''-'' s then (True, tl s) else (False, s))
      in if \<not> starts_digit t then None
         else let (ds, r) = (if hd t = CHR ''0'' then ([CHR ''0''], tl t) else span_digits t)
              in (case read_frac r of
                    None \<Rightarrow> None
                  | Some (fr, r') \<Rightarrow>
                      (case read_exp r' of
                         None \<Rightarrow> None
                       | Some (ex, r'') \<Rightarrow>
                           Some (if fr @ ex = [] then JNum (if neg then - int (digits_value ds) else int (digits_value ds))
                                 else JFrac ((if neg then ''-'' else []) @ ds @ fr @ ex), r''))))"

section \<open>Values\<close>

definition is_json_space :: "char \<Rightarrow> bool" where
  "is_json_space c \<longleftrightarrow> c \<in> {CHR '' '', CHR 0x09, CHR 0x0D, CHR 0x0A}"

definition skip_space :: "string \<Rightarrow> string" where
  "skip_space s = dropWhile is_json_space s"

text \<open>The reader.  \<open>d\<close> is how much deeper arrays and objects may be nested, \<open>n\<close> the fuel.\<close>

fun read_value :: "nat \<Rightarrow> nat \<Rightarrow> string \<Rightarrow> (json \<times> string) option"
  and read_elems :: "nat \<Rightarrow> nat \<Rightarrow> string \<Rightarrow> (json list \<times> string) option"
  and read_fields :: "nat \<Rightarrow> nat \<Rightarrow> string \<Rightarrow> ((string \<times> json) list \<times> string) option" where
  "read_value 0 d s = None"
| "read_value (Suc n) d s =
     (case skip_space s of
        [] \<Rightarrow> None
      | c # cs \<Rightarrow>
          if c = CHR 0x22 then map_option (\<lambda>(t, r). (JStr t, r)) (read_string cs)
          else if c = CHR ''['' then
            (if d = 0 then None
             else if prefix '']'' (skip_space cs) then Some (JArr [], tl (skip_space cs))
             else map_option (\<lambda>(js, r). (JArr js, r)) (read_elems n (d - 1) cs))
          else if c = CHR ''{'' then
            (if d = 0 then None
             else if prefix ''}'' (skip_space cs) then Some (JObj [], tl (skip_space cs))
             else map_option (\<lambda>(fs, r). (JObj fs, r)) (read_fields n (d - 1) cs))
          else if prefix ''null'' (c # cs) then Some (JNull, drop 3 cs)
          else if prefix ''true'' (c # cs) then Some (JBool True, drop 3 cs)
          else if prefix ''false'' (c # cs) then Some (JBool False, drop 4 cs)
          else read_number (c # cs))"
| "read_elems 0 d s = None"
| "read_elems (Suc n) d s =
     (case read_value n d s of
        None \<Rightarrow> None
      | Some (j, r) \<Rightarrow>
          (case skip_space r of
             [] \<Rightarrow> None
           | c # r' \<Rightarrow>
               if c = CHR '','' then map_option (\<lambda>(js, t). (j # js, t)) (read_elems n d r')
               else if c = CHR '']'' then Some ([j], r') else None))"
| "read_fields 0 d s = None"
| "read_fields (Suc n) d s =
     (case skip_space s of
        [] \<Rightarrow> None
      | q # s' \<Rightarrow>
          (case (if q = CHR 0x22 then read_string s' else None) of
             None \<Rightarrow> None
           | Some (k, r) \<Rightarrow>
               (case (if prefix '':'' (skip_space r) then read_value n d (tl (skip_space r)) else None) of
                  None \<Rightarrow> None
                | Some (j, r') \<Rightarrow>
                    (case skip_space r' of
                       [] \<Rightarrow> None
                     | c # t \<Rightarrow>
                         if c = CHR '','' then map_option (\<lambda>(fs, t'). ((k, j) # fs, t')) (read_fields n d t)
                         else if c = CHR ''}'' then Some ([(k, j)], t) else None))))"

text \<open>What \<^verbatim>\<open>Decode\<close> reads: the first value of the text, nested at most 10000 deep.\<close>

definition maxNestingDepth :: nat where "maxNestingDepth = 10000"

definition ReadJSON :: "string \<Rightarrow> json option" where
  "ReadJSON s = map_option fst (read_value (2 * length s + 2) maxNestingDepth s)"

text \<open>What \<^verbatim>\<open>Encode\<close> writes: the text and a line feed.\<close>

definition EncodeJSON :: "json \<Rightarrow> string" where
  "EncodeJSON j = print_json j @ [CHR 0x0A]"

end
