(* ===== verification/JsonCoding.thy ===== *)
theory JsonCoding
  imports Models Json GoFold
begin

text \<open>
  How \<^verbatim>\<open>encoding/json\<close> codes and decodes Go values by the tags of structs.  A struct is described by
  its fields in order, as its tags are; the description is read both ways.  Decoding fills a value
  that is there already: what the text does not say stays.  A value of the wrong kind is noted as an
  error and skipped, and the decoding goes on; an error of an unmarshaler stops it.  Slices are taken
  as lists, so that a nil slice is an empty one; what a slice keeps behind its length is not modelled
  (it shows only when a text repeats a member).
\<close>

section \<open>Faults\<close>

datatype fault = Saved goerror | Aborted goerror

definition fault_error :: "fault option \<Rightarrow> goerror option" where
  "fault_error f = map_option (\<lambda>f. case f of Saved e \<Rightarrow> e | Aborted e \<Rightarrow> e) f"

definition stopped :: "fault option \<Rightarrow> bool" where
  "stopped f \<longleftrightarrow> (case f of Some (Aborted e) \<Rightarrow> True | _ \<Rightarrow> False)"

text \<open>The fault of a decoding that went on after \<open>f\<close> and then met \<open>g\<close>: the first mismatch is reported, unless
  the decoding is stopped.\<close>

definition then_fault :: "fault option \<Rightarrow> fault option \<Rightarrow> fault option" where
  "then_fault f g = (if f = None \<or> stopped g then g else f)"

type_synonym 'a reader = "json \<Rightarrow> 'a \<Rightarrow> 'a \<times> fault option"

section \<open>Values\<close>

text \<open>\<open>te\<close> is the error for a JSON value of the wrong kind.\<close>

type_synonym type_error = "json \<Rightarrow> goerror"

definition read_str :: "type_error \<Rightarrow> string reader" where
  "read_str te j s = (case j of JNull \<Rightarrow> (s, None) | JStr t \<Rightarrow> (t, None) | _ \<Rightarrow> (s, Some (Saved (te j))))"

definition read_int :: "nat \<Rightarrow> type_error \<Rightarrow> int reader" where
  "read_int w te j n =
     (case j of
        JNull \<Rightarrow> (n, None)
      | JNum i \<Rightarrow> if - (2 ^ (w - 1)) \<le> i \<and> i < 2 ^ (w - 1) then (i, None) else (n, Some (Saved (te j)))
      | _ \<Rightarrow> (n, Some (Saved (te j))))"

text \<open>A pointer: null clears it; anything else fills what it points to, a new zero value if it is nil.\<close>

definition read_ptr :: "'a \<Rightarrow> 'a reader \<Rightarrow> 'a option reader" where
  "read_ptr z rd j p =
     (if j = JNull then (None, None) else map_prod Some id (rd j (case p of None \<Rightarrow> z | Some x \<Rightarrow> x)))"

text \<open>The elements of a slice are filled from the front; there are as many as the array has.\<close>

fun read_into :: "'a \<Rightarrow> 'a reader \<Rightarrow> json list \<Rightarrow> 'a list \<Rightarrow> 'a list \<times> fault option" where
  "read_into z rd [] xs = ([], None)"
| "read_into z rd (j # js) xs =
     (case rd j (case xs of [] \<Rightarrow> z | x # _ \<Rightarrow> x) of
        (y, f) \<Rightarrow> if stopped f then (y # tl xs, f)
                  else (case read_into z rd js (tl xs) of (ys, g) \<Rightarrow> (y # ys, then_fault f g)))"

definition read_slice :: "type_error \<Rightarrow> 'a \<Rightarrow> 'a reader \<Rightarrow> 'a list reader" where
  "read_slice te z rd j xs =
     (case j of JNull \<Rightarrow> ([], None) | JArr js \<Rightarrow> read_into z rd js xs | _ \<Rightarrow> (xs, Some (Saved (te j))))"

text \<open>A type with an unmarshaler of its own.\<close>

definition read_unmarshaler :: "(json \<Rightarrow> 'a \<times> goerror option) \<Rightarrow> 'a reader" where
  "read_unmarshaler u j x = (case u j of (y, e) \<Rightarrow> (y, map_option Aborted e))"

fun emit_list :: "('a \<Rightarrow> goerror + json) \<Rightarrow> 'a list \<Rightarrow> goerror + json list" where
  "emit_list em [] = Inr []"
| "emit_list em (x # xs) = (case em x of Inl e \<Rightarrow> Inl e | Inr j \<Rightarrow> map_sum id (\<lambda>js. j # js) (emit_list em xs))"

definition emit_array :: "('a \<Rightarrow> goerror + json) \<Rightarrow> 'a list \<Rightarrow> goerror + json" where
  "emit_array em xs = map_sum id JArr (emit_list em xs)"

definition emit_ptr :: "('a \<Rightarrow> goerror + json) \<Rightarrow> 'a option \<Rightarrow> goerror + json" where
  "emit_ptr em p = (case p of None \<Rightarrow> Inr JNull | Some x \<Rightarrow> em x)"

section \<open>Structs\<close>

text \<open>A field of a struct: its name, what it is coded as (nothing if it is left out), and how it is filled.\<close>

record 'a struct_field =
  fd_name :: string
  fd_emit :: "'a \<Rightarrow> (goerror + json) option"
  fd_read :: "'a reader"

definition field :: "string \<Rightarrow> ('a \<Rightarrow> 'b) \<Rightarrow> (('b \<Rightarrow> 'b) \<Rightarrow> 'a \<Rightarrow> 'a) \<Rightarrow> ('b \<Rightarrow> (goerror + json) option) \<Rightarrow> 'b reader
    \<Rightarrow> 'a struct_field" where
  "field k get upd em rd =
     \<lparr>fd_name = k, fd_emit = (\<lambda>x. em (get x)), fd_read = (\<lambda>j x. case rd j (get x) of (v, f) \<Rightarrow> (upd (\<lambda>_. v) x, f))\<rparr>"

text \<open>\<^verbatim>\<open>omitempty\<close>\<close>

definition omitting :: "('b \<Rightarrow> bool) \<Rightarrow> ('b \<Rightarrow> goerror + json) \<Rightarrow> 'b \<Rightarrow> (goerror + json) option" where
  "omitting nothing em v = (if nothing v then None else Some (em v))"

definition str_field :: "type_error \<Rightarrow> string \<Rightarrow> ('a \<Rightarrow> string) \<Rightarrow> ((string \<Rightarrow> string) \<Rightarrow> 'a \<Rightarrow> 'a) \<Rightarrow> 'a struct_field" where
  "str_field te k get upd = field k get upd (omitting (\<lambda>s. s = []) (\<lambda>s. Inr (JStr s))) (read_str te)"

text \<open>A string without \<^verbatim>\<open>omitempty\<close>.\<close>

definition string_field :: "type_error \<Rightarrow> string \<Rightarrow> ('a \<Rightarrow> string) \<Rightarrow> ((string \<Rightarrow> string) \<Rightarrow> 'a \<Rightarrow> 'a) \<Rightarrow> 'a struct_field" where
  "string_field te k get upd = field k get upd (\<lambda>s. Some (Inr (JStr s))) (read_str te)"

definition int_field :: "nat \<Rightarrow> type_error \<Rightarrow> string \<Rightarrow> ('a \<Rightarrow> int) \<Rightarrow> ((int \<Rightarrow> int) \<Rightarrow> 'a \<Rightarrow> 'a) \<Rightarrow> 'a struct_field" where
  "int_field w te k get upd = field k get upd (omitting (\<lambda>n. n = 0) (\<lambda>n. Inr (JNum n))) (read_int w te)"

definition ptr_field :: "string \<Rightarrow> ('a \<Rightarrow> 'b option) \<Rightarrow> (('b option \<Rightarrow> 'b option) \<Rightarrow> 'a \<Rightarrow> 'a) \<Rightarrow> ('b \<Rightarrow> goerror + json)
    \<Rightarrow> 'b \<Rightarrow> 'b reader \<Rightarrow> 'a struct_field" where
  "ptr_field k get upd em z rd = field k get upd (map_option em) (read_ptr z rd)"

definition slice_field :: "type_error \<Rightarrow> string \<Rightarrow> ('a \<Rightarrow> 'b list) \<Rightarrow> (('b list \<Rightarrow> 'b list) \<Rightarrow> 'a \<Rightarrow> 'a)
    \<Rightarrow> ('b \<Rightarrow> goerror + json) \<Rightarrow> 'b \<Rightarrow> 'b reader \<Rightarrow> 'a struct_field" where
  "slice_field te k get upd em z rd = field k get upd (omitting (\<lambda>xs. xs = []) (emit_array em)) (read_slice te z rd)"

text \<open>A slice without \<^verbatim>\<open>omitempty\<close> (an empty one is taken for nil), and a struct, which is never left out.\<close>

definition list_field :: "type_error \<Rightarrow> string \<Rightarrow> ('a \<Rightarrow> 'b list) \<Rightarrow> (('b list \<Rightarrow> 'b list) \<Rightarrow> 'a \<Rightarrow> 'a)
    \<Rightarrow> ('b \<Rightarrow> goerror + json) \<Rightarrow> 'b \<Rightarrow> 'b reader \<Rightarrow> 'a struct_field" where
  "list_field te k get upd em z rd =
     field k get upd (\<lambda>xs. Some (if xs = [] then Inr JNull else emit_array em xs)) (read_slice te z rd)"

definition inner_field :: "string \<Rightarrow> ('a \<Rightarrow> 'b) \<Rightarrow> (('b \<Rightarrow> 'b) \<Rightarrow> 'a \<Rightarrow> 'a) \<Rightarrow> ('b \<Rightarrow> goerror + json) \<Rightarrow> 'b reader
    \<Rightarrow> 'a struct_field" where
  "inner_field k get upd em rd = field k get upd (\<lambda>v. Some (em v)) rd"

fun members :: "'a struct_field list \<Rightarrow> 'a \<Rightarrow> goerror + (string \<times> json) list" where
  "members [] x = Inr []"
| "members (f # fs) x =
     (case fd_emit f x of
        None \<Rightarrow> members fs x
      | Some (Inl e) \<Rightarrow> Inl e
      | Some (Inr j) \<Rightarrow> map_sum id (\<lambda>ms. (fd_name f, j) # ms) (members fs x))"

definition emit_struct :: "'a struct_field list \<Rightarrow> 'a \<Rightarrow> goerror + json" where
  "emit_struct fs x = map_sum id JObj (members fs x)"

text \<open>The field a member belongs to: the names are compared up to case.\<close>

fun field_of :: "'a struct_field list \<Rightarrow> string \<Rightarrow> 'a struct_field option" where
  "field_of [] k = None"
| "field_of (f # fs) k = (if fold_prefix (fd_name f) k = Some [] then Some f else field_of fs k)"

fun read_members :: "'a struct_field list \<Rightarrow> (string \<times> json) list \<Rightarrow> 'a \<Rightarrow> 'a \<times> fault option" where
  "read_members fs [] x = (x, None)"
| "read_members fs ((k, j) # ms) x =
     (case field_of fs k of
        None \<Rightarrow> read_members fs ms x
      | Some fd \<Rightarrow>
          (case fd_read fd j x of
             (y, f) \<Rightarrow> if stopped f then (y, f)
                       else (case read_members fs ms y of (z, g) \<Rightarrow> (z, then_fault f g))))"

definition read_struct :: "type_error \<Rightarrow> 'a struct_field list \<Rightarrow> 'a reader" where
  "read_struct te fs j x =
     (case j of JNull \<Rightarrow> (x, None) | JObj ms \<Rightarrow> read_members fs ms x | _ \<Rightarrow> (x, Some (Saved (te j))))"

end
