(* ===== verification/JsonModels.thy ===== *)
theory JsonModels
  imports JsonCoding
begin

text \<open>
  The struct tags of \<^verbatim>\<open>common/vpcclient/models\<close>: for each struct the table of its fields, what a value is coded
  as and how a JSON value fills it.  What belongs to the interface library and to \<^verbatim>\<open>time.Time\<close> are
  parameters, and so are the texts of the decoder's own errors.
\<close>

record lib_json =
  lj_TypeError :: type_error
  lj_ReadError :: "string \<Rightarrow> goerror"
  lj_Time :: "gotime \<Rightarrow> goerror + json"
  lj_ReadTime :: "json \<Rightarrow> gotime \<times> goerror option"
  lj_VPC :: "LibVPC \<Rightarrow> goerror + json"
  lj_ReadVPC :: "LibVPC reader"
  lj_SecurityGroup :: "LibSecurityGroup \<Rightarrow> goerror + json"
  lj_ReadSecurityGroup :: "LibSecurityGroup reader"
  lj_PrimaryIP :: "PrimaryIP \<Rightarrow> goerror + json"
  lj_ReadPrimaryIP :: "PrimaryIP reader"
  lj_ResourceGroup :: "LibResourceGroup \<Rightarrow> goerror + json"
  lj_ReadResourceGroup :: "LibResourceGroup reader"
  lj_UpdatePVC :: "UpdatePVC \<Rightarrow> goerror + json"

section \<open>Zero values\<close>

definition zeroEncryptionKey :: EncryptionKey where "zeroEncryptionKey = \<lparr>ek_CRN = []\<rparr>"
definition zeroInitialOwner :: InitialOwner where "zeroInitialOwner = \<lparr>io_GroupID = 0, io_UserID = 0\<rparr>"
definition zeroZone :: Zone where "zeroZone = \<lparr>zn_Name = [], zn_Href = []\<rparr>"
definition zeroHReference :: HReference where "zeroHReference = \<lparr>href_Href = []\<rparr>"
definition zeroDeleted :: Deleted where "zeroDeleted = \<lparr>del_MoreInfo = []\<rparr>"
definition zeroRemote :: Remote where "zeroRemote = \<lparr>rem_ID = [], rem_Href = []\<rparr>"
definition zeroBackupPolicyPlan :: BackupPolicyPlan where "zeroBackupPolicyPlan = \<lparr>bpp_ID = [], bpp_Href = [], bpp_Name = [], bpp_Deleted = None, bpp_Remote = None, bpp_ResourceType = []\<rparr>"
definition zeroSubnetRef :: SubnetRef where "zeroSubnetRef = \<lparr>sr_CRN = [], sr_ID = [], sr_Href = []\<rparr>"
definition zeroSubnet :: Subnet where "zeroSubnet = \<lparr>sub_CRN = [], sub_Href = [], sub_ID = [], sub_Name = [], sub_ResourceGroup = None, sub_VPC = None, sub_Zone = None\<rparr>"
definition zeroSecurityGroup :: SecurityGroup where "zeroSecurityGroup = \<lparr>sg_CRN = [], sg_Href = [], sg_ID = [], sg_Name = [], sg_ResourceGroup = None, sg_VPC = None\<rparr>"
definition zeroErrorTarget :: ErrorTarget where "zeroErrorTarget = \<lparr>et_Name = [], et_Type = OtherErrorType []\<rparr>"
definition zeroErrorItem :: ErrorItem where "zeroErrorItem = \<lparr>ei_Code = [], ei_Message = [], ei_MoreInfo = [], ei_Target = None, ei_Status = []\<rparr>"
definition zeroLibVPC :: LibVPC where "zeroLibVPC = \<lparr>lvpc_ID = [], lvpc_Href = []\<rparr>"
definition zeroLibSecurityGroup :: LibSecurityGroup where "zeroLibSecurityGroup = \<lparr>lsg_ID = []\<rparr>"
definition zeroLibResourceGroup :: LibResourceGroup where "zeroLibResourceGroup = \<lparr>lrg_ID = [], lrg_Name = []\<rparr>"
definition zeroPrimaryIP :: PrimaryIP where "zeroPrimaryIP = \<lparr>pip_ID = []\<rparr>"

section \<open>Scalars with a type of their own\<close>

definition read_Time :: "lib_json \<Rightarrow> gotime reader" where
  "read_Time L = read_unmarshaler (lj_ReadTime L)"

fun type_text :: "ErrorType \<Rightarrow> string" where
  "type_text ErrorTypeField = ''field''"
| "type_text ErrorTypeParameter = ''parameter''"
| "type_text ErrorTypeHeader = ''header''"
| "type_text (OtherErrorType s) = s"

definition text_type :: "string \<Rightarrow> ErrorType" where
  "text_type s =
     (if s = ''field'' then ErrorTypeField else if s = ''parameter'' then ErrorTypeParameter
      else if s = ''header'' then ErrorTypeHeader else OtherErrorType s)"

definition read_ErrorType :: "lib_json \<Rightarrow> ErrorType reader" where
  "read_ErrorType L j t =
     (case j of JNull \<Rightarrow> (t, None) | JStr s \<Rightarrow> (text_type s, None) | _ \<Rightarrow> (t, Some (Saved (lj_TypeError L j))))"

section \<open>The structs\<close>

definition EncryptionKey_fields :: "lib_json \<Rightarrow> EncryptionKey struct_field list" where
  "EncryptionKey_fields L =
     [str_field (lj_TypeError L) ''crn'' ek_CRN ek_CRN_update]"

definition emit_EncryptionKey :: "lib_json \<Rightarrow> EncryptionKey \<Rightarrow> goerror + json" where
  "emit_EncryptionKey L = emit_struct (EncryptionKey_fields L)"

definition read_EncryptionKey :: "lib_json \<Rightarrow> EncryptionKey reader" where
  "read_EncryptionKey L = read_struct (lj_TypeError L) (EncryptionKey_fields L)"

definition ResourceGroup_fields :: "lib_json \<Rightarrow> ResourceGroup struct_field list" where
  "ResourceGroup_fields L =
     [str_field (lj_TypeError L) ''href'' rg_Href rg_Href_update,
      str_field (lj_TypeError L) ''id'' rg_ID rg_ID_update,
      str_field (lj_TypeError L) ''name'' rg_Name rg_Name_update]"

definition emit_ResourceGroup :: "lib_json \<Rightarrow> ResourceGroup \<Rightarrow> goerror + json" where
  "emit_ResourceGroup L = emit_struct (ResourceGroup_fields L)"

definition read_ResourceGroup :: "lib_json \<Rightarrow> ResourceGroup reader" where
  "read_ResourceGroup L = read_struct (lj_TypeError L) (ResourceGroup_fields L)"

definition InitialOwner_fields :: "lib_json \<Rightarrow> InitialOwner struct_field list" where
  "InitialOwner_fields L =
     [int_field 64 (lj_TypeError L) ''gid'' io_GroupID io_GroupID_update,
      int_field 64 (lj_TypeError L) ''uid'' io_UserID io_UserID_update]"

definition emit_InitialOwner :: "lib_json \<Rightarrow> InitialOwner \<Rightarrow> goerror + json" where
  "emit_InitialOwner L = emit_struct (InitialOwner_fields L)"

definition read_InitialOwner :: "lib_json \<Rightarrow> InitialOwner reader" where
  "read_InitialOwner L = read_struct (lj_TypeError L) (InitialOwner_fields L)"

definition Profile_fields :: "lib_json \<Rightarrow> Profile struct_field list" where
  "Profile_fields L =
     [str_field (lj_TypeError L) ''crn'' pr_CRN pr_CRN_update,
      str_field (lj_TypeError L) ''href'' pr_Href pr_Href_update,
      str_field (lj_TypeError L) ''name'' pr_Name pr_Name_update]"

definition emit_Profile :: "lib_json \<Rightarrow> Profile \<Rightarrow> goerror + json" where
  "emit_Profile L = emit_struct (Profile_fields L)"

definition read_Profile :: "lib_json \<Rightarrow> Profile reader" where
  "read_Profile L = read_struct (lj_TypeError L) (Profile_fields L)"

definition Zone_fields :: "lib_json \<Rightarrow> Zone struct_field list" where
  "Zone_fields L =
     [str_field (lj_TypeError L) ''name'' zn_Name zn_Name_update,
      str_field (lj_TypeError L) ''href'' zn_Href zn_Href_update]"

definition emit_Zone :: "lib_json \<Rightarrow> Zone \<Rightarrow> goerror + json" where
  "emit_Zone L = emit_struct (Zone_fields L)"

definition read_Zone :: "lib_json \<Rightarrow> Zone reader" where
  "read_Zone L = read_struct (lj_TypeError L) (Zone_fields L)"

definition HReference_fields :: "lib_json \<Rightarrow> HReference struct_field list" where
  "HReference_fields L =
     [str_field (lj_TypeError L) ''href'' href_Href href_Href_update]"

definition emit_HReference :: "lib_json \<Rightarrow> HReference \<Rightarrow> goerror + json" where
  "emit_HReference L = emit_struct (HReference_fields L)"

definition read_HReference :: "lib_json \<Rightarrow> HReference reader" where
  "read_HReference L = read_struct (lj_TypeError L) (HReference_fields L)"

definition Deleted_fields :: "lib_json \<Rightarrow> Deleted struct_field list" where
  "Deleted_fields L =
     [str_field (lj_TypeError L) ''more_info'' del_MoreInfo del_MoreInfo_update]"

definition emit_Deleted :: "lib_json \<Rightarrow> Deleted \<Rightarrow> goerror + json" where
  "emit_Deleted L = emit_struct (Deleted_fields L)"

definition read_Deleted :: "lib_json \<Rightarrow> Deleted reader" where
  "read_Deleted L = read_struct (lj_TypeError L) (Deleted_fields L)"

definition Remote_fields :: "lib_json \<Rightarrow> Remote struct_field list" where
  "Remote_fields L =
     [str_field (lj_TypeError L) ''id'' rem_ID rem_ID_update,
      str_field (lj_TypeError L) ''href'' rem_Href rem_Href_update]"

definition emit_Remote :: "lib_json \<Rightarrow> Remote \<Rightarrow> goerror + json" where
  "emit_Remote L = emit_struct (Remote_fields L)"

definition read_Remote :: "lib_json \<Rightarrow> Remote reader" where
  "read_Remote L = read_struct (lj_TypeError L) (Remote_fields L)"

definition BackupPolicyPlan_fields :: "lib_json \<Rightarrow> BackupPolicyPlan struct_field list" where
  "BackupPolicyPlan_fields L =
     [str_field (lj_TypeError L) ''id'' bpp_ID bpp_ID_update,
      str_field (lj_TypeError L) ''href'' bpp_Href bpp_Href_update,
      str_field (lj_TypeError L) ''name'' bpp_Name bpp_Name_update,
      ptr_field ''deleted'' bpp_Deleted bpp_Deleted_update (emit_Deleted L) zeroDeleted (read_Deleted L),
      ptr_field ''remote'' bpp_Remote bpp_Remote_update (emit_Remote L) zeroRemote (read_Remote L),
      str_field (lj_TypeError L) ''resource_type'' bpp_ResourceType bpp_ResourceType_update]"

definition emit_BackupPolicyPlan :: "lib_json \<Rightarrow> BackupPolicyPlan \<Rightarrow> goerror + json" where
  "emit_BackupPolicyPlan L = emit_struct (BackupPolicyPlan_fields L)"

definition read_BackupPolicyPlan :: "lib_json \<Rightarrow> BackupPolicyPlan reader" where
  "read_BackupPolicyPlan L = read_struct (lj_TypeError L) (BackupPolicyPlan_fields L)"

definition Snapshot_fields :: "lib_json \<Rightarrow> Snapshot struct_field list" where
  "Snapshot_fields L =
     [str_field (lj_TypeError L) ''href'' sn_Href sn_Href_update,
      str_field (lj_TypeError L) ''id'' sn_ID sn_ID_update,
      str_field (lj_TypeError L) ''name'' sn_Name sn_Name_update,
      str_field (lj_TypeError L) ''crn'' sn_CRN sn_CRN_update,
      str_field (lj_TypeError L) ''fingerprint'' sn_FingerPrint sn_FingerPrint_update,
      ptr_field ''created_at'' sn_CreatedAt sn_CreatedAt_update (lj_Time L) ZeroTime (read_Time L),
      ptr_field ''captured_at'' sn_CapturedAt sn_CapturedAt_update (lj_Time L) ZeroTime (read_Time L),
      int_field 64 (lj_TypeError L) ''minimum_size'' sn_MinimumSize sn_MinimumSize_update,
      ptr_field ''resource_group'' sn_ResourceGroup sn_ResourceGroup_update (emit_ResourceGroup L) zeroResourceGroup (read_ResourceGroup L),
      str_field (lj_TypeError L) ''status'' sn_Status sn_Status_update,
      str_field (lj_TypeError L) ''resource_type'' sn_ResourceType sn_ResourceType_update,
      str_field (lj_TypeError L) ''lifecycle_state'' sn_LifecycleState sn_LifecycleState_update,
      slice_field (lj_TypeError L) ''user_tags'' sn_UserTags sn_UserTags_update (\<lambda>s. Inr (JStr s)) [] (read_str (lj_TypeError L)),
      ptr_field ''backup_policy_plan'' sn_BackupPolicyPlan sn_BackupPolicyPlan_update (emit_BackupPolicyPlan L) zeroBackupPolicyPlan (read_BackupPolicyPlan L),
      ptr_field ''zone'' sn_Zone sn_Zone_update (emit_Zone L) zeroZone (read_Zone L)]"

definition emit_Snapshot :: "lib_json \<Rightarrow> Snapshot \<Rightarrow> goerror + json" where
  "emit_Snapshot L = emit_struct (Snapshot_fields L)"

definition read_Snapshot :: "lib_json \<Rightarrow> Snapshot reader" where
  "read_Snapshot L = read_struct (lj_TypeError L) (Snapshot_fields L)"

definition SubnetRef_fields :: "lib_json \<Rightarrow> SubnetRef struct_field list" where
  "SubnetRef_fields L =
     [str_field (lj_TypeError L) ''crn'' sr_CRN sr_CRN_update,
      str_field (lj_TypeError L) ''id'' sr_ID sr_ID_update,
      str_field (lj_TypeError L) ''href'' sr_Href sr_Href_update]"

definition emit_SubnetRef :: "lib_json \<Rightarrow> SubnetRef \<Rightarrow> goerror + json" where
  "emit_SubnetRef L = emit_struct (SubnetRef_fields L)"

definition read_SubnetRef :: "lib_json \<Rightarrow> SubnetRef reader" where
  "read_SubnetRef L = read_struct (lj_TypeError L) (SubnetRef_fields L)"

definition VNI_fields :: "lib_json \<Rightarrow> VirtualNetworkInterface struct_field list" where
  "VNI_fields L =
     [str_field (lj_TypeError L) ''name'' vni_Name vni_Name_update,
      ptr_field ''subnet'' vni_Subnet vni_Subnet_update (emit_SubnetRef L) zeroSubnetRef (read_SubnetRef L),
      ptr_field ''security_groups'' vni_SecurityGroups vni_SecurityGroups_update (emit_array (lj_SecurityGroup L)) []
       (read_slice (lj_TypeError L) zeroLibSecurityGroup (lj_ReadSecurityGroup L)),
      ptr_field ''primary_ip'' vni_PrimaryIP vni_PrimaryIP_update (lj_PrimaryIP L) zeroPrimaryIP (lj_ReadPrimaryIP L),
      ptr_field ''resource_group'' vni_ResourceGroup vni_ResourceGroup_update (lj_ResourceGroup L) zeroLibResourceGroup (lj_ReadResourceGroup L)]"

definition emit_VNI :: "lib_json \<Rightarrow> VirtualNetworkInterface \<Rightarrow> goerror + json" where
  "emit_VNI L = emit_struct (VNI_fields L)"

definition read_VNI :: "lib_json \<Rightarrow> VirtualNetworkInterface reader" where
  "read_VNI L = read_struct (lj_TypeError L) (VNI_fields L)"

text \<open>The share ID has the tag \<^verbatim>\<open>json:"-"\<close>: it is neither written nor read.\<close>

definition ShareTarget_fields :: "lib_json \<Rightarrow> ShareTarget struct_field list" where
  "ShareTarget_fields L =
     [str_field (lj_TypeError L) ''id'' st_ID st_ID_update,
      str_field (lj_TypeError L) ''href'' st_Href st_Href_update,
      str_field (lj_TypeError L) ''mount_path'' st_MountPath st_MountPath_update,
      str_field (lj_TypeError L) ''name'' st_Name st_Name_update,
      str_field (lj_TypeError L) ''lifecycle_state'' st_Status st_Status_update,
      ptr_field ''vpc'' st_VPC st_VPC_update (lj_VPC L) zeroLibVPC (lj_ReadVPC L),
      str_field (lj_TypeError L) ''transit_encryption'' st_TransitEncryption st_TransitEncryption_update,
      str_field (lj_TypeError L) ''access_protocol'' st_AccessProtocol st_AccessProtocol_update,
      ptr_field ''virtual_network_interface'' st_VirtualNetworkInterface st_VirtualNetworkInterface_update (emit_VNI L) zeroVNI (read_VNI L),
      ptr_field ''zone'' st_Zone st_Zone_update (emit_Zone L) zeroZone (read_Zone L),
      ptr_field ''created_at'' st_CreatedAt st_CreatedAt_update (lj_Time L) ZeroTime (read_Time L)]"

definition emit_ShareTarget :: "lib_json \<Rightarrow> ShareTarget \<Rightarrow> goerror + json" where
  "emit_ShareTarget L = emit_struct (ShareTarget_fields L)"

definition read_ShareTarget :: "lib_json \<Rightarrow> ShareTarget reader" where
  "read_ShareTarget L = read_struct (lj_TypeError L) (ShareTarget_fields L)"

definition Share_fields :: "lib_json \<Rightarrow> Share struct_field list" where
  "Share_fields L =
     [str_field (lj_TypeError L) ''crn'' sh_CRN sh_CRN_update,
      str_field (lj_TypeError L) ''href'' sh_Href sh_Href_update,
      str_field (lj_TypeError L) ''id'' sh_ID sh_ID_update,
      str_field (lj_TypeError L) ''name'' sh_Name sh_Name_update,
      int_field 64 (lj_TypeError L) ''size'' sh_Size sh_Size_update,
      int_field 64 (lj_TypeError L) ''iops'' sh_Iops sh_Iops_update,
      ptr_field ''encryption_key'' sh_EncryptionKey sh_EncryptionKey_update (emit_EncryptionKey L) zeroEncryptionKey (read_EncryptionKey L),
      int_field 32 (lj_TypeError L) ''bandwidth'' sh_Bandwidth sh_Bandwidth_update,
      ptr_field ''resource_group'' sh_ResourceGroup sh_ResourceGroup_update (emit_ResourceGroup L) zeroResourceGroup (read_ResourceGroup L),
      ptr_field ''initial_owner'' sh_InitialOwner sh_InitialOwner_update (emit_InitialOwner L) zeroInitialOwner (read_InitialOwner L),
      ptr_field ''profile'' sh_Profile sh_Profile_update (emit_Profile L) zeroProfile (read_Profile L),
      ptr_field ''source_snapshot'' sh_SourceSnapshot sh_SourceSnapshot_update (emit_Snapshot L) zeroSnapshot (read_Snapshot L),
      ptr_field ''created_at'' sh_CreatedAt sh_CreatedAt_update (lj_Time L) ZeroTime (read_Time L),
      slice_field (lj_TypeError L) ''user_tags'' sh_UserTags sh_UserTags_update (\<lambda>s. Inr (JStr s)) [] (read_str (lj_TypeError L)),
      str_field (lj_TypeError L) ''lifecycle_state'' sh_Status sh_Status_update,
      ptr_field ''mount_targets'' sh_ShareTargets sh_ShareTargets_update (emit_array (emit_ShareTarget L)) [] (read_slice (lj_TypeError L) zeroShareTarget (read_ShareTarget L)),
      ptr_field ''zone'' sh_Zone sh_Zone_update (emit_Zone L) zeroZone (read_Zone L),
      str_field (lj_TypeError L) ''access_control_mode'' sh_AccessControlMode sh_AccessControlMode_update]"

definition emit_Share :: "lib_json \<Rightarrow> Share \<Rightarrow> goerror + json" where
  "emit_Share L = emit_struct (Share_fields L)"

definition read_Share :: "lib_json \<Rightarrow> Share reader" where
  "read_Share L = read_struct (lj_TypeError L) (Share_fields L)"

definition CapIops_fields :: "lib_json \<Rightarrow> CapIops struct_field list" where
  "CapIops_fields L =
     [int_field 32 (lj_TypeError L) ''default'' ci_Default ci_Default_update,
      int_field 32 (lj_TypeError L) ''max'' ci_Max ci_Max_update,
      int_field 32 (lj_TypeError L) ''min'' ci_Min ci_Min_update,
      int_field 32 (lj_TypeError L) ''step'' ci_Step ci_Step_update,
      str_field (lj_TypeError L) ''type'' ci_Type ci_Type_update,
      int_field 32 (lj_TypeError L) ''value'' ci_Value ci_Value_update]"

definition emit_CapIops :: "lib_json \<Rightarrow> CapIops \<Rightarrow> goerror + json" where
  "emit_CapIops L = emit_struct (CapIops_fields L)"

definition read_CapIops :: "lib_json \<Rightarrow> CapIops reader" where
  "read_CapIops L = read_struct (lj_TypeError L) (CapIops_fields L)"

text \<open>The fields of the embedded \<^verbatim>\<open>Profile\<close> are promoted.\<close>

definition ProfileDetails_fields :: "lib_json \<Rightarrow> ProfileDetails struct_field list" where
  "ProfileDetails_fields L =
     [str_field (lj_TypeError L) ''crn'' pr_CRN pr_CRN_update,
      str_field (lj_TypeError L) ''href'' pr_Href pr_Href_update,
      str_field (lj_TypeError L) ''name'' pr_Name pr_Name_update,
      inner_field ''capacity'' pd_Capacity pd_Capacity_update (emit_CapIops L) (read_CapIops L),
      str_field (lj_TypeError L) ''family'' pd_Family pd_Family_update,
      inner_field ''iops'' pd_Iops pd_Iops_update (emit_CapIops L) (read_CapIops L),
      str_field (lj_TypeError L) ''resource_type'' pd_ResourceType pd_ResourceType_update]"

definition emit_ProfileDetails :: "lib_json \<Rightarrow> ProfileDetails \<Rightarrow> goerror + json" where
  "emit_ProfileDetails L = emit_struct (ProfileDetails_fields L)"

definition read_ProfileDetails :: "lib_json \<Rightarrow> ProfileDetails reader" where
  "read_ProfileDetails L = read_struct (lj_TypeError L) (ProfileDetails_fields L)"

definition Subnet_fields :: "lib_json \<Rightarrow> Subnet struct_field list" where
  "Subnet_fields L =
     [str_field (lj_TypeError L) ''crn'' sub_CRN sub_CRN_update,
      str_field (lj_TypeError L) ''href'' sub_Href sub_Href_update,
      str_field (lj_TypeError L) ''id'' sub_ID sub_ID_update,
      str_field (lj_TypeError L) ''name'' sub_Name sub_Name_update,
      ptr_field ''resource_group'' sub_ResourceGroup sub_ResourceGroup_update (emit_ResourceGroup L) zeroResourceGroup (read_ResourceGroup L),
      ptr_field ''vpc'' sub_VPC sub_VPC_update (lj_VPC L) zeroLibVPC (lj_ReadVPC L),
      ptr_field ''zone'' sub_Zone sub_Zone_update (emit_Zone L) zeroZone (read_Zone L)]"

definition emit_Subnet :: "lib_json \<Rightarrow> Subnet \<Rightarrow> goerror + json" where
  "emit_Subnet L = emit_struct (Subnet_fields L)"

definition read_Subnet :: "lib_json \<Rightarrow> Subnet reader" where
  "read_Subnet L = read_struct (lj_TypeError L) (Subnet_fields L)"

definition SecurityGroup_fields :: "lib_json \<Rightarrow> SecurityGroup struct_field list" where
  "SecurityGroup_fields L =
     [str_field (lj_TypeError L) ''crn'' sg_CRN sg_CRN_update,
      str_field (lj_TypeError L) ''href'' sg_Href sg_Href_update,
      str_field (lj_TypeError L) ''id'' sg_ID sg_ID_update,
      str_field (lj_TypeError L) ''name'' sg_Name sg_Name_update,
      ptr_field ''resource_group'' sg_ResourceGroup sg_ResourceGroup_update (emit_ResourceGroup L) zeroResourceGroup (read_ResourceGroup L),
      ptr_field ''vpc'' sg_VPC sg_VPC_update (lj_VPC L) zeroLibVPC (lj_ReadVPC L)]"

definition emit_SecurityGroup :: "lib_json \<Rightarrow> SecurityGroup \<Rightarrow> goerror + json" where
  "emit_SecurityGroup L = emit_struct (SecurityGroup_fields L)"

definition read_SecurityGroup :: "lib_json \<Rightarrow> SecurityGroup reader" where
  "read_SecurityGroup L = read_struct (lj_TypeError L) (SecurityGroup_fields L)"

definition ShareList_fields :: "lib_json \<Rightarrow> ShareList struct_field list" where
  "ShareList_fields L =
     [ptr_field ''first'' shl_First shl_First_update (emit_HReference L) zeroHReference (read_HReference L),
      ptr_field ''next'' shl_Next shl_Next_update (emit_HReference L) zeroHReference (read_HReference L),
      list_field (lj_TypeError L) ''shares'' shl_Shares shl_Shares_update (emit_ptr (emit_Share L)) None (read_ptr zeroShare (read_Share L)),
      int_field 64 (lj_TypeError L) ''limit'' shl_Limit shl_Limit_update,
      int_field 64 (lj_TypeError L) ''total_count'' shl_TotalCount shl_TotalCount_update]"

definition emit_ShareList :: "lib_json \<Rightarrow> ShareList \<Rightarrow> goerror + json" where
  "emit_ShareList L = emit_struct (ShareList_fields L)"

definition read_ShareList :: "lib_json \<Rightarrow> ShareList reader" where
  "read_ShareList L = read_struct (lj_TypeError L) (ShareList_fields L)"

definition ShareTargetList_fields :: "lib_json \<Rightarrow> ShareTargetList struct_field list" where
  "ShareTargetList_fields L =
     [ptr_field ''first'' stl_First stl_First_update (emit_HReference L) zeroHReference (read_HReference L),
      ptr_field ''next'' stl_Next stl_Next_update (emit_HReference L) zeroHReference (read_HReference L),
      slice_field (lj_TypeError L) ''mount_targets'' stl_ShareTargets stl_ShareTargets_update (emit_ptr (emit_ShareTarget L)) None (read_ptr zeroShareTarget (read_ShareTarget L)),
      int_field 64 (lj_TypeError L) ''limit'' stl_Limit stl_Limit_update,
      int_field 64 (lj_TypeError L) ''total_count'' stl_TotalCount stl_TotalCount_update]"

definition emit_ShareTargetList :: "lib_json \<Rightarrow> ShareTargetList \<Rightarrow> goerror + json" where
  "emit_ShareTargetList L = emit_struct (ShareTargetList_fields L)"

definition read_ShareTargetList :: "lib_json \<Rightarrow> ShareTargetList reader" where
  "read_ShareTargetList L = read_struct (lj_TypeError L) (ShareTargetList_fields L)"

definition SnapshotList_fields :: "lib_json \<Rightarrow> SnapshotList struct_field list" where
  "SnapshotList_fields L =
     [ptr_field ''first'' snl_First snl_First_update (emit_HReference L) zeroHReference (read_HReference L),
      ptr_field ''next'' snl_Next snl_Next_update (emit_HReference L) zeroHReference (read_HReference L),
      list_field (lj_TypeError L) ''snapshots'' snl_Snapshots snl_Snapshots_update (emit_ptr (emit_Snapshot L)) None (read_ptr zeroSnapshot (read_Snapshot L)),
      int_field 64 (lj_TypeError L) ''limit'' snl_Limit snl_Limit_update,
      int_field 64 (lj_TypeError L) ''total_count'' snl_TotalCount snl_TotalCount_update]"

definition emit_SnapshotList :: "lib_json \<Rightarrow> SnapshotList \<Rightarrow> goerror + json" where
  "emit_SnapshotList L = emit_struct (SnapshotList_fields L)"

definition read_SnapshotList :: "lib_json \<Rightarrow> SnapshotList reader" where
  "read_SnapshotList L = read_struct (lj_TypeError L) (SnapshotList_fields L)"

definition SubnetList_fields :: "lib_json \<Rightarrow> SubnetList struct_field list" where
  "SubnetList_fields L =
     [ptr_field ''first'' subl_First subl_First_update (emit_HReference L) zeroHReference (read_HReference L),
      ptr_field ''next'' subl_Next subl_Next_update (emit_HReference L) zeroHReference (read_HReference L),
      slice_field (lj_TypeError L) ''subnets'' subl_Subnets subl_Subnets_update (emit_Subnet L) zeroSubnet (read_Subnet L),
      int_field 64 (lj_TypeError L) ''limit'' subl_Limit subl_Limit_update,
      int_field 64 (lj_TypeError L) ''total_count'' subl_TotalCount subl_TotalCount_update]"

definition emit_SubnetList :: "lib_json \<Rightarrow> SubnetList \<Rightarrow> goerror + json" where
  "emit_SubnetList L = emit_struct (SubnetList_fields L)"

definition read_SubnetList :: "lib_json \<Rightarrow> SubnetList reader" where
  "read_SubnetList L = read_struct (lj_TypeError L) (SubnetList_fields L)"

definition SecurityGroupList_fields :: "lib_json \<Rightarrow> SecurityGroupList struct_field list" where
  "SecurityGroupList_fields L =
     [ptr_field ''first'' sgl_First sgl_First_update (emit_HReference L) zeroHReference (read_HReference L),
      ptr_field ''next'' sgl_Next sgl_Next_update (emit_HReference L) zeroHReference (read_HReference L),
      slice_field (lj_TypeError L) ''security_groups'' sgl_SecurityGroups sgl_SecurityGroups_update (emit_SecurityGroup L) zeroSecurityGroup (read_SecurityGroup L),
      int_field 64 (lj_TypeError L) ''limit'' sgl_Limit sgl_Limit_update,
      int_field 64 (lj_TypeError L) ''total_count'' sgl_TotalCount sgl_TotalCount_update]"

definition emit_SecurityGroupList :: "lib_json \<Rightarrow> SecurityGroupList \<Rightarrow> goerror + json" where
  "emit_SecurityGroupList L = emit_struct (SecurityGroupList_fields L)"

definition read_SecurityGroupList :: "lib_json \<Rightarrow> SecurityGroupList reader" where
  "read_SecurityGroupList L = read_struct (lj_TypeError L) (SecurityGroupList_fields L)"

definition ErrorTarget_fields :: "lib_json \<Rightarrow> ErrorTarget struct_field list" where
  "ErrorTarget_fields L =
     [str_field (lj_TypeError L) ''name'' et_Name et_Name_update,
      field ''type'' et_Type et_Type_update (omitting (\<lambda>t. type_text t = []) (\<lambda>t. Inr (JStr (type_text t)))) (read_ErrorType L)]"

definition emit_ErrorTarget :: "lib_json \<Rightarrow> ErrorTarget \<Rightarrow> goerror + json" where
  "emit_ErrorTarget L = emit_struct (ErrorTarget_fields L)"

definition read_ErrorTarget :: "lib_json \<Rightarrow> ErrorTarget reader" where
  "read_ErrorTarget L = read_struct (lj_TypeError L) (ErrorTarget_fields L)"

definition ErrorItem_fields :: "lib_json \<Rightarrow> ErrorItem struct_field list" where
  "ErrorItem_fields L =
     [str_field (lj_TypeError L) ''code'' ei_Code ei_Code_update,
      str_field (lj_TypeError L) ''message'' ei_Message ei_Message_update,
      str_field (lj_TypeError L) ''more_info'' ei_MoreInfo ei_MoreInfo_update,
      ptr_field ''reqID'' ei_Target ei_Target_update (emit_ErrorTarget L) zeroErrorTarget (read_ErrorTarget L),
      str_field (lj_TypeError L) ''status'' ei_Status ei_Status_update]"

definition emit_ErrorItem :: "lib_json \<Rightarrow> ErrorItem \<Rightarrow> goerror + json" where
  "emit_ErrorItem L = emit_struct (ErrorItem_fields L)"

definition read_ErrorItem :: "lib_json \<Rightarrow> ErrorItem reader" where
  "read_ErrorItem L = read_struct (lj_TypeError L) (ErrorItem_fields L)"

definition Error_fields :: "lib_json \<Rightarrow> Error struct_field list" where
  "Error_fields L =
     [list_field (lj_TypeError L) ''errors'' err_Errors err_Errors_update (emit_ErrorItem L) zeroErrorItem (read_ErrorItem L),
      str_field (lj_TypeError L) ''trace'' err_Trace err_Trace_update]"

definition emit_Error :: "lib_json \<Rightarrow> Error \<Rightarrow> goerror + json" where
  "emit_Error L = emit_struct (Error_fields L)"

definition read_Error :: "lib_json \<Rightarrow> Error reader" where
  "read_Error L = read_struct (lj_TypeError L) (Error_fields L)"

definition IksError_fields :: "lib_json \<Rightarrow> IksError struct_field list" where
  "IksError_fields L =
     [string_field (lj_TypeError L) ''incidentID'' iks_ReqID iks_ReqID_update,
      string_field (lj_TypeError L) ''code'' iks_Code iks_Code_update,
      string_field (lj_TypeError L) ''description'' iks_Err iks_Err_update,
      field ''type'' iks_Type iks_Type_update (\<lambda>t. Some (Inr (JStr (type_text t)))) (read_ErrorType L),
      str_field (lj_TypeError L) ''recoveryCLI'' iks_RecoveryCLI iks_RecoveryCLI_update,
      str_field (lj_TypeError L) ''recoveryUI'' iks_RecoveryUI iks_RecoveryUI_update,
      int_field 64 (lj_TypeError L) ''rc'' iks_RC iks_RC_update]"

definition emit_IksError :: "lib_json \<Rightarrow> IksError \<Rightarrow> goerror + json" where
  "emit_IksError L = emit_struct (IksError_fields L)"

definition read_IksError :: "lib_json \<Rightarrow> IksError reader" where
  "read_IksError L = read_struct (lj_TypeError L) (IksError_fields L)"

end
