(* ===== verification/JsonCodec.thy ===== *)
theory JsonCodec
  imports Client JsonModels
begin

text \<open>
  The payloads of the REST client: the text that \<^verbatim>\<open>JSONBodyProvider\<close> makes of a body, what
  \<^verbatim>\<open>JSONConsumer\<close> makes of an answer, and the coding of the client that they give.  The coding of a map
  made of a struct value, which no operation sends, is a parameter.
\<close>

section \<open>The body provider\<close>

definition body_json :: "lib_json \<Rightarrow> body \<Rightarrow> goerror + json" where
  "body_json L b =
     (case b of
        ShareBody x \<Rightarrow> emit_Share L x
      | TargetBody x \<Rightarrow> emit_ShareTarget L x
      | SnapshotBody x \<Rightarrow> emit_Snapshot L x
      | UpdatePVCBody x \<Rightarrow> lj_UpdatePVC L x)"

text \<open>\<open>Body\<close> of a JSON body provider: the text of the payload, or the error of its encoding.\<close>

definition payload_text :: "lib_json \<Rightarrow> (body \<Rightarrow> string option \<Rightarrow> goerror + string) \<Rightarrow> json_payload \<Rightarrow> goerror + string" where
  "payload_text L map_text p =
     (case p of
        JSONPointer b \<Rightarrow> map_sum id EncodeJSON (body_json L b)
      | JSONMap b rg \<Rightarrow> map_text b rg)"

section \<open>The consumer\<close>

text \<open>A text without a value leaves the receiver alone; otherwise the receiver is filled as far as the decoding got.\<close>

definition Consume :: "lib_json \<Rightarrow> 'a reader \<Rightarrow> 'a \<Rightarrow> string \<Rightarrow> 'a \<times> goerror option" where
  "Consume L rd receiver s =
     (case ReadJSON s of
        None \<Rightarrow> (receiver, Some (lj_ReadError L s))
      | Some j \<Rightarrow> map_prod id fault_error (rd j receiver))"

definition json_codec :: "lib_json \<Rightarrow> (body \<Rightarrow> string option \<Rightarrow> goerror + string) \<Rightarrow> codec" where
  "json_codec L map_text =
     \<lparr>enc = payload_text L map_text,
      dec_Share = Consume L (read_Share L) zeroShare,
      dec_ShareList = Consume L (read_ShareList L) zeroShareList,
      dec_ShareTarget = Consume L (read_ShareTarget L) zeroShareTarget,
      dec_ShareTargetList = Consume L (read_ShareTargetList L) zeroShareTargetList,
      dec_ProfileDetails = Consume L (read_ProfileDetails L) zeroProfileDetails,
      dec_Snapshot = Consume L (read_Snapshot L) zeroSnapshot,
      dec_SnapshotList = Consume L (read_SnapshotList L) zeroSnapshotList,
      dec_SubnetList = Consume L (read_SubnetList L) zeroSubnetList,
      dec_SecurityGroupList = Consume L (read_SecurityGroupList L) zeroSecurityGroupList,
      dec_Error = Consume L (read_Error L) zeroError,
      dec_IksError = Consume L (read_IksError L) zeroIksError\<rparr>"

end
