(* ===== verification/JsonLaws.thy ===== *)
theory JsonLaws
  imports Json
begin

text \<open>
  The reader: its fuel is enough, and a printed JSON value reads back as the value it was.
\<close>

section \<open>String literals\<close>

fun valid_utf8 :: "string \<Rightarrow> bool" where
  "valid_utf8 [] = True"
| "valid_utf8 (c # cs) =
     (if code c < 128 then valid_utf8 cs
      else case rune_tail c cs of None \<Rightarrow> False | Some k \<Rightarrow> valid_utf8 (drop k cs))"

lemma hex_digit_hex: "d < 16 \<Longrightarrow> is_hex (hex_digit d) \<and> unhex (hex_digit d) = d"
  by (auto simp: hex_digit_def is_hex_def unhex_def is_digit_def Let_def)

lemma char_of_code [simp]: "char_of (code c) = c"
  by (simp add: code_def)

lemma code_char: "n < 256 \<Longrightarrow> code c = n \<longleftrightarrow> c = char_of n"
  by (auto simp: code_def)

lemma char_numbers:
  "(char_of (34 :: nat) :: char) = CHR 0x22" "(char_of (92 :: nat) :: char) = CHR 0x5C" "(char_of (8 :: nat) :: char) = CHR 0x08"
  "(char_of (12 :: nat) :: char) = CHR 0x0C" "(char_of (10 :: nat) :: char) = CHR 0x0A" "(char_of (13 :: nat) :: char) = CHR 0x0D"
  "(char_of (9 :: nat) :: char) = CHR 0x09" "(char_of (226 :: nat) :: char) = CHR 0xE2" "(char_of (128 :: nat) :: char) = CHR 0x80"
  "(char_of (168 :: nat) :: char) = CHR 0xA8" "(char_of (169 :: nat) :: char) = CHR 0xA9"
  using char_of_code [of "CHR 0x22"] char_of_code [of "CHR 0x5C"] char_of_code [of "CHR 0x08"] char_of_code [of "CHR 0x0C"]
    char_of_code [of "CHR 0x0A"] char_of_code [of "CHR 0x0D"] char_of_code [of "CHR 0x09"] char_of_code [of "CHR 0xE2"]
    char_of_code [of "CHR 0x80"] char_of_code [of "CHR 0xA8"] char_of_code [of "CHR 0xA9"]
  by (simp_all add: code_def del: char_of_code)

lemma read_literal_char:
  "c \<noteq> CHR 0x22 \<Longrightarrow> literal_char c cs = Some (x, r) \<Longrightarrow>
     read_string (c # cs) = map_option (\<lambda>(s, r'). (x @ s, r')) (read_string r)"
  by simp

lemma read_escape_ascii:
  assumes "code c < 128"
  shows "read_string (escape_ascii c @ t) = map_option (\<lambda>(s, r). (c # s, r)) (read_string t)"
proof -
  have u: "read_string ([CHR 0x5C, CHR ''u'', CHR ''0'', CHR ''0'', hex_digit (code c div 16), hex_digit (code c mod 16)] @ t)
      = map_option (\<lambda>(s, r). (c # s, r)) (read_string t)"
  proof -
    have "is_hex CHR ''0''" "unhex CHR ''0'' = 0" by code_simp+
    moreover have "code c div 16 * 16 + code c mod 16 = code c" by simp
    ultimately show ?thesis
      using assms hex_digit_hex [of "code c div 16"] hex_digit_hex [of "code c mod 16"]
      by (simp add: literal_char_def escape_tail_def surrogate_def utf8_encode_def)
  qed
  have codes: "code c = 34 \<Longrightarrow> c = CHR 0x22" "code c = 92 \<Longrightarrow> c = CHR 0x5C"
    using code_char [of 34 c] code_char [of 92 c] char_numbers by simp_all
  show ?thesis
  proof (cases "code c < 32 \<or> c \<in> {CHR 0x22, CHR 0x5C, CHR ''<'', CHR ''>'', CHR ''&''}")
    case False
    then have "code c \<noteq> 34" "code c \<noteq> 92" using codes by auto
    with False assms show ?thesis by (simp add: escape_ascii_def literal_char_def Let_def)
  next
    case True
    show ?thesis
    proof (cases "code c \<in> {34, 92, 8, 12, 10, 13, 9}")
      case True
      then have "c \<in> {CHR 0x22, CHR 0x5C, CHR 0x08, CHR 0x0C, CHR 0x0A, CHR 0x0D, CHR 0x09}"
        by (auto simp: code_char char_numbers)
      then show ?thesis
        by (elim insertE emptyE) (simp_all add: escape_ascii_def literal_char_def escape_tail_def Let_def code_def)
    next
      case False
      then have "c \<noteq> CHR 0x22" "c \<noteq> CHR 0x5C" by (auto simp: code_def)
      with True False have "escape_ascii c = [CHR 0x5C, CHR ''u'', CHR ''0'', CHR ''0'', hex_digit (code c div 16), hex_digit (code c mod 16)]"
        by (simp add: escape_ascii_def Let_def)
      with u show ?thesis by simp
    qed
  qed
qed

lemma rune_tail_append: "rune_tail c cs = Some k \<Longrightarrow> rune_tail c (take k cs @ t) = Some k \<and> length (take k cs) = k"
proof -
  assume a: "rune_tail c cs = Some k"
  define n where "n = code c"
  have two: "(case take (Suc 0) cs @ t of a # _ \<Rightarrow> is_cont 128 191 a | _ \<Rightarrow> False) \<and> Suc 0 \<le> length cs"
    if "case cs of a # _ \<Rightarrow> is_cont 128 191 a | _ \<Rightarrow> False"
    using that by (simp split: list.splits)
  have three: "(case take 2 cs @ t of a # b # _ \<Rightarrow> is_cont lo hi a \<and> is_cont 128 191 b | _ \<Rightarrow> False) \<and> 2 \<le> length cs"
    if "case cs of a # b # _ \<Rightarrow> is_cont lo hi a \<and> is_cont 128 191 b | _ \<Rightarrow> False" for lo hi
    using that by (simp split: list.splits)
  have four: "(case take 3 cs @ t of a # b # d # _ \<Rightarrow> is_cont lo hi a \<and> is_cont 128 191 b \<and> is_cont 128 191 d | _ \<Rightarrow> False) \<and>
      3 \<le> length cs"
    if "case cs of a # b # d # _ \<Rightarrow> is_cont lo hi a \<and> is_cont 128 191 b \<and> is_cont 128 191 d | _ \<Rightarrow> False" for lo hi
    using that by (simp add: numeral_3_eq_3 split: list.splits)
  from a show ?thesis
    unfolding rune_tail_def Let_def n_def [symmetric]
    by (simp only: split: if_split_asm) (auto simp: two three four min_absorb2)
qed

lemma rune_tail_start: "rune_tail c cs = Some k \<Longrightarrow> 128 \<le> code c"
  by (auto simp: rune_tail_def Let_def split: if_split_asm)

lemma read_rune:
  assumes "rune_tail c cs = Some k"
  shows "read_string ((c # take k cs) @ t) = map_option (\<lambda>(s, r). ((c # take k cs) @ s, r)) (read_string t)"
proof -
  note ta = rune_tail_append [OF assms, of t]
  have "128 \<le> code c" by (rule rune_tail_start [OF assms])
  then have "c \<noteq> CHR 0x22" "c \<noteq> CHR 0x5C" "\<not> code c < 32" "\<not> code c < 128" by (auto simp: code_def)
  then have "literal_char c (take k cs @ t) = Some (c # take k cs, t)"
    using ta by (simp add: literal_char_def)
  from read_literal_char [OF \<open>c \<noteq> CHR 0x22\<close> this] show ?thesis by simp
qed

lemma read_separators:
  "read_string (CHR 0x5C # ''u2028'' @ t) = map_option (\<lambda>(s, r). ([CHR 0xE2, CHR 0x80, CHR 0xA8] @ s, r)) (read_string t)"
  "read_string (CHR 0x5C # ''u2029'' @ t) = map_option (\<lambda>(s, r). ([CHR 0xE2, CHR 0x80, CHR 0xA9] @ s, r)) (read_string t)"
proof -
  have "utf8_encode 8232 = [CHR 0xE2, CHR 0x80, CHR 0xA8]" "utf8_encode 8233 = [CHR 0xE2, CHR 0x80, CHR 0xA9]"
    by (simp_all add: utf8_encode_def char_numbers)
  then show "read_string (CHR 0x5C # ''u2028'' @ t) = map_option (\<lambda>(s, r). ([CHR 0xE2, CHR 0x80, CHR 0xA8] @ s, r)) (read_string t)"
    "read_string (CHR 0x5C # ''u2029'' @ t) = map_option (\<lambda>(s, r). ([CHR 0xE2, CHR 0x80, CHR 0xA9] @ s, r)) (read_string t)"
    by (simp_all add: literal_char_def escape_tail_def surrogate_def is_hex_def unhex_def is_digit_def)
qed

lemma read_json_chars:
  "valid_utf8 s \<Longrightarrow> read_string (json_chars s @ CHR 0x22 # rest) = Some (s, rest)"
proof (induction s rule: json_chars.induct)
  case (2 c cs)
  show ?case
  proof (cases "code c < 128")
    case True
    with 2 show ?thesis by (simp add: read_escape_ascii)
  next
    case False
    with 2 obtain k where k: "rune_tail c cs = Some k" and v: "valid_utf8 (drop k cs)" by (auto split: option.splits)
    from 2 False k v have IH: "read_string (json_chars (drop k cs) @ CHR 0x22 # rest) = Some (drop k cs, rest)" by simp
    note sep = read_separators
    have join: "take k cs = [a, b] \<Longrightarrow> a # b # drop k cs = cs" for a b
      by (metis append_Cons append_Nil append_take_drop_id)
    have raw: "read_string ((c # take k cs) @ t) = map_option (\<lambda>(s, r). ((c # take k cs) @ s, r)) (read_string t)" for t
      by (rule read_rune [OF k])
    show ?thesis
      using False k join IH sep raw
      by (auto simp del: read_string.simps simp: json_chars.simps)
  qed
qed simp

lemma read_quoted: "valid_utf8 s \<Longrightarrow> read_string (tl (json_quote s) @ rest) = Some (s, rest)"
  using read_json_chars [of s rest] by (simp add: json_quote_def)

section \<open>Numbers\<close>

definition stops :: "string \<Rightarrow> bool" where
  "stops s \<longleftrightarrow> (case s of [] \<Rightarrow> True | c # _ \<Rightarrow> \<not> is_digit c \<and> c \<notin> {CHR ''.'', CHR ''e'', CHR ''E''})"

lemma span_digits_run:
  "list_all is_digit xs \<Longrightarrow> stops rest \<Longrightarrow> span_digits (xs @ rest) = (xs, rest)"
  by (cases rest) (simp_all add: span_digits_def stops_def list_all_iff dropWhile_append)

lemma showNat_digits: "list_all is_digit (showNat n) \<and> digits_value (showNat n) = n"
  unfolding digits_value_def
proof (induction n rule: showNat.induct)
  case (1 n)
  then show ?case by (subst (1 2) showNat.simps) simp
qed

lemma showNat_zero_hd: "hd (showNat n) = CHR ''0'' \<Longrightarrow> showNat n = ''0''"
proof (induction n rule: showNat.induct)
  case (1 n)
  show ?case
  proof (cases "n < 10")
    case True
    with 1(2) show ?thesis by (simp add: showNat.simps [of n])
  next
    case False
    with 1 have "showNat (n div 10) = ''0''" by (simp add: showNat.simps [of n])
    then have "n div 10 = 0" using showNat_digits [of "n div 10"] by (simp add: digits_value_def digit_val_def)
    with False show ?thesis by simp
  qed
qed

lemma read_number_digits:
  assumes "list_all is_digit ds" and "ds \<noteq> []" and "hd ds = CHR ''0'' \<Longrightarrow> ds = ''0''" and "stops rest"
  shows "read_number (ds @ rest) = Some (JNum (int (digits_value ds)), rest)"
    and "read_number (CHR ''-'' # ds @ rest) = Some (JNum (- int (digits_value ds)), rest)"
proof -
  have ends: "read_frac rest = Some ([], rest)" "read_exp rest = Some ([], rest)"
    using assms(4) by (cases rest, auto simp: stops_def read_frac_def read_exp_def)+
  have d: "is_digit (hd ds)" using assms(1,2) by (cases ds) simp_all
  then have "hd ds \<noteq> CHR ''-''" by (auto simp: is_digit_def)
  then have hd: "\<not> prefix ''-'' (ds @ rest)" "starts_digit (ds @ rest)" "hd (ds @ rest) = hd ds"
    using d assms(2) by (cases ds; simp add: starts_digit_def)+
  show "read_number (ds @ rest) = Some (JNum (int (digits_value ds)), rest)"
    "read_number (CHR ''-'' # ds @ rest) = Some (JNum (- int (digits_value ds)), rest)"
  proof (atomize (full), cases "hd ds = CHR ''0''")
    case True
    then have "ds = ''0''" by (rule assms(3))
    with ends show "read_number (ds @ rest) = Some (JNum (int (digits_value ds)), rest) \<and>
        read_number (CHR ''-'' # ds @ rest) = Some (JNum (- int (digits_value ds)), rest)"
      by (simp add: read_number_def starts_digit_def is_digit_def)
  next
    case False
    with ends hd span_digits_run [OF assms(1,4)]
    show "read_number (ds @ rest) = Some (JNum (int (digits_value ds)), rest) \<and>
        read_number (CHR ''-'' # ds @ rest) = Some (JNum (- int (digits_value ds)), rest)"
      by (simp add: read_number_def)
  qed
qed

lemma read_number_Itoa: "stops rest \<Longrightarrow> read_number (Itoa i @ rest) = Some (JNum i, rest)"
  using read_number_digits [of "showNat (nat i)" rest] read_number_digits [of "showNat (nat (- i))" rest]
    showNat_digits showNat_zero_hd by (cases "i < 0") (simp_all add: Itoa_def)

section \<open>Values\<close>

fun valid_json :: "json \<Rightarrow> bool" where
  "valid_json (JStr s) = valid_utf8 s"
| "valid_json (JArr js) = list_all valid_json js"
| "valid_json (JObj fs) = list_all (\<lambda>(k, j). valid_utf8 k \<and> valid_json j) fs"
| "valid_json (JFrac s) = False"
| "valid_json _ = True"

fun jdepth :: "json \<Rightarrow> nat" where
  "jdepth (JArr js) = Suc (foldr max (map jdepth js) 0)"
| "jdepth (JObj fs) = Suc (foldr max (map (\<lambda>(k, j). jdepth j) fs) 0)"
| "jdepth _ = 0"

lemma foldr_max_le: "foldr max xs (0 :: nat) \<le> d \<longleftrightarrow> list_all (\<lambda>x. x \<le> d) xs"
  by (induction xs) simp_all

fun jsize :: "json \<Rightarrow> nat" where
  "jsize (JArr js) = Suc (sum_list (map (\<lambda>j. Suc (jsize j)) js))"
| "jsize (JObj fs) = Suc (sum_list (map (\<lambda>(k, j). Suc (jsize j)) fs))"
| "jsize _ = 1"

lemma print_json_hd:
  assumes "valid_json j"
  shows "\<exists>c cs. print_json j = c # cs \<and> c \<notin> {CHR '']'', CHR ''}'', CHR '',''} \<and> \<not> is_json_space c"
proof (cases j)
  case (JNum i)
  show ?thesis
  proof (cases "i < 0")
    case False
    obtain c cs where s: "showNat (nat i) = c # cs" by (cases "showNat (nat i)") simp_all
    have "is_digit c" using showNat_hd_digit [of "nat i"] s by simp
    then have "c \<notin> {CHR '']'', CHR ''}'', CHR '',''}" "\<not> is_json_space c" by (auto simp: is_digit_def is_json_space_def)
    with s False show ?thesis by (simp add: JNum Itoa_def)
  qed (simp add: JNum Itoa_def is_json_space_def)
qed (use assms in \<open>simp_all add: json_quote_def is_json_space_def\<close>)

lemma skip_print: "valid_json j \<Longrightarrow> skip_space (print_json j @ t) = print_json j @ t"
  using print_json_hd [of j] by (auto simp: skip_space_def)

lemma skip_here [simp]: "\<not> is_json_space c \<Longrightarrow> skip_space (c # t) = c # t"
  by (simp add: skip_space_def)

lemma not_space [simp]:
  "\<not> is_json_space CHR '',''" "\<not> is_json_space CHR '']''" "\<not> is_json_space CHR ''}''" "\<not> is_json_space CHR '':''" "\<not> is_json_space CHR 0x22"
  "\<not> is_json_space CHR ''[''" "\<not> is_json_space CHR ''{''" "\<not> is_json_space CHR ''n''" "\<not> is_json_space CHR ''t''" "\<not> is_json_space CHR ''f''"
  by (simp_all add: is_json_space_def)

lemma Join_print_hd:
  assumes "js \<noteq> []" and "list_all valid_json js"
  shows "\<not> prefix '']'' (Join (map print_json js) '','' @ t) \<and>
    skip_space (Join (map print_json js) '','' @ t) = Join (map print_json js) '','' @ t"
proof -
  obtain j js' where js: "js = j # js'" using assms(1) by (cases js) auto
  with assms(2) obtain c cs where "print_json j = c # cs" "c \<noteq> CHR '']''" "\<not> is_json_space c" using print_json_hd [of j] by auto
  with js show ?thesis by (cases js') simp_all
qed

lemma stops_punct [simp]: "stops (CHR '','' # r)" "stops (CHR '']'' # r)" "stops (CHR ''}'' # r)"
  by (simp_all add: stops_def is_digit_def)

lemma jsize_pos [simp]: "jsize j \<noteq> 0"
  by (cases j) simp_all

lemma Join_map_Cons: "Join (map f (x # xs)) '','' @ t = f x @ (if xs = [] then t else CHR '','' # Join (map f xs) '','' @ t)"
  by (cases xs) simp_all

definition fields_text :: "(string \<times> json) list \<Rightarrow> string" where
  "fields_text fs = Join (map (\<lambda>(k, j). json_quote k @ '':'' @ print_json j) fs) '',''"

lemma fields_text_Cons:
  "fields_text ((k, j) # fs) @ t =
     CHR 0x22 # tl (json_quote k) @ CHR '':'' # print_json j @ (if fs = [] then t else CHR '','' # fields_text fs @ t)"
  by (cases fs) (simp_all add: fields_text_def json_quote_def)

lemma read_quoted_field: "valid_utf8 k \<Longrightarrow> read_string (tl (json_quote k) @ CHR '':'' # t) = Some (k, CHR '':'' # t)"
  by (rule read_quoted)

lemma read_print:
  "(\<forall>j d rest. valid_json j \<longrightarrow> jsize j \<le> n \<longrightarrow> jdepth j \<le> d \<longrightarrow> stops rest \<longrightarrow>
      read_value n d (print_json j @ rest) = Some (j, rest)) \<and>
   (\<forall>js d rest. js \<noteq> [] \<longrightarrow> list_all valid_json js \<longrightarrow> sum_list (map (\<lambda>j. Suc (jsize j)) js) \<le> n \<longrightarrow>
      list_all (\<lambda>j. jdepth j \<le> d) js \<longrightarrow>
      read_elems n d (Join (map print_json js) '','' @ CHR '']'' # rest) = Some (js, rest)) \<and>
   (\<forall>fs d rest. fs \<noteq> [] \<longrightarrow> list_all (\<lambda>(k, j). valid_utf8 k \<and> valid_json j) fs \<longrightarrow>
      sum_list (map (\<lambda>(k, j). Suc (jsize j)) fs) \<le> n \<longrightarrow> list_all (\<lambda>(k, j). jdepth j \<le> d) fs \<longrightarrow>
      read_fields n d (fields_text fs @ CHR ''}'' # rest) = Some (fs, rest))"
proof (induction n)
  case 0
  then show ?case by (auto simp: neq_Nil_conv)
next
  case (Suc n)
  from Suc.IH have v: "\<And>j d rest. valid_json j \<Longrightarrow> jsize j \<le> n \<Longrightarrow> jdepth j \<le> d \<Longrightarrow> stops rest \<Longrightarrow>
      read_value n d (print_json j @ rest) = Some (j, rest)"
    and e: "\<And>js d rest. js \<noteq> [] \<Longrightarrow> list_all valid_json js \<Longrightarrow> sum_list (map (\<lambda>j. Suc (jsize j)) js) \<le> n \<Longrightarrow>
      list_all (\<lambda>j. jdepth j \<le> d) js \<Longrightarrow> read_elems n d (Join (map print_json js) '','' @ CHR '']'' # rest) = Some (js, rest)"
    and f: "\<And>fs d rest. fs \<noteq> [] \<Longrightarrow> list_all (\<lambda>(k, j). valid_utf8 k \<and> valid_json j) fs \<Longrightarrow>
      sum_list (map (\<lambda>(k, j). Suc (jsize j)) fs) \<le> n \<Longrightarrow> list_all (\<lambda>(k, j). jdepth j \<le> d) fs \<Longrightarrow>
      read_fields n d (fields_text fs @ CHR ''}'' # rest) = Some (fs, rest)"
    by blast+
  have "read_value (Suc n) d (print_json j @ rest) = Some (j, rest)"
    if "valid_json j" "jsize j \<le> Suc n" "jdepth j \<le> d" "stops rest" for j d rest
  proof (cases j)
    case (JNum i)
    obtain c cs where c: "Itoa i @ rest = c # cs" "c = CHR ''-'' \<or> is_digit c"
    proof (cases "i < 0")
      case False
      obtain c cs where s: "showNat (nat i) = c # cs" by (cases "showNat (nat i)") simp_all
      with showNat_hd_digit [of "nat i"] have "is_digit c" by simp
      with s False that show ?thesis by (simp add: Itoa_def)
    qed (simp add: Itoa_def)
    then have "c \<noteq> CHR 0x22" "c \<noteq> CHR ''[''" "c \<noteq> CHR ''{''" "\<not> is_json_space c" "\<not> prefix ''null'' (c # cs)"
        "\<not> prefix ''true'' (c # cs)" "\<not> prefix ''false'' (c # cs)"
      by (auto simp: is_digit_def is_json_space_def)
    with c read_number_Itoa [OF that(4), of i] JNum show ?thesis by (simp del: prefix_Cons Cons_prefix_Cons)
  next
    case (JStr s)
    with that show ?thesis by (simp add: json_quote_def read_json_chars)
  next
    case (JArr js)
    show ?thesis
    proof (cases "js = []")
      case False
      have "foldr max (map jdepth js) 0 \<le> d - 1" using that(3) JArr by simp
      then have "list_all (\<lambda>j. jdepth j \<le> d - 1) js" by (simp add: foldr_max_le list.pred_map comp_def)
      with that JArr Join_print_hd [OF False] e [OF False, of "d - 1" rest] show ?thesis by simp
    qed (use JArr that in simp)
  next
    case (JObj fs)
    show ?thesis
    proof (cases "fs = []")
      case False
      then obtain k j' fs' where fs: "fs = (k, j') # fs'" by (cases fs) auto
      have "\<not> prefix ''}'' (fields_text fs @ t)" "skip_space (fields_text fs @ t) = fields_text fs @ t" for t
        unfolding fs fields_text_Cons by simp_all
      moreover have "foldr max (map (\<lambda>(k, j). jdepth j) fs) 0 \<le> d - 1" using that(3) JObj by simp
      then have "list_all (\<lambda>(k, j). jdepth j \<le> d - 1) fs"
        by (auto simp: foldr_max_le list.pred_map comp_def list_all_iff)
      ultimately show ?thesis
        using that JObj f [OF False, of "d - 1" rest] False by (simp add: fields_text_def)
    qed (use JObj that in simp)
  next
    case (JBool b)
    then show ?thesis by (cases b) simp_all
  qed (use that in simp_all)
  moreover have "read_elems (Suc n) d (Join (map print_json js) '','' @ CHR '']'' # rest) = Some (js, rest)"
    if "js \<noteq> []" "list_all valid_json js" "sum_list (map (\<lambda>j. Suc (jsize j)) js) \<le> Suc n" "list_all (\<lambda>j. jdepth j \<le> d) js"
    for js d rest
  proof -
    from that obtain j js' where js: "js = j # js'" by (cases js) auto
    with that have "jsize j \<le> n" "sum_list (map (\<lambda>j. Suc (jsize j)) js') \<le> n" "valid_json j" "list_all valid_json js'"
      "jdepth j \<le> d" "list_all (\<lambda>j. jdepth j \<le> d) js'" by simp_all
    with js v [of j d] e [of js' d] show ?thesis
      by (simp add: Join_map_Cons del: list.map Join.simps)
  qed
  moreover have "read_fields (Suc n) d (fields_text fs @ CHR ''}'' # rest) = Some (fs, rest)"
    if "fs \<noteq> []" "list_all (\<lambda>(k, j). valid_utf8 k \<and> valid_json j) fs" "sum_list (map (\<lambda>(k, j). Suc (jsize j)) fs) \<le> Suc n"
      "list_all (\<lambda>(k, j). jdepth j \<le> d) fs" for fs d rest
  proof -
    from that obtain k j fs' where fs: "fs = (k, j) # fs'" by (cases fs) auto
    with that have "jsize j \<le> n" "sum_list (map (\<lambda>(k, j). Suc (jsize j)) fs') \<le> n" "valid_utf8 k" "valid_json j"
      "list_all (\<lambda>(k, j). valid_utf8 k \<and> valid_json j) fs'" "jdepth j \<le> d" "list_all (\<lambda>(k, j). jdepth j \<le> d) fs'" by simp_all
    with v [of j d] f [of fs' d] show ?thesis
      unfolding fs fields_text_Cons by (simp add: read_quoted_field del: list.map Join.simps)
  qed
  ultimately show ?case by blast
qed

lemma Join_length: "sum_list (map length xs) + (length xs - 1) = length (Join xs '','')"
  by (induction xs rule: induct_list012) simp_all

lemma jsize_le_length: "valid_json j \<Longrightarrow> jsize j \<le> length (print_json j)"
proof (induction j)
  case (JNum i)
  show ?case by (simp add: Itoa_def Suc_le_eq)
next
  case (JStr s)
  show ?case by (simp add: json_quote_def)
next
  case (JArr js)
  have "sum_list (map (\<lambda>j. Suc (jsize j)) js) \<le> sum_list (map length (map print_json js)) + length js"
    using JArr by (induction js) fastforce+
  with Join_length [of "map print_json js"] show ?case by (cases js) simp_all
next
  case (JObj fs)
  let ?p = "\<lambda>(k, j). json_quote k @ '':'' @ print_json j"
  have "sum_list (map (\<lambda>(k, j). Suc (jsize j)) fs) \<le> sum_list (map length (map ?p fs))"
    using JObj
  proof (induction fs)
    case (Cons f fs)
    obtain k j where f: "f = (k, j)" by (cases f)
    have "jsize j \<le> length (print_json j)" using Cons.prems(1) [of f j] Cons.prems(2) f by simp
    moreover have "sum_list (map (\<lambda>(k, j). Suc (jsize j)) fs) \<le> sum_list (map length (map ?p fs))"
      using Cons.prems by (intro Cons.IH) auto
    ultimately show ?case by (simp add: f json_quote_def)
  qed simp
  with Join_length [of "map ?p fs"] show ?case by (cases fs) simp_all
qed simp_all

section \<open>The fuel is enough\<close>

text \<open>Every value that is read takes up a part of the text, so that the fuel of \<open>ReadJSON\<close> is never used up: with
  more fuel the reader gives the same answer.\<close>

lemma read_string_length: "read_string s = Some (t, r) \<Longrightarrow> length r < length s"
proof (induction s arbitrary: t rule: read_string.induct)
  case (2 c cs)
  then show ?case by (auto split: if_splits option.splits dest!: literal_char_length; fastforce)
qed simp

lemma read_number_length: "read_number s = Some (j, r) \<Longrightarrow> length r < length s"
proof -
  have frac: "length r \<le> length s" if "read_frac s = Some (x, r)" for s x r
    using that length_dropWhile_le [of is_digit "tl s"] by (auto simp: read_frac_def span_digits_def split: if_splits)
  have exp: "length r \<le> length s" if "read_exp s = Some (x, r)" for s x r
    using that length_dropWhile_le [of is_digit "tl s"] length_dropWhile_le [of is_digit "tl (tl s)"]
    by (cases s; cases "tl s") (auto simp: read_exp_def span_digits_def starts_digit_def split: if_splits)
  have tail: "length (if hd t = CHR ''0'' then tl t else dropWhile is_digit t) < length t" if "starts_digit t" for t
    using that length_dropWhile_le [of is_digit "tl t"] by (cases t) (auto simp: starts_digit_def le_imp_less_Suc)
  assume a: "read_number s = Some (j, r)"
  let ?t = "if prefix ''-'' s then tl s else s"
  let ?r = "if hd ?t = CHR ''0'' then tl ?t else dropWhile is_digit ?t"
  obtain x r' y where d: "starts_digit ?t" and f: "read_frac ?r = Some (x, r')" and e: "read_exp r' = Some (y, r)"
    using a by (auto simp: read_number_def Let_def span_digits_def split: if_splits option.splits prod.splits)
  have "length r < length ?t" using tail [OF d] frac [OF f] exp [OF e] by linarith
  then show ?thesis by (auto split: if_splits)
qed

lemma skip_space_length: "length (skip_space s) \<le> length s"
  by (simp add: skip_space_def length_dropWhile_le)

lemma skip_space_Cons: "skip_space s = c # cs \<Longrightarrow> length cs < length s"
  using skip_space_length [of s] by simp

lemma tl_skip_space: "prefix [c] (skip_space s) \<Longrightarrow> length (tl (skip_space s)) < length s"
  using skip_space_Cons [of s] by (cases "skip_space s") auto

lemma reader_length:
  "(\<forall>d s j r. read_value n d s = Some (j, r) \<longrightarrow> length r < length s) \<and>
   (\<forall>d s js r. read_elems n d s = Some (js, r) \<longrightarrow> length r < length s) \<and>
   (\<forall>d s fs r. read_fields n d s = Some (fs, r) \<longrightarrow> length r < length s)"
proof (induction n)
  case (Suc n)
  then have v: "\<And>d s j r. read_value n d s = Some (j, r) \<Longrightarrow> length r < length s"
    and e: "\<And>d s js r. read_elems n d s = Some (js, r) \<Longrightarrow> length r < length s"
    and f: "\<And>d s fs r. read_fields n d s = Some (fs, r) \<Longrightarrow> length r < length s" by blast+
  have "length r < length s" if "read_value (Suc n) d s = Some (j, r)" for d s j r
  proof (cases "skip_space s")
    case (Cons c cs)
    have one: "read_value (Suc n) d s = Some (j, r) \<Longrightarrow>
       (\<exists>t. read_string cs = Some (t, r)) \<or> r = tl (skip_space cs) \<or> (\<exists>js. read_elems n (d - 1) cs = Some (js, r)) \<or>
       (\<exists>fs. read_fields n (d - 1) cs = Some (fs, r)) \<or> (\<exists>k. r = drop k cs) \<or> read_number (c # cs) = Some (j, r)"
      by (simp add: Cons split: if_split_asm; blast)
    from one [OF that] have "length r \<le> length cs"
      using skip_space_length [of cs] by (elim disjE exE) (auto dest: read_string_length e f read_number_length)
    with skip_space_Cons [OF Cons] show ?thesis by simp
  qed (use that in simp)
  moreover have "length r < length s" if "read_elems (Suc n) d s = Some (js, r)" for d s js r
  proof -
    from that obtain j t c t' where t: "read_value n d s = Some (j, t)" and c: "skip_space t = c # t'"
      and r: "r = t' \<or> (\<exists>ks. read_elems n d t' = Some (ks, r))"
      by (auto split: if_splits option.splits list.splits)
    from r have "length r \<le> length t'" by (auto dest: e)
    with v [OF t] skip_space_Cons [OF c] show ?thesis by linarith
  qed
  moreover have "length r < length s" if "read_fields (Suc n) d s = Some (fs, r)" for d s fs r
  proof -
    from that obtain q s' k t j u c u' where q: "skip_space s = q # s'" and k: "read_string s' = Some (k, t)"
      and p: "prefix '':'' (skip_space t)" and t: "read_value n d (tl (skip_space t)) = Some (j, u)" and c: "skip_space u = c # u'"
      and r: "r = u' \<or> (\<exists>ks. read_fields n d u' = Some (ks, r))"
      by (auto split: if_splits option.splits list.splits)
    from r have "length r \<le> length u'" by (auto dest: f)
    with skip_space_Cons [OF q] read_string_length [OF k] tl_skip_space [OF p] v [OF t] skip_space_Cons [OF c]
    show ?thesis by linarith
  qed
  ultimately show ?case by blast
qed simp

lemma all_Suc_le: "(\<forall>m d s. Suc n \<le> m \<longrightarrow> P m d s) \<longleftrightarrow> (\<forall>m d s. n \<le> m \<longrightarrow> P (Suc m) d s)"
  by (metis Suc_le_D Suc_le_mono)

lemma fuel_enough:
  "(\<forall>m d s. n \<le> m \<longrightarrow> 2 * length s < n \<longrightarrow> read_value m d s = read_value n d s) \<and>
   (\<forall>m d s. n \<le> m \<longrightarrow> 2 * length s + 1 < n \<longrightarrow> read_elems m d s = read_elems n d s) \<and>
   (\<forall>m d s. n \<le> m \<longrightarrow> 2 * length s < n \<longrightarrow> read_fields m d s = read_fields n d s)"
proof (induction n)
  case (Suc n)
  then have v: "\<And>m d s. n \<le> m \<Longrightarrow> 2 * length s < n \<Longrightarrow> read_value m d s = read_value n d s"
    and e: "\<And>m d s. n \<le> m \<Longrightarrow> 2 * length s + 1 < n \<Longrightarrow> read_elems m d s = read_elems n d s"
    and f: "\<And>m d s. n \<le> m \<Longrightarrow> 2 * length s < n \<Longrightarrow> read_fields m d s = read_fields n d s" by blast+
  have "read_value (Suc m) d s = read_value (Suc n) d s" if "n \<le> m" "2 * length s < Suc n" for m d s
  proof (cases "skip_space s")
    case (Cons c cs)
    with that skip_space_Cons [OF Cons] e [OF that(1), of cs] f [OF that(1), of cs] show ?thesis by simp
  qed simp
  moreover have "read_elems (Suc m) d s = read_elems (Suc n) d s" if "n \<le> m" "2 * length s + 1 < Suc n" for m d s
  proof -
    have "read_elems m d t' = read_elems n d t'" if "read_value n d s = Some (j, t)" "skip_space t = c # t'" for j t c t'
      using reader_length [of n] that skip_space_Cons [OF that(2)] \<open>2 * length s + 1 < Suc n\<close> by (intro e [OF \<open>n \<le> m\<close>]) fastforce
    with v [OF that(1), of s] that(2) show ?thesis by (simp split: option.split list.split)
  qed
  moreover have "read_fields (Suc m) d s = read_fields (Suc n) d s" if "n \<le> m" "2 * length s < Suc n" for m d s
  proof (cases "skip_space s")
    case (Cons q s')
    have s': "2 * length s' + 1 < n" using skip_space_Cons [OF Cons] that(2) by simp
    have val: "read_value m d (tl (skip_space t)) = read_value n d (tl (skip_space t))"
      if "read_string s' = Some (k, t)" "prefix '':'' (skip_space t)" for k t
      using read_string_length [OF that(1)] tl_skip_space [OF that(2)] s' by (intro v [OF \<open>n \<le> m\<close>]) linarith
    have "read_fields m d u' = read_fields n d u'"
      if "read_string s' = Some (k, t)" "prefix '':'' (skip_space t)" "read_value n d (tl (skip_space t)) = Some (j, u)"
        "skip_space u = c # u'" for k t j u c u'
    proof -
      have "length u < length (tl (skip_space t))" using reader_length [of n] that(3) by blast
      then show ?thesis
        using read_string_length [OF that(1)] tl_skip_space [OF that(2)] skip_space_Cons [OF that(4)] s'
        by (intro f [OF \<open>n \<le> m\<close>]) linarith
    qed
    with val show ?thesis by (auto simp: Cons split: option.split list.split)
  qed simp
  ultimately show ?case unfolding all_Suc_le by blast
qed simp

text \<open>The reader does not run out of fuel: whatever the text, a larger bound on the recursion gives the same
  answer, so that \<open>ReadJSON\<close> rejects a text only for what it says.\<close>

theorem ReadJSON_fuel:
  assumes "2 * length s + 2 \<le> n"
  shows "ReadJSON s = map_option fst (read_value n maxNestingDepth s)"
  using fuel_enough [of "2 * length s + 2"] assms by (simp add: ReadJSON_def)

lemma ReadJSON_fuel_witness: "ReadJSON '' [1, x'' = map_option fst (read_value 40 maxNestingDepth '' [1, x'')"
  by (rule ReadJSON_fuel) simp

section \<open>The text of a body\<close>

lemma reads_encoded:
  assumes "valid_json j" and "jdepth j \<le> 10000"
  shows "read_value (2 * length (EncodeJSON j @ rest) + 2) maxNestingDepth (EncodeJSON j @ rest) = Some (j, CHR 0x0A # rest)"
proof -
  have "stops (CHR 0x0A # rest)" by (simp add: stops_def is_digit_def)
  moreover have "jsize j \<le> 2 * length (EncodeJSON j @ rest) + 2"
    using jsize_le_length [OF assms(1)] by (simp add: EncodeJSON_def)
  ultimately show ?thesis
    using read_print [of "2 * length (EncodeJSON j @ rest) + 2"] assms
    unfolding maxNestingDepth_def by (simp add: EncodeJSON_def)
qed

text \<open>A JSON text says what was printed: what \<open>Encode\<close> writes for a value whose strings are valid UTF-8 and
  that is nested at most 10000 deep is read by \<open>Decode\<close> as that value, whatever characters the strings
  hold (quotes, control characters and the escaped HTML characters included), and whatever follows.\<close>

lemma ReadJSON_print:
  assumes "valid_json j" and "jdepth j \<le> 10000"
  shows "ReadJSON (EncodeJSON j @ rest) = Some j"
  using reads_encoded [OF assms] by (simp add: ReadJSON_def)

lemma ReadJSON_print_witness:
  "ReadJSON (EncodeJSON (JObj [(''user_tags'', JArr [JStr [CHR 0x22, CHR 0x0A, CHR ''<''], JNull, JNum (-5)])]) @ ''x'') =
   Some (JObj [(''user_tags'', JArr [JStr [CHR 0x22, CHR 0x0A, CHR ''<''], JNull, JNum (-5)])])"
  by (rule ReadJSON_print) code_simp+

end
