(* ===== verification/JsonCodingLaws.thy ===== *)
theory JsonCodingLaws
  imports JsonCoding JsonLaws
begin

text \<open>
  What is coded by the tables of fields is decoded to the value it was.  The law of one type is
  \<open>codes\<close>; the laws of fields lift it to structs, pointers and slices.
\<close>

section \<open>The law of a type\<close>

text \<open>The value has a coding of depth at most \<open>n\<close>, which fills a zero value with it.\<close>

definition codes :: "('a \<Rightarrow> goerror + json) \<Rightarrow> 'a reader \<Rightarrow> 'a \<Rightarrow> nat \<Rightarrow> 'a \<Rightarrow> bool" where
  "codes em rd z n x \<longleftrightarrow> (\<exists>j. em x = Inr j \<and> valid_json j \<and> jdepth j \<le> n \<and> rd j z = (x, None))"

text \<open>The same, and the coding is not null.\<close>

definition codes_some :: "('a \<Rightarrow> goerror + json) \<Rightarrow> 'a reader \<Rightarrow> 'a \<Rightarrow> nat \<Rightarrow> 'a \<Rightarrow> bool" where
  "codes_some em rd z n x \<longleftrightarrow> (\<exists>j. em x = Inr j \<and> j \<noteq> JNull \<and> valid_json j \<and> jdepth j \<le> n \<and> rd j z = (x, None))"

lemma codes_some_codes: "codes_some em rd z n x \<Longrightarrow> codes em rd z n x"
  by (auto simp: codes_def codes_some_def)

lemma codes_mono: "codes em rd z n x \<Longrightarrow> n \<le> m \<Longrightarrow> codes em rd z m x"
  "codes_some em rd z n x \<Longrightarrow> n \<le> m \<Longrightarrow> codes_some em rd z m x"
  by (auto simp: codes_def codes_some_def intro: le_trans)

lemma codes_ptr:
  assumes "pred_option (codes_some em rd z n) p"
  shows "codes (emit_ptr em) (read_ptr z rd) None n p"
proof (cases p)
  case (Some v)
  with assms obtain j where "em v = Inr j" "j \<noteq> JNull" "valid_json j" "jdepth j \<le> n" "rd j z = (v, None)"
    by (auto simp: codes_some_def)
  with Some show ?thesis by (simp add: codes_def emit_ptr_def read_ptr_def)
qed (simp add: codes_def emit_ptr_def read_ptr_def)

lemma read_into_emitted:
  "list_all (codes em rd z n) xs \<Longrightarrow>
     \<exists>js. emit_list em xs = Inr js \<and> list_all valid_json js \<and> list_all (\<lambda>j. jdepth j \<le> n) js \<and> read_into z rd js [] = (xs, None)"
proof (induction xs)
  case (Cons x xs)
  then obtain j js where "em x = Inr j" "valid_json j" "jdepth j \<le> n" "rd j z = (x, None)"
    "emit_list em xs = Inr js" "list_all valid_json js" "list_all (\<lambda>j. jdepth j \<le> n) js" "read_into z rd js [] = (xs, None)"
    by (auto simp: codes_def)
  then show ?case by (simp add: stopped_def then_fault_def)
qed simp

lemma codes_array:
  assumes "list_all (codes em rd z n) xs"
  shows "codes_some (emit_array em) (read_slice te z rd) [] (Suc n) xs"
proof -
  obtain js where "emit_list em xs = Inr js" "list_all valid_json js" "list_all (\<lambda>j. jdepth j \<le> n) js"
    "read_into z rd js [] = (xs, None)" using read_into_emitted [OF assms] by blast
  then show ?thesis
    by (auto simp: codes_some_def emit_array_def read_slice_def foldr_max_le list.pred_map comp_def)
qed

section \<open>Fields\<close>

text \<open>One field of \<open>x\<close> is coded and read into \<open>y\<close>.\<close>

definition transfer :: "nat \<Rightarrow> 'a struct_field \<Rightarrow> 'a \<Rightarrow> 'a \<Rightarrow> 'a option" where
  "transfer n f x y =
     (case fd_emit f x of
        None \<Rightarrow> Some y
      | Some (Inl e) \<Rightarrow> None
      | Some (Inr j) \<Rightarrow> if valid_json j \<and> jdepth j \<le> n \<and> snd (fd_read f j y) = None then Some (fst (fd_read f j y)) else None)"

fun transfers :: "nat \<Rightarrow> 'a struct_field list \<Rightarrow> 'a \<Rightarrow> 'a \<Rightarrow> 'a option" where
  "transfers n [] x y = Some y"
| "transfers n (f # fs) x y = Option.bind (transfer n f x y) (transfers n fs x)"

named_theorems transfer_simps

lemma transfer_str [transfer_simps]:
  "get y = [] \<Longrightarrow> upd (\<lambda>_. []) y = y \<Longrightarrow> valid_utf8 (get x) \<Longrightarrow>
     transfer n (str_field te k get upd) x y = Some (upd (\<lambda>_. get x) y)"
  by (simp add: transfer_def str_field_def field_def omitting_def read_str_def)

lemma transfer_string [transfer_simps]:
  "valid_utf8 (get x) \<Longrightarrow> transfer n (string_field te k get upd) x y = Some (upd (\<lambda>_. get x) y)"
  by (simp add: transfer_def string_field_def field_def read_str_def)

lemma transfer_int [transfer_simps]:
  "get y = 0 \<Longrightarrow> upd (\<lambda>_. 0) y = y \<Longrightarrow> - (2 ^ (w - 1)) \<le> get x \<and> get x < 2 ^ (w - 1) \<Longrightarrow>
     transfer n (int_field w te k get upd) x y = Some (upd (\<lambda>_. get x) y)"
  by (simp add: transfer_def int_field_def field_def omitting_def read_int_def)

lemma transfer_ptr [transfer_simps]:
  assumes "get y = None" and "upd (\<lambda>_. None) y = y" and "pred_option (codes_some em rd z n) (get x)"
  shows "transfer n (ptr_field k get upd em z rd) x y = Some (upd (\<lambda>_. get x) y)"
proof (cases "get x")
  case (Some v)
  with assms(3) obtain j where "em v = Inr j" "j \<noteq> JNull" "valid_json j" "jdepth j \<le> n" "rd j z = (v, None)"
    by (auto simp: codes_some_def)
  with Some assms(1) show ?thesis by (simp add: transfer_def ptr_field_def field_def read_ptr_def)
qed (use assms in \<open>simp add: transfer_def ptr_field_def field_def\<close>)

lemma transfer_slice [transfer_simps]:
  assumes "get y = []" and "upd (\<lambda>_. []) y = y" and "list_all (codes em rd z (n - 1)) (get x)" and "0 < n"
  shows "transfer n (slice_field te k get upd em z rd) x y = Some (upd (\<lambda>_. get x) y)"
  using codes_array [OF assms(3), of te] assms
  by (auto simp: transfer_def slice_field_def field_def omitting_def codes_some_def)

lemma transfer_list [transfer_simps]:
  assumes "get y = []" and "upd (\<lambda>_. []) y = y" and "list_all (codes em rd z (n - 1)) (get x)" and "0 < n"
  shows "transfer n (list_field te k get upd em z rd) x y = Some (upd (\<lambda>_. get x) y)"
proof (cases "get x = []")
  case False
  with codes_array [OF assms(3), of te] assms show ?thesis
    by (auto simp: transfer_def list_field_def field_def codes_some_def)
qed (use assms in \<open>simp add: transfer_def list_field_def field_def read_slice_def\<close>)

lemma transfer_inner [transfer_simps]:
  assumes "codes_some em rd (get y) n (get x)"
  shows "transfer n (inner_field k get upd em rd) x y = Some (upd (\<lambda>_. get x) y)"
  using assms by (auto simp: transfer_def inner_field_def field_def codes_some_def)

section \<open>Structs\<close>

fun distinct_names :: "string list \<Rightarrow> bool" where
  "distinct_names [] = True"
| "distinct_names (k # ks) = (list_all (\<lambda>k'. fold_prefix k k' \<noteq> Some []) ks \<and> distinct_names ks)"

lemma fold_prefix_refl [simp]: "fold_prefix k k = Some []"
  using fold_prefix_self [of k "[]"] by simp

lemma field_of_named: "distinct_names (map fd_name fs) \<Longrightarrow> f \<in> set fs \<Longrightarrow> field_of fs (fd_name f) = Some f"
  by (induction fs) (auto simp: list_all_iff)

lemma read_members_transferred:
  assumes "transfers n fs x y = Some y'" and "\<And>f. f \<in> set fs \<Longrightarrow> field_of all (fd_name f) = Some f"
    and "list_all valid_utf8 (map fd_name fs)"
  shows "\<exists>ms. members fs x = Inr ms \<and> list_all (\<lambda>(k, j). valid_utf8 k \<and> valid_json j) ms \<and>
    list_all (\<lambda>(k, j). jdepth j \<le> n) ms \<and> read_members all ms y = (y', None)"
  using assms
proof (induction fs arbitrary: y)
  case (Cons f fs)
  then obtain u where u: "transfer n f x y = Some u" "transfers n fs x u = Some y'" by (auto simp: bind_eq_Some_conv)
  with Cons obtain ms where ms: "members fs x = Inr ms" "list_all (\<lambda>(k, j). valid_utf8 k \<and> valid_json j) ms"
    "list_all (\<lambda>(k, j). jdepth j \<le> n) ms" "read_members all ms u = (y', None)" by fastforce
  show ?case
  proof (cases "fd_emit f x")
    case None
    with u ms show ?thesis by (simp add: transfer_def)
  next
    case (Some r)
    with u(1) obtain j where j: "r = Inr j" "valid_json j" "jdepth j \<le> n" "fd_read f j y = (u, None)"
      by (cases r) (auto simp: transfer_def prod_eq_iff split: if_splits)
    with Some ms Cons.prems(2,3) show ?thesis by (simp add: stopped_def then_fault_def)
  qed
qed simp

lemma fd_name_simps [simp]:
  "fd_name (field k get upd em rd) = k" "fd_name (str_field te k sget supd) = k" "fd_name (string_field te k sget supd) = k"
  "fd_name (int_field w te k iget iupd) = k" "fd_name (ptr_field k pget pupd em' z rd') = k"
  "fd_name (slice_field te k lget lupd em' z rd') = k" "fd_name (list_field te k lget lupd em' z rd') = k"
  "fd_name (inner_field k get upd em' rd) = k"
  by (simp_all add: field_def str_field_def string_field_def int_field_def ptr_field_def slice_field_def list_field_def inner_field_def)

definition good_names :: "string list \<Rightarrow> bool" where
  "good_names ks \<longleftrightarrow> distinct_names ks \<and> list_all valid_utf8 ks"

theorem codes_struct:
  assumes "transfers n fs x z = Some x" and names: "good_names (map fd_name fs)"
  shows "codes_some (emit_struct fs) (read_struct te fs) z (Suc n) x"
proof -
  obtain ms where "members fs x = Inr ms" "list_all (\<lambda>(k, j). valid_utf8 k \<and> valid_json j) ms"
    "list_all (\<lambda>(k, j). jdepth j \<le> n) ms" "read_members fs ms z = (x, None)"
    using read_members_transferred [OF assms(1) field_of_named] names by (auto simp: good_names_def)
  then show ?thesis
    by (auto simp: codes_some_def emit_struct_def read_struct_def foldr_max_le list.pred_map comp_def list_all_iff)
qed

section \<open>The contract of a coded type\<close>

text \<open>What the clients of a type's coding rely on: every value of the type that is fit for it is coded, at a
  bounded depth, and read back.\<close>

locale json_coding =
  fixes em :: "'a \<Rightarrow> goerror + json" and rd :: "'a reader" and z :: 'a and depth :: nat and fit :: "'a \<Rightarrow> bool"
  assumes coded: "fit x \<Longrightarrow> codes_some em rd z depth x"
    and depth_bound: "depth \<le> 10000"
begin

lemma inner: "fit x \<Longrightarrow> depth \<le> n \<Longrightarrow> codes_some em rd z n x"
  by (rule codes_mono(2) [OF coded])

lemma pointed: "pred_option fit p \<Longrightarrow> depth \<le> n \<Longrightarrow> pred_option (codes_some em rd z n) p"
  by (cases p) (auto intro: codes_mono(2) [OF coded])

lemma listed: "list_all fit xs \<Longrightarrow> depth \<le> n \<Longrightarrow> list_all (codes em rd z n) xs"
  by (auto simp: list_all_iff intro: codes_mono(1) [OF codes_some_codes [OF coded]])

lemma pointers: "list_all (pred_option fit) ps \<Longrightarrow> depth \<le> n \<Longrightarrow> list_all (codes (emit_ptr em) (read_ptr z rd) None n) ps"
  by (auto simp: list_all_iff intro: codes_ptr pointed)

lemma arrayed: "list_all fit xs \<Longrightarrow> depth < n \<Longrightarrow> codes_some (emit_array em) (read_slice te z rd) [] n xs"
  by (rule codes_mono(2) [OF codes_array [OF listed [OF _ order_refl]]]) simp_all

lemma arrays_pointed:
  "pred_option (list_all fit) p \<Longrightarrow> depth < n \<Longrightarrow> pred_option (codes_some (emit_array em) (read_slice te z rd) [] n) p"
  by (cases p) (auto intro: arrayed)

lemma text_read:
  assumes "fit x"
  obtains j where "em x = Inr j" and "\<And>rest. ReadJSON (EncodeJSON j @ rest) = Some j" and "rd j z = (x, None)"
proof -
  obtain j where j: "em x = Inr j" "valid_json j" "jdepth j \<le> depth" "rd j z = (x, None)"
    using coded [OF assms] by (auto simp: codes_some_def)
  have "ReadJSON (EncodeJSON j @ rest) = Some j" for rest
  proof -
    have "read_value (2 * length (EncodeJSON j @ rest) + 2) maxNestingDepth (EncodeJSON j @ rest) = Some (j, CHR 0x0A # rest)"
      using reads_encoded [OF j(2) le_trans [OF j(3) depth_bound], of rest] by simp
    then show ?thesis by (simp add: ReadJSON_def)
  qed
  with j that show thesis by blast
qed

end

lemma struct_coding:
  assumes "\<And>x. fit x \<Longrightarrow> transfers n fs x z = Some x" and "good_names (map fd_name fs)"
    and "d = Suc n" and "d \<le> 10000"
  shows "json_coding (emit_struct fs) (read_struct te fs) z d fit"
  by unfold_locales (use assms codes_struct [OF assms(1,2)] in auto)

end
