(* ===== verification/JsonModelLaws.thy ===== *)
theory JsonModelLaws
  imports JsonModels JsonCodingLaws
begin

text \<open>
  The structs of the API are read back from their coding: for each of them the contract \<open>json_coding\<close>, with
  what a value has to be for it (valid UTF-8, numbers of their width).  A value of the interface
  library or a time is fit if its own coding reads back.
\<close>

named_theorems coding_simps
lemmas [coding_simps] = transfer_simps

definition fits :: "nat \<Rightarrow> int \<Rightarrow> bool" where
  "fits w n \<longleftrightarrow> - (2 ^ (w - 1)) \<le> n \<and> n < 2 ^ (w - 1)"

lemmas [coding_simps] = fits_def

interpretation Tag: json_coding "\<lambda>s. Inr (JStr s)" "read_str te" "[]" 0 valid_utf8 for te
  by unfold_locales (simp_all add: codes_some_def read_str_def)

lemmas [coding_simps] = Tag.listed

definition valid_Time :: "lib_json \<Rightarrow> gotime \<Rightarrow> bool" where
  "valid_Time L = codes_some (lj_Time L) (read_Time L) ZeroTime 10"

interpretation Time: json_coding "lj_Time L" "read_Time L" ZeroTime 10 "valid_Time L" for L
  by unfold_locales (simp_all add: valid_Time_def)

lemmas [coding_simps] = Time.pointed

definition valid_type :: "ErrorType \<Rightarrow> bool" where
  "valid_type t \<longleftrightarrow> text_type (type_text t) = t \<and> valid_utf8 (type_text t)"

lemma transfer_type [coding_simps]:
  assumes "get y = OtherErrorType []" and "upd (\<lambda>_. OtherErrorType []) y = y" and "valid_type (get x)"
  shows "transfer n (field k get upd (omitting (\<lambda>t. type_text t = []) (\<lambda>t. Inr (JStr (type_text t)))) (read_ErrorType L)) x y
      = Some (upd (\<lambda>_. get x) y)"
proof (cases "type_text (get x) = []")
  case True
  with assms(3) have "get x = OtherErrorType []" by (auto simp: valid_type_def text_type_def)
  with True assms show ?thesis by (simp add: transfer_def field_def omitting_def)
qed (use assms in \<open>simp add: transfer_def field_def omitting_def read_ErrorType_def valid_type_def\<close>)

lemma transfer_plain_type [coding_simps]:
  "valid_type (get x) \<Longrightarrow>
   transfer n (field k get upd (\<lambda>t. Some (Inr (JStr (type_text t)))) (read_ErrorType L)) x y = Some (upd (\<lambda>_. get x) y)"
  by (simp add: transfer_def field_def read_ErrorType_def valid_type_def)

lemma lib_pointed [coding_simps]:
  "pred_option (codes_some em rd z 10) p \<Longrightarrow> 10 \<le> n \<Longrightarrow> pred_option (codes_some em rd z n) p"
  by (cases p) (auto intro: codes_mono)

lemma lib_arrays [coding_simps]:
  "pred_option (list_all (codes em rd z 10)) p \<Longrightarrow> 11 \<le> n \<Longrightarrow>
     pred_option (codes_some (emit_array em) (read_slice te z rd) [] n) p"
  by (cases p) (auto intro: codes_mono(2) [OF codes_array])

section \<open>The structs\<close>

definition valid_EncryptionKey :: "lib_json \<Rightarrow> EncryptionKey \<Rightarrow> bool" where
  "valid_EncryptionKey L x \<longleftrightarrow>
     valid_utf8 (ek_CRN x)"

lemma transfers_EncryptionKey: "valid_EncryptionKey L x \<Longrightarrow> transfers 0 (EncryptionKey_fields L) x zeroEncryptionKey = Some x"
  by (cases x) (simp add: EncryptionKey_fields_def zeroEncryptionKey_def valid_EncryptionKey_def coding_simps)

lemma names_EncryptionKey: "good_names (map fd_name (EncryptionKey_fields L))"
  by (simp only: EncryptionKey_fields_def list.map fd_name_simps) code_simp

interpretation EncryptionKey: json_coding "emit_EncryptionKey L" "read_EncryptionKey L" zeroEncryptionKey 1 "valid_EncryptionKey L" for L
  unfolding emit_EncryptionKey_def read_EncryptionKey_def by (rule struct_coding [OF transfers_EncryptionKey names_EncryptionKey]) simp_all

lemmas [coding_simps] = EncryptionKey.pointed EncryptionKey.listed EncryptionKey.pointers EncryptionKey.arrays_pointed EncryptionKey.inner

definition valid_ResourceGroup :: "lib_json \<Rightarrow> ResourceGroup \<Rightarrow> bool" where
  "valid_ResourceGroup L x \<longleftrightarrow>
     valid_utf8 (rg_Href x) \<and> valid_utf8 (rg_ID x) \<and> valid_utf8 (rg_Name x)"

lemma transfers_ResourceGroup: "valid_ResourceGroup L x \<Longrightarrow> transfers 0 (ResourceGroup_fields L) x zeroResourceGroup = Some x"
  by (cases x) (simp add: ResourceGroup_fields_def zeroResourceGroup_def valid_ResourceGroup_def coding_simps)

lemma names_ResourceGroup: "good_names (map fd_name (ResourceGroup_fields L))"
  by (simp only: ResourceGroup_fields_def list.map fd_name_simps) code_simp

interpretation ResourceGroup: json_coding "emit_ResourceGroup L" "read_ResourceGroup L" zeroResourceGroup 1 "valid_ResourceGroup L" for L
  unfolding emit_ResourceGroup_def read_ResourceGroup_def by (rule struct_coding [OF transfers_ResourceGroup names_ResourceGroup]) simp_all

lemmas [coding_simps] = ResourceGroup.pointed ResourceGroup.listed ResourceGroup.pointers ResourceGroup.arrays_pointed ResourceGroup.inner

definition valid_InitialOwner :: "lib_json \<Rightarrow> InitialOwner \<Rightarrow> bool" where
  "valid_InitialOwner L x \<longleftrightarrow>
     fits 64 (io_GroupID x) \<and> fits 64 (io_UserID x)"

lemma transfers_InitialOwner: "valid_InitialOwner L x \<Longrightarrow> transfers 0 (InitialOwner_fields L) x zeroInitialOwner = Some x"
  by (cases x) (simp add: InitialOwner_fields_def zeroInitialOwner_def valid_InitialOwner_def coding_simps)

lemma names_InitialOwner: "good_names (map fd_name (InitialOwner_fields L))"
  by (simp only: InitialOwner_fields_def list.map fd_name_simps) code_simp

interpretation InitialOwner: json_coding "emit_InitialOwner L" "read_InitialOwner L" zeroInitialOwner 1 "valid_InitialOwner L" for L
  unfolding emit_InitialOwner_def read_InitialOwner_def by (rule struct_coding [OF transfers_InitialOwner names_InitialOwner]) simp_all

lemmas [coding_simps] = InitialOwner.pointed InitialOwner.listed InitialOwner.pointers InitialOwner.arrays_pointed InitialOwner.inner

definition valid_Profile :: "lib_json \<Rightarrow> Profile \<Rightarrow> bool" where
  "valid_Profile L x \<longleftrightarrow>
     valid_utf8 (pr_CRN x) \<and> valid_utf8 (pr_Href x) \<and> valid_utf8 (pr_Name x)"

lemma transfers_Profile: "valid_Profile L x \<Longrightarrow> transfers 0 (Profile_fields L) x zeroProfile = Some x"
  by (cases x) (simp add: Profile_fields_def zeroProfile_def valid_Profile_def coding_simps)

lemma names_Profile: "good_names (map fd_name (Profile_fields L))"
  by (simp only: Profile_fields_def list.map fd_name_simps) code_simp

interpretation Profile: json_coding "emit_Profile L" "read_Profile L" zeroProfile 1 "valid_Profile L" for L
  unfolding emit_Profile_def read_Profile_def by (rule struct_coding [OF transfers_Profile names_Profile]) simp_all

lemmas [coding_simps] = Profile.pointed Profile.listed Profile.pointers Profile.arrays_pointed Profile.inner

definition valid_Zone :: "lib_json \<Rightarrow> Zone \<Rightarrow> bool" where
  "valid_Zone L x \<longleftrightarrow>
     valid_utf8 (zn_Name x) \<and> valid_utf8 (zn_Href x)"

lemma transfers_Zone: "valid_Zone L x \<Longrightarrow> transfers 0 (Zone_fields L) x zeroZone = Some x"
  by (cases x) (simp add: Zone_fields_def zeroZone_def valid_Zone_def coding_simps)

lemma names_Zone: "good_names (map fd_name (Zone_fields L))"
  by (simp only: Zone_fields_def list.map fd_name_simps) code_simp

interpretation Zone: json_coding "emit_Zone L" "read_Zone L" zeroZone 1 "valid_Zone L" for L
  unfolding emit_Zone_def read_Zone_def by (rule struct_coding [OF transfers_Zone names_Zone]) simp_all

lemmas [coding_simps] = Zone.pointed Zone.listed Zone.pointers Zone.arrays_pointed Zone.inner

definition valid_HReference :: "lib_json \<Rightarrow> HReference \<Rightarrow> bool" where
  "valid_HReference L x \<longleftrightarrow>
     valid_utf8 (href_Href x)"

lemma transfers_HReference: "valid_HReference L x \<Longrightarrow> transfers 0 (HReference_fields L) x zeroHReference = Some x"
  by (cases x) (simp add: HReference_fields_def zeroHReference_def valid_HReference_def coding_simps)

lemma names_HReference: "good_names (map fd_name (HReference_fields L))"
  by (simp only: HReference_fields_def list.map fd_name_simps) code_simp

interpretation HReference: json_coding "emit_HReference L" "read_HReference L" zeroHReference 1 "valid_HReference L" for L
  unfolding emit_HReference_def read_HReference_def by (rule struct_coding [OF transfers_HReference names_HReference]) simp_all

lemmas [coding_simps] = HReference.pointed HReference.listed HReference.pointers HReference.arrays_pointed HReference.inner

definition valid_Deleted :: "lib_json \<Rightarrow> Deleted \<Rightarrow> bool" where
  "valid_Deleted L x \<longleftrightarrow>
     valid_utf8 (del_MoreInfo x)"

lemma transfers_Deleted: "valid_Deleted L x \<Longrightarrow> transfers 0 (Deleted_fields L) x zeroDeleted = Some x"
  by (cases x) (simp add: Deleted_fields_def zeroDeleted_def valid_Deleted_def coding_simps)

lemma names_Deleted: "good_names (map fd_name (Deleted_fields L))"
  by (simp only: Deleted_fields_def list.map fd_name_simps) code_simp

interpretation Deleted: json_coding "emit_Deleted L" "read_Deleted L" zeroDeleted 1 "valid_Deleted L" for L
  unfolding emit_Deleted_def read_Deleted_def by (rule struct_coding [OF transfers_Deleted names_Deleted]) simp_all

lemmas [coding_simps] = Deleted.pointed Deleted.listed Deleted.pointers Deleted.arrays_pointed Deleted.inner

definition valid_Remote :: "lib_json \<Rightarrow> Remote \<Rightarrow> bool" where
  "valid_Remote L x \<longleftrightarrow>
     valid_utf8 (rem_ID x) \<and> valid_utf8 (rem_Href x)"

lemma transfers_Remote: "valid_Remote L x \<Longrightarrow> transfers 0 (Remote_fields L) x zeroRemote = Some x"
  by (cases x) (simp add: Remote_fields_def zeroRemote_def valid_Remote_def coding_simps)

lemma names_Remote: "good_names (map fd_name (Remote_fields L))"
  by (simp only: Remote_fields_def list.map fd_name_simps) code_simp

interpretation Remote: json_coding "emit_Remote L" "read_Remote L" zeroRemote 1 "valid_Remote L" for L
  unfolding emit_Remote_def read_Remote_def by (rule struct_coding [OF transfers_Remote names_Remote]) simp_all

lemmas [coding_simps] = Remote.pointed Remote.listed Remote.pointers Remote.arrays_pointed Remote.inner

definition valid_BackupPolicyPlan :: "lib_json \<Rightarrow> BackupPolicyPlan \<Rightarrow> bool" where
  "valid_BackupPolicyPlan L x \<longleftrightarrow>
     valid_utf8 (bpp_ID x) \<and> valid_utf8 (bpp_Href x) \<and> valid_utf8 (bpp_Name x) \<and>
     pred_option (valid_Deleted L) (bpp_Deleted x) \<and> pred_option (valid_Remote L) (bpp_Remote x) \<and>
     valid_utf8 (bpp_ResourceType x)"

lemma transfers_BackupPolicyPlan: "valid_BackupPolicyPlan L x \<Longrightarrow> transfers 1 (BackupPolicyPlan_fields L) x zeroBackupPolicyPlan = Some x"
  by (cases x) (simp add: BackupPolicyPlan_fields_def zeroBackupPolicyPlan_def valid_BackupPolicyPlan_def coding_simps)

lemma names_BackupPolicyPlan: "good_names (map fd_name (BackupPolicyPlan_fields L))"
  by (simp only: BackupPolicyPlan_fields_def list.map fd_name_simps) code_simp

interpretation BackupPolicyPlan: json_coding "emit_BackupPolicyPlan L" "read_BackupPolicyPlan L" zeroBackupPolicyPlan 2 "valid_BackupPolicyPlan L" for L
  unfolding emit_BackupPolicyPlan_def read_BackupPolicyPlan_def by (rule struct_coding [OF transfers_BackupPolicyPlan names_BackupPolicyPlan]) simp_all

lemmas [coding_simps] = BackupPolicyPlan.pointed BackupPolicyPlan.listed BackupPolicyPlan.pointers BackupPolicyPlan.arrays_pointed BackupPolicyPlan.inner

definition valid_Snapshot :: "lib_json \<Rightarrow> Snapshot \<Rightarrow> bool" where
  "valid_Snapshot L x \<longleftrightarrow>
     valid_utf8 (sn_Href x) \<and> valid_utf8 (sn_ID x) \<and> valid_utf8 (sn_Name x) \<and> valid_utf8 (sn_CRN x) \<and>
     valid_utf8 (sn_FingerPrint x) \<and> pred_option (valid_Time L) (sn_CreatedAt x) \<and>
     pred_option (valid_Time L) (sn_CapturedAt x) \<and> fits 64 (sn_MinimumSize x) \<and>
     pred_option (valid_ResourceGroup L) (sn_ResourceGroup x) \<and> valid_utf8 (sn_Status x) \<and>
     valid_utf8 (sn_ResourceType x) \<and> valid_utf8 (sn_LifecycleState x) \<and>
     list_all valid_utf8 (sn_UserTags x) \<and> pred_option (valid_BackupPolicyPlan L) (sn_BackupPolicyPlan x) \<and>
     pred_option (valid_Zone L) (sn_Zone x)"

lemma transfers_Snapshot: "valid_Snapshot L x \<Longrightarrow> transfers 10 (Snapshot_fields L) x zeroSnapshot = Some x"
  by (cases x) (simp add: Snapshot_fields_def zeroSnapshot_def valid_Snapshot_def coding_simps)

lemma names_Snapshot: "good_names (map fd_name (Snapshot_fields L))"
  by (simp only: Snapshot_fields_def list.map fd_name_simps) code_simp

interpretation Snapshot: json_coding "emit_Snapshot L" "read_Snapshot L" zeroSnapshot 11 "valid_Snapshot L" for L
  unfolding emit_Snapshot_def read_Snapshot_def by (rule struct_coding [OF transfers_Snapshot names_Snapshot]) simp_all

lemmas [coding_simps] = Snapshot.pointed Snapshot.listed Snapshot.pointers Snapshot.arrays_pointed Snapshot.inner

definition valid_SubnetRef :: "lib_json \<Rightarrow> SubnetRef \<Rightarrow> bool" where
  "valid_SubnetRef L x \<longleftrightarrow>
     valid_utf8 (sr_CRN x) \<and> valid_utf8 (sr_ID x) \<and> valid_utf8 (sr_Href x)"

lemma transfers_SubnetRef: "valid_SubnetRef L x \<Longrightarrow> transfers 0 (SubnetRef_fields L) x zeroSubnetRef = Some x"
  by (cases x) (simp add: SubnetRef_fields_def zeroSubnetRef_def valid_SubnetRef_def coding_simps)

lemma names_SubnetRef: "good_names (map fd_name (SubnetRef_fields L))"
  by (simp only: SubnetRef_fields_def list.map fd_name_simps) code_simp

interpretation SubnetRef: json_coding "emit_SubnetRef L" "read_SubnetRef L" zeroSubnetRef 1 "valid_SubnetRef L" for L
  unfolding emit_SubnetRef_def read_SubnetRef_def by (rule struct_coding [OF transfers_SubnetRef names_SubnetRef]) simp_all

lemmas [coding_simps] = SubnetRef.pointed SubnetRef.listed SubnetRef.pointers SubnetRef.arrays_pointed SubnetRef.inner

definition valid_VNI :: "lib_json \<Rightarrow> VirtualNetworkInterface \<Rightarrow> bool" where
  "valid_VNI L x \<longleftrightarrow>
     valid_utf8 (vni_Name x) \<and> pred_option (valid_SubnetRef L) (vni_Subnet x) \<and>
     pred_option (list_all (codes (lj_SecurityGroup L) (lj_ReadSecurityGroup L) zeroLibSecurityGroup 10)) (vni_SecurityGroups x) \<and>
     pred_option (codes_some (lj_PrimaryIP L) (lj_ReadPrimaryIP L) zeroPrimaryIP 10) (vni_PrimaryIP x) \<and>
     pred_option (codes_some (lj_ResourceGroup L) (lj_ReadResourceGroup L) zeroLibResourceGroup 10) (vni_ResourceGroup x)"

lemma transfers_VNI: "valid_VNI L x \<Longrightarrow> transfers 11 (VNI_fields L) x zeroVNI = Some x"
  by (cases x) (simp add: VNI_fields_def zeroVNI_def valid_VNI_def coding_simps)

lemma names_VNI: "good_names (map fd_name (VNI_fields L))"
  by (simp only: VNI_fields_def list.map fd_name_simps) code_simp

interpretation VNI: json_coding "emit_VNI L" "read_VNI L" zeroVNI 12 "valid_VNI L" for L
  unfolding emit_VNI_def read_VNI_def by (rule struct_coding [OF transfers_VNI names_VNI]) simp_all

lemmas [coding_simps] = VNI.pointed VNI.listed VNI.pointers VNI.arrays_pointed VNI.inner

definition valid_ShareTarget :: "lib_json \<Rightarrow> ShareTarget \<Rightarrow> bool" where
  "valid_ShareTarget L x \<longleftrightarrow>
     valid_utf8 (st_ID x) \<and> valid_utf8 (st_Href x) \<and> valid_utf8 (st_MountPath x) \<and>
     valid_utf8 (st_Name x) \<and> valid_utf8 (st_Status x) \<and>
     pred_option (codes_some (lj_VPC L) (lj_ReadVPC L) zeroLibVPC 10) (st_VPC x) \<and>
     valid_utf8 (st_TransitEncryption x) \<and> valid_utf8 (st_AccessProtocol x) \<and>
     pred_option (valid_VNI L) (st_VirtualNetworkInterface x) \<and> pred_option (valid_Zone L) (st_Zone x) \<and>
     pred_option (valid_Time L) (st_CreatedAt x) \<and> st_ShareID x = []"

lemma transfers_ShareTarget: "valid_ShareTarget L x \<Longrightarrow> transfers 12 (ShareTarget_fields L) x zeroShareTarget = Some x"
  by (cases x) (simp add: ShareTarget_fields_def zeroShareTarget_def valid_ShareTarget_def coding_simps)

lemma names_ShareTarget: "good_names (map fd_name (ShareTarget_fields L))"
  by (simp only: ShareTarget_fields_def list.map fd_name_simps) code_simp

interpretation ShareTarget: json_coding "emit_ShareTarget L" "read_ShareTarget L" zeroShareTarget 13 "valid_ShareTarget L" for L
  unfolding emit_ShareTarget_def read_ShareTarget_def by (rule struct_coding [OF transfers_ShareTarget names_ShareTarget]) simp_all

lemmas [coding_simps] = ShareTarget.pointed ShareTarget.listed ShareTarget.pointers ShareTarget.arrays_pointed ShareTarget.inner

definition valid_Share :: "lib_json \<Rightarrow> Share \<Rightarrow> bool" where
  "valid_Share L x \<longleftrightarrow>
     valid_utf8 (sh_CRN x) \<and> valid_utf8 (sh_Href x) \<and> valid_utf8 (sh_ID x) \<and> valid_utf8 (sh_Name x) \<and>
     fits 64 (sh_Size x) \<and> fits 64 (sh_Iops x) \<and> pred_option (valid_EncryptionKey L) (sh_EncryptionKey x) \<and>
     fits 32 (sh_Bandwidth x) \<and> pred_option (valid_ResourceGroup L) (sh_ResourceGroup x) \<and>
     pred_option (valid_InitialOwner L) (sh_InitialOwner x) \<and> pred_option (valid_Profile L) (sh_Profile x) \<and>
     pred_option (valid_Snapshot L) (sh_SourceSnapshot x) \<and> pred_option (valid_Time L) (sh_CreatedAt x) \<and>
     list_all valid_utf8 (sh_UserTags x) \<and> valid_utf8 (sh_Status x) \<and>
     pred_option (list_all (valid_ShareTarget L)) (sh_ShareTargets x) \<and> pred_option (valid_Zone L) (sh_Zone x) \<and>
     valid_utf8 (sh_AccessControlMode x)"

lemma transfers_Share: "valid_Share L x \<Longrightarrow> transfers 14 (Share_fields L) x zeroShare = Some x"
  by (cases x) (simp add: Share_fields_def zeroShare_def valid_Share_def coding_simps)

lemma names_Share: "good_names (map fd_name (Share_fields L))"
  by (simp only: Share_fields_def list.map fd_name_simps) code_simp

interpretation Share: json_coding "emit_Share L" "read_Share L" zeroShare 15 "valid_Share L" for L
  unfolding emit_Share_def read_Share_def by (rule struct_coding [OF transfers_Share names_Share]) simp_all

lemmas [coding_simps] = Share.pointed Share.listed Share.pointers Share.arrays_pointed Share.inner

definition valid_CapIops :: "lib_json \<Rightarrow> CapIops \<Rightarrow> bool" where
  "valid_CapIops L x \<longleftrightarrow>
     fits 32 (ci_Default x) \<and> fits 32 (ci_Max x) \<and> fits 32 (ci_Min x) \<and> fits 32 (ci_Step x) \<and>
     valid_utf8 (ci_Type x) \<and> fits 32 (ci_Value x)"

lemma transfers_CapIops: "valid_CapIops L x \<Longrightarrow> transfers 0 (CapIops_fields L) x zeroCapIops = Some x"
  by (cases x) (simp add: CapIops_fields_def zeroCapIops_def valid_CapIops_def coding_simps)

lemma names_CapIops: "good_names (map fd_name (CapIops_fields L))"
  by (simp only: CapIops_fields_def list.map fd_name_simps) code_simp

interpretation CapIops: json_coding "emit_CapIops L" "read_CapIops L" zeroCapIops 1 "valid_CapIops L" for L
  unfolding emit_CapIops_def read_CapIops_def by (rule struct_coding [OF transfers_CapIops names_CapIops]) simp_all

lemmas [coding_simps] = CapIops.pointed CapIops.listed CapIops.pointers CapIops.arrays_pointed CapIops.inner

definition valid_ProfileDetails :: "lib_json \<Rightarrow> ProfileDetails \<Rightarrow> bool" where
  "valid_ProfileDetails L x \<longleftrightarrow>
     valid_utf8 (pr_CRN x) \<and> valid_utf8 (pr_Href x) \<and> valid_utf8 (pr_Name x) \<and>
     valid_CapIops L (pd_Capacity x) \<and> valid_utf8 (pd_Family x) \<and> valid_CapIops L (pd_Iops x) \<and>
     valid_utf8 (pd_ResourceType x)"

lemma transfers_ProfileDetails: "valid_ProfileDetails L x \<Longrightarrow> transfers 1 (ProfileDetails_fields L) x zeroProfileDetails = Some x"
  by (cases x) (simp add: ProfileDetails_fields_def zeroProfileDetails_def valid_ProfileDetails_def coding_simps)

lemma names_ProfileDetails: "good_names (map fd_name (ProfileDetails_fields L))"
  by (simp only: ProfileDetails_fields_def list.map fd_name_simps) code_simp

interpretation ProfileDetails: json_coding "emit_ProfileDetails L" "read_ProfileDetails L" zeroProfileDetails 2 "valid_ProfileDetails L" for L
  unfolding emit_ProfileDetails_def read_ProfileDetails_def by (rule struct_coding [OF transfers_ProfileDetails names_ProfileDetails]) simp_all

lemmas [coding_simps] = ProfileDetails.pointed ProfileDetails.listed ProfileDetails.pointers ProfileDetails.arrays_pointed ProfileDetails.inner

definition valid_Subnet :: "lib_json \<Rightarrow> Subnet \<Rightarrow> bool" where
  "valid_Subnet L x \<longleftrightarrow>
     valid_utf8 (sub_CRN x) \<and> valid_utf8 (sub_Href x) \<and> valid_utf8 (sub_ID x) \<and> valid_utf8 (sub_Name x) \<and>
     pred_option (valid_ResourceGroup L) (sub_ResourceGroup x) \<and>
     pred_option (codes_some (lj_VPC L) (lj_ReadVPC L) zeroLibVPC 10) (sub_VPC x) \<and>
     pred_option (valid_Zone L) (sub_Zone x)"

lemma transfers_Subnet: "valid_Subnet L x \<Longrightarrow> transfers 10 (Subnet_fields L) x zeroSubnet = Some x"
  by (cases x) (simp add: Subnet_fields_def zeroSubnet_def valid_Subnet_def coding_simps)

lemma names_Subnet: "good_names (map fd_name (Subnet_fields L))"
  by (simp only: Subnet_fields_def list.map fd_name_simps) code_simp

interpretation Subnet: json_coding "emit_Subnet L" "read_Subnet L" zeroSubnet 11 "valid_Subnet L" for L
  unfolding emit_Subnet_def read_Subnet_def by (rule struct_coding [OF transfers_Subnet names_Subnet]) simp_all

lemmas [coding_simps] = Subnet.pointed Subnet.listed Subnet.pointers Subnet.arrays_pointed Subnet.inner

definition valid_SecurityGroup :: "lib_json \<Rightarrow> SecurityGroup \<Rightarrow> bool" where
  "valid_SecurityGroup L x \<longleftrightarrow>
     valid_utf8 (sg_CRN x) \<and> valid_utf8 (sg_Href x) \<and> valid_utf8 (sg_ID x) \<and> valid_utf8 (sg_Name x) \<and>
     pred_option (valid_ResourceGroup L) (sg_ResourceGroup x) \<and>
     pred_option (codes_some (lj_VPC L) (lj_ReadVPC L) zeroLibVPC 10) (sg_VPC x)"

lemma transfers_SecurityGroup: "valid_SecurityGroup L x \<Longrightarrow> transfers 10 (SecurityGroup_fields L) x zeroSecurityGroup = Some x"
  by (cases x) (simp add: SecurityGroup_fields_def zeroSecurityGroup_def valid_SecurityGroup_def coding_simps)

lemma names_SecurityGroup: "good_names (map fd_name (SecurityGroup_fields L))"
  by (simp only: SecurityGroup_fields_def list.map fd_name_simps) code_simp

interpretation SecurityGroup: json_coding "emit_SecurityGroup L" "read_SecurityGroup L" zeroSecurityGroup 11 "valid_SecurityGroup L" for L
  unfolding emit_SecurityGroup_def read_SecurityGroup_def by (rule struct_coding [OF transfers_SecurityGroup names_SecurityGroup]) simp_all

lemmas [coding_simps] = SecurityGroup.pointed SecurityGroup.listed SecurityGroup.pointers SecurityGroup.arrays_pointed SecurityGroup.inner

definition valid_ShareList :: "lib_json \<Rightarrow> ShareList \<Rightarrow> bool" where
  "valid_ShareList L x \<longleftrightarrow>
     pred_option (valid_HReference L) (shl_First x) \<and> pred_option (valid_HReference L) (shl_Next x) \<and>
     list_all (pred_option (valid_Share L)) (shl_Shares x) \<and> fits 64 (shl_Limit x) \<and>
     fits 64 (shl_TotalCount x)"

lemma transfers_ShareList: "valid_ShareList L x \<Longrightarrow> transfers 16 (ShareList_fields L) x zeroShareList = Some x"
  by (cases x) (simp add: ShareList_fields_def zeroShareList_def valid_ShareList_def coding_simps)

lemma names_ShareList: "good_names (map fd_name (ShareList_fields L))"
  by (simp only: ShareList_fields_def list.map fd_name_simps) code_simp

interpretation ShareList: json_coding "emit_ShareList L" "read_ShareList L" zeroShareList 17 "valid_ShareList L" for L
  unfolding emit_ShareList_def read_ShareList_def by (rule struct_coding [OF transfers_ShareList names_ShareList]) simp_all

lemmas [coding_simps] = ShareList.pointed ShareList.listed ShareList.pointers ShareList.arrays_pointed ShareList.inner

definition valid_ShareTargetList :: "lib_json \<Rightarrow> ShareTargetList \<Rightarrow> bool" where
  "valid_ShareTargetList L x \<longleftrightarrow>
     pred_option (valid_HReference L) (stl_First x) \<and> pred_option (valid_HReference L) (stl_Next x) \<and>
     list_all (pred_option (valid_ShareTarget L)) (stl_ShareTargets x) \<and> fits 64 (stl_Limit x) \<and>
     fits 64 (stl_TotalCount x)"

lemma transfers_ShareTargetList: "valid_ShareTargetList L x \<Longrightarrow> transfers 14 (ShareTargetList_fields L) x zeroShareTargetList = Some x"
  by (cases x) (simp add: ShareTargetList_fields_def zeroShareTargetList_def valid_ShareTargetList_def coding_simps)

lemma names_ShareTargetList: "good_names (map fd_name (ShareTargetList_fields L))"
  by (simp only: ShareTargetList_fields_def list.map fd_name_simps) code_simp

interpretation ShareTargetList: json_coding "emit_ShareTargetList L" "read_ShareTargetList L" zeroShareTargetList 15 "valid_ShareTargetList L" for L
  unfolding emit_ShareTargetList_def read_ShareTargetList_def by (rule struct_coding [OF transfers_ShareTargetList names_ShareTargetList]) simp_all

lemmas [coding_simps] = ShareTargetList.pointed ShareTargetList.listed ShareTargetList.pointers ShareTargetList.arrays_pointed ShareTargetList.inner

definition valid_SnapshotList :: "lib_json \<Rightarrow> SnapshotList \<Rightarrow> bool" where
  "valid_SnapshotList L x \<longleftrightarrow>
     pred_option (valid_HReference L) (snl_First x) \<and> pred_option (valid_HReference L) (snl_Next x) \<and>
     list_all (pred_option (valid_Snapshot L)) (snl_Snapshots x) \<and> fits 64 (snl_Limit x) \<and>
     fits 64 (snl_TotalCount x)"

lemma transfers_SnapshotList: "valid_SnapshotList L x \<Longrightarrow> transfers 12 (SnapshotList_fields L) x zeroSnapshotList = Some x"
  by (cases x) (simp add: SnapshotList_fields_def zeroSnapshotList_def valid_SnapshotList_def coding_simps)

lemma names_SnapshotList: "good_names (map fd_name (SnapshotList_fields L))"
  by (simp only: SnapshotList_fields_def list.map fd_name_simps) code_simp

interpretation SnapshotList: json_coding "emit_SnapshotList L" "read_SnapshotList L" zeroSnapshotList 13 "valid_SnapshotList L" for L
  unfolding emit_SnapshotList_def read_SnapshotList_def by (rule struct_coding [OF transfers_SnapshotList names_SnapshotList]) simp_all

lemmas [coding_simps] = SnapshotList.pointed SnapshotList.listed SnapshotList.pointers SnapshotList.arrays_pointed SnapshotList.inner

definition valid_SubnetList :: "lib_json \<Rightarrow> SubnetList \<Rightarrow> bool" where
  "valid_SubnetList L x \<longleftrightarrow>
     pred_option (valid_HReference L) (subl_First x) \<and> pred_option (valid_HReference L) (subl_Next x) \<and>
     list_all (valid_Subnet L) (subl_Subnets x) \<and> fits 64 (subl_Limit x) \<and> fits 64 (subl_TotalCount x)"

lemma transfers_SubnetList: "valid_SubnetList L x \<Longrightarrow> transfers 12 (SubnetList_fields L) x zeroSubnetList = Some x"
  by (cases x) (simp add: SubnetList_fields_def zeroSubnetList_def valid_SubnetList_def coding_simps)

lemma names_SubnetList: "good_names (map fd_name (SubnetList_fields L))"
  by (simp only: SubnetList_fields_def list.map fd_name_simps) code_simp

interpretation SubnetList: json_coding "emit_SubnetList L" "read_SubnetList L" zeroSubnetList 13 "valid_SubnetList L" for L
  unfolding emit_SubnetList_def read_SubnetList_def by (rule struct_coding [OF transfers_SubnetList names_SubnetList]) simp_all

lemmas [coding_simps] = SubnetList.pointed SubnetList.listed SubnetList.pointers SubnetList.arrays_pointed SubnetList.inner

definition valid_SecurityGroupList :: "lib_json \<Rightarrow> SecurityGroupList \<Rightarrow> bool" where
  "valid_SecurityGroupList L x \<longleftrightarrow>
     pred_option (valid_HReference L) (sgl_First x) \<and> pred_option (valid_HReference L) (sgl_Next x) \<and>
     list_all (valid_SecurityGroup L) (sgl_SecurityGroups x) \<and> fits 64 (sgl_Limit x) \<and>
     fits 64 (sgl_TotalCount x)"

lemma transfers_SecurityGroupList: "valid_SecurityGroupList L x \<Longrightarrow> transfers 12 (SecurityGroupList_fields L) x zeroSecurityGroupList = Some x"
  by (cases x) (simp add: SecurityGroupList_fields_def zeroSecurityGroupList_def valid_SecurityGroupList_def coding_simps)

lemma names_SecurityGroupList: "good_names (map fd_name (SecurityGroupList_fields L))"
  by (simp only: SecurityGroupList_fields_def list.map fd_name_simps) code_simp

interpretation SecurityGroupList: json_coding "emit_SecurityGroupList L" "read_SecurityGroupList L" zeroSecurityGroupList 13 "valid_SecurityGroupList L" for L
  unfolding emit_SecurityGroupList_def read_SecurityGroupList_def by (rule struct_coding [OF transfers_SecurityGroupList names_SecurityGroupList]) simp_all

lemmas [coding_simps] = SecurityGroupList.pointed SecurityGroupList.listed SecurityGroupList.pointers SecurityGroupList.arrays_pointed SecurityGroupList.inner

definition valid_ErrorTarget :: "lib_json \<Rightarrow> ErrorTarget \<Rightarrow> bool" where
  "valid_ErrorTarget L x \<longleftrightarrow>
     valid_utf8 (et_Name x) \<and> valid_type (et_Type x)"

lemma transfers_ErrorTarget: "valid_ErrorTarget L x \<Longrightarrow> transfers 0 (ErrorTarget_fields L) x zeroErrorTarget = Some x"
  by (cases x) (simp add: ErrorTarget_fields_def zeroErrorTarget_def valid_ErrorTarget_def coding_simps)

lemma names_ErrorTarget: "good_names (map fd_name (ErrorTarget_fields L))"
  by (simp only: ErrorTarget_fields_def list.map fd_name_simps) code_simp

interpretation ErrorTarget: json_coding "emit_ErrorTarget L" "read_ErrorTarget L" zeroErrorTarget 1 "valid_ErrorTarget L" for L
  unfolding emit_ErrorTarget_def read_ErrorTarget_def by (rule struct_coding [OF transfers_ErrorTarget names_ErrorTarget]) simp_all

lemmas [coding_simps] = ErrorTarget.pointed ErrorTarget.listed ErrorTarget.pointers ErrorTarget.arrays_pointed ErrorTarget.inner

definition valid_ErrorItem :: "lib_json \<Rightarrow> ErrorItem \<Rightarrow> bool" where
  "valid_ErrorItem L x \<longleftrightarrow>
     valid_utf8 (ei_Code x) \<and> valid_utf8 (ei_Message x) \<and> valid_utf8 (ei_MoreInfo x) \<and>
     pred_option (valid_ErrorTarget L) (ei_Target x) \<and> valid_utf8 (ei_Status x)"

lemma transfers_ErrorItem: "valid_ErrorItem L x \<Longrightarrow> transfers 1 (ErrorItem_fields L) x zeroErrorItem = Some x"
  by (cases x) (simp add: ErrorItem_fields_def zeroErrorItem_def valid_ErrorItem_def coding_simps)

lemma names_ErrorItem: "good_names (map fd_name (ErrorItem_fields L))"
  by (simp only: ErrorItem_fields_def list.map fd_name_simps) code_simp

interpretation ErrorItem: json_coding "emit_ErrorItem L" "read_ErrorItem L" zeroErrorItem 2 "valid_ErrorItem L" for L
  unfolding emit_ErrorItem_def read_ErrorItem_def by (rule struct_coding [OF transfers_ErrorItem names_ErrorItem]) simp_all

lemmas [coding_simps] = ErrorItem.pointed ErrorItem.listed ErrorItem.pointers ErrorItem.arrays_pointed ErrorItem.inner

definition valid_Error :: "lib_json \<Rightarrow> Error \<Rightarrow> bool" where
  "valid_Error L x \<longleftrightarrow>
     list_all (valid_ErrorItem L) (err_Errors x) \<and> valid_utf8 (err_Trace x)"

lemma transfers_Error: "valid_Error L x \<Longrightarrow> transfers 3 (Error_fields L) x zeroError = Some x"
  by (cases x) (simp add: Error_fields_def zeroError_def valid_Error_def coding_simps)

lemma names_Error: "good_names (map fd_name (Error_fields L))"
  by (simp only: Error_fields_def list.map fd_name_simps) code_simp

interpretation Error: json_coding "emit_Error L" "read_Error L" zeroError 4 "valid_Error L" for L
  unfolding emit_Error_def read_Error_def by (rule struct_coding [OF transfers_Error names_Error]) simp_all

lemmas [coding_simps] = Error.pointed Error.listed Error.pointers Error.arrays_pointed Error.inner

definition valid_IksError :: "lib_json \<Rightarrow> IksError \<Rightarrow> bool" where
  "valid_IksError L x \<longleftrightarrow>
     valid_utf8 (iks_ReqID x) \<and> valid_utf8 (iks_Code x) \<and> valid_utf8 (iks_Err x) \<and>
     valid_type (iks_Type x) \<and> valid_utf8 (iks_RecoveryCLI x) \<and> valid_utf8 (iks_RecoveryUI x) \<and>
     fits 64 (iks_RC x)"

lemma transfers_IksError: "valid_IksError L x \<Longrightarrow> transfers 0 (IksError_fields L) x zeroIksError = Some x"
  by (cases x) (simp add: IksError_fields_def zeroIksError_def valid_IksError_def coding_simps)

lemma names_IksError: "good_names (map fd_name (IksError_fields L))"
  by (simp only: IksError_fields_def list.map fd_name_simps) code_simp

interpretation IksError: json_coding "emit_IksError L" "read_IksError L" zeroIksError 1 "valid_IksError L" for L
  unfolding emit_IksError_def read_IksError_def by (rule struct_coding [OF transfers_IksError names_IksError]) simp_all

lemmas [coding_simps] = IksError.pointed IksError.listed IksError.pointers IksError.arrays_pointed IksError.inner

end
