(* ===== verification/ApiDocuments.thy ===== *)
theory ApiDocuments
  imports JsonModelLaws
begin

text \<open>
  The documents of the VPC API as the API gives them: which members an object has by name, of which
  kind their values are, and what a struct has to hold after reading one.  The descriptions do
  not use the tables of JsonModels; here it is shown that the tables read every such document, in any
  order of its members and with any others besides, as what it says.
\<close>

section \<open>Members\<close>

text \<open>The value of the member \<open>k\<close>, if there is one; \<open>None\<close> if the document is not clear about it: several members have
  the name up to case, or one that is written otherwise.\<close>

definition the_member :: "(string \<times> json) list \<Rightarrow> string \<Rightarrow> json option option" where
  "the_member ms k =
     (case filter (\<lambda>m. fold_prefix k (fst m) = Some []) ms of
        [] \<Rightarrow> Some None
      | [(k', j)] \<Rightarrow> if k' = k then Some (Some j) else None
      | _ \<Rightarrow> None)"

text \<open>A member of a document: its name, the kind of its value, and what \<open>x\<close> holds if it is said or not.\<close>

record 'a entry =
  en_name :: string
  en_kind :: "json \<Rightarrow> bool"
  en_says :: "json option \<Rightarrow> 'a \<Rightarrow> bool"

definition entry :: "string \<Rightarrow> ('a \<Rightarrow> 'b) \<Rightarrow> (json \<Rightarrow> bool) \<Rightarrow> (json option \<Rightarrow> 'b \<Rightarrow> bool) \<Rightarrow> 'a entry" where
  "entry k get kd sy = \<lparr>en_name = k, en_kind = kd, en_says = (\<lambda>m x. sy m (get x))\<rparr>"

definition well_formed :: "'a entry list \<Rightarrow> (string \<times> json) list \<Rightarrow> bool" where
  "well_formed es ms \<longleftrightarrow>
     list_all (\<lambda>e. case the_member ms (en_name e) of None \<Rightarrow> False | Some m \<Rightarrow> pred_option (en_kind e) m) es"

lemma well_formed_Nil [simp]: "well_formed [] ms"
  by (simp add: well_formed_def)

lemma well_formed_Cons [simp]:
  "well_formed (e # es) ms \<longleftrightarrow>
     (case the_member ms (en_name e) of None \<Rightarrow> False | Some m \<Rightarrow> pred_option (en_kind e) m) \<and> well_formed es ms"
  by (simp add: well_formed_def)

definition describes :: "'a entry list \<Rightarrow> (string \<times> json) list \<Rightarrow> 'a \<Rightarrow> bool" where
  "describes es ms x \<longleftrightarrow>
     list_all (\<lambda>e. case the_member ms (en_name e) of None \<Rightarrow> False | Some m \<Rightarrow> en_says e m x) es"

section \<open>Kinds of values\<close>

definition is_text :: "json \<Rightarrow> bool" where
  "is_text j \<longleftrightarrow> (case j of JNull \<Rightarrow> True | JStr s \<Rightarrow> True | _ \<Rightarrow> False)"

definition says_text :: "json option \<Rightarrow> string \<Rightarrow> bool" where
  "says_text m s \<longleftrightarrow> (case m of Some (JStr t) \<Rightarrow> s = t | _ \<Rightarrow> s = [])"

definition is_number :: "nat \<Rightarrow> json \<Rightarrow> bool" where
  "is_number w j \<longleftrightarrow> (case j of JNull \<Rightarrow> True | JNum i \<Rightarrow> - (2 ^ (w - 1)) \<le> i \<and> i < 2 ^ (w - 1) | _ \<Rightarrow> False)"

definition says_number :: "json option \<Rightarrow> int \<Rightarrow> bool" where
  "says_number m n \<longleftrightarrow> (case m of Some (JNum i) \<Rightarrow> n = i | _ \<Rightarrow> n = 0)"

definition is_object :: "'a entry list \<Rightarrow> json \<Rightarrow> bool" where
  "is_object es j \<longleftrightarrow> (case j of JNull \<Rightarrow> True | JObj ms \<Rightarrow> well_formed es ms | _ \<Rightarrow> False)"

definition says_struct :: "'a entry list \<Rightarrow> json option \<Rightarrow> 'a \<Rightarrow> bool" where
  "says_struct es m x \<longleftrightarrow> (case m of Some (JObj ms) \<Rightarrow> describes es ms x | _ \<Rightarrow> describes es [] x)"

definition is_array :: "(json \<Rightarrow> bool) \<Rightarrow> json \<Rightarrow> bool" where
  "is_array kd j \<longleftrightarrow> (case j of JNull \<Rightarrow> True | JArr js \<Rightarrow> list_all kd js | _ \<Rightarrow> False)"

definition says_array :: "(json option \<Rightarrow> 'a \<Rightarrow> bool) \<Rightarrow> json option \<Rightarrow> 'a list \<Rightarrow> bool" where
  "says_array sy m xs \<longleftrightarrow> (case m of Some (JArr js) \<Rightarrow> list_all2 (\<lambda>j. sy (Some j)) js xs | _ \<Rightarrow> xs = [])"

definition nullable :: "(json \<Rightarrow> bool) \<Rightarrow> json \<Rightarrow> bool" where
  "nullable kd j \<longleftrightarrow> j = JNull \<or> kd j"

definition says_pointer :: "(json option \<Rightarrow> 'a \<Rightarrow> bool) \<Rightarrow> json option \<Rightarrow> 'a option \<Rightarrow> bool" where
  "says_pointer sy m p \<longleftrightarrow>
     (case m of
        None \<Rightarrow> p = None
      | Some j \<Rightarrow> if j = JNull then p = None else (case p of None \<Rightarrow> False | Some x \<Rightarrow> sy (Some j) x))"

text \<open>A value of the interface library, or a time: what the library reads without an error.\<close>

definition is_library :: "'a reader \<Rightarrow> json \<Rightarrow> bool" where
  "is_library rd j \<longleftrightarrow> (\<forall>x. snd (rd j x) = None)"

definition says_library :: "'a reader \<Rightarrow> 'a \<Rightarrow> json option \<Rightarrow> 'a \<Rightarrow> bool" where
  "says_library rd z m x \<longleftrightarrow> (case m of None \<Rightarrow> x = z | Some j \<Rightarrow> x = fst (rd j z))"

definition text_entry :: "string \<Rightarrow> ('a \<Rightarrow> string) \<Rightarrow> 'a entry" where
  "text_entry k get = entry k get is_text says_text"

definition number_entry :: "nat \<Rightarrow> string \<Rightarrow> ('a \<Rightarrow> int) \<Rightarrow> 'a entry" where
  "number_entry w k get = entry k get (is_number w) says_number"

definition object_entry :: "string \<Rightarrow> 'b entry list \<Rightarrow> ('a \<Rightarrow> 'b option) \<Rightarrow> 'a entry" where
  "object_entry k es get = entry k get (nullable (is_object es)) (says_pointer (says_struct es))"

definition texts_entry :: "string \<Rightarrow> ('a \<Rightarrow> string list) \<Rightarrow> 'a entry" where
  "texts_entry k get = entry k get (is_array is_text) (says_array says_text)"

definition objects_entry :: "string \<Rightarrow> 'b entry list \<Rightarrow> ('a \<Rightarrow> 'b option list) \<Rightarrow> 'a entry" where
  "objects_entry k es get =
     entry k get (is_array (nullable (is_object es))) (says_array (says_pointer (says_struct es)))"

definition structs_entry :: "string \<Rightarrow> 'b entry list \<Rightarrow> ('a \<Rightarrow> 'b list option) \<Rightarrow> 'a entry" where
  "structs_entry k es get = entry k get (nullable (is_array (is_object es))) (says_pointer (says_array (says_struct es)))"

definition library_entry :: "string \<Rightarrow> 'b reader \<Rightarrow> 'b \<Rightarrow> ('a \<Rightarrow> 'b option) \<Rightarrow> 'a entry" where
  "library_entry k rd z get = entry k get (nullable (is_library rd)) (says_pointer (says_library rd z))"

definition library_list_entry :: "string \<Rightarrow> 'b reader \<Rightarrow> 'b \<Rightarrow> ('a \<Rightarrow> 'b list option) \<Rightarrow> 'a entry" where
  "library_list_entry k rd z get =
     entry k get (nullable (is_array (is_library rd))) (says_pointer (says_array (says_library rd z)))"

lemma en_name_entry [simp]: "en_name (entry k get kd sy) = k"
  by (simp add: entry_def)

section \<open>Reading\<close>

text \<open>The contract of a reader: a value of the kind is read without a fault, whatever was there, and into an unset
  place as what it says.\<close>

definition value_ok :: "'a reader \<Rightarrow> (json \<Rightarrow> bool) \<Rightarrow> (json option \<Rightarrow> 'a \<Rightarrow> bool) \<Rightarrow> bool" where
  "value_ok rd kd sy \<longleftrightarrow>
     (\<forall>j x. kd j \<longrightarrow> snd (rd j x) = None \<and> (sy None x \<longrightarrow> sy (Some j) (fst (rd j x))))"

named_theorems reading

lemma text_ok [reading]: "value_ok (read_str te) is_text says_text"
  by (auto simp: value_ok_def read_str_def is_text_def says_text_def split: json.splits)

lemma number_ok [reading]: "value_ok (read_int w te) (is_number w) says_number"
  by (auto simp: value_ok_def read_int_def is_number_def says_number_def split: json.splits)

lemma pointer_ok [reading]:
  assumes "value_ok rd kd sy" and "sy None z"
  shows "value_ok (read_ptr z rd) (nullable kd) (says_pointer sy)"
  using assms by (auto simp: value_ok_def read_ptr_def nullable_def says_pointer_def split: option.splits)

lemma read_into_ok:
  assumes "value_ok rd kd sy" and "list_all kd js"
  shows "snd (read_into z rd js xs) = None"
  using assms(2)
proof (induction js arbitrary: xs)
  case (Cons j js)
  obtain y f where r: "rd j (case xs of [] \<Rightarrow> z | x # _ \<Rightarrow> x) = (y, f)" by (cases "rd j (case xs of [] \<Rightarrow> z | x # _ \<Rightarrow> x)")
  from assms(1) Cons.prems have "snd (rd j (case xs of [] \<Rightarrow> z | x # _ \<Rightarrow> x)) = None" by (simp add: value_ok_def)
  with r have "f = None" by simp
  with r Cons show ?case by (simp add: stopped_def then_fault_def case_prod_unfold)
qed simp

lemma read_into_says:
  assumes "value_ok rd kd sy" and "sy None z" and "list_all kd js"
  shows "list_all2 (\<lambda>j. sy (Some j)) js (fst (read_into z rd js []))"
  using assms(3)
proof (induction js)
  case (Cons j js)
  obtain y f where r: "rd j z = (y, f)" by (cases "rd j z")
  from assms(1,2) Cons.prems have "snd (rd j z) = None \<and> sy (Some j) (fst (rd j z))" by (simp add: value_ok_def)
  with r have "f = None" "sy (Some j) y" by simp_all
  with r Cons show ?case by (simp add: stopped_def case_prod_unfold)
qed simp

lemma slice_ok [reading]:
  assumes "value_ok rd kd sy" and "sy None z"
  shows "value_ok (read_slice te z rd) (is_array kd) (says_array sy)"
  using read_into_ok [OF assms(1)] read_into_says [OF assms]
  by (auto simp: value_ok_def read_slice_def is_array_def says_array_def split: json.splits)

lemma library_ok [reading]: "value_ok rd (is_library rd) (says_library rd z)"
  by (auto simp: value_ok_def is_library_def says_library_def)

lemma unset [reading]:
  "says_text None []" "says_number None 0" "says_pointer sy None None" "says_array sy None []" "says_library rd z None z"
  by (simp_all add: says_text_def says_number_def says_pointer_def says_array_def says_library_def)

section \<open>Structs\<close>

text \<open>A field reads an entry; a field leaves an entry alone.\<close>

definition reads_entry :: "'a struct_field \<Rightarrow> 'a entry \<Rightarrow> bool" where
  "reads_entry f e \<longleftrightarrow> fd_name f = en_name e \<and> value_ok (fd_read f) (en_kind e) (en_says e)"

definition leaves :: "'a struct_field \<Rightarrow> 'a entry \<Rightarrow> bool" where
  "leaves f e \<longleftrightarrow> (\<forall>m j x. en_says e m x \<longrightarrow> en_says e m (fst (fd_read f j x)))"

lemma field_reads [reading]:
  assumes "value_ok rd kd sy" and "\<And>h x. get (upd h x) = h (get x)"
  shows "reads_entry (field k get upd em rd) (entry k get kd sy)"
  using assms by (auto simp: reads_entry_def value_ok_def field_def entry_def split: prod.split) (metis fst_conv snd_conv)+

lemma field_leaves [reading]:
  "(\<And>h x. get (upd h x) = get x) \<Longrightarrow> leaves (field k get' upd em rd) (entry k' get kd sy)"
  by (simp add: leaves_def field_def entry_def split: prod.split)

lemma field_ofD: "field_of fs k = Some f \<Longrightarrow> f \<in> set fs \<and> fold_prefix (fd_name f) k = Some []"
  by (induction fs) (auto split: if_splits)

lemma the_member_Cons:
  "the_member ((k', j) # ms) k = Some m \<Longrightarrow>
     if fold_prefix k k' = Some [] then k' = k \<and> m = Some j \<and> the_member ms k = Some None else the_member ms k = Some m"
  by (auto simp: the_member_def split: list.splits if_splits)

lemma the_member_in:
  assumes "(k', j) \<in> set ms" and "fold_prefix k k' = Some []" and "the_member ms k = Some m"
  shows "m = Some j"
  using assms
proof (induction ms)
  case (Cons p ms)
  show ?case
  proof (cases "fold_prefix k (fst p) = Some []")
    case True
    with Cons.prems(3) the_member_Cons [of "fst p" "snd p" ms k m] have r: "m = Some (snd p)" "the_member ms k = Some None" by simp_all
    from r(2) have "filter (\<lambda>m. fold_prefix k (fst m) = Some []) ms = []"
      by (auto simp: the_member_def split: list.splits if_splits)
    with Cons.prems(1,2) have "p = (k', j)" by (auto simp: filter_empty_conv)
    with r show ?thesis by simp
  next
    case False
    with Cons the_member_Cons [of "fst p" "snd p" ms k m] show ?thesis by auto
  qed
qed simp

text \<open>One member after the other: an entry that the rest says nothing of stays as it is.\<close>

lemma read_members_entry:
  assumes "read_members fs ms x = (y, None)" and "the_member ms (en_name e) = Some m" and "pred_option (en_kind e) m"
    and "en_says e None x" and f: "field_of fs (en_name e) = Some f" "reads_entry f e"
    and others: "\<And>g. g \<in> set fs \<Longrightarrow> fd_name g \<noteq> en_name e \<Longrightarrow> leaves g e"
  shows "en_says e m y"
proof -
  have rest: "en_says e n y" if "read_members fs ms x = (y, None)" "the_member ms (en_name e) = Some None" "en_says e n x" for ms x n
    using that
  proof (induction ms arbitrary: x)
    case (Cons p ms)
    obtain k' j where p: "p = (k', j)" by (cases p)
    with Cons.prems(2) the_member_Cons [of k' j ms "en_name e" None] have no: "fold_prefix (en_name e) k' \<noteq> Some []"
      and tl: "the_member ms (en_name e) = Some None" by (simp_all split: if_splits)
    show ?case
    proof (cases "field_of fs k'")
      case None
      with Cons.prems p tl Cons.IH show ?thesis by simp
    next
      case (Some g)
      with no have "fd_name g \<noteq> en_name e" using field_ofD [OF Some] by auto
      with others field_ofD [OF Some] have l: "leaves g e" by blast
      obtain u h where u: "fd_read g j x = (u, h)" by (cases "fd_read g j x")
      with Cons.prems(1) p Some have "read_members fs ms u = (y, None)"
        by (auto simp: then_fault_def stopped_def split: prod.splits if_splits option.splits)
      moreover from l Cons.prems(3) u have "en_says e n u" unfolding leaves_def by (metis fst_conv)
      ultimately show ?thesis by (rule Cons.IH [OF _ tl])
    qed
  qed simp
  show ?thesis
    using assms(1-4)
  proof (induction ms arbitrary: x)
    case (Cons p ms)
    obtain k' j where p: "p = (k', j)" by (cases p)
    show ?case
    proof (cases "fold_prefix (en_name e) k' = Some []")
      case True
      with Cons.prems(2) p the_member_Cons [of k' j ms "en_name e" m]
      have k: "k' = en_name e" "m = Some j" "the_member ms (en_name e) = Some None" by simp_all
      obtain u h where u: "fd_read f j x = (u, h)" by (cases "fd_read f j x")
      with Cons.prems(3,4) k(2) f(2) have "h = None" and says: "en_says e (Some j) u"
        unfolding reads_entry_def value_ok_def by (metis option.pred_inject(2) snd_conv, metis option.pred_inject(2) fst_conv)
      with Cons.prems(1) p k(1) f(1) u have "read_members fs ms u = (y, None)"
        by (auto simp: then_fault_def stopped_def split: prod.splits if_splits)
      from rest [OF this k(3) says] k(2) show ?thesis by simp
    next
      case False
      with Cons.prems(2) p the_member_Cons [of k' j ms "en_name e" m] have tl: "the_member ms (en_name e) = Some m" by simp
      show ?thesis
      proof (cases "field_of fs k'")
        case None
        with Cons.prems p tl Cons.IH show ?thesis by simp
      next
        case (Some g)
        with False have "fd_name g \<noteq> en_name e" using field_ofD [OF Some] by auto
        with others field_ofD [OF Some] have l: "leaves g e" by blast
        obtain u h where u: "fd_read g j x = (u, h)" by (cases "fd_read g j x")
        with Cons.prems(1) p Some have "read_members fs ms u = (y, None)"
          by (auto simp: then_fault_def stopped_def split: prod.splits if_splits option.splits)
        moreover from l Cons.prems(4) u have "en_says e None u" unfolding leaves_def by (metis fst_conv)
        ultimately show ?thesis using Cons.IH tl Cons.prems(3) by blast
      qed
    qed
  qed (simp add: the_member_def)
qed

lemma read_members_accepted:
  assumes "\<forall>(k, j) \<in> set ms. \<forall>f u. field_of fs k = Some f \<longrightarrow> snd (fd_read f j u) = None"
  shows "snd (read_members fs ms x) = None"
  using assms
proof (induction ms arbitrary: x)
  case (Cons p ms)
  obtain k j where p: "p = (k, j)" by (cases p)
  show ?case
  proof (cases "field_of fs k")
    case (Some f)
    obtain u h where u: "fd_read f j x = (u, h)" by (cases "fd_read f j x")
    from Cons.prems p Some have "snd (fd_read f j x) = None" by simp
    with u have "h = None" by simp
    with u p Some Cons show ?thesis by (simp add: stopped_def then_fault_def case_prod_unfold)
  qed (use Cons p in simp)
qed simp

text \<open>A struct reads its document, if its table has a field for each entry and no two have a name up to case.\<close>

theorem struct_ok:
  assumes reads: "list_all2 reads_entry fs es" and names: "good_names (map fd_name fs)"
    and leave: "list_all (\<lambda>e. list_all (\<lambda>g. fd_name g = en_name e \<or> leaves g e) fs) es"
  shows "value_ok (read_struct te fs) (is_object es) (says_struct es)"
proof -
  have dn: "distinct_names (map fd_name fs)" using names by (simp add: good_names_def)
  have entry_of: "\<exists>e \<in> set es. reads_entry f e" if "f \<in> set fs" for f
    using reads that unfolding list_all2_conv_all_nth by (metis in_set_conv_nth)
  have field_for: "\<exists>f. field_of fs (en_name e) = Some f \<and> reads_entry f e" if "e \<in> set es" for e
  proof -
    from reads that obtain f where "f \<in> set fs" "reads_entry f e"
      unfolding list_all2_conv_all_nth by (metis in_set_conv_nth)
    then show ?thesis using field_of_named [OF dn] by (metis reads_entry_def)
  qed
  have accepted: "snd (read_members fs ms x) = None" if wf: "well_formed es ms" for ms x
  proof (rule read_members_accepted, clarify)
    fix k j f u assume m: "(k, j) \<in> set ms" and f: "field_of fs k = Some f"
    obtain e where e: "e \<in> set es" "reads_entry f e" using entry_of field_ofD [OF f] by blast
    then have n: "en_name e = fd_name f" by (simp add: reads_entry_def)
    from wf e(1) obtain v where v: "the_member ms (en_name e) = Some v" "pred_option (en_kind e) v"
      by (auto simp: well_formed_def list_all_iff split: option.splits)
    have "v = Some j" by (rule the_member_in [OF m _ v(1)]) (use field_ofD [OF f] n in simp)
    with v(2) e(2) show "snd (fd_read f j u) = None" by (simp add: reads_entry_def value_ok_def)
  qed
  have said: "describes es ms (fst (read_members fs ms x))" if wf: "well_formed es ms" and x: "describes es [] x" for ms x
    unfolding describes_def list_all_iff
  proof
    fix e assume e: "e \<in> set es"
    from wf e obtain m where m: "the_member ms (en_name e) = Some m" "pred_option (en_kind e) m"
      by (auto simp: well_formed_def list_all_iff split: option.splits)
    from x e have un: "en_says e None x" by (auto simp: describes_def list_all_iff the_member_def)
    obtain f where f: "field_of fs (en_name e) = Some f" "reads_entry f e" using field_for [OF e] by blast
    have "read_members fs ms x = (fst (read_members fs ms x), None)" using accepted [OF wf, of x] by (metis prod.collapse)
    from read_members_entry [OF this m un f] leave e m(1)
    show "case the_member ms (en_name e) of None \<Rightarrow> False | Some m \<Rightarrow> en_says e m (fst (read_members fs ms x))"
      by (auto simp: list_all_iff)
  qed
  show ?thesis
    using accepted said by (auto simp: value_ok_def is_object_def says_struct_def read_struct_def split: json.splits)
qed

section \<open>The documents of the API\<close>

definition link_doc :: "HReference entry list" where
  "link_doc =
     [text_entry ''href'' href_Href]"

definition encryption_key_doc :: "EncryptionKey entry list" where
  "encryption_key_doc =
     [text_entry ''crn'' ek_CRN]"

definition resource_group_doc :: "ResourceGroup entry list" where
  "resource_group_doc =
     [text_entry ''href'' rg_Href,
      text_entry ''id'' rg_ID,
      text_entry ''name'' rg_Name]"

definition owner_doc :: "InitialOwner entry list" where
  "owner_doc =
     [number_entry 64 ''gid'' io_GroupID,
      number_entry 64 ''uid'' io_UserID]"

definition profile_doc :: "Profile entry list" where
  "profile_doc =
     [text_entry ''crn'' pr_CRN,
      text_entry ''href'' pr_Href,
      text_entry ''name'' pr_Name]"

definition zone_doc :: "Zone entry list" where
  "zone_doc =
     [text_entry ''name'' zn_Name,
      text_entry ''href'' zn_Href]"

definition deleted_doc :: "Deleted entry list" where
  "deleted_doc =
     [text_entry ''more_info'' del_MoreInfo]"

definition remote_doc :: "Remote entry list" where
  "remote_doc =
     [text_entry ''id'' rem_ID,
      text_entry ''href'' rem_Href]"

definition plan_doc :: "BackupPolicyPlan entry list" where
  "plan_doc =
     [text_entry ''id'' bpp_ID,
      text_entry ''href'' bpp_Href,
      text_entry ''name'' bpp_Name,
      object_entry ''deleted'' deleted_doc bpp_Deleted,
      object_entry ''remote'' remote_doc bpp_Remote,
      text_entry ''resource_type'' bpp_ResourceType]"

definition snapshot_doc :: "lib_json \<Rightarrow> Snapshot entry list" where
  "snapshot_doc L =
     [text_entry ''href'' sn_Href,
      text_entry ''id'' sn_ID,
      text_entry ''name'' sn_Name,
      text_entry ''crn'' sn_CRN,
      text_entry ''fingerprint'' sn_FingerPrint,
      library_entry ''created_at'' (read_Time L) ZeroTime sn_CreatedAt,
      library_entry ''captured_at'' (read_Time L) ZeroTime sn_CapturedAt,
      number_entry 64 ''minimum_size'' sn_MinimumSize,
      object_entry ''resource_group'' resource_group_doc sn_ResourceGroup,
      text_entry ''status'' sn_Status,
      text_entry ''resource_type'' sn_ResourceType,
      text_entry ''lifecycle_state'' sn_LifecycleState,
      texts_entry ''user_tags'' sn_UserTags,
      object_entry ''backup_policy_plan'' plan_doc sn_BackupPolicyPlan,
      object_entry ''zone'' zone_doc sn_Zone]"

definition subnet_ref_doc :: "SubnetRef entry list" where
  "subnet_ref_doc =
     [text_entry ''crn'' sr_CRN,
      text_entry ''id'' sr_ID,
      text_entry ''href'' sr_Href]"

definition interface_doc :: "lib_json \<Rightarrow> VirtualNetworkInterface entry list" where
  "interface_doc L =
     [text_entry ''name'' vni_Name,
      object_entry ''subnet'' subnet_ref_doc vni_Subnet,
      library_list_entry ''security_groups'' (lj_ReadSecurityGroup L) zeroLibSecurityGroup vni_SecurityGroups,
      library_entry ''primary_ip'' (lj_ReadPrimaryIP L) zeroPrimaryIP vni_PrimaryIP,
      library_entry ''resource_group'' (lj_ReadResourceGroup L) zeroLibResourceGroup vni_ResourceGroup]"

definition target_doc :: "lib_json \<Rightarrow> ShareTarget entry list" where
  "target_doc L =
     [text_entry ''id'' st_ID,
      text_entry ''href'' st_Href,
      text_entry ''mount_path'' st_MountPath,
      text_entry ''name'' st_Name,
      text_entry ''lifecycle_state'' st_Status,
      library_entry ''vpc'' (lj_ReadVPC L) zeroLibVPC st_VPC,
      text_entry ''transit_encryption'' st_TransitEncryption,
      text_entry ''access_protocol'' st_AccessProtocol,
      object_entry ''virtual_network_interface'' (interface_doc L) st_VirtualNetworkInterface,
      object_entry ''zone'' zone_doc st_Zone,
      library_entry ''created_at'' (read_Time L) ZeroTime st_CreatedAt]"

definition share_doc :: "lib_json \<Rightarrow> Share entry list" where
  "share_doc L =
     [text_entry ''crn'' sh_CRN,
      text_entry ''href'' sh_Href,
      text_entry ''id'' sh_ID,
      text_entry ''name'' sh_Name,
      number_entry 64 ''size'' sh_Size,
      number_entry 64 ''iops'' sh_Iops,
      object_entry ''encryption_key'' encryption_key_doc sh_EncryptionKey,
      number_entry 32 ''bandwidth'' sh_Bandwidth,
      object_entry ''resource_group'' resource_group_doc sh_ResourceGroup,
      object_entry ''initial_owner'' owner_doc sh_InitialOwner,
      object_entry ''profile'' profile_doc sh_Profile,
      object_entry ''source_snapshot'' (snapshot_doc L) sh_SourceSnapshot,
      library_entry ''created_at'' (read_Time L) ZeroTime sh_CreatedAt,
      texts_entry ''user_tags'' sh_UserTags,
      text_entry ''lifecycle_state'' sh_Status,
      structs_entry ''mount_targets'' (target_doc L) sh_ShareTargets,
      object_entry ''zone'' zone_doc sh_Zone,
      text_entry ''access_control_mode'' sh_AccessControlMode]"

definition share_page_doc :: "lib_json \<Rightarrow> ShareList entry list" where
  "share_page_doc L =
     [object_entry ''first'' link_doc shl_First,
      object_entry ''next'' link_doc shl_Next,
      objects_entry ''shares'' (share_doc L) shl_Shares,
      number_entry 64 ''limit'' shl_Limit,
      number_entry 64 ''total_count'' shl_TotalCount]"

section \<open>The tables read the documents\<close>

lemmas entry_defs = text_entry_def number_entry_def object_entry_def texts_entry_def objects_entry_def structs_entry_def
  library_entry_def library_list_entry_def
lemmas field_defs = str_field_def int_field_def ptr_field_def slice_field_def list_field_def

lemma link_ok [reading]:
  "value_ok (read_HReference L) (is_object link_doc) (says_struct link_doc)" "says_struct link_doc None zeroHReference"
proof -
  show "value_ok (read_HReference L) (is_object link_doc) (says_struct link_doc)"
    unfolding read_HReference_def
    by (rule struct_ok [OF _ names_HReference])
      (simp_all add: HReference_fields_def link_doc_def entry_defs field_defs reading)
  show "says_struct link_doc None zeroHReference"
    by (simp add: says_struct_def describes_def the_member_def link_doc_def entry_defs entry_def zeroHReference_def reading)
qed

lemma encryption_key_ok [reading]:
  "value_ok (read_EncryptionKey L) (is_object encryption_key_doc) (says_struct encryption_key_doc)" "says_struct encryption_key_doc None zeroEncryptionKey"
proof -
  show "value_ok (read_EncryptionKey L) (is_object encryption_key_doc) (says_struct encryption_key_doc)"
    unfolding read_EncryptionKey_def
    by (rule struct_ok [OF _ names_EncryptionKey])
      (simp_all add: EncryptionKey_fields_def encryption_key_doc_def entry_defs field_defs reading)
  show "says_struct encryption_key_doc None zeroEncryptionKey"
    by (simp add: says_struct_def describes_def the_member_def encryption_key_doc_def entry_defs entry_def zeroEncryptionKey_def reading)
qed

lemma resource_group_ok [reading]:
  "value_ok (read_ResourceGroup L) (is_object resource_group_doc) (says_struct resource_group_doc)" "says_struct resource_group_doc None zeroResourceGroup"
proof -
  show "value_ok (read_ResourceGroup L) (is_object resource_group_doc) (says_struct resource_group_doc)"
    unfolding read_ResourceGroup_def
    by (rule struct_ok [OF _ names_ResourceGroup])
      (simp_all add: ResourceGroup_fields_def resource_group_doc_def entry_defs field_defs reading)
  show "says_struct resource_group_doc None zeroResourceGroup"
    by (simp add: says_struct_def describes_def the_member_def resource_group_doc_def entry_defs entry_def zeroResourceGroup_def reading)
qed

lemma owner_ok [reading]:
  "value_ok (read_InitialOwner L) (is_object owner_doc) (says_struct owner_doc)" "says_struct owner_doc None zeroInitialOwner"
proof -
  show "value_ok (read_InitialOwner L) (is_object owner_doc) (says_struct owner_doc)"
    unfolding read_InitialOwner_def
    by (rule struct_ok [OF _ names_InitialOwner])
      (simp_all add: InitialOwner_fields_def owner_doc_def entry_defs field_defs reading)
  show "says_struct owner_doc None zeroInitialOwner"
    by (simp add: says_struct_def describes_def the_member_def owner_doc_def entry_defs entry_def zeroInitialOwner_def reading)
qed

lemma profile_ok [reading]:
  "value_ok (read_Profile L) (is_object profile_doc) (says_struct profile_doc)" "says_struct profile_doc None zeroProfile"
proof -
  show "value_ok (read_Profile L) (is_object profile_doc) (says_struct profile_doc)"
    unfolding read_Profile_def
    by (rule struct_ok [OF _ names_Profile])
      (simp_all add: Profile_fields_def profile_doc_def entry_defs field_defs reading)
  show "says_struct profile_doc None zeroProfile"
    by (simp add: says_struct_def describes_def the_member_def profile_doc_def entry_defs entry_def zeroProfile_def reading)
qed

lemma zone_ok [reading]:
  "value_ok (read_Zone L) (is_object zone_doc) (says_struct zone_doc)" "says_struct zone_doc None zeroZone"
proof -
  show "value_ok (read_Zone L) (is_object zone_doc) (says_struct zone_doc)"
    unfolding read_Zone_def
    by (rule struct_ok [OF _ names_Zone])
      (simp_all add: Zone_fields_def zone_doc_def entry_defs field_defs reading)
  show "says_struct zone_doc None zeroZone"
    by (simp add: says_struct_def describes_def the_member_def zone_doc_def entry_defs entry_def zeroZone_def reading)
qed

lemma deleted_ok [reading]:
  "value_ok (read_Deleted L) (is_object deleted_doc) (says_struct deleted_doc)" "says_struct deleted_doc None zeroDeleted"
proof -
  show "value_ok (read_Deleted L) (is_object deleted_doc) (says_struct deleted_doc)"
    unfolding read_Deleted_def
    by (rule struct_ok [OF _ names_Deleted])
      (simp_all add: Deleted_fields_def deleted_doc_def entry_defs field_defs reading)
  show "says_struct deleted_doc None zeroDeleted"
    by (simp add: says_struct_def describes_def the_member_def deleted_doc_def entry_defs entry_def zeroDeleted_def reading)
qed

lemma remote_ok [reading]:
  "value_ok (read_Remote L) (is_object remote_doc) (says_struct remote_doc)" "says_struct remote_doc None zeroRemote"
proof -
  show "value_ok (read_Remote L) (is_object remote_doc) (says_struct remote_doc)"
    unfolding read_Remote_def
    by (rule struct_ok [OF _ names_Remote])
      (simp_all add: Remote_fields_def remote_doc_def entry_defs field_defs reading)
  show "says_struct remote_doc None zeroRemote"
    by (simp add: says_struct_def describes_def the_member_def remote_doc_def entry_defs entry_def zeroRemote_def reading)
qed

lemma plan_ok [reading]:
  "value_ok (read_BackupPolicyPlan L) (is_object plan_doc) (says_struct plan_doc)" "says_struct plan_doc None zeroBackupPolicyPlan"
proof -
  show "value_ok (read_BackupPolicyPlan L) (is_object plan_doc) (says_struct plan_doc)"
    unfolding read_BackupPolicyPlan_def
    by (rule struct_ok [OF _ names_BackupPolicyPlan])
      (simp_all add: BackupPolicyPlan_fields_def plan_doc_def entry_defs field_defs reading)
  show "says_struct plan_doc None zeroBackupPolicyPlan"
    by (simp add: says_struct_def describes_def the_member_def plan_doc_def entry_defs entry_def zeroBackupPolicyPlan_def reading)
qed

lemma snapshot_ok [reading]:
  "value_ok (read_Snapshot L) (is_object (snapshot_doc L)) (says_struct (snapshot_doc L))" "says_struct (snapshot_doc L) None zeroSnapshot"
proof -
  show "value_ok (read_Snapshot L) (is_object (snapshot_doc L)) (says_struct (snapshot_doc L))"
    unfolding read_Snapshot_def
    by (rule struct_ok [OF _ names_Snapshot])
      (simp_all add: Snapshot_fields_def snapshot_doc_def entry_defs field_defs reading)
  show "says_struct (snapshot_doc L) None zeroSnapshot"
    by (simp add: says_struct_def describes_def the_member_def snapshot_doc_def entry_defs entry_def zeroSnapshot_def reading)
qed

lemma subnet_ref_ok [reading]:
  "value_ok (read_SubnetRef L) (is_object subnet_ref_doc) (says_struct subnet_ref_doc)" "says_struct subnet_ref_doc None zeroSubnetRef"
proof -
  show "value_ok (read_SubnetRef L) (is_object subnet_ref_doc) (says_struct subnet_ref_doc)"
    unfolding read_SubnetRef_def
    by (rule struct_ok [OF _ names_SubnetRef])
      (simp_all add: SubnetRef_fields_def subnet_ref_doc_def entry_defs field_defs reading)
  show "says_struct subnet_ref_doc None zeroSubnetRef"
    by (simp add: says_struct_def describes_def the_member_def subnet_ref_doc_def entry_defs entry_def zeroSubnetRef_def reading)
qed

lemma interface_ok [reading]:
  "value_ok (read_VNI L) (is_object (interface_doc L)) (says_struct (interface_doc L))" "says_struct (interface_doc L) None zeroVNI"
proof -
  show "value_ok (read_VNI L) (is_object (interface_doc L)) (says_struct (interface_doc L))"
    unfolding read_VNI_def
    by (rule struct_ok [OF _ names_VNI])
      (simp_all add: VNI_fields_def interface_doc_def entry_defs field_defs reading)
  show "says_struct (interface_doc L) None zeroVNI"
    by (simp add: says_struct_def describes_def the_member_def interface_doc_def entry_defs entry_def zeroVNI_def reading)
qed

lemma target_ok [reading]:
  "value_ok (read_ShareTarget L) (is_object (target_doc L)) (says_struct (target_doc L))" "says_struct (target_doc L) None zeroShareTarget"
proof -
  show "value_ok (read_ShareTarget L) (is_object (target_doc L)) (says_struct (target_doc L))"
    unfolding read_ShareTarget_def
    by (rule struct_ok [OF _ names_ShareTarget])
      (simp_all add: ShareTarget_fields_def target_doc_def entry_defs field_defs reading)
  show "says_struct (target_doc L) None zeroShareTarget"
    by (simp add: says_struct_def describes_def the_member_def target_doc_def entry_defs entry_def zeroShareTarget_def reading)
qed

lemma share_ok [reading]:
  "value_ok (read_Share L) (is_object (share_doc L)) (says_struct (share_doc L))" "says_struct (share_doc L) None zeroShare"
proof -
  show "value_ok (read_Share L) (is_object (share_doc L)) (says_struct (share_doc L))"
    unfolding read_Share_def
    by (rule struct_ok [OF _ names_Share])
      (simp_all add: Share_fields_def share_doc_def entry_defs field_defs reading)
  show "says_struct (share_doc L) None zeroShare"
    by (simp add: says_struct_def describes_def the_member_def share_doc_def entry_defs entry_def zeroShare_def reading)
qed

lemma share_page_ok [reading]:
  "value_ok (read_ShareList L) (is_object (share_page_doc L)) (says_struct (share_page_doc L))" "says_struct (share_page_doc L) None zeroShareList"
proof -
  show "value_ok (read_ShareList L) (is_object (share_page_doc L)) (says_struct (share_page_doc L))"
    unfolding read_ShareList_def
    by (rule struct_ok [OF _ names_ShareList])
      (simp_all add: ShareList_fields_def share_page_doc_def entry_defs field_defs reading)
  show "says_struct (share_page_doc L) None zeroShareList"
    by (simp add: says_struct_def describes_def the_member_def share_page_doc_def entry_defs entry_def zeroShareList_def reading)
qed

end
