(* ===== verification/JsonCodecLaws.thy ===== *)
theory JsonCodecLaws
  imports JsonCodec ApiDocuments
begin

text \<open>
  The coding of the REST client: what it writes for a body is read back as that body, and a document of
  the API fills the receiver with what it says.
\<close>

definition valid_body :: "lib_json \<Rightarrow> body \<Rightarrow> bool" where
  "valid_body L b =
     (case b of
        ShareBody x \<Rightarrow> valid_Share L x
      | TargetBody x \<Rightarrow> valid_ShareTarget L (x\<lparr>st_ShareID := []\<rparr>)
      | SnapshotBody x \<Rightarrow> valid_Snapshot L x
      | UpdatePVCBody x \<Rightarrow> \<not> isl (lj_UpdatePVC L x))"

text \<open>The share ID of a target is not written.\<close>

lemma members_cong: "(\<And>f. f \<in> set fs \<Longrightarrow> fd_emit f x = fd_emit f y) \<Longrightarrow> members fs x = members fs y"
  by (induction fs) (simp_all split: option.split sum.split)

lemma emit_ShareTarget_ShareID: "emit_ShareTarget L (x\<lparr>st_ShareID := i\<rparr>) = emit_ShareTarget L x"
proof -
  have "members (ShareTarget_fields L) (x\<lparr>st_ShareID := i\<rparr>) = members (ShareTarget_fields L) x"
    by (rule members_cong) (auto simp: ShareTarget_fields_def str_field_def ptr_field_def field_def)
  then show ?thesis by (simp add: emit_ShareTarget_def emit_struct_def)
qed

text \<open>A text that says a value of a coded type is consumed as that value.\<close>

context json_coding begin

lemma consumed:
  assumes "fit x"
  shows "\<exists>j. em x = Inr j \<and> (\<forall>L rest. Consume L rd z (EncodeJSON j @ rest) = (x, None))"
proof -
  obtain j where j: "em x = Inr j" "\<And>rest. ReadJSON (EncodeJSON j @ rest) = Some j" "rd j z = (x, None)"
    using text_read [OF assms] by blast
  have "Consume L rd z (EncodeJSON j @ rest) = (x, None)" for L rest
    unfolding Consume_def j(2) by (simp add: j(3) fault_error_def)
  with j(1) show ?thesis by blast
qed

end

text \<open>C8: A request says its body: the text that is sent for a body reads back, by the tags of the same structs, as
  that body (a share target as the target without the ID of its share, whose tag leaves it out), whatever
  follows the text, if its strings are valid UTF-8, its numbers have their width, and its times and the values
  of the interface library read back from what the library codes them as.  The body of an IKS update is
  sent as the library codes it.\<close>

theorem request_bodies_read_back:
  assumes "valid_body L b"
  shows "\<exists>code. enc (json_codec L M) (JSONPointer b) = Inr code \<and>
    (case b of
       ShareBody x \<Rightarrow> dec_Share (json_codec L M) (code @ rest) = (x, None)
     | TargetBody x \<Rightarrow> dec_ShareTarget (json_codec L M) (code @ rest) = (x\<lparr>st_ShareID := []\<rparr>, None)
     | SnapshotBody x \<Rightarrow> dec_Snapshot (json_codec L M) (code @ rest) = (x, None)
     | UpdatePVCBody x \<Rightarrow> \<exists>j. lj_UpdatePVC L x = Inr j \<and> code = EncodeJSON j)"
proof (cases b)
  case (ShareBody x)
  with assms have "valid_Share L x" by (simp add: valid_body_def)
  from Share.consumed [OF this] ShareBody show ?thesis
    by (auto simp: json_codec_def payload_text_def body_json_def)
next
  case (TargetBody x)
  with assms have "valid_ShareTarget L (x\<lparr>st_ShareID := []\<rparr>)" by (simp add: valid_body_def)
  from ShareTarget.consumed [OF this] TargetBody show ?thesis
    by (auto simp: json_codec_def payload_text_def body_json_def emit_ShareTarget_ShareID)
next
  case (SnapshotBody x)
  with assms have "valid_Snapshot L x" by (simp add: valid_body_def)
  from Snapshot.consumed [OF this] SnapshotBody show ?thesis
    by (auto simp: json_codec_def payload_text_def body_json_def)
next
  case (UpdatePVCBody x)
  with assms show ?thesis
    by (cases "lj_UpdatePVC L x") (simp_all add: valid_body_def json_codec_def payload_text_def body_json_def)
qed

text \<open>A library whose values are all coded as the same text.\<close>

definition sampleJson :: lib_json where
  "sampleJson = \<lparr>lj_TypeError = (\<lambda>_. PlainError ''type''), lj_ReadError = (\<lambda>_. PlainError ''EOF''),
     lj_Time = (\<lambda>_. Inr (JStr ''t'')), lj_ReadTime = (\<lambda>_. (ZeroTime, None)),
     lj_VPC = (\<lambda>v. Inr (JObj [(''id'', JStr (lvpc_ID v))])), lj_ReadVPC = (\<lambda>j v. (v, None)),
     lj_SecurityGroup = (\<lambda>_. Inr (JObj [])), lj_ReadSecurityGroup = (\<lambda>j v. (v, None)),
     lj_PrimaryIP = (\<lambda>_. Inr (JObj [])), lj_ReadPrimaryIP = (\<lambda>j v. (v, None)),
     lj_ResourceGroup = (\<lambda>_. Inr (JObj [])), lj_ReadResourceGroup = (\<lambda>j v. (v, None)),
     lj_UpdatePVC = (\<lambda>_. Inr (JObj []))\<rparr>"

definition noMap :: "body \<Rightarrow> string option \<Rightarrow> goerror + string" where
  "noMap b rg = Inl (PlainError ''unsupported'')"

lemma request_bodies_read_back_witness:
  "\<exists>code. enc (json_codec sampleJson noMap) (JSONPointer (ShareBody (zeroShare\<lparr>sh_Name := ''a<b'', sh_Size := 20\<rparr>))) = Inr code \<and>
     dec_Share (json_codec sampleJson noMap) (code @ ''...'') = (zeroShare\<lparr>sh_Name := ''a<b'', sh_Size := 20\<rparr>, None)"
proof -
  have "valid_utf8 ''a<b''" by code_simp
  then have "valid_body sampleJson (ShareBody (zeroShare\<lparr>sh_Name := ''a<b'', sh_Size := 20\<rparr>))"
    by (simp add: valid_body_def valid_Share_def zeroShare_def fits_def)
  from request_bodies_read_back [OF this, of noMap "''...''"] show ?thesis by simp
qed

text \<open>C9: A page of shares is read as what it says: every text that is a page document of the API, in any order of
  its members, with any members besides and any text after it, is decoded without an error, and each member of the
  page, of its links, its shares and what they hold (zones, profiles, mount targets, tags and so on)
  is where the struct has it; what the document leaves out is zero.  A page document has each of the API's names at
  most once and not in another case, values of the right kind, numbers of their width, and times and library
  values that the library reads.\<close>

theorem share_page_read:
  assumes "ReadJSON text = Some (JObj ms)" and "well_formed (share_page_doc L) ms"
  shows "\<exists>page. dec_ShareList (json_codec L M) text = (page, None) \<and> describes (share_page_doc L) ms page"
proof -
  have "snd (read_ShareList L (JObj ms) zeroShareList) = None \<and>
      says_struct (share_page_doc L) (Some (JObj ms)) (fst (read_ShareList L (JObj ms) zeroShareList))"
    using share_page_ok [of L] assms(2) by (simp add: value_ok_def is_object_def)
  with assms(1) show ?thesis
    by (simp add: json_codec_def Consume_def fault_error_def says_struct_def prod_eq_iff)
qed

text \<open>A page with one share, its members in another order and one that the client does not know; a grave accent stands
  for the quote.\<close>

definition sampleText :: string where
  "sampleText = map (\<lambda>c. if c = CHR 0x60 then CHR 0x22 else c)
     ''{`limit`:50, `shares`:[{`size`:10,`latency`:[1,{}],`lifecycle_state`:`stable`,`id`:`r1`}]}''"

definition sampleShareMembers :: "(string \<times> json) list" where
  "sampleShareMembers = [(''size'', JNum 10), (''latency'', JArr [JNum 1, JObj []]), (''lifecycle_state'', JStr ''stable''),
     (''id'', JStr ''r1'')]"

definition sampleMembers :: "(string \<times> json) list" where
  "sampleMembers = [(''limit'', JNum 50), (''shares'', JArr [JObj sampleShareMembers])]"

lemma sampleText_read: "ReadJSON sampleText = Some (JObj sampleMembers)"
  by code_simp

lemma sample_members:
  "the_member sampleMembers ''first'' = Some None" "the_member sampleMembers ''next'' = Some None"
  "the_member sampleMembers ''shares'' = Some (Some (JArr [JObj sampleShareMembers]))"
  "the_member sampleMembers ''limit'' = Some (Some (JNum 50))" "the_member sampleMembers ''total_count'' = Some None"
  by code_simp+

lemma sample_share_members:
  "the_member sampleShareMembers ''crn'' = Some None"
  "the_member sampleShareMembers ''href'' = Some None"
  "the_member sampleShareMembers ''id'' = Some (Some (JStr ''r1''))"
  "the_member sampleShareMembers ''name'' = Some None"
  "the_member sampleShareMembers ''size'' = Some (Some (JNum 10))"
  "the_member sampleShareMembers ''iops'' = Some None"
  "the_member sampleShareMembers ''encryption_key'' = Some None"
  "the_member sampleShareMembers ''bandwidth'' = Some None"
  "the_member sampleShareMembers ''resource_group'' = Some None"
  "the_member sampleShareMembers ''initial_owner'' = Some None"
  "the_member sampleShareMembers ''profile'' = Some None"
  "the_member sampleShareMembers ''source_snapshot'' = Some None"
  "the_member sampleShareMembers ''created_at'' = Some None"
  "the_member sampleShareMembers ''user_tags'' = Some None"
  "the_member sampleShareMembers ''lifecycle_state'' = Some (Some (JStr ''stable''))"
  "the_member sampleShareMembers ''mount_targets'' = Some None"
  "the_member sampleShareMembers ''zone'' = Some None"
  "the_member sampleShareMembers ''access_control_mode'' = Some None"
  by code_simp+

lemma share_page_read_witness:
  "\<exists>page sh. dec_ShareList (json_codec sampleJson noMap) sampleText = (page, None) \<and> shl_Limit page = 50 \<and> shl_Next page = None \<and>
     shl_Shares page = [Some sh] \<and> sh_ID sh = ''r1'' \<and> sh_Size sh = 10 \<and> sh_Status sh = ''stable'' \<and> sh_Name sh = []"
proof -
  note page_simps = share_page_doc_def share_doc_def entry_defs entry_def sample_members sample_share_members
  have "well_formed (share_doc sampleJson) sampleShareMembers"
    by (simp add: page_simps is_text_def is_number_def)
  then have "well_formed (share_page_doc sampleJson) sampleMembers"
    by (simp add: share_page_doc_def entry_defs entry_def sample_members is_number_def
        is_array_def nullable_def is_object_def)
  from share_page_read [OF sampleText_read this, of noMap] obtain page where
    p: "dec_ShareList (json_codec sampleJson noMap) sampleText = (page, None)" and d: "describes (share_page_doc sampleJson) sampleMembers page"
    by blast
  from d have "shl_Limit page = 50 \<and> shl_Next page = None \<and>
      says_array (says_pointer (says_struct (share_doc sampleJson))) (Some (JArr [JObj sampleShareMembers])) (shl_Shares page)"
    by (simp add: describes_def share_page_doc_def entry_defs entry_def sample_members says_number_def says_pointer_def)
  then obtain p' where q: "shl_Limit page = 50" "shl_Next page = None" "shl_Shares page = [p']"
    and "says_pointer (says_struct (share_doc sampleJson)) (Some (JObj sampleShareMembers)) p'"
    by (auto simp: says_array_def list_all2_Cons1)
  then obtain sh where sh: "p' = Some sh" and s: "describes (share_doc sampleJson) sampleShareMembers sh"
    by (cases p') (simp_all add: says_pointer_def says_struct_def)
  from s have "sh_ID sh = ''r1'' \<and> sh_Size sh = 10 \<and> sh_Status sh = ''stable'' \<and> sh_Name sh = []"
    by (simp add: describes_def page_simps says_text_def says_number_def)
  with p q sh show ?thesis by blast
qed

end
