(* ===== verification/WireLaws.thy ===== *)
theory WireLaws
  imports Service JsonCodecLaws
begin

text \<open>
  What the updates of a session mean on the wire: which request is sent, with which headers, and
  what its body says, when the bodies are coded by the struct tags (\<open>json_codec\<close>).
\<close>

section \<open>Accepted requests\<close>

lemma sent_headers:
  assumes "Before (rq_authenHandler r) r = (None, r1)" and "encode_body C r1 = Inr (tx, r2)"
    and "k \<noteq> ''Authorization''" and "k \<noteq> ''Content-Type''"
  shows "map_of (rq_headers r2) k = map_of (rq_headers r) k"
proof -
  have "CanonicalHeaderKey ''Authorization'' = ''Authorization''" "CanonicalHeaderKey ''Content-Type'' = ''Content-Type''"
    by code_simp+
  with assms show ?thesis
    by (auto simp: Before_def encode_body_def SetHeader_def header_set_def map_of_values_set Let_def
        split: if_splits option.splits sum.splits)
qed

text \<open>What an accepted request was: \<open>sent_as\<close> lists its token, precondition, method, URL, body and status.\<close>

definition sent_as :: "codec \<Rightarrow> Request \<Rightarrow> HttpRequest \<Rightarrow> HttpResponse \<Rightarrow> bool" where
  "sent_as C r q resp \<longleftrightarrow>
     map_of (hr_Header q) ''Authorization'' = Some [''Bearer '' @ ah_authToken (rq_authenHandler r)] \<and>
     map_of (hr_Header q) ''If-Match'' = map_of (rq_headers r) ''If-Match'' \<and>
     hr_Method q = op_Method (rq_operation r) \<and> (\<exists>u. Parse (URLof r) = Inr u \<and> hr_URL q = URLString u) \<and>
     (case rq_bodyProvider r of None \<Rightarrow> hr_Body q = None | Some p \<Rightarrow> (\<exists>u. enc C p = Inr u \<and> hr_Body q = Some u)) \<and>
     200 \<le> resp_StatusCode resp \<and> resp_StatusCode resp \<le> 299"

lemma receive_ok: "iv_Error (receive C sc a0 (Some rc) rc resp) = None \<Longrightarrow>
    200 \<le> resp_StatusCode resp \<and> resp_StatusCode resp \<le> 299"
  by (auto simp: receive_def Let_def split: if_splits prod.splits option.splits)

lemma Invoke_sent_as:
  assumes "Invoke T C sc a0 (Some rc) r w = (iv, w')" and "iv_Error iv = None"
  obtains q resp where "T q w = (Inr resp, w')" and "sent_as C r q resp"
    and "iv = receive C sc a0 (Some rc) rc resp"
proof -
  obtain r1 tx r2 u resp where b: "Before (rq_authenHandler r) r = (None, r1)" "encode_body C r1 = Inr (tx, r2)"
    and p: "Parse (URLof r2) = Inr u"
    and s: "T \<lparr>hr_Method = op_Method (rq_operation r2), hr_URL = URLString u, hr_Header = rq_headers r2, hr_Body = tx\<rparr> w
      = (Inr resp, w')" and iv: "iv = receive C sc a0 (Some rc) rc resp"
    using assms by (auto simp: Invoke_def Let_def split: prod.splits option.splits sum.splits)
  note sent = sent_request [OF b]
  have "map_of (rq_headers r2) ''If-Match'' = map_of (rq_headers r) ''If-Match''"
    by (rule sent_headers [OF b]) simp_all
  with sent p receive_ok [of C sc a0 rc resp] assms(2) iv show ?thesis
    by (intro that [OF s]) (auto simp: sent_as_def split: option.splits)
qed

text \<open>The client that a session sends its requests with.\<close>

definition session_client :: "ContextCredentials \<Rightarrow> 'w VPCFileProvider \<Rightarrow> SessionClient" where
  "session_client creds p = ses_client (logged_in (vp_APIConfig p) (cc_Credential creds))"

lemma session_services:
  assumes "OpenSession E ctx creds p s0 = (Ret (Inr vs, p'), s1)"
    and "client_provider_of p' = DefaultRegionalAPIClientProvider"
  shows "FileShareService vs = NewFileShareService (env_transport E) (env_codec E) (session_client creds p')"
    and "ah_authToken (cl_authenHandler (session_client creds p')) = cc_Credential creds"
  using OpenSession_Inr [OF assms(1)] assms(2)
  by (auto simp: opened_session_def ClientAPI_def SessionAPI_def session_client_def)

section \<open>What the bodies say\<close>

lemmas field_defs = field_def str_field_def int_field_def ptr_field_def slice_field_def omitting_def



lemma size_body: "n \<noteq> 0 \<Longrightarrow>
    payload_text L M (JSONPointer (ShareBody (zeroShare\<lparr>sh_Size := n\<rparr>))) = Inr (EncodeJSON (JObj [(''size'', JNum n)]))"
  by (simp add: payload_text_def body_json_def emit_Share_def emit_struct_def Share_fields_def zeroShare_def field_defs)

text \<open>The request for a share with a given ID.\<close>

definition share_request :: "string \<Rightarrow> string \<Rightarrow> SessionClient \<Rightarrow> string \<Rightarrow> Request" where
  "share_request name mthd client shareID =
     PathParameter shareIDParam shareID (NewRequest client \<lparr>op_Name = name, op_Method = mthd, op_PathPattern = shareIDPath\<rparr>)"

definition patches_share :: "SessionClient \<Rightarrow> string \<Rightarrow> string \<Rightarrow> json \<Rightarrow> HttpRequest \<Rightarrow> bool" where
  "patches_share client name shareID j q \<longleftrightarrow>
     hr_Method q = ''PATCH'' \<and> hr_Body q = Some (EncodeJSON j) \<and>
     map_of (hr_Header q) ''Authorization'' = Some [''Bearer '' @ ah_authToken (cl_authenHandler client)] \<and>
     (\<exists>u. Parse (URLof (share_request name ''PATCH'' client shareID)) = Inr u \<and> hr_URL q = URLString u)"

lemma request_parts:
  "rq_operation (JSONBody b r) = rq_operation r" "rq_operation (PathParameter k v r) = rq_operation r"
  "rq_operation (SetHeader k v r) = rq_operation r" "rq_operation (NewRequest cl oper) = oper"
  "rq_bodyProvider (JSONBody b r) = Some (JSONPointer b)"
  "rq_headers (JSONBody b r) = rq_headers r" "rq_headers (PathParameter k v r) = rq_headers r"
  "URLof (PathParameter k v (SetHeader h x r)) = URLof (PathParameter k v r)"
  by (simp_all add: JSONBody_def PathParameter_def SetHeader_def NewRequest_def Let_def URLof_def request_path_def split: sum.split)



lemma ExpandVolumeApi_contract:
  assumes "ExpandVolumeApi T C c vid t w = ((a, e), w')"
  shows "a = None \<longleftrightarrow> e \<noteq> None"
proof -
  let ?r = "JSONBody (ShareBody t) (PathParameter shareIDParam vid
    (NewRequest c \<lparr>op_Name = ''ExpandVolume'', op_Method = ''PATCH'', op_PathPattern = shareIDPath\<rparr>))"
  obtain iv v where "Invoke T C (Some (dec_Share C)) zeroShare (Some apiErr) ?r w = (iv, v)" by (metis surj_pair)
  with assms show ?thesis
    unfolding ExpandVolumeApi_def pointer_or_error_def Let_def
    by (cases "iv_Error iv"; simp; metis)
qed

text \<open>C5: What an expansion means on the wire: a PATCH of the volume was accepted whose body says the new size and
  nothing else, the smallest number of GiB that holds the requested bytes.\<close>

theorem ExpandVolume_on_the_wire:
  assumes "OpenSession E ctx creds p s0 = (Ret (Inr vs, p'), s1)"
    and "client_provider_of p' = DefaultRegionalAPIClientProvider"
    and "env_codec E = json_codec L M"
    and "ExpandVolume X vs req s = (Ret (sz, None), s')"
    and "GetVolume X vs (evr_VolumeID req) s = (Ret (Some lv, None), s2)"
    and "vol_Capacity lv = Some c" and "c < evr_Capacity req"
    and "0 < evr_Capacity req" and "evr_Capacity req + GiB \<le> max_int64" and "0 < maxRetryAttempt s"
  shows "\<exists>n q w resp w'. evr_Capacity req \<le> n * GiB \<and> n * GiB < evr_Capacity req + GiB \<and>
    env_transport E q w = (Inr resp, w') \<and> 200 \<le> resp_StatusCode resp \<and> resp_StatusCode resp \<le> 299 \<and>
    patches_share (session_client creds p') ''ExpandVolume'' (evr_VolumeID req) (JObj [(''size'', JNum n)]) q"
proof -
  let ?T = "env_transport E" and ?C = "env_codec E" and ?c = "session_client creds p'"
  have fs: "fs_ExpandVolume (FileShareService vs) = ExpandVolumeApi ?T ?C ?c"
    by (simp add: session_services(1) [OF assms(1,2)] NewFileShareService_def)
  obtain n w w' share where n: "evr_Capacity req \<le> n * GiB" "n * GiB < evr_Capacity req + GiB"
    and call: "ExpandVolumeApi ?T ?C ?c (evr_VolumeID req) (zeroShare\<lparr>sh_Size := n\<rparr>) w = ((Some share, None), w')"
  proof (rule ExpandVolume_call [OF assms(4-7) less_imp_le [OF assms(8)] assms(9)])
    fix t w a e w'
    assume "fs_ExpandVolume (FileShareService vs) (evr_VolumeID req) t w = ((a, e), w')"
    then show "a = None \<longleftrightarrow> e \<noteq> None" unfolding fs by (rule ExpandVolumeApi_contract)
  next
    fix n w w' u share v
    assume "evr_Capacity req \<le> n * GiB" "n * GiB < evr_Capacity req + GiB"
      "fs_ExpandVolume (FileShareService vs) (evr_VolumeID req) (zeroShare\<lparr>sh_Size := n\<rparr>) w = ((Some share, None), w')"
    then show thesis unfolding fs by (rule that)
  qed (simp add: assms(10))
  let ?r = "JSONBody (ShareBody (zeroShare\<lparr>sh_Size := n\<rparr>)) (PathParameter shareIDParam (evr_VolumeID req)
    (NewRequest ?c \<lparr>op_Name = ''ExpandVolume'', op_Method = ''PATCH'', op_PathPattern = shareIDPath\<rparr>))"
  obtain iv where "Invoke ?T ?C (Some (dec_Share ?C)) zeroShare (Some apiErr) ?r w = (iv, w')" "iv_Error iv = None"
    using call by (auto simp: ExpandVolumeApi_def pointer_or_error_def Let_def split: prod.splits option.splits)
  then obtain q resp where q: "?T q w = (Inr resp, w')" and sent: "sent_as ?C ?r q resp"
    by (rule Invoke_sent_as)
  have "n \<noteq> 0" using n(1) assms(8) by auto
  from size_body [OF this, of L M] have "patches_share ?c ''ExpandVolume'' (evr_VolumeID req) (JObj [(''size'', JNum n)]) q"
    using sent assms(3) by (simp add: sent_as_def patches_share_def share_request_def json_codec_def request_parts)
  moreover have "200 \<le> resp_StatusCode resp" "resp_StatusCode resp \<le> 299" using sent by (simp_all add: sent_as_def)
  ultimately show ?thesis using n q by blast
qed

section \<open>A running session\<close>

text \<open>An environment whose API accepts every request and answers each with the text of the same share.\<close>

definition wireText :: string where
  "wireText = (case emit_Share sampleJson sampleShare of Inl e \<Rightarrow> [] | Inr j \<Rightarrow> EncodeJSON j)"

definition wireEnv :: "nat environment" where
  "wireEnv = sampleEnv\<lparr>env_transport := \<lambda>q w. (Inr (answer 200 wireText), Suc w), env_codec := json_codec sampleJson noMap\<rparr>"

lemma wire_share: "dec_Share (env_codec wireEnv) wireText = (sampleShare, None)"
proof -
  have "valid_utf8 sampleVolumeID" "valid_utf8 ''stable''" by code_simp+
  then have "valid_Share sampleJson sampleShare" by (simp add: valid_Share_def sampleShare_def zeroShare_def fits_def)
  from Share.consumed [OF this] obtain j where j: "emit_Share sampleJson sampleShare = Inr j"
    "Consume sampleJson (read_Share sampleJson) zeroShare (EncodeJSON j @ []) = (sampleShare, None)" by blast
  then show ?thesis by (simp add: wireText_def wireEnv_def json_codec_def)
qed

definition wireClient :: SessionClient where
  "wireClient = ses_client (logged_in (apiConfig (configure sampleVPCConfig)) ''tok'')"

lemma sample_open:
  obtains vs p' s1 where
    "OpenSession (sampleEnv\<lparr>env_transport := T, env_codec := C\<rparr>) None sampleCreds sampleProvider madeState = (Ret (Inr vs, p'), s1)"
    and "client_provider_of p' = DefaultRegionalAPIClientProvider" and "session_client sampleCreds p' = wireClient"
    and "FileShareService vs = NewFileShareService T C wireClient"
proof -
  let ?p = "prepareClient \<lparr>sc_DebugTrace = False\<rparr> None sampleProvider"
  let ?E = "sampleEnv\<lparr>env_transport := T, env_codec := C\<rparr>"
  have "client_provider_of sampleProvider = DefaultRegionalAPIClientProvider"
    by (simp add: client_provider_of_def sampleProvider_def)
  then have c: "client_provider_of ?p = DefaultRegionalAPIClientProvider" by simp
  have "vp_APIConfig ?p = apiConfig (configure sampleVPCConfig)"
    by (simp add: prepareClient_def sampleProvider_def Let_def)
  then have s: "session_client sampleCreds ?p = wireClient"
    by (simp add: session_client_def wireClient_def sampleCreds_def)
  obtain vs s1 where o: "OpenSession ?E None sampleCreds sampleProvider madeState = (Ret (Inr vs, ?p), s1)"
    by (simp add: OpenSession_run sampleCreds_def Let_def)
  from session_services(1) [OF o c] show thesis by (intro that [OF o c s]) (simp add: s)
qed

lemma wire_open:
  obtains vs p' s1 where "OpenSession wireEnv None sampleCreds sampleProvider madeState = (Ret (Inr vs, p'), s1)"
    and "client_provider_of p' = DefaultRegionalAPIClientProvider" and "session_client sampleCreds p' = wireClient"
    and "FileShareService vs = NewFileShareService (env_transport wireEnv) (env_codec wireEnv) wireClient"
  by (rule sample_open [where T = "env_transport wireEnv" and C = "env_codec wireEnv"]) (simp add: wireEnv_def)

text \<open>The requests that are sent parse: the three paths of a share.\<close>

abbreviation wire_request :: "string \<Rightarrow> string \<Rightarrow> Request" where
  "wire_request name mthd \<equiv> share_request name mthd wireClient sampleVolumeID"

lemma wire_URLs:
  "case Parse (URLof (wire_request ''GetFileShareEtag'' ''GET'')) of Inl e \<Rightarrow> False | Inr u \<Rightarrow> True"
  "case Parse (URLof (wire_request ''GetFileShare'' ''GET'')) of Inl e \<Rightarrow> False | Inr u \<Rightarrow> True"
  "case Parse (URLof (wire_request ''UpdateFileShare'' ''PATCH'')) of Inl e \<Rightarrow> False | Inr u \<Rightarrow> True"
  "case Parse (URLof (wire_request ''ExpandVolume'' ''PATCH'')) of Inl e \<Rightarrow> False | Inr u \<Rightarrow> True"
  "case Parse (URLof (NewRequest wireClient \<lparr>op_Name = ''CreateFileShare'', op_Method = ''POST'', op_PathPattern = sharesPath\<rparr>)) of
     Inl e \<Rightarrow> False | Inr u \<Rightarrow> True"
  by code_simp+

lemma wire_Invoke:
  assumes "case Parse (URLof r) of Inl e \<Rightarrow> False | Inr u \<Rightarrow> True" and "ah_authToken (rq_authenHandler r) = ''tok''"
    and "\<And>p. rq_bodyProvider r = Some p \<Longrightarrow> \<exists>u. payload_text sampleJson noMap p = Inr u"
  shows "Invoke (env_transport wireEnv) (env_codec wireEnv) sc a0 (Some rc) r w =
    (receive (env_codec wireEnv) sc a0 (Some rc) rc (answer 200 wireText), Suc w)"
proof -
  have b: "rq_bodyProvider (SetHeader k v r') = rq_bodyProvider r'" for k v and r' :: Request by (simp add: SetHeader_def)
  obtain u where p: "Parse (URLof r) = Inr u" using assms(1) by (auto split: sum.splits)
  show ?thesis
  proof (cases "rq_bodyProvider r")
    case None
    with p assms(2) show ?thesis by (simp add: Invoke_def Before_def encode_body_def wireEnv_def b Let_def)
  next
    case (Some pl)
    with assms(3) obtain tx where "payload_text sampleJson noMap pl = Inr tx" by blast
    with Some p assms(2) show ?thesis
      by (simp add: Invoke_def Before_def encode_body_def wireEnv_def json_codec_def b Let_def)
  qed
qed

lemma wire_encodes: "valid_Share sampleJson t \<Longrightarrow> \<exists>u. payload_text sampleJson noMap (JSONPointer (ShareBody t)) = Inr u"
  using Share.consumed by (fastforce simp: payload_text_def body_json_def)

lemma wire_parts:
  "ah_authToken (cl_authenHandler wireClient) = ''tok''" "rq_authenHandler (NewRequest wireClient oper) = cl_authenHandler wireClient"
  "rq_authenHandler (PathParameter k v r) = rq_authenHandler r" "rq_authenHandler (SetHeader k v r) = rq_authenHandler r"
  "rq_authenHandler (JSONBody b r) = rq_authenHandler r"
  "rq_bodyProvider (PathParameter k v r) = rq_bodyProvider r" "rq_bodyProvider (SetHeader k v r) = rq_bodyProvider r"
  "rq_bodyProvider (NewRequest wireClient oper) = None" "URLof (JSONBody b r) = URLof r"
  by (simp_all add: wireClient_def PathParameter_def SetHeader_def JSONBody_def NewRequest_def Let_def URLof_def request_path_def split: sum.split)

lemma wire_calls:
  "GetFileShareEtag (env_transport wireEnv) (env_codec wireEnv) wireClient sampleVolumeID w =
     ((Some sampleShare, header_get (resp_Header (answer 200 wireText)) ''etag'', None), Suc w)"
  "GetFileShare (env_transport wireEnv) (env_codec wireEnv) wireClient sampleVolumeID w = ((Some sampleShare, None), Suc w)"
  "valid_Share sampleJson t \<Longrightarrow> UpdateFileShareWithEtag (env_transport wireEnv) (env_codec wireEnv) wireClient sampleVolumeID etag t w = (None, Suc w)"
  "valid_Share sampleJson t \<Longrightarrow> ExpandVolumeApi (env_transport wireEnv) (env_codec wireEnv) wireClient sampleVolumeID t w = ((Some sampleShare, None), Suc w)"
  "valid_Share sampleJson t \<Longrightarrow> CreateFileShare (env_transport wireEnv) (env_codec wireEnv) wireClient t w = ((Some sampleShare, None), Suc w)"
proof -
  note URLs = wire_URLs [unfolded share_request_def]
  let ?iv = "receive (env_codec wireEnv) (Some (dec_Share (env_codec wireEnv))) zeroShare (Some apiErr) apiErr (answer 200 wireText)"
  have rc: "iv_Success ?iv = sampleShare" "iv_Response ?iv = Some (answer 200 wireText)" "iv_Error ?iv = None"
    by (simp_all add: receive_def wire_share answer_def)
  have nc: "iv_Error (receive (env_codec wireEnv) None () (Some apiErr) apiErr (answer 200 wireText)) = None"
    by (simp add: receive_def answer_def)
  show "GetFileShareEtag (env_transport wireEnv) (env_codec wireEnv) wireClient sampleVolumeID w =
     ((Some sampleShare, header_get (resp_Header (answer 200 wireText)) ''etag'', None), Suc w)"
    unfolding GetFileShareEtag_def Let_def by (subst wire_Invoke [OF URLs(1)]) (simp_all add: wire_parts rc)
  show "GetFileShare (env_transport wireEnv) (env_codec wireEnv) wireClient sampleVolumeID w = ((Some sampleShare, None), Suc w)"
    unfolding GetFileShare_def Let_def pointer_or_error_def by (subst wire_Invoke [OF URLs(2)]) (simp_all add: wire_parts rc)
  show "UpdateFileShareWithEtag (env_transport wireEnv) (env_codec wireEnv) wireClient sampleVolumeID etag t w = (None, Suc w)" if "valid_Share sampleJson t"
    unfolding UpdateFileShareWithEtag_def Let_def error_only_def
    using URLs(3) wire_encodes [OF that] by (subst wire_Invoke) (auto simp add: request_parts wire_parts nc)
  show "ExpandVolumeApi (env_transport wireEnv) (env_codec wireEnv) wireClient sampleVolumeID t w = ((Some sampleShare, None), Suc w)" if "valid_Share sampleJson t"
    unfolding ExpandVolumeApi_def Let_def pointer_or_error_def
    using URLs(4) wire_encodes [OF that] by (subst wire_Invoke) (auto simp add: request_parts wire_parts rc)
  show "CreateFileShare (env_transport wireEnv) (env_codec wireEnv) wireClient t w = ((Some sampleShare, None), Suc w)" if "valid_Share sampleJson t"
    unfolding CreateFileShare_def Let_def pointer_or_error_def
    using URLs(5) wire_encodes [OF that] by (subst wire_Invoke) (auto simp add: request_parts wire_parts rc)
qed

lemma wire_service:
  assumes "FileShareService vs = NewFileShareService (env_transport wireEnv) (env_codec wireEnv) wireClient"
  shows "fs_GetFileShareEtag (FileShareService vs) sampleVolumeID w =
      ((Some sampleShare, header_get (resp_Header (answer 200 wireText)) ''etag'', None), Suc w)"
    and "fs_GetFileShare (FileShareService vs) sampleVolumeID w = ((Some sampleShare, None), Suc w)"
    and "valid_Share sampleJson t \<Longrightarrow> fs_UpdateFileShareWithEtag (FileShareService vs) sampleVolumeID etag t w = (None, Suc w)"
    and "valid_Share sampleJson t \<Longrightarrow> fs_ExpandVolume (FileShareService vs) sampleVolumeID t w = ((Some sampleShare, None), Suc w)"
    and "valid_Share sampleJson t \<Longrightarrow> fs_CreateFileShare (FileShareService vs) t w = ((Some sampleShare, None), Suc w)"
  using wire_calls by (simp_all add: assms NewFileShareService_def)

lemma wire_codec: "env_codec wireEnv = json_codec sampleJson noMap"
  by (simp add: wireEnv_def)


lemma ExpandVolume_on_the_wire_witness:
  "\<exists>n q w resp w'. 20 * GiB \<le> n * GiB \<and> n * GiB < 20 * GiB + GiB \<and> env_transport wireEnv q w = (Inr resp, w') \<and>
     patches_share wireClient ''ExpandVolume'' sampleVolumeID (JObj [(''size'', JNum n)]) q"
proof -
  obtain vs p' s1 where o: "OpenSession wireEnv None sampleCreds sampleProvider madeState = (Ret (Inr vs, p'), s1)"
    and d: "client_provider_of p' = DefaultRegionalAPIClientProvider" and c: "session_client sampleCreds p' = wireClient"
    and fs: "FileShareService vs = NewFileShareService (env_transport wireEnv) (env_codec wireEnv) wireClient"
    by (rule wire_open)
  let ?req = "\<lparr>evr_VolumeID = sampleVolumeID, evr_Capacity = 20 * GiB\<rparr>"
  have sh: "sh_ID sampleShare = sampleVolumeID" "sh_Status sampleShare = ''stable''" "sh_Size sampleShare = 10"
    by (simp_all add: sampleShare_def zeroShare_def)
  obtain lv where lv: "FromProviderToLibVolume (Some sampleShare) = Some lv" "vol_Capacity lv = Some 10"
    using FromProviderToLibVolume_Some [of sampleShare] by (auto simp: sh)
  have get: "GetVolume sampleExt vs (evr_VolumeID ?req) (init_gost 0) = (Ret (Some lv, None), init_gost 1)"
    using GetVolume_sample [of vs 0 sampleShare sampleExt] lv(1) by (simp add: wire_service [OF fs])
  have size: "roundUpSize 21474836480 1073741824 = 20" by (simp add: roundUpSize_ceiling)
  have "valid_Share sampleJson (zeroShare\<lparr>sh_Size := 20\<rparr>)" by (simp add: valid_Share_def zeroShare_def fits_def)
  then have "\<exists>s'. ExpandVolume sampleExt vs ?req (init_gost 0) = (Ret (20 * GiB, None), s')"
    using get lv by (simp add: ExpandVolume_def op_run retry_init capture_def Let_def wire_service [OF fs]
        WaitForValidVolumeState_def validState_attempt_def sh StatusStable_def GiB_def size)
  then obtain s' where run: "ExpandVolume sampleExt vs ?req (init_gost 0) = (Ret (20 * GiB, None), s')" by blast
  have "\<exists>n q w resp w'. evr_Capacity ?req \<le> n * GiB \<and> n * GiB < evr_Capacity ?req + GiB \<and>
    env_transport wireEnv q w = (Inr resp, w') \<and> 200 \<le> resp_StatusCode resp \<and> resp_StatusCode resp \<le> 299 \<and>
    patches_share (session_client sampleCreds p') ''ExpandVolume'' (evr_VolumeID ?req) (JObj [(''size'', JNum n)]) q"
    by (rule ExpandVolume_on_the_wire [OF o d wire_codec run get lv(2)]) (simp_all add: GiB_def)
  then show ?thesis by (simp add: c) blast
qed

end
