(* ===== verification/WireErrors.thy ===== *)
theory WireErrors
  imports WireLaws
begin

text \<open>
  Refused requests, down to the text of the answer: an error that the API writes as JSON reaches the retry
  logic with its code, and an answer that is not JSON does not.
\<close>

section \<open>Answers\<close>

lemma Invoke_answered:
  assumes "Parse (URLof r) = Inr u" and "ah_authToken (rq_authenHandler r) \<noteq> []"
    and "\<And>p. rq_bodyProvider r = Some p \<Longrightarrow> \<exists>code. enc C p = Inr code"
    and "\<And>q. T q w = (Inr resp, w1)"
  shows "Invoke T C sc a0 (Some rc) r w = (receive C sc a0 (Some rc) rc resp, w1)"
proof -
  have b: "rq_bodyProvider (SetHeader k v r') = rq_bodyProvider r'" for k v and r' :: Request by (simp add: SetHeader_def)
  show ?thesis
  proof (cases "rq_bodyProvider r")
    case None
    with assms show ?thesis by (simp add: Invoke_def Before_def encode_body_def b Let_def)
  next
    case (Some pl)
    with assms(3) obtain code where "enc C pl = Inr code" by blast
    with Some assms(1,2,4) show ?thesis by (simp add: Invoke_def Before_def encode_body_def b Let_def)
  qed
qed

text \<open>The error of a refused request: that of the consumer, or else what it read, with the status line.\<close>

definition refusal :: "codec \<Rightarrow> HttpResponse \<Rightarrow> goerror" where
  "refusal C resp =
     (case dec_Error C (resp_Body resp) of
        (e, Some err) \<Rightarrow> err
      | (e, None) \<Rightarrow> receiver_error (stamp_status (resp_Status resp) (ErrorReceiver e)))"

lemma receive_refused:
  assumes "\<not> (200 \<le> resp_StatusCode resp \<and> resp_StatusCode resp \<le> 299)"
  shows "iv_Error (receive C sc a0 (Some apiErr) apiErr resp) = Some (refusal C resp)"
  using assms by (auto simp: receive_def refusal_def consume_error_def Let_def split: prod.split option.split)


lemma refusal_unread:
  assumes "ReadJSON (resp_Body resp) = None"
  shows "refusal (json_codec L M) resp = lj_ReadError L (resp_Body resp)"
  using assms by (simp add: refusal_def json_codec_def Consume_def)

section \<open>A refused creation\<close>

text \<open>The request that \<open>CreateVolume\<close> sends for a template.\<close>

definition create_request :: "SessionClient \<Rightarrow> Request" where
  "create_request client = NewRequest client \<lparr>op_Name = ''CreateFileShare'', op_Method = ''POST'', op_PathPattern = sharesPath\<rparr>"

lemma CreateFileShare_refused:
  assumes "Parse (URLof (create_request client)) = Inr u" and "ah_authToken (cl_authenHandler client) \<noteq> []"
    and "enc C (JSONPointer (ShareBody t)) = Inr body" and "\<And>q. T q w = (Inr resp, w1)"
    and "\<not> (200 \<le> resp_StatusCode resp \<and> resp_StatusCode resp \<le> 299)"
  shows "CreateFileShare T C client t w = ((None, Some (refusal C resp)), w1)"
proof -
  have "Invoke T C (Some (dec_Share C)) zeroShare (Some apiErr) (JSONBody (ShareBody t) (create_request client)) w =
      (receive C (Some (dec_Share C)) zeroShare (Some apiErr) apiErr resp, w1)"
    by (rule Invoke_answered) (use assms in \<open>auto simp: request_parts create_request_def JSONBody_def NewRequest_def URLof_def request_path_def Let_def split: sum.splits\<close>)
  then show ?thesis
    by (simp add: CreateFileShare_def Let_def create_request_def pointer_or_error_def receive_refused [OF assms(5)])
qed

text \<open>What a refused creation has in common, whatever the error.\<close>

definition create_refused :: "'w environment \<Rightarrow> ContextCredentials \<Rightarrow> 'w VPCFileProvider \<Rightarrow> ext \<Rightarrow> Volume \<Rightarrow> 'w gost
    \<Rightarrow> HttpResponse \<Rightarrow> ('w \<Rightarrow> 'w) \<Rightarrow> bool" where
  "create_refused E creds p X req s resp next \<longleftrightarrow>
     (\<exists>u. Parse (URLof (create_request (session_client creds p))) = Inr u) \<and>
     (case validateVolumeRequest X (MessagesEn s) req of
        (rg, iops, bw, e) \<Rightarrow> e = None \<and> (\<exists>code. enc (env_codec E) (JSONPointer (ShareBody (createTemplate req rg iops bw))) = Inr code)) \<and>
     (\<forall>q w. env_transport E q w = (Inr resp, next w)) \<and> \<not> (200 \<le> resp_StatusCode resp \<and> resp_StatusCode resp \<le> 299)"

lemma CreateVolume_refused:
  assumes o: "OpenSession E ctx creds p s0 = (Ret (Inr vs, p'), s1)"
    and d: "client_provider_of p' = DefaultRegionalAPIClientProvider"
    and c: "create_refused E creds p' X req s resp next"
  obtains t where "\<And>w. capture (fs_CreateFileShare (FileShareService vs) t) w = ((Some (refusal (env_codec E) resp), None), next w)"
    and "\<And>err a s'. retry (capture (fs_CreateFileShare (FileShareService vs) t)) None s = (Ret (Some err, a), s') \<Longrightarrow>
      CreateVolume X vs req s = (Ret (None, Some (GetUserError X (MessagesEn s) ''FailedToPlaceOrder'' (Some err) [])), s')"
proof -
  obtain rg iops bw where v: "validateVolumeRequest X (MessagesEn s) req = (rg, iops, bw, None)"
    using c by (auto simp: create_refused_def split: prod.splits)
  let ?t = "createTemplate req rg iops bw"
  have "cc_Credential creds \<noteq> []" using OpenSession_Inr [OF o] by blast
  then have tok: "ah_authToken (cl_authenHandler (session_client creds p')) \<noteq> []"
    using session_services(2) [OF o d] by simp
  obtain u code where "Parse (URLof (create_request (session_client creds p'))) = Inr u"
    "enc (env_codec E) (JSONPointer (ShareBody ?t)) = Inr code" "\<And>q w. env_transport E q w = (Inr resp, next w)"
    "\<not> (200 \<le> resp_StatusCode resp \<and> resp_StatusCode resp \<le> 299)"
    using c v by (auto simp: create_refused_def)
  note refused = CreateFileShare_refused [OF this(1) tok this(2-4)]
  have "fs_CreateFileShare (FileShareService vs) ?t w = ((None, Some (refusal (env_codec E) resp)), next w)" for w
    using refused by (simp add: session_services(1) [OF o d] NewFileShareService_def)
  then show thesis
    by (intro that [of ?t]) (simp_all add: capture_def CreateVolume_valid [OF v])
qed


text \<open>C7: An error answer that is not JSON, such as one with an empty body, is not recognised as an error of the API: the
  creation is retried as often as configured, with the same gap each time, whatever the status says (401 or
  404 included), and the caller gets the decoder's error.\<close>

theorem CreateVolume_unreadable_refusal:
  assumes "OpenSession E ctx creds p s0 = (Ret (Inr vs, p'), s1)"
    and "client_provider_of p' = DefaultRegionalAPIClientProvider" and "env_codec E = json_codec L M"
    and "create_refused E creds p' X req s resp next"
    and "ReadJSON (resp_Body resp) = None" and "lj_ReadError L (resp_Body resp) = PlainError msg" and "0 < maxRetryAttempt s"
  shows "CreateVolume X vs req s =
    (Ret (None, Some (GetUserError X (MessagesEn s) ''FailedToPlaceOrder'' (Some (PlainError msg)) [])),
     s\<lparr>world := (next ^^ nat (maxRetryAttempt s)) (world s),
       slept := slept s @ replicate (nat (maxRetryAttempt s) - 1) (wrap64 (retryGap s * 1000000000))\<rparr>)"
proof -
  from CreateVolume_refused [OF assms(1,2,4)] obtain t where
    call: "\<And>w. capture (fs_CreateFileShare (FileShareService vs) t) w = ((Some (PlainError msg), None), next w)"
    and run: "\<And>err a s'. retry (capture (fs_CreateFileShare (FileShareService vs) t)) None s = (Ret (Some err, a), s') \<Longrightarrow>
      CreateVolume X vs req s = (Ret (None, Some (GetUserError X (MessagesEn s) ''FailedToPlaceOrder'' (Some err) [])), s')"
    using refusal_unread [OF assms(5), of L M] assms(3,6) by metis
  let ?f = "capture (fs_CreateFileShare (FileShareService vs) t)"
  have later: "retry_loop ?f (Suc i) n (Some (PlainError msg), None) u =
      ((Some (PlainError msg), None), u\<lparr>world := (next ^^ n) (world u), slept := slept u @ replicate n (wrap64 (retryGap u * 1000000000))\<rparr>)"
    for i n u
  proof (induction n arbitrary: i u)
    case (Suc n)
    then show ?case by (simp add: call sleep_seconds_def funpow_swap1)
  qed simp
  obtain n where n: "nat (maxRetryAttempt s) = Suc n" using assms(7) by (cases "nat (maxRetryAttempt s)") auto
  have "retry ?f None s = (Ret (Some (PlainError msg), None),
      s\<lparr>world := (next ^^ Suc n) (world s), slept := slept s @ replicate n (wrap64 (retryGap s * 1000000000))\<rparr>)"
    unfolding retry_def n by (simp add: call later funpow_swap1)
  from run [OF this] show ?thesis by (simp add: n)
qed

section \<open>Refused creations\<close>

definition refusingEnv :: "HttpResponse \<Rightarrow> nat environment" where
  "refusingEnv resp = sampleEnv\<lparr>env_transport := \<lambda>q w. (Inr resp, Suc w), env_codec := json_codec sampleJson noMap\<rparr>"

lemma sample_validated:
  "validateVolumeRequest sampleExt Map.empty sampleVolume = (zeroResourceGroup\<lparr>rg_ID := ''rg''\<rparr>, 100, 0, None)"
proof -
  have "Itoa 100 = ''100''" by (simp add: Itoa_def showNat.simps digit_char_def) code_simp
  then have "ToInt64 ''100'' = 100" using ToInt64_Itoa [of 100] by (simp add: in_int64_def)
  then show ?thesis
    by (simp add: validateVolumeRequest_def sampleVolume_def zeroVolume_def minSize_def RFSProfile_def zeroLibProfile_def Let_def)
qed

lemma sample_template: "valid_Share sampleJson (createTemplate sampleVolume (zeroResourceGroup\<lparr>rg_ID := ''rg''\<rparr>) 100 0)"
proof -
  have "valid_utf8 ''rg''" "valid_utf8 ''dp2''" "valid_utf8 ''share-1''" by code_simp+
  then show ?thesis
    by (simp add: createTemplate_def shareTemplate_def sampleVolume_def zeroVolume_def zeroShare_def zeroLibProfile_def
        wantsTarget_def zeroProfile_def zeroResourceGroup_def valid_Share_def valid_ResourceGroup_def valid_Profile_def fits_def Let_def)
qed

lemma refusing_create:
  assumes "session_client sampleCreds p' = wireClient" and "\<not> (200 \<le> resp_StatusCode resp \<and> resp_StatusCode resp \<le> 299)"
  shows "create_refused (refusingEnv resp) sampleCreds p' sampleExt sampleVolume (init_gost w) resp Suc"
proof -
  have "\<exists>u. Parse (URLof (create_request wireClient)) = Inr u"
    using wire_URLs(5) by (auto simp: create_request_def split: sum.splits)
  with wire_encodes [OF sample_template] assms show ?thesis
    by (simp add: create_refused_def sample_validated refusingEnv_def json_codec_def)
qed

lemma refusing_codec: "env_codec (refusingEnv resp) = json_codec sampleJson noMap"
  by (simp add: refusingEnv_def)

lemma refusing_open:
  obtains vs p' s1 where "OpenSession (refusingEnv resp) None sampleCreds sampleProvider madeState = (Ret (Inr vs, p'), s1)"
    and "client_provider_of p' = DefaultRegionalAPIClientProvider" and "session_client sampleCreds p' = wireClient"
  by (rule sample_open [where T = "env_transport (refusingEnv resp)" and C = "env_codec (refusingEnv resp)"])
    (simp add: refusingEnv_def)


lemma CreateVolume_unreadable_refusal_witness:
  "\<exists>vs p' s1 e s'. OpenSession (refusingEnv (answer 401 [])) None sampleCreds sampleProvider madeState = (Ret (Inr vs, p'), s1) \<and>
     CreateVolume sampleExt vs sampleVolume (init_gost 0) = (Ret (None, Some e), s') \<and>
     world s' = 10 \<and> length (slept s') = 9"
proof -
  let ?resp = "answer 401 []"
  obtain vs p' s1 where o: "OpenSession (refusingEnv ?resp) None sampleCreds sampleProvider madeState = (Ret (Inr vs, p'), s1)"
    and d: "client_provider_of p' = DefaultRegionalAPIClientProvider" and c: "session_client sampleCreds p' = wireClient"
    by (rule refusing_open)
  have refused: "create_refused (refusingEnv ?resp) sampleCreds p' sampleExt sampleVolume (init_gost 0) ?resp Suc"
    by (rule refusing_create [OF c]) (simp add: answer_def)
  have body: "resp_Body ?resp = []" by (simp add: answer_def)
  have empty: "ReadJSON (resp_Body ?resp) = None" unfolding body by code_simp
  have msg: "lj_ReadError sampleJson (resp_Body ?resp) = PlainError ''EOF''" by (simp add: sampleJson_def)
  have "0 < maxRetryAttempt (init_gost 0)" by simp
  note run = CreateVolume_unreadable_refusal [OF o d refusing_codec refused empty msg this]
  have "(Suc ^^ n) 0 = n" for n by (induction n) auto
  with o run show ?thesis by auto
qed

end
