(* ===== verification/Paging.thy ===== *)
theory Paging
  imports SnapshotLaws GoUrl
begin

text \<open>
  Listings that are read page by page.  \<open>collect\<close> is what a caller does with the tokens that
  \<open>ListVolumes\<close> and \<open>ListSnapshots\<close> return; it is shown that it sees the whole listing.
\<close>

section \<open>Reading all pages\<close>

text \<open>A page operation returns the token of the next page, empty at the end, and the entries of its page.\<close>

fun collect :: "nat \<Rightarrow> (string \<Rightarrow> ('s, (string \<times> 'b list) option) go) \<Rightarrow> string \<Rightarrow> 's \<Rightarrow> 'b list option \<times> 's" where
  "collect 0 page start s = (None, s)"
| "collect (Suc n) page start s =
     (case page start s of
        (Ret (Some (token, xs)), s') \<Rightarrow>
          if token = [] then (Some xs, s')
          else (case collect n page token s' of (ys, s'') \<Rightarrow> (map_option ((@) xs) ys, s''))
      | (_, s') \<Rightarrow> (None, s'))"

section \<open>A backend that lists\<close>

text \<open>A call answers in fewer than \<open>n\<close> failed attempts: every earlier one fails with an error that may be retried.\<close>

definition answers_within :: "nat \<Rightarrow> ('w, 'a result) api \<Rightarrow> 'w \<Rightarrow> 'a \<Rightarrow> bool" where
  "answers_within n call w a \<longleftrightarrow>
     (\<exists>k < n. fst (call (((snd \<circ> call) ^^ k) w)) = (Some a, None) \<and>
        (\<forall>j < k. \<not> retry_stop (fst (capture call (((snd \<circ> call) ^^ j) w)))))"

text \<open>A link leads to the page of a token: it has the token as its \<^verbatim>\<open>start\<close> parameter, unescaped.\<close>

definition leads_to :: "string \<Rightarrow> string \<Rightarrow> bool" where
  "leads_to href tok \<longleftrightarrow>
     tok \<noteq> [] \<and> \<not> Contains tok ''start='' \<and> CHR ''&'' \<notin> set tok \<and>
     (\<exists>pre rest. href = pre @ ''start='' @ tok @ rest \<and> \<not> Contains pre ''start='' \<and> (rest = [] \<or> hd rest = CHR ''&''))"

text \<open>The backend serves a listing: \<open>rest start\<close> is what it lists from the token \<open>start\<close> on.  Whatever its state, the
  page of a valid token holds a beginning of that, and links to the page of the remainder, if there is one.\<close>

definition serves :: "nat \<Rightarrow> (string \<Rightarrow> ('w, 'p result) api) \<Rightarrow> ('p \<Rightarrow> HReference option) \<Rightarrow> ('p \<Rightarrow> 'a list) \<Rightarrow> (string \<Rightarrow> bool)
    \<Rightarrow> (string \<Rightarrow> 'a list) \<Rightarrow> bool" where
  "serves n call link items valid rest \<longleftrightarrow>
     (\<forall>start w. valid start \<longrightarrow>
        (\<exists>page. answers_within n (call start) w page \<and>
           (case link page of
              None \<Rightarrow> rest start = items page
            | Some h \<Rightarrow> items page \<noteq> [] \<and>
                (\<exists>tok. leads_to (href_Href h) tok \<and> valid tok \<and> rest start = items page @ rest tok))))"

lemma retry_answers:
  assumes "answers_within (nat (maxRetryAttempt s)) call (world s) a"
  obtains s' where "retry (capture call) c0 s = (Ret (None, Some a), s')" and "maxRetryAttempt s' = maxRetryAttempt s"
proof -
  obtain k where k: "k < nat (maxRetryAttempt s)" and a: "fst (call (((snd \<circ> call) ^^ k) (world s))) = (Some a, None)"
    and go: "\<And>j. j < k \<Longrightarrow> \<not> retry_stop (fst (capture call (((snd \<circ> call) ^^ j) (world s))))"
    using assms by (auto simp: answers_within_def)
  have "snd (capture call w) = snd (call w)" for w by (simp add: capture_def split: prod.split)
  then have pow: "snd \<circ> capture call = snd \<circ> call" by auto
  have "fst (capture call (((snd \<circ> call) ^^ k) (world s))) = (None, Some a)"
    using a by (auto simp: capture_def split: prod.split)
  with retry.reaches [of k s "capture call" "(None, c0)"] k go
  have r: "fst (retry_run (capture call) (None, c0) s) = (None, Some a)" unfolding pow by (metis fst_conv retry_stop_success)
  obtain s' where s': "retry (capture call) c0 s = (Ret (None, Some a), s')"
    using r by (simp add: retry_eq_run)
  with retry_config [OF s'] show thesis by (intro that [OF s']) (simp add: same_config_def)
qed

section \<open>Listing operations\<close>

text \<open>A listing operation retries one call per page, converts the entries and cuts the token out of the link.\<close>

locale listing_operation =
  fixes operation :: "string \<Rightarrow> ('w gost, (string \<times> 'b list) option) go"
    and call :: "string \<Rightarrow> ('w, 'p result) api"
    and link :: "'p \<Rightarrow> HReference option" and items :: "'p \<Rightarrow> 'a list" and convert :: "'a \<Rightarrow> 'b"
  assumes page: "retry (capture (call start)) None s = (Ret (None, Some p), s') \<Longrightarrow>
    operation start s =
      (case link p of
         None \<Rightarrow> (Ret (Some ([], map convert (items p))), s')
       | Some h \<Rightarrow> gbind (next_token (href_Href h)) (\<lambda>token. gret (Some (token, map convert (items p)))) s')"
begin

lemma complete:
  assumes "serves (nat (maxRetryAttempt s)) call link items valid rest" and "valid start"
    and "length (rest start) < n"
  shows "fst (collect n operation start s) = Some (map convert (rest start))"
  using assms
proof (induction n arbitrary: start s)
  case (Suc n)
  from Suc.prems(1,2) obtain p where answered: "answers_within (nat (maxRetryAttempt s)) (call start) (world s) p"
    and p: "case link p of None \<Rightarrow> rest start = items p
      | Some h \<Rightarrow> items p \<noteq> [] \<and> (\<exists>tok. leads_to (href_Href h) tok \<and> valid tok \<and> rest start = items p @ rest tok)"
    unfolding serves_def by blast
  obtain s1 where r: "retry (capture (call start)) None s = (Ret (None, Some p), s1)"
    and cfg: "maxRetryAttempt s1 = maxRetryAttempt s" by (rule retry_answers [OF answered])
  show ?case
  proof (cases "link p")
    case None
    with p show ?thesis by (simp add: page [OF r])
  next
    case (Some h)
    with p obtain tok where tok: "leads_to (href_Href h) tok" "valid tok" "rest start = items p @ rest tok" "items p \<noteq> []"
      by auto
    have t: "next_token (href_Href h) s1 = (Ret tok, s1)" using tok(1) next_token_link unfolding leads_to_def by metis
    have "fst (collect n operation tok s1) = Some (map convert (rest tok))"
      using Suc.IH [of s1 tok] Suc.prems(1,3) tok cfg by (cases "items p") auto
    then obtain s2 where "collect n operation tok s1 = (Some (map convert (rest tok)), s2)"
      by (cases "collect n operation tok s1") simp
    with Some t tok show ?thesis by (simp add: page [OF r] op_run leads_to_def)
  qed
qed simp

end

section \<open>The operations of a session\<close>

definition volume_page :: "ext \<Rightarrow> 'w VPCSession \<Rightarrow> int \<Rightarrow> (string \<Rightarrow> string option) \<Rightarrow> string
    \<Rightarrow> ('w gost, (string \<times> Volume option list) option) go" where
  "volume_page X vpcs limit tags start =
     gbind (ListVolumes X vpcs limit start tags) (\<lambda>(l, err). gret (map_option (\<lambda>l. (vl_Next l, vl_Volumes l)) l))"

definition snapshot_page :: "ext \<Rightarrow> 'w VPCSession \<Rightarrow> int \<Rightarrow> (string \<Rightarrow> string option) \<Rightarrow> string
    \<Rightarrow> ('w gost, (string \<times> LibSnapshot option list) option) go" where
  "snapshot_page X vpcs limit filters start =
     gbind (ListSnapshots X vpcs limit start filters) (\<lambda>(l, err). gret (map_option (\<lambda>l. (lsl_Next l, lsl_Snapshots l)) l))"

definition share_filters :: "(string \<Rightarrow> string option) \<Rightarrow> ListShareFilters" where
  "share_filters tags = \<lparr>shf_ResourceGroupID = map_get tags [] ''resource_group.id'', shf_ShareName = map_get tags [] ''name''\<rparr>"

lemma limited: "(if maxLimit < l then maxLimit else l) = min l 100"
  by (simp add: maxLimit_def)

interpretation volumes: listing_operation "volume_page X vpcs (int lim) tags"
    "\<lambda>start. fs_ListFileShares (FileShareService vpcs) (min (int lim) 100) start (Some (share_filters tags))"
    shl_Next shl_Shares FromProviderToLibVolume for X vpcs lim tags
  by unfold_locales (simp add: volume_page_def ListVolumes_def share_filters_def limited op_run Let_def split: option.split prod.split outcome.split)

interpretation snapshots: listing_operation "snapshot_page X vpcs (int lim) filters"
    "\<lambda>start. ss_ListSnapshots (SnapshotService vpcs) (map_get filters [] ''source_volume.id'') (min (int lim) 100) start
       (Some \<lparr>snf_Name = map_get filters [] ''name''\<rparr>)"
    snl_Next snl_Snapshots "FromProviderToLibSnapshot (map_get filters [] ''source_volume.id'')" for X vpcs lim filters
  by unfold_locales (simp add: snapshot_page_def ListSnapshots_def limited op_run Let_def split: option.split prod.split outcome.split)

section \<open>Complete listings\<close>

text \<open>C11: Reading the volumes page by page, following the tokens that \<open>ListVolumes\<close> returns, gives every share of the
  listing exactly once and in its order, converted, for every page size and however the backend divides the
  listing: each page may take fewer failed attempts than are configured, if their errors can be retried.\<close>

theorem ListVolumes_complete:
  assumes "0 \<le> limit"
    and "serves (nat (maxRetryAttempt s))
      (\<lambda>start. fs_ListFileShares (FileShareService vpcs) (min limit 100) start (Some (share_filters tags))) shl_Next shl_Shares valid rest"
    and "valid []"
  shows "fst (collect (Suc (length (rest []))) (volume_page X vpcs limit tags) [] s) = Some (map FromProviderToLibVolume (rest []))"
proof -
  obtain lim where lim: "limit = int lim" using assms(1) nonneg_int_cases by blast
  from volumes.complete [OF assms(2) [unfolded lim] assms(3)] show ?thesis by (simp add: lim del: collect.simps)
qed

text \<open>The same for the snapshots of a volume: following the tokens of \<open>ListSnapshots\<close> gives every snapshot of the
  listing exactly once and in its order.\<close>

lemma ListSnapshots_complete:
  assumes "0 \<le> limit"
    and "serves (nat (maxRetryAttempt s))
      (\<lambda>start. ss_ListSnapshots (SnapshotService vpcs) (map_get filters [] ''source_volume.id'') (min limit 100) start
        (Some \<lparr>snf_Name = map_get filters [] ''name''\<rparr>)) snl_Next snl_Snapshots valid rest"
    and "valid []"
  shows "fst (collect (Suc (length (rest []))) (snapshot_page X vpcs limit filters) [] s) =
    Some (map (FromProviderToLibSnapshot (map_get filters [] ''source_volume.id'')) (rest []))"
proof -
  obtain lim where lim: "limit = int lim" using assms(1) nonneg_int_cases by blast
  from snapshots.complete [OF assms(2) [unfolded lim] assms(3)] show ?thesis by (simp add: lim del: collect.simps)
qed

section \<open>A backend with two pages\<close>

text \<open>Every second call fails with an error of the network.\<close>

definition halfway :: "(string \<Rightarrow> 'p) \<Rightarrow> string \<Rightarrow> (nat, 'p result) api" where
  "halfway pages start w = (if even w then (None, Some (PlainError ''EOF'')) else (Some (pages start), None), Suc w)"

definition secondPage :: HReference where
  "secondPage = \<lparr>href_Href = ''https://iaas/v1/shares?start=2&limit=1''\<rparr>"

lemma halfway_answers: "1 < n \<Longrightarrow> answers_within n (halfway pages start) w (pages start)"
  unfolding answers_within_def
  by (rule exI [of _ "if even w then 1 else 0"]) (simp add: halfway_def capture_def retry_stop_def)

lemma secondPage_leads: "leads_to (href_Href secondPage) ''2''"
  unfolding leads_to_def secondPage_def
  by (intro conjI exI [of _ "''https://iaas/v1/shares?''"] exI [of _ "''&limit=1''"]) simp_all

lemma halfway_serves:
  assumes "1 < n" and "link (pages []) = Some secondPage" and "link (pages ''2'') = None" and "items (pages []) \<noteq> []"
  shows "serves n (halfway pages) link items (\<lambda>t. t = [] \<or> t = ''2'')
    (\<lambda>t. if t = [] then items (pages []) @ items (pages ''2'') else items (pages ''2''))"
  unfolding serves_def
proof (intro allI impI)
  fix start w assume "start = [] \<or> start = ''2''"
  then show "\<exists>page. answers_within n (halfway pages start) w page \<and>
      (case link page of None \<Rightarrow> (if start = [] then items (pages []) @ items (pages ''2'') else items (pages ''2'')) = items page
       | Some h \<Rightarrow> items page \<noteq> [] \<and>
           (\<exists>tok. leads_to (href_Href h) tok \<and> (tok = [] \<or> tok = ''2'') \<and>
             (if start = [] then items (pages []) @ items (pages ''2'') else items (pages ''2'')) =
             items page @ (if tok = [] then items (pages []) @ items (pages ''2'') else items (pages ''2''))))"
    using halfway_answers [OF assms(1), of pages start w] assms(2-4) secondPage_leads
    by (intro exI [of _ "pages start"]) auto
qed

definition twoShares :: "string \<Rightarrow> ShareList" where
  "twoShares t = zeroShareList
     \<lparr>shl_Shares := [Some (sampleShare\<lparr>sh_Size := if t = [] then 10 else 20\<rparr>)],
      shl_Next := if t = [] then Some secondPage else None\<rparr>"

definition twoSnapshots :: "string \<Rightarrow> SnapshotList" where
  "twoSnapshots t = zeroSnapshotList
     \<lparr>snl_Snapshots := [Some (zeroSnapshot\<lparr>sn_ID := if t = [] then ''a'' else ''b''\<rparr>)],
      snl_Next := if t = [] then Some secondPage else None\<rparr>"

lemma ListVolumes_complete_witness:
  "fst (collect 3 (volume_page sampleExt
      (fileSession ((refusing (api_error ''internal_error''))\<lparr>fs_ListFileShares := \<lambda>l start f. halfway twoShares start\<rparr>))
      1 Map.empty) [] (init_gost 0)) =
    Some (map FromProviderToLibVolume [Some (sampleShare\<lparr>sh_Size := 10\<rparr>), Some (sampleShare\<lparr>sh_Size := 20\<rparr>)])"
proof -
  let ?rest = "\<lambda>t. if t = [] then shl_Shares (twoShares []) @ shl_Shares (twoShares ''2'') else shl_Shares (twoShares ''2'')"
  have "serves 10 (halfway twoShares) shl_Next shl_Shares (\<lambda>t. t = [] \<or> t = ''2'') ?rest"
    by (rule halfway_serves) (simp_all add: twoShares_def)
  then show ?thesis
    using ListVolumes_complete [where limit = 1 and X = sampleExt and s = "init_gost 0" and rest = ?rest and valid = "\<lambda>t. t = [] \<or> t = ''2''" and tags = Map.empty
      and vpcs = "fileSession ((refusing (api_error ''internal_error''))\<lparr>fs_ListFileShares := \<lambda>l start f. halfway twoShares start\<rparr>)"]
    by (simp add: twoShares_def numeral_3_eq_3 del: collect.simps)
qed

lemma ListSnapshots_complete_witness:
  "fst (collect 3 (snapshot_page sampleExt
      (snapshotSession ((refusingSnapshots (api_error ''internal_error''))\<lparr>ss_ListSnapshots := \<lambda>v l start f. halfway twoSnapshots start\<rparr>))
      1 Map.empty) [] (init_gost 0)) =
    Some (map (FromProviderToLibSnapshot []) [Some (zeroSnapshot\<lparr>sn_ID := ''a''\<rparr>), Some (zeroSnapshot\<lparr>sn_ID := ''b''\<rparr>)])"
proof -
  let ?rest = "\<lambda>t. if t = [] then snl_Snapshots (twoSnapshots []) @ snl_Snapshots (twoSnapshots ''2'') else snl_Snapshots (twoSnapshots ''2'')"
  have "serves 10 (halfway twoSnapshots) snl_Next snl_Snapshots (\<lambda>t. t = [] \<or> t = ''2'') ?rest"
    by (rule halfway_serves) (simp_all add: twoSnapshots_def)
  then show ?thesis
    using ListSnapshots_complete [where limit = 1 and X = sampleExt and s = "init_gost 0" and rest = ?rest and valid = "\<lambda>t. t = [] \<or> t = ''2''" and filters = Map.empty
      and vpcs = "snapshotSession ((refusingSnapshots (api_error ''internal_error''))\<lparr>ss_ListSnapshots := \<lambda>v l start f. halfway twoSnapshots start\<rparr>)"]
    by (simp add: twoSnapshots_def map_get_def numeral_3_eq_3 del: collect.simps)
qed

end
