(* ===== verification/UrlLaws.thy ===== *)
theory UrlLaws
  imports WireErrors Paging
begin

text \<open>
  The URLs of requests: what a server reads out of the query of a sent URL, and where the path of a
  request for a share leads.
\<close>

section \<open>Query values\<close>

text \<open>The first value of a key, if it has one.\<close>

definition first_value :: "url_values \<Rightarrow> string \<Rightarrow> string option" where
  "first_value m k = (case map_of m k of Some (v # vs) \<Rightarrow> Some v | _ \<Rightarrow> None)"

lemma values_get_first: "values_get m k = (case first_value m k of None \<Rightarrow> [] | Some v \<Rightarrow> v)"
  by (simp add: values_get_def first_value_def split: option.split list.split)

lemma first_value_Nil [simp]: "first_value [] k = None"
  by (simp add: first_value_def)

lemma first_value_Cons: "first_value ((k', vs) # m) k = (if k' = k then (case vs of [] \<Rightarrow> None | v # _ \<Rightarrow> Some v) else first_value m k)"
  by (simp add: first_value_def split: list.split)

lemma first_value_absent: "k \<notin> fst ` set m \<Longrightarrow> first_value m k = None"
  by (induction m) (auto simp: first_value_Cons)

lemma first_value_add:
  "first_value (values_add k' v m) k =
     (case first_value m k of Some u \<Rightarrow> Some u | None \<Rightarrow> if k' = k then Some v else None)"
  by (induction m rule: values_add.induct [of _ k' v]) (auto simp: first_value_Cons split: list.split option.split)

text \<open>The pairs of key and value in the order they are written.\<close>

definition value_pairs :: "url_values \<Rightarrow> (string \<times> string) list" where
  "value_pairs m = concat (map (\<lambda>(k, vs). map (Pair k) vs) m)"

lemma map_of_value_pairs:
  "distinct (map fst m) \<Longrightarrow> map_of (value_pairs m) k = first_value m k"
proof (induction m)
  case (Cons p m)
  obtain k' vs where p: "p = (k', vs)" by (cases p)
  have none: "first_value m k' = None" using Cons.prems p
    by (simp add: first_value_absent)
  have "map_of (map (Pair k') vs) k = (if k' = k then (case vs of [] \<Rightarrow> None | v # _ \<Rightarrow> Some v) else None)"
    by (induction vs) auto
  with Cons p none show ?case
    by (auto simp: value_pairs_def first_value_Cons map_add_def split: option.split list.split)
qed (simp add: value_pairs_def)

lemma insert_key_first: "distinct (map fst (p # m)) \<Longrightarrow> first_value (insert_key p m) k = first_value (p # m) k"
  by (induction p m rule: insert_key.induct) (auto simp: first_value_Cons)

lemma insert_key_keys: "set (map fst (insert_key p m)) = insert (fst p) (set (map fst m))"
  by (induction p m rule: insert_key.induct) auto

lemma insert_key_distinct: "distinct (map fst (p # m)) \<Longrightarrow> distinct (map fst (insert_key p m))"
  by (induction p m rule: insert_key.induct) (use insert_key_keys in \<open>auto simp flip: set_map\<close>)

lemma sort_keys_sound:
  assumes "distinct (map fst m)"
  shows "distinct (map fst (sort_keys m)) \<and> set (map fst (sort_keys m)) = set (map fst m) \<and>
    first_value (sort_keys m) k = first_value m k"
  using assms
proof (induction m)
  case (Cons p m)
  then have ih: "distinct (map fst (p # sort_keys m))" "set (map fst (sort_keys m)) = set (map fst m)"
    "first_value (sort_keys m) k = first_value m k" by auto
  have step: "sort_keys (q # m) = insert_key q (sort_keys m)" for q by (simp add: sort_keys_def)
  show ?case
    using insert_key_distinct [OF ih(1)] insert_key_keys [of p "sort_keys m"] insert_key_first [OF ih(1), of k] ih
    by (cases p) (simp add: step first_value_Cons)
qed (simp add: sort_keys_def)

section \<open>The text of a query\<close>

text \<open>Escaped text: letters, digits and a few marks.\<close>

definition plain_char :: "char \<Rightarrow> bool" where
  "plain_char c \<longleftrightarrow> is_letter c \<or> is_digit c \<or> c \<in> set ''-_.~%+''"

lemma plain_upperhex: "d < 16 \<Longrightarrow> plain_char (upperhex d)"
  using upperhex_hex [of d] by (auto simp: plain_char_def is_hex_def is_letter_def Let_def)

lemma QueryEscape_plain: "list_all plain_char (QueryEscape s)"
proof -
  have "list_all plain_char (escape_char encodeQueryComponent c)" for c
  proof -
    have "(of_char c :: nat) div 16 < 16" "(of_char c :: nat) mod 16 < 16"
      using of_char_less [of c] by (simp_all add: less_mult_imp_div_less)
    moreover have "plain_char CHR ''%''" "plain_char CHR ''+''" by (simp_all add: plain_char_def)
    moreover have "plain_char c" if "\<not> shouldEscape c encodeQueryComponent"
      using that by (auto simp: plain_char_def shouldEscape_def split: if_splits)
    ultimately show ?thesis by (simp add: escape_char_def plain_upperhex Let_def)
  qed
  then show ?thesis by (induction s) (auto simp: QueryEscape_def escape_def)
qed

lemma not_plain: "\<not> plain_char CHR ''&''" "\<not> plain_char CHR ''=''" "\<not> plain_char CHR '';''"
  "\<not> plain_char CHR ''#''" "\<not> plain_char CHR ''?''"
  by (simp_all add: plain_char_def is_letter_def is_digit_def)

lemma QueryEscape_free: "\<not> plain_char c \<Longrightarrow> c \<notin> set (QueryEscape s)"
  using QueryEscape_plain [of s] by (auto simp: list_all_iff)

lemma Contains_char: "Contains s [c] \<longleftrightarrow> c \<in> set s"
  by (induction s) auto

text \<open>What a server makes of the query of a URL.\<close>

definition query_values :: "string \<Rightarrow> url_values" where
  "query_values q = (if q = [] then [] else parseSettings (Split q ''&'') [])"

definition pair_text :: "string \<times> string \<Rightarrow> string" where
  "pair_text kv = QueryEscape (fst kv) @ ''='' @ QueryEscape (snd kv)"

lemma Encode_pairs: "Encode m = Join (map pair_text (value_pairs (sort_keys m))) ''&''"
proof -
  have "map pair_text (value_pairs ps) = concat (map (\<lambda>(k, vs). map (\<lambda>v. QueryEscape k @ ''='' @ QueryEscape v) vs) ps)" for ps
    by (induction ps) (auto simp: value_pairs_def pair_text_def)
  then show ?thesis by (simp add: Encode_def)
qed

lemma splitAcc_char_Join:
  "\<forall>x \<in> set (y # xs). c \<notin> set x \<Longrightarrow> splitAcc [c] [] (Join (y # xs) [c]) = y # xs"
proof (induction xs arbitrary: y)
  case Nil
  then show ?case using splitAcc_skip [of "[c]" y "[]" "[]"] by simp
next
  case (Cons x xs)
  then show ?case using splitAcc_skip [of "[c]" y "[]" "c # Join (x # xs) [c]"] by simp
qed

lemma pair_text_free: "\<not> plain_char c \<Longrightarrow> c \<noteq> CHR ''='' \<Longrightarrow> c \<notin> set (pair_text kv)"
  by (simp add: pair_text_def QueryEscape_free)

lemma Cut_append: "c \<notin> set a \<Longrightarrow> Cut (a @ c # b) c = (a, b, True)"
  by (induction a) (auto simp: Cut_def)

lemma parse_pair:
  "parseSettings (pair_text (k, v) # kvs) m = parseSettings kvs (values_add k v m)"
proof -
  have "CHR ''='' \<notin> set (QueryEscape k)" by (simp add: QueryEscape_free not_plain)
  then have "Cut (pair_text (k, v)) CHR ''='' = (QueryEscape k, QueryEscape v, True)"
    by (simp add: pair_text_def Cut_append)
  moreover have "\<not> Contains (pair_text (k, v)) '';''" by (simp add: Contains_char pair_text_free not_plain)
  moreover have "pair_text (k, v) \<noteq> []" by (simp add: pair_text_def)
  ultimately show ?thesis by (simp add: QueryUnescape_escape)
qed

lemma parse_pairs: "parseSettings (map pair_text ps) m = foldl (\<lambda>m (k, v). values_add k v m) m ps"
  by (induction ps arbitrary: m) (auto simp: parse_pair simp del: parseSettings.simps(2))

lemma first_value_foldl:
  "first_value (foldl (\<lambda>m (k, v). values_add k v m) m ps) k =
     (case first_value m k of Some u \<Rightarrow> Some u | None \<Rightarrow> map_of ps k)"
  by (induction ps arbitrary: m) (auto simp: first_value_add split: option.split)

lemma query_read_back:
  assumes "distinct (map fst m)"
  shows "values_get (query_values (Encode m)) k = values_get m k"
proof -
  let ?ps = "value_pairs (sort_keys m)"
  have "map_of ?ps k = first_value m k" using sort_keys_sound [OF assms, of k] map_of_value_pairs by metis
  moreover have "first_value (query_values (Encode m)) k = map_of ?ps k"
  proof (cases ?ps)
    case Nil
    then show ?thesis by (simp add: Encode_pairs query_values_def)
  next
    case (Cons p ps)
    have "\<forall>x \<in> set (pair_text p # map pair_text ps). CHR ''&'' \<notin> set x"
      by (auto simp: pair_text_free not_plain)
    from splitAcc_char_Join [OF this] have "Split (Encode m) ''&'' = map pair_text ?ps"
      by (simp add: Encode_pairs Split_def Cons)
    moreover have "Encode m \<noteq> []" by (cases ps) (simp_all add: Encode_pairs Cons pair_text_def)
    ultimately show ?thesis by (simp add: query_values_def parse_pairs first_value_foldl)
  qed
  ultimately show ?thesis by (simp add: values_get_first)
qed

section \<open>The query of a URL\<close>

text \<open>What a server takes for the query of a URL: what follows the first question mark, up to the fragment.\<close>

definition url_query :: "string \<Rightarrow> string" where
  "url_query t = tl (dropWhile (\<lambda>c. c \<noteq> CHR ''?'') (takeWhile (\<lambda>c. c \<noteq> CHR ''#'') t))"

definition unmarked :: "string \<Rightarrow> bool" where
  "unmarked s \<longleftrightarrow> CHR ''?'' \<notin> set s \<and> CHR ''#'' \<notin> set s"

lemma unmarked_simps [simp]: "unmarked []" "unmarked (a @ b) \<longleftrightarrow> unmarked a \<and> unmarked b"
  "unmarked (c # s) \<longleftrightarrow> c \<noteq> CHR ''?'' \<and> c \<noteq> CHR ''#'' \<and> unmarked s"
  by (auto simp: unmarked_def)

lemma escape_free: "shouldEscape c mode \<Longrightarrow> \<not> plain_char c \<Longrightarrow> c \<notin> set (escape s mode)"
proof -
  assume c: "shouldEscape c mode" "\<not> plain_char c"
  have "c \<notin> set (escape_char mode x)" for x
  proof -
    have "(of_char x :: nat) div 16 < 16" "(of_char x :: nat) mod 16 < 16"
      using of_char_less [of x] by (simp_all add: less_mult_imp_div_less)
    from this [THEN plain_upperhex] c show ?thesis
      by (auto simp: escape_char_def plain_char_def Let_def)
  qed
  then show ?thesis by (simp add: escape_def)
qed

lemma escapes: "shouldEscape CHR ''?'' encodePath" "shouldEscape CHR ''#'' encodePath"
  "shouldEscape CHR ''?'' encodeUserPassword" "shouldEscape CHR ''#'' encodeUserPassword"
  "shouldEscape CHR ''?'' encodeHost" "shouldEscape CHR ''#'' encodeHost"
  by (simp_all add: shouldEscape_def is_letter_def is_digit_def)

lemma escape_unmarked [simp]: "unmarked (escape s encodePath)" "unmarked (escape s encodeUserPassword)" "unmarked (escape s encodeHost)"
  by (simp_all add: unmarked_def escape_free escapes not_plain)

lemma EscapedPath_unmarked [simp]: "unmarked (EscapedPath u)"
proof -
  have "c \<notin> set s" if "validEncoded s encodePath" "shouldEscape c encodePath" "c = CHR ''?'' \<or> c = CHR ''#''" for s c
    using that by (fastforce simp: validEncoded_def list_all_iff)
  then have "unmarked s" if "validEncoded s encodePath" for s
    using that escapes(1,2) by (simp add: unmarked_def)
  then show ?thesis by (simp add: EscapedPath_def)
qed

lemma url_prefix_unmarked [simp]: "unmarked (url_prefix u)"
  by (simp add: url_prefix_def userinfo_text_def split: option.split prod.split)

text \<open>The URLs that parsing gives.\<close>

definition clean :: "URL \<Rightarrow> bool" where
  "clean u \<longleftrightarrow> unmarked (u_Scheme u) \<and> unmarked (u_Opaque u) \<and> CHR ''#'' \<notin> set (u_RawQuery u)"

lemma takeWhile_free: "c \<notin> set a \<Longrightarrow> takeWhile (\<lambda>x. x \<noteq> c) (a @ b) = a @ takeWhile (\<lambda>x. x \<noteq> c) b"
  by (induction a) auto

lemma dropWhile_free: "c \<notin> set a \<Longrightarrow> dropWhile (\<lambda>x. x \<noteq> c) (a @ b) = dropWhile (\<lambda>x. x \<noteq> c) b"
  by (induction a) auto

lemma dropWhile_none: "c \<notin> set a \<Longrightarrow> dropWhile (\<lambda>x. x \<noteq> c) a = []"
  by (induction a) auto

lemma url_query_parts:
  assumes "unmarked body" and "CHR ''#'' \<notin> set q" and "frag = [] \<or> hd frag = CHR ''#''"
  shows "url_query (body @ ''?'' @ q @ frag) = q" and "url_query (body @ frag) = []"
proof -
  have "takeWhile (\<lambda>c. c \<noteq> CHR ''#'') frag = []" using assms(3) by (cases frag) auto
  then show "url_query (body @ ''?'' @ q @ frag) = q" and "url_query (body @ frag) = []"
    using assms(1,2) by (simp_all add: url_query_def unmarked_def takeWhile_free dropWhile_free dropWhile_none)
qed

lemma URLString_query: "clean u \<Longrightarrow> url_query (URLString u) = u_RawQuery u"
proof -
  assume u: "clean u"
  obtain body frag where "unmarked body" and "frag = [] \<or> hd frag = CHR ''#''"
    and "URLString u = body @ (if u_ForceQuery u \<or> u_RawQuery u \<noteq> [] then ''?'' @ u_RawQuery u else []) @ frag"
  proof
    show "URLString u = (let scheme = (if u_Scheme u \<noteq> [] then u_Scheme u @ '':'' else []);
          path = EscapedPath u;
          start = scheme @ url_prefix u @ (if path \<noteq> [] \<and> hd path \<noteq> CHR ''/'' \<and> u_Host u \<noteq> [] then ''/'' else []);
          start = (if start = [] \<and> Contains (fst (Cut path CHR ''/'')) '':'' then ''./'' else start)
        in if u_Opaque u \<noteq> [] then scheme @ u_Opaque u else start @ path) @
      (if u_ForceQuery u \<or> u_RawQuery u \<noteq> [] then ''?'' @ u_RawQuery u else []) @
      (if u_Fragment u \<noteq> [] then ''#'' @ EscapedFragment u else [])" by (simp add: URLString_def Let_def)
  qed (use u in \<open>auto simp: Let_def clean_def\<close>)
  with url_query_parts [of body "u_RawQuery u" frag] u show ?thesis by (auto simp: clean_def split: if_splits)
qed

definition scheme_char :: "char \<Rightarrow> bool" where
  "scheme_char c \<longleftrightarrow> is_letter c \<or> is_digit c \<or> c \<in> set ''+-.''"

lemma getSchemeAcc_step:
  "getSchemeAcc raw acc (c # cs) = Inr (scheme, rest) \<Longrightarrow>
     scheme = [] \<and> rest = raw \<or> scheme_char c \<and> getSchemeAcc raw (c # acc) cs = Inr (scheme, rest) \<or>
     c = CHR '':'' \<and> scheme = rev acc \<and> rest = cs"
  by (simp add: scheme_char_def split: if_splits)

lemma getSchemeAcc_rest:
  assumes "getSchemeAcc raw acc s = Inr (scheme, rest)"
  shows "scheme = [] \<and> rest = raw \<or> (\<exists>p. scheme = rev acc @ p \<and> s = p @ '':'' @ rest \<and> list_all scheme_char p)"
  using assms
proof (induction s arbitrary: acc)
  case (Cons c cs)
  from getSchemeAcc_step [OF Cons.prems] consider "scheme = [] \<and> rest = raw"
    | "scheme_char c" "getSchemeAcc raw (c # acc) cs = Inr (scheme, rest)" | "c = CHR '':'' \<and> scheme = rev acc \<and> rest = cs" by blast
  then show ?case
  proof cases
    case 2
    from Cons.IH [OF this(2)] show ?thesis
    proof
      assume "\<exists>p. scheme = rev (c # acc) @ p \<and> cs = p @ '':'' @ rest \<and> list_all scheme_char p"
      then obtain p where "scheme = rev acc @ (c # p)" "c # cs = (c # p) @ '':'' @ rest" "list_all scheme_char (c # p)"
        using 2(1) by auto
      then show ?thesis by blast
    qed simp
  qed auto
qed simp

lemma scheme_char_unmarked: "scheme_char c \<Longrightarrow> c \<noteq> CHR ''?'' \<and> c \<noteq> CHR ''#'' \<and> lower_char c \<noteq> CHR ''?'' \<and> lower_char c \<noteq> CHR ''#''"
proof -
  assume c: "scheme_char c"
  have "\<not> scheme_char CHR ''?''" "\<not> scheme_char CHR ''#''" by (simp_all add: scheme_char_def is_letter_def is_digit_def)
  with c have n: "c \<noteq> CHR ''?''" "c \<noteq> CHR ''#''" by auto
  have "lower_char c = c \<or> (\<exists>n. lower_char c = char_of n \<and> 97 \<le> n \<and> n \<le> (122 :: nat))"
  proof (cases "65 \<le> (of_char c :: nat) \<and> (of_char c :: nat) \<le> 90")
    case True
    then have "lower_char c = char_of (of_char c + 32 :: nat)" by (simp add: lower_char_def Let_def)
    with True show ?thesis by (intro disjI2 exI [of _ "of_char c + 32"]) simp
  qed (auto simp: lower_char_def Let_def)
  moreover have "char_of n \<noteq> CHR ''?'' \<and> char_of n \<noteq> CHR ''#''" if "97 \<le> n" "n \<le> (122 :: nat)" for n
  proof -
    have "(of_char (char_of n :: char) :: nat) = n" using that by (simp add: of_char_of)
    then have "(of_char d :: nat) = n" if "char_of n = d" for d :: char using that by simp
    from this [of "CHR ''?''"] this [of "CHR ''#''"] that show ?thesis by auto
  qed
  ultimately show ?thesis using n by metis
qed

lemma ToLower_unmarked: "list_all scheme_char s \<Longrightarrow> unmarked (ToLower s) \<and> unmarked s"
  by (induction s) (auto simp: ToLower_def scheme_char_unmarked)

lemma parse_clean:
  assumes "parse t = Inr u" and "CHR ''#'' \<notin> set t"
  shows "clean u \<and> u_RawQuery u = tl (dropWhile (\<lambda>c. c \<noteq> CHR ''?'') t)"
proof (cases "t = ''*''")
  case True
  with assms(1) have "u = zeroURL\<lparr>u_Path := ''*''\<rparr>" by (simp add: parse_def split: if_splits)
  with True show ?thesis by (simp add: clean_def zeroURL_def)
next
  case False
  with assms(1) obtain scheme rest where s: "getScheme t = Inr (scheme, rest)"
    by (auto simp: parse_def split: if_splits sum.splits)
  have p: "unmarked (ToLower scheme)" "CHR ''#'' \<notin> set rest"
    "tl (dropWhile (\<lambda>c. c \<noteq> CHR ''?'') rest) = tl (dropWhile (\<lambda>c. c \<noteq> CHR ''?'') t)"
  proof -
    consider "scheme = []" "rest = t" | p where "scheme = p" "t = p @ '':'' @ rest" "list_all scheme_char p"
      using getSchemeAcc_rest [OF s [unfolded getScheme_def]] by auto
    then have "unmarked (ToLower scheme) \<and> CHR ''#'' \<notin> set rest \<and>
        tl (dropWhile (\<lambda>c. c \<noteq> CHR ''?'') rest) = tl (dropWhile (\<lambda>c. c \<noteq> CHR ''?'') t)"
    proof cases
      case 1
      with assms(2) show ?thesis by (simp add: ToLower_def)
    next
      case 2
      with assms(2) ToLower_unmarked [of p] show ?thesis by (auto simp: unmarked_def dropWhile_free)
    qed
    then show "unmarked (ToLower scheme)" "CHR ''#'' \<notin> set rest"
      "tl (dropWhile (\<lambda>c. c \<noteq> CHR ''?'') rest) = tl (dropWhile (\<lambda>c. c \<noteq> CHR ''?'') t)" by auto
  qed
  have raw: "setPath v x = Inr w \<Longrightarrow> u_Scheme w = u_Scheme v \<and> u_Opaque w = u_Opaque v \<and> u_RawQuery w = u_RawQuery v" for v x w
    by (auto simp: setPath_def split: sum.splits)
  have "CHR ''#'' \<notin> set (takeWhile (\<lambda>c. c \<noteq> CHR ''?'') rest)" "CHR ''?'' \<notin> set (takeWhile (\<lambda>c. c \<noteq> CHR ''?'') rest)"
    "CHR ''#'' \<notin> set (tl (dropWhile (\<lambda>c. c \<noteq> CHR ''?'') rest))"
    using p(2) by (auto dest: set_takeWhileD) (metis empty_iff list.sel(2) list.set(1) list.set_sel(2) set_dropWhileD)
  with assms(1) s False show ?thesis
    unfolding parse_def
    by (auto simp: Let_def clean_def Cut_def zeroURL_def p unmarked_def [of "takeWhile _ _"] dest!: raw split: if_splits sum.splits prod.splits)
qed

lemma Parse_clean:
  assumes "Parse t = Inr u"
  shows "clean u \<and> u_RawQuery u = url_query t"
proof -
  let ?t = "takeWhile (\<lambda>c. c \<noteq> CHR ''#'') t"
  have f: "CHR ''#'' \<notin> set ?t" by (auto dest: set_takeWhileD)
  obtain v where "parse ?t = Inr v" and "u_Scheme u = u_Scheme v \<and> u_Opaque u = u_Opaque v \<and> u_RawQuery u = u_RawQuery v"
    using assms by (auto simp: Parse_def Cut_def Let_def split: sum.splits if_splits)
  with parse_clean [OF _ f] show ?thesis by (auto simp: clean_def url_query_def)
qed

lemma setPath_ok_fields:
  "u_Scheme (setPath_ok u p) = u_Scheme u" "u_Opaque (setPath_ok u p) = u_Opaque u"
  by (auto simp: setPath_ok_def setPath_def split: sum.split)

lemma ResolveReference_clean: "clean b \<Longrightarrow> clean p \<Longrightarrow> unmarked (u_Scheme (ResolveReference b p)) \<and> unmarked (u_Opaque (ResolveReference b p))"
  by (auto simp: ResolveReference_def clean_def setPath_ok_fields Let_def)

lemma Encode_unfragmented: "CHR ''#'' \<notin> set (Encode m)"
proof -
  have "CHR ''#'' \<notin> set (Join xs ''&'')" if "\<forall>x \<in> set xs. CHR ''#'' \<notin> set x" for xs
    using that by (induction xs "''&''" rule: Join.induct) auto
  then show ?thesis by (auto simp: Encode_pairs pair_text_free not_plain)
qed

lemma URLof_query:
  assumes "Parse (rq_baseURL r) = Inr b" and "Parse (request_path r) = Inr p"
  shows "url_query (URLof r) = Encode (rq_queryValues r)"
proof -
  define b' where "b' = (if \<not> HasSuffix (u_Path b) ''/'' then b\<lparr>u_Path := u_Path b @ ''/''\<rparr> else b)"
  have "clean b'" using Parse_clean [OF assms(1), THEN conjunct1] by (simp add: b'_def clean_def)
  with Parse_clean [OF assms(2), THEN conjunct1] have c: "clean ((ResolveReference b' p)\<lparr>u_RawQuery := Encode (rq_queryValues r)\<rparr>)"
    using ResolveReference_clean [of b' p] Encode_unfragmented by (simp add: clean_def)
  have "URLof r = URLString ((ResolveReference b' p)\<lparr>u_RawQuery := Encode (rq_queryValues r)\<rparr>)"
    using assms by (simp add: URLof_def b'_def Let_def)
  with URLString_query [OF c] show ?thesis by simp
qed

text \<open>Sending prints the URL once more.\<close>

lemma sent_URL_query: "Parse t = Inr u \<Longrightarrow> url_query (URLString u) = url_query t"
  using Parse_clean URLString_query by metis

lemma values_get_add: "values_get (values_add k' v m) k = (if k' = k \<and> first_value m k = None then v else values_get m k)"
  by (auto simp: values_get_first first_value_add split: option.split)

lemma values_add_keys: "set (map fst (values_add k v m)) = insert k (set (map fst m))"
  by (induction k v m rule: values_add.induct) auto

lemma values_add_distinct: "distinct (map fst m) \<Longrightarrow> distinct (map fst (values_add k v m))"
  by (induction k v m rule: values_add.induct) (use values_add_keys in \<open>auto simp flip: set_map\<close>)

definition url_get :: "string \<Rightarrow> string \<Rightarrow> string" where
  "url_get t k = values_get (query_values (url_query t)) k"

section \<open>Listings on the wire\<close>

definition list_request :: "SessionClient \<Rightarrow> int \<Rightarrow> string \<Rightarrow> ListShareFilters \<Rightarrow> Request" where
  "list_request client limit start f =
     query_if (shf_ShareName f \<noteq> []) ''name'' (shf_ShareName f)
       (query_if (shf_ResourceGroupID f \<noteq> []) ''resource_group.id'' (shf_ResourceGroupID f)
         (paging limit start (NewRequest client \<lparr>op_Name = ''ListFileShares'', op_Method = ''GET'', op_PathPattern = sharesPath\<rparr>)))"

lemma query_if_values: "rq_queryValues (query_if c k v r) = (if c then values_add k v (rq_queryValues r) else rq_queryValues r)"
  by (simp add: query_if_def AddQueryValue_def)

lemma query_if_same [simp]: "rq_operation (query_if c k v r) = rq_operation r" "rq_baseURL (query_if c k v r) = rq_baseURL r"
  "rq_pathParams (query_if c k v r) = rq_pathParams r"
  by (simp_all add: query_if_def AddQueryValue_def)

lemma list_request_values:
  assumes "distinct (map fst (cl_queryValues client))"
    and "list_all (\<lambda>k. k \<notin> fst ` set (cl_queryValues client)) [''start'', ''limit'', ''name'', ''resource_group.id'']"
  shows "distinct (map fst (rq_queryValues (list_request client limit start f)))"
    and "values_get (rq_queryValues (list_request client limit start f)) ''start'' = start"
    and "values_get (rq_queryValues (list_request client limit start f)) ''limit'' = (if limit > 0 then Itoa limit else [])"
    and "values_get (rq_queryValues (list_request client limit start f)) ''name'' = shf_ShareName f"
    and "values_get (rq_queryValues (list_request client limit start f)) ''resource_group.id'' = shf_ResourceGroupID f"
    and "k \<in> fst ` set (cl_queryValues client) \<Longrightarrow> values_get (rq_queryValues (list_request client limit start f)) k = values_get (cl_queryValues client) k"
proof -
  have q: "rq_queryValues (NewRequest client oper) = cl_queryValues client" for oper by (simp add: NewRequest_def Let_def)
  note defs = list_request_def paging_def query_if_values q
  from assms(1) show "distinct (map fst (rq_queryValues (list_request client limit start f)))"
    by (simp add: defs values_add_distinct)
  have none: "first_value (cl_queryValues client) k = None" "values_get (cl_queryValues client) k = []"
    if "k \<in> {''start'', ''limit'', ''name'', ''resource_group.id''}" for k
    using that assms(2) first_value_absent [of k "cl_queryValues client"] by (auto simp: values_get_first)
  show "values_get (rq_queryValues (list_request client limit start f)) ''start'' = start"
    "values_get (rq_queryValues (list_request client limit start f)) ''limit'' = (if limit > 0 then Itoa limit else [])"
    "values_get (rq_queryValues (list_request client limit start f)) ''name'' = shf_ShareName f"
    "values_get (rq_queryValues (list_request client limit start f)) ''resource_group.id'' = shf_ResourceGroupID f"
    by (simp_all add: defs values_get_add first_value_add none)
  assume k: "k \<in> fst ` set (cl_queryValues client)"
  have "k \<noteq> x" if "x \<notin> fst ` set (cl_queryValues client)" for x using k that by blast
  with assms(2) have "k \<noteq> ''start''" "k \<noteq> ''limit''" "k \<noteq> ''name''" "k \<noteq> ''resource_group.id''" by simp_all
  then show "values_get (rq_queryValues (list_request client limit start f)) k = values_get (cl_queryValues client) k"
    by (simp add: defs values_get_add)
qed

lemma list_request_parts:
  "op_Method (rq_operation (list_request client limit start f)) = ''GET''"
  "rq_authenHandler (list_request client limit start f) = cl_authenHandler client"
  "rq_bodyProvider (list_request client limit start f) = None"
  by (simp_all add: list_request_def paging_def query_if_def AddQueryValue_def NewRequest_def Let_def)

lemma session_client_fields:
  "fst ` set (cl_queryValues (session_client creds p)) = {''version'', ''generation''}"
  "distinct (map fst (cl_queryValues (session_client creds p)))" "cl_pathParams (session_client creds p) = []"
  "cl_baseURL (session_client creds p) = cfg_BaseURL (vp_APIConfig p)"
  by (auto simp: session_client_def logged_in_def NewSession_def Login_def WithAuthToken_def WithDebug_def newClient_def Let_def)

text \<open>A token that the API escaped in its link stays escaped, and is escaped once more when it is sent back.\<close>

lemma next_token_escaped:
  assumes "\<not> Contains pre ''start=''" and "rest = [] \<or> hd rest = CHR ''&''"
  shows "next_token (pre @ ''start='' @ QueryEscape tok @ rest) s = (Ret (QueryEscape tok), s)"
proof -
  have "CHR ''='' \<notin> set (QueryEscape tok)" "CHR ''&'' \<notin> set (QueryEscape tok)"
    by (simp_all add: QueryEscape_free not_plain)
  moreover from this(1) have "\<not> Contains (QueryEscape tok) ''start=''"
    by (auto simp: Contains_iff_sublist dest: set_mono_sublist)
  ultimately show ?thesis using next_token_link [OF assms(1) _ _ assms(2)] by blast
qed

text \<open>C10: What a listing asks for on the wire: when \<open>ListVolumes\<close> on a session of the VPC provider returns a list, then
  a GET with the session's token was answered with a 2xx status, from whose query a server reads the
  requested start, limit (at most 100), name and resource group, whatever characters they are made of, and the
  volumes are those of the page in the answer.\<close>

theorem ListVolumes_on_the_wire:
  assumes "OpenSession E ctx creds p s0 = (Ret (Inr vs, p'), s1)"
    and "client_provider_of p' = DefaultRegionalAPIClientProvider"
    and "Parse (cfg_BaseURL (vp_APIConfig p')) = Inr b"
    and "ListVolumes X vs limit start tags s = (Ret (Some vl, e), s')" and "0 < maxRetryAttempt s"
  shows "\<exists>q resp w. env_transport E q w = (Inr resp, world s') \<and> hr_Method q = ''GET'' \<and>
    map_of (hr_Header q) ''Authorization'' = Some [''Bearer '' @ cc_Credential creds] \<and>
    url_get (hr_URL q) ''start'' = start \<and> url_get (hr_URL q) ''limit'' = (if limit > 0 then Itoa (min limit 100) else []) \<and>
    url_get (hr_URL q) ''name'' = map_get tags [] ''name'' \<and>
    url_get (hr_URL q) ''resource_group.id'' = map_get tags [] ''resource_group.id'' \<and>
    200 \<le> resp_StatusCode resp \<and> resp_StatusCode resp \<le> 299 \<and>
    (let page = if resp_StatusCode resp = 204 then zeroShareList else fst (dec_ShareList (env_codec E) (resp_Body resp))
     in vl_Volumes vl = map FromProviderToLibVolume (shl_Shares page))"
proof -
  let ?c = "session_client creds p'"
  note services = session_services [OF assms(1,2)]
  have call: "fs_ListFileShares (FileShareService vs) = ListFileShares (env_transport E) (env_codec E) ?c"
    by (simp add: services(1))
  obtain w page where run: "ListFileShares (env_transport E) (env_codec E) ?c (min limit 100) start (Some (share_filters tags)) w
      = ((Some page, None), world s')" and vl: "vl_Volumes vl = map FromProviderToLibVolume (shl_Shares page)"
    using ListVolumes_page [OF assms(4,5)] list_shares.result_or_error unfolding call share_filters_def by metis
  let ?r = "list_request ?c (min limit 100) start (share_filters tags)"
  obtain iv where iv: "Invoke (env_transport E) (env_codec E) (Some (dec_ShareList (env_codec E))) zeroShareList (Some apiErr) ?r w
      = (iv, world s')" and ok: "iv_Error iv = None" and page: "iv_Success iv = page"
    using run by (auto simp: ListFileShares_def list_request_def share_filters_def pointer_or_error_def Let_def split: prod.splits option.splits)
  from Invoke_sent_as [OF iv ok] obtain q resp where q: "env_transport E q w = (Inr resp, world s')" "sent_as (env_codec E) ?r q resp"
    and r: "iv = receive (env_codec E) (Some (dec_ShareList (env_codec E))) zeroShareList (Some apiErr) apiErr resp" by blast
  then obtain u where u: "Parse (URLof ?r) = Inr u" "hr_URL q = URLString u" by (auto simp: sent_as_def)
  have "case Parse ''/v1/shares'' of Inl e \<Rightarrow> False | Inr p \<Rightarrow> True" by code_simp
  then obtain path where "Parse (request_path ?r) = Inr path"
    by (auto simp: list_request_def paging_def request_path_def NewRequest_def session_client_fields Params_Copy_def path_defs Let_def split: sum.splits)
  with assms(3) have "url_query (URLof ?r) = Encode (rq_queryValues ?r)"
    by (intro URLof_query) (simp_all add: list_request_def paging_def NewRequest_def session_client_fields Let_def)
  with u have "url_query (hr_URL q) = Encode (rq_queryValues ?r)" by (simp add: sent_URL_query)
  then have get: "url_get (hr_URL q) k = values_get (rq_queryValues ?r) k" for k
    using query_read_back list_request_values(1) [of ?c] by (simp add: url_get_def session_client_fields)
  note asked = list_request_values(2-5) [of ?c "min limit 100" start "share_filters tags"]
  from q services(2) have sent: "hr_Method q = ''GET''" "200 \<le> resp_StatusCode resp" "resp_StatusCode resp \<le> 299"
    "map_of (hr_Header q) ''Authorization'' = Some [''Bearer '' @ cc_Credential creds]" by (simp_all add: sent_as_def list_request_parts)
  have "page = (if resp_StatusCode resp = 204 then zeroShareList else fst (dec_ShareList (env_codec E) (resp_Body resp)))"
    using receive_accepted [of "env_codec E" "dec_ShareList (env_codec E)" zeroShareList apiErr apiErr resp] r ok page by simp
  with q sent asked vl show ?thesis
    by (intro exI [of _ q] exI [of _ resp] exI [of _ w]) (simp add: get session_client_fields share_filters_def)
qed

text \<open>An API that accepts everything and answers nothing.\<close>

definition emptyEnv :: "nat environment" where
  "emptyEnv = sampleEnv\<lparr>env_transport := \<lambda>q w. (Inr (answer 204 []), Suc w), env_codec := sampleCodec\<rparr>"

lemma ListVolumes_on_the_wire_witness:
  "\<exists>vs p' s1 vl e s' q resp w. OpenSession emptyEnv None sampleCreds sampleProvider madeState = (Ret (Inr vs, p'), s1) \<and>
     ListVolumes sampleExt vs 500 ''a&start=b'' [''name'' \<mapsto> ''x=1&limit=7#?''] (init_gost 0) = (Ret (Some vl, e), s') \<and>
     env_transport emptyEnv q w = (Inr resp, world s') \<and> url_get (hr_URL q) ''name'' = ''x=1&limit=7#?'' \<and>
     url_get (hr_URL q) ''start'' = ''a&start=b'' \<and> url_get (hr_URL q) ''limit'' = ''100''"
proof -
  obtain vs p' s1 where o: "OpenSession emptyEnv None sampleCreds sampleProvider madeState = (Ret (Inr vs, p'), s1)"
    and d: "client_provider_of p' = DefaultRegionalAPIClientProvider" and c: "session_client sampleCreds p' = wireClient"
    and fs: "FileShareService vs = NewFileShareService (env_transport emptyEnv) (env_codec emptyEnv) wireClient"
    by (rule sample_open [where T = "env_transport emptyEnv" and C = "env_codec emptyEnv"]) (simp add: emptyEnv_def)
  have base: "cfg_BaseURL (vp_APIConfig p') = cl_baseURL wireClient"
    using session_client_fields(4) [of sampleCreds p'] c by simp
  have "case Parse (cl_baseURL wireClient) of Inl e \<Rightarrow> False | Inr b \<Rightarrow> True" by code_simp
  then obtain b where b: "Parse (cfg_BaseURL (vp_APIConfig p')) = Inr b" by (auto simp: base split: sum.splits)
  let ?tags = "[''name'' \<mapsto> ''x=1&limit=7#?''] :: string \<Rightarrow> string option"
  let ?call = "ListFileShares (env_transport emptyEnv) (env_codec emptyEnv) wireClient 100 ''a&start=b'' (Some (share_filters ?tags))"
  have "case Parse (URLof (list_request wireClient 100 ''a&start=b'' (share_filters ?tags))) of Inl e \<Rightarrow> False | Inr u \<Rightarrow> True"
    by code_simp
  then obtain u where u: "Parse (URLof (list_request wireClient 100 ''a&start=b'' (share_filters ?tags))) = Inr u"
    by (auto split: sum.splits)
  have "?call w = ((Some zeroShareList, None), Suc w)" for w
  proof -
    have "Invoke (env_transport emptyEnv) (env_codec emptyEnv) (Some (dec_ShareList (env_codec emptyEnv))) zeroShareList (Some apiErr)
        (list_request wireClient 100 ''a&start=b'' (share_filters ?tags)) w =
      (receive (env_codec emptyEnv) (Some (dec_ShareList (env_codec emptyEnv))) zeroShareList (Some apiErr) apiErr (answer 204 []), Suc w)"
      by (rule Invoke_answered [OF u])
        (simp_all add: list_request_parts wire_parts emptyEnv_def)
    then show ?thesis
      by (simp add: ListFileShares_def list_request_def pointer_or_error_def receive_def answer_def Let_def split: prod.split)
  qed
  then have "\<exists>vl e s'. ListVolumes sampleExt vs 500 ''a&start=b'' ?tags (init_gost 0) = (Ret (Some vl, e), s')"
    by (simp add: ListVolumes_def limited fs share_filters_def op_run retry_init capture_def zeroShareList_def Let_def)
  then obtain vl e s' where run: "ListVolumes sampleExt vs 500 ''a&start=b'' ?tags (init_gost 0) = (Ret (Some vl, e), s')" by blast
  have "0 < maxRetryAttempt (init_gost 0)" by simp
  have "Itoa (min 500 100) = ''100''" by (simp add: Itoa_def showNat.simps digit_char_def) code_simp
  with ListVolumes_on_the_wire [OF o d b run] o run show ?thesis by (fastforce simp: map_get_def)
qed

end
