(* ===== verification/PathLaws.thy ===== *)
theory PathLaws
  imports UrlLaws
begin

text \<open>
  Where a request for a share goes: the path that is made of an ID, when the ID is an ordinary one and when
  it is not.  The client substitutes IDs unescaped.
\<close>

section \<open>Ordinary IDs\<close>

definition id_char :: "char \<Rightarrow> bool" where
  "id_char c \<longleftrightarrow> is_letter c \<or> is_digit c \<or> c = CHR ''-'' \<or> c = CHR ''_''"

definition ordinary :: "string \<Rightarrow> bool" where
  "ordinary s \<longleftrightarrow> s \<noteq> [] \<and> list_all id_char s"

lemma id_char_not: "id_char c \<Longrightarrow> c \<noteq> CHR ''/'' \<and> c \<noteq> CHR ''{'' \<and> c \<noteq> CHR ''}'' \<and> c \<noteq> CHR ''#'' \<and> c \<noteq> CHR ''?'' \<and>
    c \<noteq> CHR ''%'' \<and> c \<noteq> CHR ''.'' \<and> c \<noteq> CHR ''+''"
proof -
  have "\<not> id_char CHR ''/''" "\<not> id_char CHR ''{''" "\<not> id_char CHR ''}''" "\<not> id_char CHR ''#''" "\<not> id_char CHR ''?''"
    "\<not> id_char CHR ''%''" "\<not> id_char CHR ''.''" "\<not> id_char CHR ''+''"
    by (simp_all add: id_char_def is_letter_def is_digit_def)
  then show "id_char c \<Longrightarrow> c \<noteq> CHR ''/'' \<and> c \<noteq> CHR ''{'' \<and> c \<noteq> CHR ''}'' \<and> c \<noteq> CHR ''#'' \<and> c \<noteq> CHR ''?'' \<and>
    c \<noteq> CHR ''%'' \<and> c \<noteq> CHR ''.'' \<and> c \<noteq> CHR ''+''" by blast
qed

lemma id_char_free: "list_all id_char s \<Longrightarrow> \<not> id_char c \<Longrightarrow> c \<notin> set s"
  by (auto simp: list_all_iff)

text \<open>The characters of a path that are neither escaped nor special.\<close>

definition path_char :: "char \<Rightarrow> bool" where
  "path_char c \<longleftrightarrow> id_char c \<or> c = CHR ''/'' \<or> c = CHR ''.''"

lemma path_char_facts:
  assumes "path_char c"
  shows "\<not> shouldEscape c encodePath" and "c \<noteq> CHR ''#''" and "c \<noteq> CHR ''?''" and "c \<noteq> CHR ''%''"
    and "\<not> ((of_char c :: nat) < 32 \<or> (of_char c :: nat) = 127)"
  using assms id_char_not [of c]
  by (auto simp: path_char_def id_char_def shouldEscape_def is_letter_def is_digit_def Let_def)

lemma path_text:
  assumes "list_all path_char s"
  shows "escape s encodePath = s" and "unescape s encodePath = Inr s" and "CHR ''#'' \<notin> set s" and "CHR ''?'' \<notin> set s"
    and "\<not> stringContainsCTLByte s"
  using assms
proof (induction s)
  case (Cons c s)
  { case 1 with Cons path_char_facts [of c] show ?case by (simp add: escape_def escape_char_def) }
  { case 2 with Cons path_char_facts [of c] show ?case by simp }
  { case 3 with Cons path_char_facts [of c] show ?case by auto }
  { case 4 with Cons path_char_facts [of c] show ?case by auto }
  { case 5 with Cons path_char_facts [of c] show ?case by (simp add: stringContainsCTLByte_def) }
qed (simp_all add: escape_def stringContainsCTLByte_def)

lemma Cut_none: "c \<notin> set s \<Longrightarrow> Cut s c = (s, [], False)"
  by (simp add: Cut_def dropWhile_none takeWhile_free [of c s "[]", simplified])

text \<open>Parsing an absolute path gives that path.\<close>

lemma Parse_path:
  assumes "list_all path_char s" and "s = CHR ''/'' # t" and "hd t \<noteq> CHR ''/''"
  shows "Parse s = Inr (zeroURL\<lparr>u_Path := s\<rparr>)"
proof -
  note p = path_text [OF assms(1)]
  have "getScheme s = Inr ([], s)" by (simp add: getScheme_def assms(2) is_letter_def is_digit_def)
  moreover have "\<not> HasSuffix s ''?''" using p(4) by (auto simp: HasSuffix_def suffix_def)
  moreover have "HasPrefix s ''/''" "\<not> HasPrefix s ''//''" using assms(2,3) by (cases t; auto simp: HasPrefix_def)+
  ultimately have "parse s = Inr (zeroURL\<lparr>u_Path := s\<rparr>)"
    using p assms(2) by (simp add: parse_def Cut_none ToLower_def setPath_def zeroURL_def)
  then show ?thesis by (simp add: Parse_def Cut_none p(3))
qed

section \<open>The URL of an absolute path\<close>

lemma resolvePath_absolute: "p = CHR ''/'' # t \<Longrightarrow> resolvePath base p = resolvePath [] p"
  by (simp add: resolvePath_def)

lemma URLof_path:
  assumes "Parse (rq_baseURL r) = Inr b" and "request_path r = p" and "list_all path_char p" and "p = CHR ''/'' # t"
    and "hd t \<noteq> CHR ''/''"
  shows "URLof r = URLString ((setPath_ok (zeroURL\<lparr>u_Path := p, u_Scheme := u_Scheme b, u_Host := u_Host b, u_User := u_User b\<rparr>)
      (resolvePath [] p))\<lparr>u_RawQuery := Encode (rq_queryValues r)\<rparr>)"
proof -
  have e: "EscapedPath (zeroURL\<lparr>u_Path := p\<rparr>) = p"
    using path_text(1) [OF assms(3)] assms(4) by (simp add: EscapedPath_def zeroURL_def)
  define b' where "b' = (if \<not> HasSuffix (u_Path b) ''/'' then b\<lparr>u_Path := u_Path b @ ''/''\<rparr> else b)"
  have "u_Scheme b' = u_Scheme b" "u_Host b' = u_Host b" "u_User b' = u_User b" by (simp_all add: b'_def)
  moreover have "ResolveReference b' (zeroURL\<lparr>u_Path := p\<rparr>) =
      setPath_ok (zeroURL\<lparr>u_Path := p, u_Scheme := u_Scheme b', u_Host := u_Host b', u_User := u_User b'\<rparr>) (resolvePath (EscapedPath b') p)"
    unfolding ResolveReference_def Let_def e using assms(4) by (simp add: zeroURL_def)
  moreover have "URLof r = URLString ((ResolveReference b' (zeroURL\<lparr>u_Path := p\<rparr>))\<lparr>u_RawQuery := Encode (rq_queryValues r)\<rparr>)"
    using assms(1,2) Parse_path [OF assms(3,4,5)] by (simp add: URLof_def b'_def Let_def)
  ultimately show ?thesis by (simp add: resolvePath_absolute [OF assms(4), of "EscapedPath b'"])
qed

text \<open>The path of a request for a share.\<close>

lemma share_path:
  assumes "cl_pathParams client = []" and "no_braces shareID"
  shows "request_path (share_request name mthd client shareID) = ''/v1/shares/'' @ shareID"
proof -
  have "request_path (share_request name mthd client shareID) =
      concat (map (segment_value (rq_pathParams (share_request name mthd client shareID))) [Lit ''/v1/shares/'', Par ''share-id''])"
    by (rule request_path_simultaneous)
      (use assms in \<open>simp_all add: share_request_def PathParameter_def NewRequest_def Params_Copy_def pattern_text_def path_defs no_braces_def Let_def\<close>)
  then show ?thesis
    using assms(1) by (simp add: share_request_def PathParameter_def NewRequest_def Params_Copy_def path_defs Let_def)
qed

text \<open>Paths are resolved element by element.\<close>

lemma Split_slash: "\<forall>x \<in> set (y # xs). CHR ''/'' \<notin> set x \<Longrightarrow> Split (Join (y # xs) ''/'') ''/'' = y # xs"
  using splitAcc_char_Join [of y xs "CHR ''/''"] by (simp add: Split_def)

lemma ordinary_free: "ordinary s \<Longrightarrow> CHR ''/'' \<notin> set s" "ordinary s \<Longrightarrow> s \<noteq> ''.''" "ordinary s \<Longrightarrow> s \<noteq> ''..''"
  "ordinary s \<Longrightarrow> no_braces s" "ordinary s \<Longrightarrow> list_all path_char s" "ordinary s \<Longrightarrow> s \<noteq> []"
proof -
  assume s: "ordinary s"
  then have c: "c \<in> set s \<Longrightarrow> id_char c" for c by (auto simp: ordinary_def list_all_iff)
  show "CHR ''/'' \<notin> set s" "no_braces s" using c id_char_not by (auto simp: no_braces_def)
  have "CHR ''.'' \<notin> set s" using c id_char_not by blast
  then show "s \<noteq> ''.''" "s \<noteq> ''..''" by auto
  show "list_all path_char s" using s by (auto simp: ordinary_def path_char_def list_all_iff)
  show "s \<noteq> []" using s by (simp add: ordinary_def)
qed

lemma resolve_share: "ordinary x \<Longrightarrow> resolvePath [] (''/v1/shares/'' @ x) = ''/v1/shares/'' @ x"
proof -
  assume x: "ordinary x"
  note f = ordinary_free [OF x]
  have "Split (''/v1/shares/'' @ x) ''/'' = [[], ''v1'', ''shares'', x]"
    using Split_slash [of "[]" "[''v1'', ''shares'', x]"] f by simp
  with f show ?thesis by (simp add: resolvePath_def)
qed

lemma cutLast_append: "c \<notin> set b \<Longrightarrow> cutLast (a @ c # b) c = Some (a, b)"
  using takeWhile_free [of c "rev b" "c # rev a"] dropWhile_free [of c "rev b" "c # rev a"] by (simp add: cutLast_def)

lemma resolve_traversal: "ordinary x \<Longrightarrow> ordinary y \<Longrightarrow> resolvePath [] (''/v1/shares/'' @ x @ ''/../'' @ y) = ''/v1/shares/'' @ y"
proof -
  assume x: "ordinary x" and y: "ordinary y"
  note f = ordinary_free [OF x] ordinary_free [OF y]
  have "Split (''/v1/shares/'' @ x @ ''/../'' @ y) ''/'' = [[], ''v1'', ''shares'', x, ''..'', y]"
    using Split_slash [of "[]" "[''v1'', ''shares'', x, ''..'', y]"] f by simp
  moreover have "cutLast (''/v1/shares/'' @ x) CHR ''/'' = Some (''/v1/shares'', x)"
    using cutLast_append [of "CHR ''/''" x "''/v1/shares''"] f by simp
  ultimately show ?thesis using f by (simp add: resolvePath_def)
qed

section \<open>Requests for a share\<close>

lemma session_requests:
  "rq_baseURL (share_request name mthd (session_client creds p) shareID) = cfg_BaseURL (vp_APIConfig p)"
  "rq_queryValues (share_request name mthd (session_client creds p) shareID) = cl_queryValues (session_client creds p)"
  by (simp_all add: share_request_def PathParameter_def NewRequest_def session_client_fields Let_def)

lemma session_query: "Encode (cl_queryValues (session_client creds p)) \<noteq> []"
proof -
  obtain v g where "cl_queryValues (session_client creds p) = [(''version'', [v]), (''generation'', [g])]"
    by (simp add: session_client_def logged_in_def NewSession_def Login_def WithAuthToken_def WithDebug_def newClient_def Let_def)
  then show ?thesis by (simp add: Encode_def sort_keys_def)
qed

text \<open>C12: A request of a session for a share with an ordinary ID (letters, digits, \<^verbatim>\<open>-\<close>, \<^verbatim>\<open>_\<close>) addresses exactly that share:
  its URL is the API's address, the path of the share with this ID, and the version and generation of the API as the query.\<close>

theorem share_request_URL:
  assumes "Parse (cfg_BaseURL (vp_APIConfig p)) = Inr b" and "u_Scheme b \<noteq> []" and "u_Host b \<noteq> []" and "u_User b = None"
    and "ordinary shareID"
  shows "URLof (share_request name mthd (session_client creds p) shareID) =
    u_Scheme b @ ''://'' @ escape (u_Host b) encodeHost @ ''/v1/shares/'' @ shareID @
    ''?'' @ Encode (cl_queryValues (session_client creds p))"
proof -
  let ?p = "''/v1/shares/'' @ shareID"
  note f = ordinary_free [OF assms(5)]
  have chars: "list_all path_char ?p" using f(5) by (simp add: path_char_def id_char_def is_letter_def is_digit_def)
  have path: "request_path (share_request name mthd (session_client creds p) shareID) = ?p"
    by (rule share_path) (simp_all add: session_client_fields f(4))
  have q: "Encode (cl_queryValues (session_client creds p)) \<noteq> []" by (rule session_query)
  have base: "Parse (rq_baseURL (share_request name mthd (session_client creds p) shareID)) = Inr b"
    using assms(1) by (simp add: session_requests)
  from URLof_path [OF base path chars, of "''v1/shares/'' @ shareID"] show ?thesis
    using path_text(1,2) [OF chars] assms(2-4) q
    by (simp add: resolve_share [OF assms(5), simplified] setPath_ok_def setPath_def URLString_def url_prefix_def EscapedPath_def zeroURL_def session_requests Let_def)
qed

lemma SetHeader_parts:
  "rq_operation (SetHeader k v r) = rq_operation r" "rq_headers (SetHeader k v r) = header_set k v (rq_headers r)"
  "rq_bodyProvider (SetHeader k v r) = rq_bodyProvider r"
  by (simp_all add: SetHeader_def)

text \<open>What is sent depends on the path parameters through the URL only.\<close>

lemma Invoke_same_URL:
  assumes "URLof r' = URLof r" and "rq_authenHandler r' = rq_authenHandler r" and "rq_operation r' = rq_operation r"
    and "rq_headers r' = rq_headers r" and "rq_bodyProvider r' = rq_bodyProvider r"
  shows "Invoke T C sc a0 errs r' = Invoke T C sc a0 errs r"
  using assms
  by (intro ext) (simp add: Invoke_def Before_def encode_body_def SetHeader_parts Let_def split: option.split sum.split)

lemma setPath_ok_path: "list_all path_char q \<Longrightarrow> setPath_ok v q = v\<lparr>u_Path := q, u_RawPath := []\<rparr>"
  by (simp add: setPath_ok_def setPath_def path_text)

lemma traversal_URL:
  assumes "Parse (cfg_BaseURL (vp_APIConfig p)) = Inr b" and "ordinary x" and "ordinary y"
  shows "URLof (share_request name mthd (session_client creds p) (x @ ''/../'' @ y)) =
    URLof (share_request name mthd (session_client creds p) y)"
proof -
  let ?c = "session_client creds p" and ?z = "x @ ''/../'' @ y"
  note f = ordinary_free [OF assms(2)] ordinary_free [OF assms(3)]
  have step: "URLof (share_request name mthd ?c s) = URLString (zeroURL\<lparr>u_Path := ''/v1/shares/'' @ y, u_Scheme := u_Scheme b, u_Host := u_Host b,
      u_User := u_User b, u_RawPath := [], u_RawQuery := Encode (cl_queryValues ?c)\<rparr>)"
    if s: "no_braces s" "list_all path_char s" "s \<noteq> []" "hd s \<noteq> CHR ''/''" "resolvePath [] (''/v1/shares/'' @ s) = ''/v1/shares/'' @ y" for s
  proof -
    have chars: "list_all path_char (''/v1/shares/'' @ s)" "list_all path_char (''/v1/shares/'' @ y)"
      using s(2) f by (simp_all add: path_char_def id_char_def is_letter_def is_digit_def)
    have path: "request_path (share_request name mthd ?c s) = ''/v1/shares/'' @ s"
      by (rule share_path) (simp_all add: session_client_fields s(1))
    have base: "Parse (rq_baseURL (share_request name mthd ?c s)) = Inr b"
      using assms(1) by (simp add: session_requests)
    from URLof_path [OF base path chars(1), of "''v1/shares/'' @ s"] show ?thesis
      unfolding s(5) setPath_ok_path [OF chars(2)] by (simp add: session_requests zeroURL_def)
  qed
  have hd: "hd x \<noteq> CHR ''/''" "hd y \<noteq> CHR ''/''" using f hd_in_set by metis+
  then have z: "no_braces ?z" "list_all path_char ?z" "?z \<noteq> []" "hd ?z \<noteq> CHR ''/''"
    using f by (simp_all add: no_braces_def path_char_def)
  with step [OF z resolve_traversal [OF assms(2,3)]] step [of y] resolve_share [OF assms(3)] f hd show ?thesis by simp
qed

lemma share_request_parts:
  "rq_authenHandler (share_request name mthd client s) = cl_authenHandler client"
  "rq_operation (share_request name mthd client s) = \<lparr>op_Name = name, op_Method = mthd, op_PathPattern = shareIDPath\<rparr>"
  "rq_headers (share_request name mthd client s) = rq_headers (NewRequest client \<lparr>op_Name = name, op_Method = mthd, op_PathPattern = shareIDPath\<rparr>)"
  "rq_bodyProvider (share_request name mthd client s) = None"
  by (simp_all add: share_request_def PathParameter_def NewRequest_def Let_def)

lemma traversal_Invoke:
  assumes "Parse (cfg_BaseURL (vp_APIConfig p)) = Inr b" and "ordinary x" and "ordinary y"
  shows "Invoke T C sc a0 errs (share_request name mthd (session_client creds p) (x @ ''/../'' @ y)) =
    Invoke T C sc a0 errs (share_request name mthd (session_client creds p) y)"
  by (rule Invoke_same_URL [OF traversal_URL [OF assms]]) (simp_all add: share_request_parts)

text \<open>C13: An ID is substituted into the path as it stands: with an ID \<open>x/../y\<close>, which the check of IDs accepts whenever it accepts
  \<open>y\<close>, every operation on the share is an operation on the share \<open>y\<close>; here the reading and the deletion.\<close>

theorem share_ID_traversal:
  assumes "Parse (cfg_BaseURL (vp_APIConfig p)) = Inr b" and "ordinary x" and "ordinary y"
  shows "DeleteFileShare T C (session_client creds p) (x @ ''/../'' @ y) = DeleteFileShare T C (session_client creds p) y \<and>
    GetFileShare T C (session_client creds p) (x @ ''/../'' @ y) = GetFileShare T C (session_client creds p) y \<and>
    (IsValidVolumeIDFormat y \<longrightarrow> IsValidVolumeIDFormat (x @ ''/../'' @ y))"
  by (simp add: traversal_Invoke [OF assms, unfolded share_request_def append.simps] DeleteFileShare_def GetFileShare_def IsValidVolumeIDFormat_iff Let_def)

section \<open>Samples\<close>

lemma sample_base: "\<exists>b. Parse (cfg_BaseURL (vp_APIConfig (sampleProvider :: nat VPCFileProvider))) = Inr b \<and>
    u_Scheme b = ''https'' \<and> u_Host b = ''iaas.test'' \<and> u_User b = None"
proof -
  have "cfg_BaseURL (vp_APIConfig (sampleProvider :: nat VPCFileProvider)) = ''https://iaas.test''"
    by (simp add: sampleProvider_def apiConfig_def configure_def sampleVPCConfig_def)
  moreover have "case Parse ''https://iaas.test'' of Inl e \<Rightarrow> False
      | Inr b \<Rightarrow> u_Scheme b = ''https'' \<and> u_Host b = ''iaas.test'' \<and> u_User b = None" by code_simp
  ultimately show ?thesis by (auto split: sum.splits)
qed

lemma share_request_URL_witness:
  "\<exists>q. URLof (share_request ''GetFileShare'' ''GET'' (session_client sampleCreds (sampleProvider :: nat VPCFileProvider)) sampleVolumeID) =
     ''https://iaas.test/v1/shares/r134-a-b-c-d?'' @ q"
proof -
  obtain b where b: "Parse (cfg_BaseURL (vp_APIConfig (sampleProvider :: nat VPCFileProvider))) = Inr b"
    "u_Scheme b = ''https''" "u_Host b = ''iaas.test''" "u_User b = None" using sample_base by blast
  have "ordinary sampleVolumeID" "escape ''iaas.test'' encodeHost = ''iaas.test''" by code_simp+
  with share_request_URL [OF b(1) _ _ b(4), of sampleVolumeID "''GetFileShare''" "''GET''" sampleCreds] b(2,3)
  show ?thesis by (simp add: sampleVolumeID_def)
qed

lemma share_ID_traversal_witness:
  "DeleteFileShare (env_transport emptyEnv) sampleCodec (session_client sampleCreds (sampleProvider :: nat VPCFileProvider)) ''other/../r134-a-b-c-d'' =
     DeleteFileShare (env_transport emptyEnv) sampleCodec (session_client sampleCreds (sampleProvider :: nat VPCFileProvider)) sampleVolumeID"
proof -
  obtain b where b: "Parse (cfg_BaseURL (vp_APIConfig (sampleProvider :: nat VPCFileProvider))) = Inr b" using sample_base by blast
  have "ordinary sampleVolumeID" "ordinary ''other''" by code_simp+
  from share_ID_traversal [OF b this(2,1), of "env_transport emptyEnv" sampleCodec sampleCreds] show ?thesis by (simp add: sampleVolumeID_def)
qed

end
