(* ===== verification/Multipart.thy ===== *)
theory Multipart
  imports Models
begin

text \<open>
  The multipart body provider of \<^verbatim>\<open>common/vpcclient/client/payload/body_provider.go\<close>: a goroutine that writes
  a form with one file into a pipe from which the request is sent.  \<^verbatim>\<open>io.Pipe\<close>, \<^verbatim>\<open>io.Copy\<close> and
  \<^verbatim>\<open>multipart.Writer\<close> are modelled as far as it uses them; the random boundary is an argument.
\<close>

section \<open>The pipe\<close>

text \<open>
  What the reader has received, how much more it takes before it closes its end (\<open>None\<close>: all), and how the
  writer closed its end: with the error that the reader then gets, or with the end of the file.
\<close>

record pipe =
  pi_text :: string
  pi_room :: "nat option"
  pi_closed :: "goerror option option"

definition newPipe :: "nat option \<Rightarrow> pipe" where
  "newPipe room = \<lparr>pi_text = [], pi_room = room, pi_closed = None\<rparr>"

definition ErrClosedPipe :: goerror where "ErrClosedPipe = PlainError ''io: read/write on closed pipe''"

text \<open>A write waits until the reader took everything, or closed.\<close>

definition pipe_write :: "string \<Rightarrow> (pipe, goerror option) go" where
  "pipe_write s p =
     (if pi_closed p \<noteq> None then (Ret (Some ErrClosedPipe), p)
      else case pi_room p of
             None \<Rightarrow> (Ret None, p\<lparr>pi_text := pi_text p @ s\<rparr>)
           | Some n \<Rightarrow>
               if length s \<le> n then (Ret None, p\<lparr>pi_text := pi_text p @ s, pi_room := Some (n - length s)\<rparr>)
               else (Ret (Some ErrClosedPipe), p\<lparr>pi_text := pi_text p @ take n s, pi_room := Some 0\<rparr>))"

text \<open>The first close counts.\<close>

definition CloseWithError :: "goerror option \<Rightarrow> (pipe, unit) go" where
  "CloseWithError err = gmodify (\<lambda>p. if pi_closed p = None then p\<lparr>pi_closed := Some err\<rparr> else p)"

section \<open>The provider\<close>

text \<open>The contents: the texts that the reads give, and the error of the last one, or the end of the file.\<close>

record contents =
  co_chunks :: "string list"
  co_error :: "goerror option"

record MultipartFileBody =
  mf_name :: string
  mf_contents :: contents
  mf_boundary :: string

definition NewMultipartFileBody :: "string \<Rightarrow> string \<Rightarrow> contents \<Rightarrow> MultipartFileBody" where
  "NewMultipartFileBody boundary name contents = \<lparr>mf_name = name, mf_contents = contents, mf_boundary = boundary\<rparr>"

definition ContentType :: "MultipartFileBody \<Rightarrow> string" where
  "ContentType p = ''multipart/form-data; boundary='' @ mf_boundary p"

definition CRLF :: string where "CRLF = [CHR 0x0D, CHR 0x0A]"

definition escapeQuotes :: "string \<Rightarrow> string" where
  "escapeQuotes s = concat (map (\<lambda>c. if c = CHR 0x5C \<or> c = CHR 0x22 then [CHR 0x5C, c] else [c]) s)"

definition formFileHeader :: "MultipartFileBody \<Rightarrow> string" where
  "formFileHeader p =
     ''--'' @ mf_boundary p @ CRLF @
     ''Content-Disposition: form-data; name='' @ [CHR 0x22] @ escapeQuotes (mf_name p) @ [CHR 0x22] @
     ''; filename='' @ [CHR 0x22] @ ''image'' @ [CHR 0x22] @ CRLF @
     ''Content-Type: application/octet-stream'' @ CRLF @ CRLF"

text \<open>\<open>CreateFormFile\<close> answers a writer, here whether there is one, or an error.\<close>

definition CreateFormFile :: "MultipartFileBody \<Rightarrow> (pipe, bool \<times> goerror option) go" where
  "CreateFormFile p = gbind (pipe_write (formFileHeader p)) (\<lambda>err. gret (err = None, err))"

text \<open>\<^verbatim>\<open>io.Copy\<close>: writing with a nil writer is a nil dereference.\<close>

fun copy_chunks :: "bool \<Rightarrow> string list \<Rightarrow> goerror option \<Rightarrow> (pipe, goerror option) go" where
  "copy_chunks writer [] err = gret err"
| "copy_chunks writer (s # ss) err =
     (if s = [] then copy_chunks writer ss err
      else if \<not> writer then gpanic NilDeref
      else gbind (pipe_write s) (\<lambda>e. case e of Some x \<Rightarrow> gret (Some x) | None \<Rightarrow> copy_chunks writer ss err))"

text \<open>Closing writes the end of the form if there is a part, or else the end alone, and closes the pipe.\<close>

definition Close :: "MultipartFileBody \<Rightarrow> (pipe, unit) go" where
  "Close p =
     gbind (pipe_write (CRLF @ ''--'' @ mf_boundary p @ ''--'' @ CRLF)) (\<lambda>_. CloseWithError None)"

text \<open>A deferred call runs when its function returns and when it panics.\<close>

definition deferred :: "('s, 'a) go \<Rightarrow> ('s, unit) go \<Rightarrow> ('s, 'a) go" where
  "deferred body d s =
     (case body s of (out, s1) \<Rightarrow> (case d s1 of (Ret u, s2) \<Rightarrow> (out, s2) | (Panic x, s2) \<Rightarrow> (Panic x, s2)))"

definition close_on_error :: "goerror option \<Rightarrow> (pipe, unit) go" where
  "close_on_error err = (case err of None \<Rightarrow> gret () | Some e \<Rightarrow> CloseWithError (Some e))"

definition copyBody :: "MultipartFileBody \<Rightarrow> (pipe, unit) go" where
  "copyBody p =
     deferred
       (gbind (CreateFormFile p) (\<lambda>(fileWriter, err).
        gbind (close_on_error err) (\<lambda>_.
        gbind (copy_chunks fileWriter (co_chunks (mf_contents p)) (co_error (mf_contents p))) (\<lambda>err.
        close_on_error err))))
       (Close p)"

text \<open>\<open>Body\<close>: the goroutine runs against a reader that takes \<open>room\<close> bytes; what comes out of the pipe.\<close>

definition Body :: "MultipartFileBody \<Rightarrow> nat option \<Rightarrow> unit outcome \<times> pipe" where
  "Body p room = copyBody p (newPipe room)"

section \<open>Properties\<close>

lemmas run_simps = gbind_def gret_def gmodify_def gpanic_def

lemma pipe_write_room: "pi_closed p = None \<Longrightarrow> pi_room p = None \<Longrightarrow> pipe_write s p = (Ret None, p\<lparr>pi_text := pi_text p @ s\<rparr>)"
  by (simp add: pipe_write_def)

lemma copy_chunks_room:
  "pi_closed p = None \<Longrightarrow> pi_room p = None \<Longrightarrow>
     copy_chunks True ss err p = (Ret err, p\<lparr>pi_text := pi_text p @ concat ss\<rparr>)"
  by (induction ss arbitrary: p) (simp_all add: run_simps pipe_write_room)

text \<open>The form that a reader gets that reads to the end: the header of the one file, its contents as they were read, and
  the end of the form; the pipe ends with the error of the contents, after whatever was read of them, or with
  the end of the file.  An error cuts the end of the form off.\<close>

lemma Body_form:
  "Body p None = (Ret (),
     \<lparr>pi_text = formFileHeader p @ concat (co_chunks (mf_contents p)) @
        (case co_error (mf_contents p) of None \<Rightarrow> CRLF @ ''--'' @ mf_boundary p @ ''--'' @ CRLF | Some e \<Rightarrow> []),
      pi_room = None, pi_closed = Some (co_error (mf_contents p))\<rparr>)"
proof (cases "co_error (mf_contents p)")
  case None
  then show ?thesis
    by (simp add: Body_def copyBody_def newPipe_def deferred_def CreateFormFile_def close_on_error_def Close_def CloseWithError_def
        run_simps pipe_write_room copy_chunks_room)
next
  case (Some e)
  then show ?thesis
    by (simp add: Body_def copyBody_def newPipe_def deferred_def CreateFormFile_def close_on_error_def Close_def CloseWithError_def
        run_simps pipe_write_room copy_chunks_room pipe_write_def [of _ "\<lparr>pi_text = _, pi_room = _, pi_closed = Some _\<rparr>"])
qed

lemma copy_chunks_nil: "concat ss \<noteq> [] \<Longrightarrow> copy_chunks False ss err s = (Panic NilDeref, s)"
  by (induction ss) (auto simp: run_simps)

lemma Close_returns: "\<exists>s'. Close p s = (Ret (), s')"
  by (auto simp: Close_def CloseWithError_def pipe_write_def run_simps split: option.split)

text \<open>C37: When the reader closes before it took the header of the form, the goroutine dereferences a nil writer, which ends
  the program, unless the contents are empty.\<close>

theorem Body_panics:
  assumes "n < length (formFileHeader p)" and "concat (co_chunks (mf_contents p)) \<noteq> []"
  shows "fst (Body p (Some n)) = Panic NilDeref"
proof -
  obtain s1 where "gbind (CreateFormFile p) (\<lambda>(fileWriter, err). gbind (close_on_error err) (\<lambda>_.
      gbind (copy_chunks fileWriter (co_chunks (mf_contents p)) (co_error (mf_contents p))) (\<lambda>err. close_on_error err)))
      (newPipe (Some n)) = (Panic NilDeref, s1)"
    using assms(1) copy_chunks_nil [OF assms(2)]
    by (simp add: CreateFormFile_def close_on_error_def CloseWithError_def newPipe_def pipe_write_def run_simps)
  moreover obtain s2 where "Close p s1 = (Ret (), s2)" using Close_returns by blast
  ultimately show ?thesis by (simp add: Body_def copyBody_def deferred_def)
qed

lemma Body_panics_witness:
  "fst (Body (NewMultipartFileBody ''b'' ''image'' \<lparr>co_chunks = [''data''], co_error = None\<rparr>) (Some 10)) = Panic NilDeref"
  by (rule Body_panics) (simp_all add: NewMultipartFileBody_def formFileHeader_def CRLF_def)

end
