(* ===== verification/ContextLog.thy ===== *)
theory ContextLog
  imports GoPrelude
begin

text \<open>
  The loggers that the watcher makes for each update (\<open>GetContextLogger\<close> of
  \<^verbatim>\<open>pkg/watcher/pv_watcher.go\<close>): where an entry goes and which request ID it carries.  Of \<^verbatim>\<open>zap\<close> the
  model has what the code relies on: a level is an integer and the three named ones are arguments, a tee
  writes an entry to each of its cores that is enabled for the level, fields of \<^verbatim>\<open>With\<close> are on
  every entry.  Making an ID is an argument; encoding and time stamps are left out.
\<close>

section \<open>Cores and loggers\<close>

record zap_levels =
  zl_DebugLevel :: int
  zl_InfoLevel :: int
  zl_ErrorLevel :: int

record entry =
  en_level :: int
  en_message :: string
  en_fields :: "(string \<times> string) list"

datatype sink = Stdout | Stderr

text \<open>What the two streams have received.\<close>

record streams =
  st_stdout :: "entry list"
  st_stderr :: "entry list"

record zap_core =
  zc_sink :: sink
  zc_enabled :: "int \<Rightarrow> bool"

record zap_logger =
  zo_cores :: "zap_core list"
  zo_fields :: "(string \<times> string) list"

fun write_sink :: "sink \<Rightarrow> entry \<Rightarrow> streams \<Rightarrow> streams" where
  "write_sink Stdout e s = s\<lparr>st_stdout := st_stdout s @ [e]\<rparr>"
| "write_sink Stderr e s = s\<lparr>st_stderr := st_stderr s @ [e]\<rparr>"

definition log_entry :: "zap_logger \<Rightarrow> int \<times> string \<Rightarrow> streams \<Rightarrow> streams" where
  "log_entry logger m s =
     (let e = \<lparr>en_level = fst m, en_message = snd m, en_fields = zo_fields logger\<rparr>
      in foldl (\<lambda>s c. if zc_enabled c (fst m) then write_sink (zc_sink c) e s else s) s (zo_cores logger))"

definition log_all :: "zap_logger \<Rightarrow> (int \<times> string) list \<Rightarrow> streams \<Rightarrow> streams" where
  "log_all logger ms s = foldl (\<lambda>s m. log_entry logger m s) s ms"

section \<open>The loggers of the watcher\<close>

definition traceLevel :: "zap_levels \<Rightarrow> bool \<Rightarrow> int" where
  "traceLevel Z isDebug = (if isDebug then zl_DebugLevel Z else zl_InfoLevel Z)"

definition consoleDebugging :: "zap_levels \<Rightarrow> int \<Rightarrow> zap_core" where
  "consoleDebugging Z trace = \<lparr>zc_sink = Stdout, zc_enabled = \<lambda>lvl. trace \<le> lvl \<and> lvl < zl_ErrorLevel Z\<rparr>"

definition consoleErrors :: "zap_levels \<Rightarrow> zap_core" where
  "consoleErrors Z = \<lparr>zc_sink = Stderr, zc_enabled = \<lambda>lvl. zl_ErrorLevel Z \<le> lvl\<rparr>"

text \<open>\<open>newV4\<close> answers an ID and whether making it failed, which the code ignores.\<close>

definition GetContextLoggerWithRequestID ::
  "zap_levels \<Rightarrow> ('w \<Rightarrow> (string \<times> bool) \<times> 'w) \<Rightarrow> bool \<Rightarrow> string option \<Rightarrow> ('w, zap_logger \<times> string) go" where
  "GetContextLoggerWithRequestID Z newV4 isDebug requestIDIn w =
     (let trace = traceLevel Z isDebug;
          cores = [consoleDebugging Z trace, consoleErrors Z];
          (requestID, w') = (case requestIDIn of
                               Some r \<Rightarrow> (r, w)
                             | None \<Rightarrow> (case newV4 w of ((uuid, _), w') \<Rightarrow> (uuid, w')))
      in (Ret (\<lparr>zo_cores = cores, zo_fields = [(''RequestID'', requestID)]\<rparr>, requestID @ '' ''), w'))"

definition GetContextLogger ::
  "zap_levels \<Rightarrow> ('w \<Rightarrow> (string \<times> bool) \<times> 'w) \<Rightarrow> bool \<Rightarrow> ('w, zap_logger \<times> string) go" where
  "GetContextLogger Z newV4 isDebug = GetContextLoggerWithRequestID Z newV4 isDebug None"

section \<open>Where entries go\<close>

definition tagged :: "string \<Rightarrow> int \<times> string \<Rightarrow> entry" where
  "tagged r m = \<lparr>en_level = fst m, en_message = snd m, en_fields = [(''RequestID'', r)]\<rparr>"

lemma log_entry_routes:
  "log_entry \<lparr>zo_cores = [consoleDebugging Z t, consoleErrors Z], zo_fields = [(''RequestID'', r)]\<rparr> m s =
     (if zl_ErrorLevel Z \<le> fst m then s\<lparr>st_stderr := st_stderr s @ [tagged r m]\<rparr>
      else if t \<le> fst m then s\<lparr>st_stdout := st_stdout s @ [tagged r m]\<rparr> else s)"
  by (simp add: log_entry_def consoleDebugging_def consoleErrors_def tagged_def Let_def)

text \<open>
  A logger splits what is logged through it without loss or duplication: entries from the error level on
  are on the error stream, the others from the trace level on are on the output, both in order and with
  the request ID that the caller gets back with a blank; the remaining ones are dropped.
\<close>

theorem context_logger_splits:
  assumes "GetContextLoggerWithRequestID Z newV4 isDebug rid w = (Ret (logger, prefix), w')"
  shows "\<exists>r. prefix = r @ '' '' \<and> rid \<in> {None, Some r} \<and>
    log_all logger ms s =
      s\<lparr>st_stdout := st_stdout s @ map (tagged r) (filter (\<lambda>m. traceLevel Z isDebug \<le> fst m \<and> fst m < zl_ErrorLevel Z) ms),
        st_stderr := st_stderr s @ map (tagged r) (filter (\<lambda>m. zl_ErrorLevel Z \<le> fst m) ms)\<rparr>"
proof -
  from assms obtain r where l: "logger = \<lparr>zo_cores = [consoleDebugging Z (traceLevel Z isDebug), consoleErrors Z],
      zo_fields = [(''RequestID'', r)]\<rparr>" and p: "prefix = r @ '' ''" "rid \<in> {None, Some r}"
    by (auto simp: GetContextLoggerWithRequestID_def Let_def split: option.splits prod.splits)
  have "log_all logger ms s =
      s\<lparr>st_stdout := st_stdout s @ map (tagged r) (filter (\<lambda>m. traceLevel Z isDebug \<le> fst m \<and> fst m < zl_ErrorLevel Z) ms),
        st_stderr := st_stderr s @ map (tagged r) (filter (\<lambda>m. zl_ErrorLevel Z \<le> fst m) ms)\<rparr>"
    by (induction ms arbitrary: s) (auto simp: log_all_def l log_entry_routes)
  with p show ?thesis by blast
qed

text \<open>Debugging adds entries to the output and changes nothing on the error stream.\<close>

lemma debug_only_adds:
  assumes "zl_DebugLevel Z \<le> zl_InfoLevel Z" and "GetContextLoggerWithRequestID Z newV4 False (Some r) w = (Ret (l1, p1), w1)"
    and "GetContextLoggerWithRequestID Z newV4 True (Some r) w = (Ret (l2, p2), w2)"
  shows "st_stderr (log_all l1 ms s) = st_stderr (log_all l2 ms s) \<and>
    length (st_stdout (log_all l1 ms s)) \<le> length (st_stdout (log_all l2 ms s))"
proof -
  have "length (filter (\<lambda>m. zl_InfoLevel Z \<le> fst m \<and> fst m < zl_ErrorLevel Z) ms)
      \<le> length (filter (\<lambda>m. zl_DebugLevel Z \<le> fst m \<and> fst m < zl_ErrorLevel Z) ms)"
    using assms(1) by (induction ms) auto
  with context_logger_splits [OF assms(2), of ms s] context_logger_splits [OF assms(3), of ms s]
  show ?thesis by (auto simp: traceLevel_def)
qed

end
