(* ===== verification/Spec2Isabelle.thy ===== *)
theory Spec2Isabelle
  imports Service AccessPointLaws SnapshotLaws WatcherRun RetryProperties NodeMeta DebugLaws TokenGenerator ConcurrentLaws PathLaws Multipart ContextLog
begin

text \<open>
  A model of the IBM Cloud file-share volume provider for VPC (\<^verbatim>\<open>ibmcloud-volume-file-vpc\<close>, Go), and
  the properties that make it correct.

  \<^bold>\<open>The program.\<close>  A storage driver asks the storage provider (\<^verbatim>\<open>pkg/ibmcloudprovider\<close>) for a session.
  The provider behind it is found in a registry (\<^verbatim>\<open>common/registry\<close>): either the VPC provider
  (\<^verbatim>\<open>file/provider\<close>), or the dual IKS provider (\<^verbatim>\<open>iks/provider\<close>), which wraps one VPC provider for the
  VPC itself and one for the cluster's own account.  A session runs the operations on volumes (file
  shares), access points (share targets) and snapshots.  Each operation validates its request, calls
  the API services (\<^verbatim>\<open>common/vpcclient/vpcfilevolume\<close>) inside one of four retry loops, and turns what it
  got into the types of the interface library or into a user error of the message catalogue
  (\<^verbatim>\<open>common/messages\<close>).  The services build requests with the REST client (\<^verbatim>\<open>common/vpcclient/client\<close>), which
  substitutes the path, sets the headers, encodes the body, sends the request and decodes the
  answer.  Beside that, a watcher (\<^verbatim>\<open>pkg/watcher\<close>) keeps the metadata of bound volumes up to date, and
  \<^verbatim>\<open>pkg/metadata\<close> reads where a node runs.

  \<^bold>\<open>How it is modelled.\<close>  A Go call is a function \<^verbatim>\<open>('s, 'a) go\<close> from a state to an outcome (a value or
  a panic) and the next state.  The state of the package is the record \<open>gost\<close> of Retry: the package
  variables \<^verbatim>\<open>maxRetryAttempt\<close>, \<^verbatim>\<open>maxRetryGap\<close>, \<^verbatim>\<open>retryGap\<close> and \<^verbatim>\<open>MessagesEn\<close>, the list of sleeps so far,
  and the world of everything outside, of any type.  Pointers that may be nil are options, and a
  dereference of nil is a panic; errors are values of the datatype \<open>goerror\<close>, with one constructor
  for each Go type that the code distinguishes; 64-bit arithmetic wraps (\<open>wrap64\<close>).  Logging, metrics
  and tracing are left out.

  \<^bold>\<open>The theories\<close>, in the order of their imports, with what they model under \<^verbatim>\<open>src/\<close>:
  \<^item> GoPrelude, GoStrings, GoTime, GoUrl: what the program uses of Go: calls and panics with a Hoare
    judgement and a preservation judgement, \<^verbatim>\<open>strings\<close>, \<^verbatim>\<open>strconv\<close>, \<^verbatim>\<open>fmt\<close>, \<^verbatim>\<open>time\<close>, \<^verbatim>\<open>net/url\<close>.
  \<^item> Models, Messages: the structs of \<^verbatim>\<open>common/vpcclient/models\<close> and of the interface library, the
    catalogue \<^verbatim>\<open>messages_en.go\<close> and \<^verbatim>\<open>GetUserError\<close>.
  \<^item> Retry: the retry loops of \<^verbatim>\<open>file/provider/util.go\<close>.  RetryLaws states what they have in common as
    the specification \<open>attempt_spec\<close> in a locale, interprets it for each loop, and derives the rules
    the operations use; RetryProperties holds the properties.
  \<^item> VpcApi: the interfaces \<^verbatim>\<open>FileShareManager\<close>, \<^verbatim>\<open>SnapshotManager\<close> and \<^verbatim>\<open>IKSVolumeManager\<close> as records of
    functions, and \<^verbatim>\<open>VPCSession\<close>.  Convert: the conversions of \<^verbatim>\<open>util.go\<close>.
  \<^item> Volumes, AccessPoints, Snapshots: the operations of \<^verbatim>\<open>file/provider/*.go\<close>, one definition for
    each function and one for the body of each retried closure.  Their properties are in VolumeLaws,
    AccessPointLaws and SnapshotLaws, on the sessions of Samples where a witness needs one.
  \<^item> NetLookup: \<^verbatim>\<open>get_subnet.go\<close> and \<^verbatim>\<open>get_security_group.go\<close>, two instances of one page loop.
  \<^item> Client, FileShareApi: \<^verbatim>\<open>common/vpcclient/client\<close>, \<^verbatim>\<open>vpcfilevolume\<close> and \<^verbatim>\<open>riaas\<close>; ClientLaws has
    the properties of a request.
  \<^item> DebugLog: the debug output of \<^verbatim>\<open>request.go\<close>, \<^verbatim>\<open>sanitize\<close> included; DebugLaws shows what it hides.
  \<^item> Json, JsonCoding: the texts that \<^verbatim>\<open>encoding/json\<close> writes and reads, and how it walks over the tagged
    fields of a struct in both directions (GoFold is its folding of names).  JsonModels: the tags of every
    struct of \<^verbatim>\<open>common/vpcclient/models\<close>.  JsonCodec: the body provider and the consumer of
    \<^verbatim>\<open>common/vpcclient/client/payload\<close>, and the coding of the client they give.  JsonLaws has the round trip
    of the texts; JsonCodingLaws states in the locale \<open>json_coding\<close> what a struct that can be read back
    promises and proves it once for pointers, lists and members; JsonModelLaws interprets it for every
    struct.  ApiDocuments describes the documents of the API by the names it gives, apart from the tables,
    and shows that the tables read them; JsonCodecLaws draws the properties of bodies and pages.
  \<^item> WireLaws, WireErrors: what the updates of a session, and a refused creation, mean on the wire, down to
    the text of the bodies.  UrlLaws, PathLaws: what a server reads out of the query of a listing, and which
    share the path of a request addresses.  Paging: the locale \<open>listing_operation\<close>, interpreted for the volumes
    and the snapshots, with the completeness of their listings.
  \<^item> Concurrent: \<^verbatim>\<open>retry\<close> as the single statements of threads that share the package variables, and
    their interleavings, with ConcurrentLaws.  TokenGenerator: \<^verbatim>\<open>token_generator.go\<close>.
  \<^item> FileProvider, IksProvider, Registry, CloudProvider: the making of providers and sessions, the
    credentials, \<^verbatim>\<open>common/iam/token_exchange_iks.go\<close>; ProviderLaws has their properties.
  \<^item> SessionState, Service: the operations and openings as steps of a running service.  SessionState
    proves once, in the locale \<open>state_relation\<close>, that every operation of a session keeps any relation
    that sleeping, doubling the gap and calling the API keep; Service instantiates it twice, for the
    invariant and for the lengths of the sleeps.
  \<^item> Watcher, WatcherLaws, WatcherRun: \<^verbatim>\<open>pkg/watcher/pv_watcher.go\<close>, the handler first, then the making of the
    watcher and its run over a sequence of notifications; ContextLog: its loggers.  NodeMeta: \<^verbatim>\<open>pkg/metadata/metadata.go\<close>.
    Multipart: the multipart body provider, with the pipe it writes into.

  \<^bold>\<open>What is shown.\<close>  For the running service: an invariant of its reachable states, and that requests
  return without a panic, except those that can meet one of the panics of the code, which are named; the
  two page lookups return if the links of the listing lead forward.
  For a request: the path, the token on every request of a session, the meaning of each status.  For
  the retry loops: a refinement of one specification, their bounds and their sleeps.  For each
  operation: what its success means for the calls it made (which template was accepted, which read
  found the share stable), what it refuses without a call, and how an error ends.  Where the code does
  something other than it says, the theorem states what it does: \<^verbatim>\<open>DeleteVolume\<close> reports success for
  an unconfirmed deletion, \<^verbatim>\<open>ExpandVolume\<close> can ask for less than there is, the deletion wait panics on a
  network error, and some more.

  \<^bold>\<open>Bounds and fuel.\<close>  The page loops of NetLookup have no bound in the code; the model takes the
  number of rounds as fuel and answers \<open>None\<close> when it is used up.  It is proved enough when the links
  of the listing lead forward, and that no number is enough against a listing that always links on.
  The reader of JSON texts has twice the length of the text as fuel, which is proved enough, and the
  nesting bound of the library, \<^verbatim>\<open>10000\<close>.  Every other loop ends by its own structure.  The sleeps are 64-bit products of seconds and
  nanoseconds; the invariant bounds the gap by the configured maximum, and the sleeps then do not
  wrap for maxima up to \<^verbatim>\<open>2^33\<close> seconds.

  \<^bold>\<open>Parameters.\<close>  What is not under \<^verbatim>\<open>src/\<close> is an argument: the HTTP transport (\<open>environment\<close>),
  the interface library's constants and loaders, the Kubernetes client, the texts of errors that are only
  printed.  The coding of bodies is an argument of the client; \<open>json_codec\<close> is the one of the program, and
  has in turn the codings of times and of the interface library's own structs as arguments
  (\<open>lib_json\<close>).  No law is assumed of them in the model; a theorem that needs one has it as a hypothesis.

  \<^bold>\<open>Not modelled.\<close>  The end-to-end tests, the sample program, the generated fakes and the test
  helpers are not part of the service.  The multipart provider stands alone: no operation sends such a
  body.  The informer of the watcher is a parameter, and its handlers, which are goroutines, are run one
  after the other.  What the operations log is left out; ContextLog alone has where the watcher's loggers
  write.  Requests are whole steps of the service; the data races of concurrent requests on the package
  variables are modelled for \<^verbatim>\<open>retry\<close> alone, in Concurrent.

  \<^bold>\<open>Open.\<close>  The access points and snapshots on the wire.
\<close>

section \<open>From a session to the wire\<close>

text \<open>C3: What a created volume means on the wire: when \<open>CreateVolume\<close> on a session of the VPC provider returns
  a volume, then a POST that carries the session's token and the coded template of the validated
  request was answered with a 2xx status, and unless that answer was empty, the returned volume has
  the ID and the size of the share it holds; a later read of that share found it stable.\<close>

theorem CreateVolume_on_the_wire:
  assumes "OpenSession E ctx creds p s0 = (Ret (Inr vs, p'), s1)"
    and "client_provider_of p' = DefaultRegionalAPIClientProvider"
    and "CreateVolume X vs req s = (Ret (Some resp, e), s')"
  shows "\<exists>rg iops bw q w r w' code.
    validateVolumeRequest X (MessagesEn s) req = (rg, iops, bw, None) \<and>
    enc (env_codec E) (JSONPointer (ShareBody (createTemplate req rg iops bw))) = Inr code \<and>
    env_transport E q w = (Inr r, w') \<and> hr_Method q = ''POST'' \<and> hr_Body q = Some code \<and>
    map_of (hr_Header q) ''Authorization'' = Some [''Bearer '' @ cc_Credential creds] \<and>
    200 \<le> resp_StatusCode r \<and> resp_StatusCode r \<le> 299 \<and>
    (let share = if resp_StatusCode r = 204 then zeroShare else fst (dec_Share (env_codec E) (resp_Body r))
     in vol_VolumeID resp = sh_ID share \<and> vol_Capacity resp = Some (sh_Size share)) \<and>
    (\<exists>v u. GetFileShare (env_transport E) (env_codec E) (ses_client (logged_in (vp_APIConfig p') (cc_Credential creds)))
        (vol_VolumeID resp) u = ((Some v, None), world s') \<and> sh_Status v = StatusStable) \<and>
    vol_Region resp = vol_Region req \<and> e = None"
proof -
  define client where "client = ses_client (logged_in (vp_APIConfig p') (cc_Credential creds))"
  have vs: "fs_CreateFileShare (FileShareService vs) = CreateFileShare (env_transport E) (env_codec E) client"
    "fs_GetFileShare (FileShareService vs) = GetFileShare (env_transport E) (env_codec E) client"
    using OpenSession_Inr [OF assms(1)] assms(2)
    by (auto simp: opened_session_def ClientAPI_def SessionAPI_def client_def)
  have token: "ah_authToken (cl_authenHandler client) = cc_Credential creds" by (simp add: client_def)
  from CreateVolume_success [OF assms(3)] obtain rg iops bw share v w w' u where
    v: "validateVolumeRequest X (MessagesEn s) req = (rg, iops, bw, None)"
    and c: "fs_CreateFileShare (FileShareService vs) (createTemplate req rg iops bw) w = ((Some share, None), w')"
    and stable: "fs_GetFileShare (FileShareService vs) (sh_ID share) u = ((Some v, None), world s')"
      "sh_Status v = StatusStable"
    and r: "vol_VolumeID resp = sh_ID share" "vol_Capacity resp = Some (sh_Size share)"
      "vol_Region resp = vol_Region req" "e = None" by blast
  let ?t = "createTemplate req rg iops bw"
  let ?r = "JSONBody (ShareBody ?t) (NewRequest client
    \<lparr>op_Name = ''CreateFileShare'', op_Method = ''POST'', op_PathPattern = sharesPath\<rparr>)"
  obtain iv where iv: "Invoke (env_transport E) (env_codec E) (Some (dec_Share (env_codec E))) zeroShare (Some apiErr) ?r w
      = (iv, w')" and "iv_Error iv = None" and share: "iv_Success iv = share"
    using c unfolding vs
    by (auto simp: CreateFileShare_def Let_def pointer_or_error_def split: prod.splits option.splits)
  from Invoke_accepted [OF iv this(2)] obtain q rs where
    sent: "env_transport E q w = (Inr rs, w')" "hr_Method q = ''POST''"
    "map_of (hr_Header q) ''Authorization'' = Some [''Bearer '' @ cc_Credential creds]"
    "\<exists>code. enc (env_codec E) (JSONPointer (ShareBody ?t)) = Inr code \<and> hr_Body q = Some code"
    "200 \<le> resp_StatusCode rs" "resp_StatusCode rs \<le> 299"
    "share = (if resp_StatusCode rs = 204 then zeroShare else fst (dec_Share (env_codec E) (resp_Body rs)))"
    by (auto simp: token share JSONBody_def NewRequest_def Let_def)
  have "\<exists>v u. GetFileShare (env_transport E) (env_codec E) client (vol_VolumeID resp) u =
      ((Some v, None), world s') \<and> sh_Status v = StatusStable"
    using stable r(1) unfolding vs by metis
  with sent v r show ?thesis unfolding client_def Let_def by blast
qed

lemma wire_create:
  assumes "FileShareService vs = NewFileShareService (env_transport wireEnv) (env_codec wireEnv) wireClient"
  shows "\<exists>resp e s'. CreateVolume sampleExt vs sampleVolume (init_gost 0) = (Ret (Some resp, e), s')"
proof -
  have valid: "validateVolumeRequest sampleExt (MessagesEn (init_gost 0)) sampleVolume = (zeroResourceGroup\<lparr>rg_ID := ''rg''\<rparr>, 100, 0, None)"
    using sample_validated by simp
  have "retry (capture (fs_CreateFileShare (FileShareService vs)
      (createTemplate sampleVolume (zeroResourceGroup\<lparr>rg_ID := ''rg''\<rparr>) 100 0))) None (init_gost 0) =
    (Ret (None, Some sampleShare), init_gost 1)"
    by (simp add: retry_init capture_def wire_service [OF assms] sample_template)
  from CreateVolume_valid [OF valid this] show ?thesis
    by (simp add: wire_service [OF assms] retry_init capture_def op_run WaitForValidVolumeState_def
        validState_attempt_def sampleShare_def StatusStable_def zeroShare_def Let_def FromProviderToLibVolume_def)
qed

lemma CreateVolume_on_the_wire_witness:
  "\<exists>vs p' s1 resp e s' (q :: HttpRequest). OpenSession wireEnv None sampleCreds sampleProvider madeState = (Ret (Inr vs, p'), s1) \<and>
     CreateVolume sampleExt vs sampleVolume (init_gost 0) = (Ret (Some resp, e), s') \<and>
     map_of (hr_Header q) ''Authorization'' = Some [''Bearer tok''] \<and> vol_Region resp = ''us-south''"
proof -
  obtain vs p' s1 where o: "OpenSession wireEnv None sampleCreds sampleProvider madeState = (Ret (Inr vs, p'), s1)"
    and d: "client_provider_of p' = DefaultRegionalAPIClientProvider"
    and fs: "FileShareService vs = NewFileShareService (env_transport wireEnv) (env_codec wireEnv) wireClient"
    by (rule wire_open)
  obtain resp e s' where r: "CreateVolume sampleExt vs sampleVolume (init_gost 0) = (Ret (Some resp, e), s')"
    using wire_create [OF fs] by blast
  have region: "vol_Region sampleVolume = ''us-south''" and cred: "''Bearer '' @ cc_Credential sampleCreds = ''Bearer tok''"
    by (simp_all add: sampleVolume_def sampleCreds_def)
  from CreateVolume_on_the_wire [OF o d r, unfolded region cred] obtain q :: HttpRequest where
    "map_of (hr_Header q) ''Authorization'' = Some [''Bearer tok'']" "vol_Region resp = ''us-south''"
    by blast
  with o r show ?thesis by blast
qed

end
